(* ===== verification/Go_Base.thy ===== *)
theory Go_Base
  imports Main "HOL-Library.Sublist"
begin

text \<open>
  The prelude of the development: what the components use of the Go language and of its
  standard library.
  \<^item> 64-bit and 32-bit signed integers are \<open>int\<close> values with the two's-complement
    wrap-around written out (\<open>wrap64\<close>, \<open>wrap32\<close>, \<open>in64\<close>, \<open>in32\<close>).
  \<^item> \<open>fmt.Sprintf\<close> with \<^verbatim>\<open>%d\<close> and \<^verbatim>\<open>%02d\<close>, \<open>strconv.ParseInt\<close> in base 10
    and \<open>strconv.Atoi\<close>, \<open>strings.Contains\<close>, \<open>strings.Split\<close> on one character and
    \<open>strings.TrimSpace\<close>, on \<open>string\<close> (a list of bytes).
  \<^item> \<open>time.Time\<close> is the number of nanoseconds since the zero time and
    \<open>time.Duration\<close> a number of nanoseconds; \<open>time_Since\<close> saturates the way
    \<open>Time.Sub\<close> does.
  \<^item> Reading a Go map at a missing key gives the zero value: \<open>map_get\<close>.
  The lemmas are the round trips and the injectivity of the number formats, which the naming of
  pods, ConfigMaps and Raft messages rests on.
\<close>

named_theorems go_simps \<open>unfolding of the definitions that model the Go library\<close>

section \<open>Definitions\<close>

subsection \<open>Machine integers\<close>

type_synonym int64 = int
type_synonym int32 = int

definition in64 :: "int \<Rightarrow> bool" where
  "in64 x \<longleftrightarrow> - (2 ^ 63) \<le> x \<and> x < 2 ^ 63"

definition in32 :: "int \<Rightarrow> bool" where
  "in32 x \<longleftrightarrow> - (2 ^ 31) \<le> x \<and> x < 2 ^ 31"

definition wrap64 :: "int \<Rightarrow> int" where
  "wrap64 x = (x + 2 ^ 63) mod 2 ^ 64 - 2 ^ 63"

definition wrap32 :: "int \<Rightarrow> int" where
  "wrap32 x = (x + 2 ^ 31) mod 2 ^ 32 - 2 ^ 31"

subsection \<open>Time\<close>

type_synonym gotime = int
type_synonym duration = int

definition time_zero :: gotime where
  "time_zero = 0"

definition Millisecond :: duration where
  "Millisecond = 1000000"

definition Second :: duration where
  "Second = 1000000000"

definition time_Since :: "gotime \<Rightarrow> gotime \<Rightarrow> duration" where
  "time_Since now t = max (- (2 ^ 63)) (min (2 ^ 63 - 1) (now - t))"

subsection \<open>Maps\<close>

definition map_get :: "'v \<Rightarrow> ('k \<rightharpoonup> 'v) \<Rightarrow> 'k \<Rightarrow> 'v" where
  "map_get z m k = (case m k of None \<Rightarrow> z | Some v \<Rightarrow> v)"

subsection \<open>Decimal numbers\<close>

definition digit_char :: "nat \<Rightarrow> char" where
  "digit_char d = char_of (48 + d)"

definition is_digit :: "char \<Rightarrow> bool" where
  "is_digit c \<longleftrightarrow> 48 \<le> (of_char c :: nat) \<and> (of_char c :: nat) \<le> 57"

definition digit_val :: "char \<Rightarrow> nat" where
  "digit_val c = of_char c - 48"

fun show_nat :: "nat \<Rightarrow> string" where
  "show_nat n = (if n < 10 then [digit_char n] else show_nat (n div 10) @ [digit_char (n mod 10)])"

declare show_nat.simps [simp del]

definition read_nat :: "string \<Rightarrow> nat" where
  "read_nat s = foldl (\<lambda>a c. 10 * a + digit_val c) 0 s"

definition sprintf_d :: "int \<Rightarrow> string" where
  "sprintf_d x = (if x < 0 then CHR ''-'' # show_nat (nat (- x)) else show_nat (nat x))"

definition pad0 :: "nat \<Rightarrow> string \<Rightarrow> string" where
  "pad0 w s = replicate (w - length s) (CHR ''0'') @ s"

definition sprintf_02d :: "int \<Rightarrow> string" where
  "sprintf_02d x =
     (if x < 0 then CHR ''-'' # pad0 1 (show_nat (nat (- x))) else pad0 2 (show_nat (nat x)))"

definition parse_unsigned :: "string \<Rightarrow> nat option" where
  "parse_unsigned s = (if s \<noteq> [] \<and> list_all is_digit s then Some (read_nat s) else None)"

definition ParseInt :: "string \<Rightarrow> int64 option" where
  "ParseInt s =
     (let (neg, ds) = (case s of
            [] \<Rightarrow> (False, [])
          | c # r \<Rightarrow> (if c = CHR ''-'' then (True, r) else if c = CHR ''+'' then (False, r)
                     else (False, s)))
      in case parse_unsigned ds of
           None \<Rightarrow> None
         | Some n \<Rightarrow> (let v = (if neg then - int n else int n) in if in64 v then Some v else None))"

subsection \<open>Strings\<close>

fun strings_Contains :: "string \<Rightarrow> string \<Rightarrow> bool" where
  "strings_Contains [] sub \<longleftrightarrow> sub = []"
| "strings_Contains (c # s) sub \<longleftrightarrow> prefix sub (c # s) \<or> strings_Contains s sub"

fun strings_Split :: "char \<Rightarrow> string \<Rightarrow> string list" where
  "strings_Split sep [] = [[]]"
| "strings_Split sep (c # s) =
     (if c = sep then [] # strings_Split sep s
      else (case strings_Split sep s of [] \<Rightarrow> [[c]] | w # ws \<Rightarrow> (c # w) # ws))"

text \<open>The UTF-8 encodings of the runes for which \<^verbatim>\<open>unicode.IsSpace\<close> holds: the six of ASCII, U+0085,
  U+00A0, U+1680, U+2000 to U+200A, U+2028, U+2029, U+202F, U+205F and U+3000. Other bytes, those of an invalid
  encoding too, are not white space.\<close>

definition white_space :: "string list" where
  "white_space =
     [[CHR 0x09], [CHR 0x0A], [CHR 0x0B], [CHR 0x0C], [CHR 0x0D], [CHR 0x20],
      [CHR 0xC2, CHR 0x85], [CHR 0xC2, CHR 0xA0], [CHR 0xE1, CHR 0x9A, CHR 0x80],
      [CHR 0xE2, CHR 0x80, CHR 0x80], [CHR 0xE2, CHR 0x80, CHR 0x81], [CHR 0xE2, CHR 0x80, CHR 0x82],
      [CHR 0xE2, CHR 0x80, CHR 0x83], [CHR 0xE2, CHR 0x80, CHR 0x84], [CHR 0xE2, CHR 0x80, CHR 0x85],
      [CHR 0xE2, CHR 0x80, CHR 0x86], [CHR 0xE2, CHR 0x80, CHR 0x87], [CHR 0xE2, CHR 0x80, CHR 0x88],
      [CHR 0xE2, CHR 0x80, CHR 0x89], [CHR 0xE2, CHR 0x80, CHR 0x8A], [CHR 0xE2, CHR 0x80, CHR 0xA8],
      [CHR 0xE2, CHR 0x80, CHR 0xA9], [CHR 0xE2, CHR 0x80, CHR 0xAF], [CHR 0xE2, CHR 0x81, CHR 0x9F],
      [CHR 0xE3, CHR 0x80, CHR 0x80]]"

text \<open>Drop words of \<open>ws\<close> from the front of \<open>s\<close> for as long as it starts with one.\<close>

function trim_words :: "string list \<Rightarrow> string \<Rightarrow> string" where
  "trim_words ws s = (case find (\<lambda>w. w \<noteq> [] \<and> prefix w s) ws of
       None \<Rightarrow> s | Some w \<Rightarrow> trim_words ws (drop (length w) s))"
  by pat_completeness auto
termination
  by (relation "measure (\<lambda>(ws, s). length s)") (auto simp: find_Some_iff prefix_def)

definition strings_TrimSpace :: "string \<Rightarrow> string" where
  "strings_TrimSpace s = rev (trim_words (map rev white_space) (rev (trim_words white_space s)))"

section \<open>Lemmas\<close>

subsection \<open>Integers and time\<close>

lemma in64_wrap64 [simp]: "in64 (wrap64 x)"
proof -
  have "0 \<le> (x + 2 ^ 63) mod 2 ^ 64" "(x + 2 ^ 63) mod 2 ^ 64 < 2 ^ 64" by simp_all
  then show ?thesis by (simp add: in64_def wrap64_def)
qed

lemma wrap64_id [simp]: "in64 x \<Longrightarrow> wrap64 x = x"
  by (simp add: in64_def wrap64_def)

lemma wrap64_max: "wrap64 (2 ^ 63) = - (2 ^ 63)"
  by (simp add: wrap64_def)

lemma in32_wrap32 [simp]: "in32 (wrap32 x)"
proof -
  have "0 \<le> (x + 2 ^ 31) mod 2 ^ 32" "(x + 2 ^ 31) mod 2 ^ 32 < 2 ^ 32" by simp_all
  then show ?thesis by (simp add: in32_def wrap32_def)
qed

lemma wrap32_id [simp]: "in32 x \<Longrightarrow> wrap32 x = x"
  by (simp add: in32_def wrap32_def)

lemma time_Since_zero:
  assumes "2 ^ 63 \<le> now"
  shows "time_Since now time_zero = 2 ^ 63 - 1"
  using assms by (simp add: time_Since_def time_zero_def)

lemma map_get_simps [simp]:
  "map_get z (m(k \<mapsto> v)) k' = (if k' = k then v else map_get z m k')"
  "map_get z Map.empty k = z"
  by (simp_all add: map_get_def)

subsection \<open>Printing and reading decimal numbers\<close>

lemma of_char_digit_char [simp]: "d < 10 \<Longrightarrow> (of_char (digit_char d) :: nat) = 48 + d"
  by (simp add: digit_char_def)

lemma digit_char_digit [simp]: "d < 10 \<Longrightarrow> is_digit (digit_char d)"
  by (simp add: is_digit_def)

lemma digit_val_digit_char [simp]: "d < 10 \<Longrightarrow> digit_val (digit_char d) = d"
  by (simp add: digit_val_def)

lemma digit_char_simps [simp]:
  "digit_char 0 = CHR ''0''" "digit_char 1 = CHR ''1''" "digit_char (Suc 0) = CHR ''1''"
  "digit_char 2 = CHR ''2''" "digit_char 3 = CHR ''3''" "digit_char 4 = CHR ''4''"
  "digit_char 5 = CHR ''5''" "digit_char 6 = CHR ''6''" "digit_char 7 = CHR ''7''"
  "digit_char 8 = CHR ''8''" "digit_char 9 = CHR ''9''"
  by code_simp+

lemma show_nat_digits: "list_all is_digit (show_nat n)"
  by (induction n rule: show_nat.induct) (subst show_nat.simps, simp)

lemma show_nat_nonempty [simp]: "show_nat n \<noteq> []"
  by (subst show_nat.simps) simp

lemma read_nat_snoc: "read_nat (s @ [c]) = 10 * read_nat s + digit_val c"
  by (simp add: read_nat_def)

lemma read_nat_show_nat [simp]: "read_nat (show_nat n) = n"
proof (induction n rule: show_nat.induct)
  case (1 n)
  show ?case
  proof (cases "n < 10")
    case True
    then show ?thesis by (subst show_nat.simps) (simp add: read_nat_def)
  next
    case False
    with "1" have "read_nat (show_nat (n div 10)) = n div 10" by simp
    with False show ?thesis by (subst show_nat.simps) (simp add: read_nat_snoc)
  qed
qed

lemma show_nat_inj: "show_nat m = show_nat n \<longleftrightarrow> m = n"
  by (metis read_nat_show_nat)

lemma read_nat_zeros [simp]: "read_nat (replicate k (CHR ''0'') @ s) = read_nat s"
proof -
  have "foldl (\<lambda>a c. 10 * a + digit_val c) 0 (replicate k (CHR ''0'')) = 0"
    by (induction k) (simp_all add: digit_val_def)
  then show ?thesis by (simp add: read_nat_def)
qed

lemma read_nat_pad0 [simp]: "read_nat (pad0 w s) = read_nat s"
  by (simp add: pad0_def)

lemma pad0_digits: "list_all is_digit s \<Longrightarrow> list_all is_digit (pad0 w s)"
  by (auto simp: pad0_def list_all_iff is_digit_def)

lemma pad0_nonempty [simp]: "s \<noteq> [] \<Longrightarrow> pad0 w s \<noteq> []"
  by (simp add: pad0_def)

lemma length_pad0 [simp]: "length (pad0 w s) = max w (length s)"
  by (simp add: pad0_def)

lemma parse_unsigned_show_nat [simp]: "parse_unsigned (show_nat n) = Some n"
  by (simp add: parse_unsigned_def show_nat_digits)

lemma parse_unsigned_pad0 [simp]: "parse_unsigned (pad0 w (show_nat n)) = Some n"
  by (simp add: parse_unsigned_def show_nat_digits pad0_digits)

lemma digit_not_sign: "is_digit c \<Longrightarrow> c \<noteq> CHR ''-'' \<and> c \<noteq> CHR ''+''"
  by (auto simp: is_digit_def)

lemma ParseInt_digits:
  assumes "s \<noteq> []" "list_all is_digit s" "in64 (int (read_nat s))"
  shows "ParseInt s = Some (int (read_nat s))"
  using assms
  by (cases s) (auto simp: ParseInt_def parse_unsigned_def dest: digit_not_sign)

lemma ParseInt_sprintf_d [simp]:
  assumes "in64 x" shows "ParseInt (sprintf_d x) = Some x"
proof (cases "x < 0")
  case True
  with assms show ?thesis by (simp add: ParseInt_def sprintf_d_def)
next
  case False
  with assms show ?thesis
    by (simp add: sprintf_d_def ParseInt_digits show_nat_digits)
qed

lemma sprintf_02d_nonneg:
  assumes "0 \<le> x"
  shows "sprintf_02d x = pad0 2 (show_nat (nat x))"
  using assms by (simp add: sprintf_02d_def)

lemma sprintf_02d_digits: "0 \<le> x \<Longrightarrow> list_all is_digit (sprintf_02d x)"
  by (simp add: sprintf_02d_nonneg pad0_digits show_nat_digits)

lemma sprintf_02d_nonempty: "0 \<le> x \<Longrightarrow> sprintf_02d x \<noteq> []"
  by (simp add: sprintf_02d_nonneg)

lemma length_sprintf_02d: "0 \<le> x \<Longrightarrow> 2 \<le> length (sprintf_02d x)"
  by (simp add: sprintf_02d_nonneg)

lemma ParseInt_sprintf_02d:
  assumes "0 \<le> x" "in64 x" shows "ParseInt (sprintf_02d x) = Some x"
  using assms
  by (simp add: sprintf_02d_nonneg ParseInt_digits pad0_digits show_nat_digits)

lemma sprintf_02d_inj:
  assumes "0 \<le> x" "0 \<le> y"
  shows "sprintf_02d x = sprintf_02d y \<longleftrightarrow> x = y"
proof
  assume "sprintf_02d x = sprintf_02d y"
  with assms have "read_nat (pad0 2 (show_nat (nat x))) = read_nat (pad0 2 (show_nat (nat y)))"
    by (simp only: sprintf_02d_nonneg)
  with assms show "x = y" by simp
qed simp

lemma sprintf_d_inj: "sprintf_d x = sprintf_d y \<longleftrightarrow> x = y"
proof
  assume eq: "sprintf_d x = sprintf_d y"
  have digit_hd: "is_digit (hd (show_nat n))" for n
    using show_nat_digits [of n] show_nat_nonempty [of n] by (cases "show_nat n") auto
  have minus: "\<not> is_digit (CHR ''-'')" by (simp add: is_digit_def)
  have sign: "x < 0 \<longleftrightarrow> y < 0"
    using eq digit_hd minus by (auto simp: sprintf_d_def split: if_splits) (metis list.sel(1))+
  show "x = y"
    using eq sign by (auto simp: sprintf_d_def show_nat_inj split: if_splits)
qed simp

subsection \<open>Substrings and splitting\<close>

lemma strings_Contains_sublist: "strings_Contains s sub \<longleftrightarrow> sublist sub s"
proof (induction s)
  case Nil
  then show ?case by simp
next
  case (Cons c s)
  then show ?case by (simp add: sublist_Cons_right)
qed

lemma strings_Contains_empty [simp]: "strings_Contains [] sub \<longleftrightarrow> sub = []"
  by simp

lemma strings_Split_nonempty [simp]: "strings_Split sep s \<noteq> []"
  by (induction s) (auto split: list.splits)

lemma length_strings_Split: "length (strings_Split sep s) = Suc (count_list s sep)"
  by (induction s) (auto split: list.splits)

lemma strings_Split_no_sep: "w \<in> set (strings_Split sep s) \<Longrightarrow> sep \<notin> set w"
  by (induction s arbitrary: w) (auto split: if_splits list.splits)

subsection \<open>White space\<close>

declare trim_words.simps [simp del]

text \<open>What \<open>trim_words\<close> leaves is what follows words of the list, and starts with none of them.\<close>

lemma trim_words_spec:
  "\<exists>us. set us \<subseteq> set ws \<and> s = concat us @ trim_words ws s \<and>
     (\<forall>w\<in>set ws. w = [] \<or> \<not> prefix w (trim_words ws s))"
proof (induction ws s rule: trim_words.induct)
  case (1 ws s)
  show ?case
  proof (cases "find (\<lambda>w. w \<noteq> [] \<and> prefix w s) ws")
    case None
    then have "trim_words ws s = s" by (simp add: trim_words.simps [of ws s])
    with None show ?thesis by (intro exI [of _ "[]"]) (auto simp: find_None_iff)
  next
    case (Some w)
    then have w: "w \<in> set ws" "prefix w s" by (auto simp: find_Some_iff)
    from 1 [OF Some] obtain us where "set us \<subseteq> set ws" "drop (length w) s = concat us @ trim_words ws s"
        "\<forall>w\<in>set ws. w = [] \<or> \<not> prefix w (trim_words ws s)"
      using Some by (auto simp: trim_words.simps [of ws s])
    moreover have "s = w @ drop (length w) s" using w(2) by (auto simp: prefix_def)
    ultimately show ?thesis using w(1) by (intro exI [of _ "w # us"]) simp
  qed
qed

end
