(* ===== verification/Api_Types.thy ===== *)
theory Api_Types
  imports Go_Base
begin

text \<open>
  The custom resource of \<^verbatim>\<open>src/api/v1/mysqlcluster_types.go\<close> and the metadata every
  Kubernetes object carries, with the fields the operator reads or writes. A Go map that may be
  nil is an \<open>option\<close> of a map (assigning into a nil map panics, reading it gives the zero
  value). \<open>LastContact\<close> and \<open>IsActive\<close> of \<open>RaftNodeInfo\<close> are not declared in
  the source's struct; \<^verbatim>\<open>raft_monitoring.go\<close> writes them, and they are part of the record
  so that this function can be modelled as written.
\<close>

section \<open>Object metadata\<close>

record OwnerReference =
  APIVersion :: string
  Kind :: string
  OwnerName :: string
  OwnerUID :: string
  Controller :: bool

record ObjectMeta =
  Name :: string
  Namespace :: string
  UID :: string
  Labels :: "(string \<rightharpoonup> string) option"
  Annotations :: "(string \<rightharpoonup> string) option"
  OwnerReferences :: "OwnerReference list"

definition named_meta :: "string \<Rightarrow> string \<Rightarrow> ObjectMeta" where
  "named_meta nm ns = \<lparr>Name = nm, Namespace = ns, UID = [], Labels = None, Annotations = None,
     OwnerReferences = []\<rparr>"

section \<open>The MysqlCluster resource\<close>

record StorageConfig =
  StorageClassName :: string
  Size :: string

record ResourceRequests =
  RequestCPU :: string
  RequestMemory :: string

record ResourceLimits =
  LimitCPU :: string
  LimitMemory :: string

record ResourceRequirements =
  Requests :: ResourceRequests
  Limits :: ResourceLimits

record MysqlClusterSpec =
  Image :: string
  Replicas :: int32
  MasterService :: string
  SlaveService :: string
  Storage :: StorageConfig
  Resources :: ResourceRequirements

datatype RaftState = RaftStateFollower | RaftStateCandidate | RaftStateLeader

fun RaftState_string :: "RaftState \<Rightarrow> string" where
  "RaftState_string RaftStateFollower = ''follower''"
| "RaftState_string RaftStateCandidate = ''candidate''"
| "RaftState_string RaftStateLeader = ''leader''"

record RaftLogEntry =
  Term :: int64
  Index :: int64
  Command :: string

record RaftNodeInfo =
  NodeId :: string
  State :: RaftState
  NodeTerm :: int64
  LastContact :: gotime
  IsActive :: bool

record MysqlClusterStatus =
  Master :: string
  Slaves :: "string list"
  RaftNodes :: "(string \<rightharpoonup> RaftNodeInfo) option"
  RaftLeader :: string
  RaftTerm :: int64
  ClusterSize :: int32

record MysqlCluster =
  cluster_meta :: ObjectMeta
  Spec :: MysqlClusterSpec
  Status :: MysqlClusterStatus

section \<open>Facts about the resource\<close>

text \<open>Writing one field of a Go struct keeps the others; the record package gives these as simp
  rules. The state names of the status are distinct strings.\<close>

lemma RaftState_string_inj: "RaftState_string a = RaftState_string b \<longleftrightarrow> a = b"
  by (cases a; cases b) simp_all

section \<open>The sample resource\<close>

text \<open>The resource of \<^verbatim>\<open>config/samples/apps_v1_mysqlcluster.yaml\<close>, the concrete input of
  the witnesses.\<close>

definition sample_spec :: MysqlClusterSpec where
  "sample_spec =
     \<lparr>Image = ''mysql:5.7'', Replicas = 3, MasterService = ''master-service'',
      SlaveService = ''slave-service'',
      Storage = \<lparr>StorageClassName = ''local-path'', Size = ''1Gi''\<rparr>,
      Resources = \<lparr>Requests = \<lparr>RequestCPU = ''500m'', RequestMemory = ''1Gi''\<rparr>,
                   Limits = \<lparr>LimitCPU = ''1'', LimitMemory = ''2Gi''\<rparr>\<rparr>\<rparr>"

definition empty_status :: MysqlClusterStatus where
  "empty_status = \<lparr>Master = [], Slaves = [], RaftNodes = None, RaftLeader = [], RaftTerm = 0,
     ClusterSize = 0\<rparr>"

definition sample_cluster :: MysqlCluster where
  "sample_cluster = \<lparr>cluster_meta = named_meta ''mysqlcluster-sample'' ''default'',
     Spec = sample_spec, Status = empty_status\<rparr>"

lemma sample_cluster_simps:
  "Namespace (cluster_meta sample_cluster) = ''default''"
  "Name (cluster_meta sample_cluster) = ''mysqlcluster-sample''"
  "Spec sample_cluster = sample_spec"
  by (simp_all add: sample_cluster_def named_meta_def)

end
