(* ===== verification/K8s_Client.thy ===== *)
theory K8s_Client
  imports Api_Types
begin

text \<open>
  The Kubernetes objects the operator builds and reads, the results of Go functions, and the
  interface of the controller-runtime client. The client and the pod exec API are third-party
  code: they are a record of functions, an argument of every operation that calls them. The
  world \<open>'s\<close> they act on is left open; a call returns a result and a next world, in which
  anything else may have changed too.

  A Go function that returns \<open>(T, error)\<close> is an \<open>io\<close> action: it returns \<open>Ok\<close> a
  value, \<open>Err\<close> an error or \<open>Panic\<close>, with the next world, or \<open>None\<close> when it never
  returns (the readiness loop of \<open>createPod\<close>).
\<close>

section \<open>Results of Go functions\<close>

text \<open>
  \<open>ApiErr\<close> is an error of the API server with its status reason, \<open>ExecErr\<close> one of the
  exec machinery with its text; \<open>Errorf f args e\<close> is \<^verbatim>\<open>fmt.Errorf\<close> with format \<open>f\<close>
  (formats written in Chinese in the source are translated), string arguments and wrapped
  error. The source wraps with \<^verbatim>\<open>%v\<close>, so the reason of a wrapped error is lost.
\<close>

datatype api_reason = NotFound | AlreadyExists | Conflict | OtherReason string

datatype go_error =
    ApiErr api_reason
  | ExecErr string
  | ParseErr string
  | Errorf string "string list" "go_error option"

datatype go_panic = SliceBounds | IndexRange | NilMapWrite | NilDeref | MustParseFailed

datatype 'a res = Ok 'a | Err go_error | Panic go_panic

fun IsNotFound :: "go_error \<Rightarrow> bool" where
  "IsNotFound (ApiErr NotFound) = True"
| "IsNotFound _ = False"

type_synonym ('s, 'a) io = "'s \<Rightarrow> ('a res \<times> 's) option"

definition returnE :: "'a \<Rightarrow> ('s, 'a) io" where
  "returnE x s = Some (Ok x, s)"

definition failE :: "go_error \<Rightarrow> ('s, 'a) io" where
  "failE e s = Some (Err e, s)"

definition panicE :: "go_panic \<Rightarrow> ('s, 'a) io" where
  "panicE p s = Some (Panic p, s)"

text \<open>\<open>bindE m f\<close>: call \<open>m\<close>; return its error (or panic) as it is, else go on with \<open>f\<close>.\<close>

definition bindE :: "('s, 'a) io \<Rightarrow> ('a \<Rightarrow> ('s, 'b) io) \<Rightarrow> ('s, 'b) io" where
  "bindE m f s = (case m s of
       None \<Rightarrow> None
     | Some (Ok x, s') \<Rightarrow> f x s'
     | Some (Err e, s') \<Rightarrow> Some (Err e, s')
     | Some (Panic p, s') \<Rightarrow> Some (Panic p, s'))"

text \<open>\<open>wrapE h m\<close>: call \<open>m\<close> and turn its error \<open>e\<close> into \<open>h e\<close>.\<close>

definition wrapE :: "(go_error \<Rightarrow> go_error) \<Rightarrow> ('s, 'a) io \<Rightarrow> ('s, 'a) io" where
  "wrapE h m s = (case m s of
       None \<Rightarrow> None
     | Some (Ok x, s') \<Rightarrow> Some (Ok x, s')
     | Some (Err e, s') \<Rightarrow> Some (Err (h e), s')
     | Some (Panic p, s') \<Rightarrow> Some (Panic p, s'))"

text \<open>\<open>tryE m\<close>: call \<open>m\<close> and hand its error to the caller as a value.\<close>

definition tryE :: "('s, 'a) io \<Rightarrow> ('s, go_error + 'a) io" where
  "tryE m s = (case m s of
       None \<Rightarrow> None
     | Some (Ok x, s') \<Rightarrow> Some (Ok (Inr x), s')
     | Some (Err e, s') \<Rightarrow> Some (Ok (Inl e), s')
     | Some (Panic p, s') \<Rightarrow> Some (Panic p, s'))"

text \<open>A loop over a slice whose body may return an error early.\<close>

primrec forE :: "'a list \<Rightarrow> ('a \<Rightarrow> ('s, unit) io) \<Rightarrow> ('s, unit) io" where
  "forE [] f = returnE ()"
| "forE (x # xs) f = bindE (f x) (\<lambda>_. forE xs f)"

definition liftE :: "('s \<Rightarrow> (go_error + 'a) \<times> 's) \<Rightarrow> ('s, 'a) io" where
  "liftE c s = (case c s of
       (Inl e, s') \<Rightarrow> Some (Err e, s')
     | (Inr x, s') \<Rightarrow> Some (Ok x, s'))"

section \<open>Objects\<close>

record ConfigMap =
  cm_meta :: ObjectMeta
  Data :: "string \<rightharpoonup> string"

record PersistentVolumeClaim =
  pvc_meta :: ObjectMeta
  AccessModes :: "string list"
  StorageRequest :: string
  PvcStorageClassName :: string

record ServicePort =
  Port :: int
  TargetPort :: int
  Protocol :: string

record Service =
  svc_meta :: ObjectMeta
  Selector :: "string \<rightharpoonup> string"
  Ports :: "ServicePort list"
  ServiceType :: string

record VolumeMount =
  MountName :: string
  MountPath :: string
  SubPath :: string

datatype Volume = ConfigMapVolume string string | PvcVolume string string

record Container =
  ContainerName :: string
  ContainerImage :: string
  CpuRequest :: string
  MemoryRequest :: string
  CpuLimit :: string
  MemoryLimit :: string
  Env :: "(string \<times> string) list"
  ContainerPorts :: "(string \<times> int) list"
  VolumeMounts :: "VolumeMount list"

record ContainerStatus =
  Ready :: bool

datatype PodPhase = PodPending | PodRunning | PodSucceeded | PodFailed | PodUnknown

record Pod =
  pod_meta :: ObjectMeta
  Containers :: "Container list"
  Volumes :: "Volume list"
  Phase :: PodPhase
  ContainerStatuses :: "ContainerStatus list"

text \<open>An address of an Endpoints subset: the name of its \<open>TargetRef\<close>, which may be nil.\<close>

record EndpointAddress =
  TargetRef :: "string option"

record EndpointSubset =
  Addresses :: "EndpointAddress list"

record Endpoints =
  Subsets :: "EndpointSubset list"

section \<open>The client interface\<close>

record 's k8s =
  Get_Cluster :: "string \<Rightarrow> string \<Rightarrow> 's \<Rightarrow> (go_error + MysqlCluster) \<times> 's"
  Update_Cluster :: "MysqlCluster \<Rightarrow> 's \<Rightarrow> (go_error + MysqlCluster) \<times> 's"
  Status_Update :: "MysqlCluster \<Rightarrow> 's \<Rightarrow> (go_error + MysqlCluster) \<times> 's"
  Get_Pod :: "string \<Rightarrow> string \<Rightarrow> 's \<Rightarrow> (go_error + Pod) \<times> 's"
  Create_Pod :: "Pod \<Rightarrow> 's \<Rightarrow> (go_error + unit) \<times> 's"
  Update_Pod :: "Pod \<Rightarrow> 's \<Rightarrow> (go_error + unit) \<times> 's"
  List_Pods :: "string \<Rightarrow> (string \<times> string) list \<Rightarrow> 's \<Rightarrow> (go_error + Pod list) \<times> 's"
  Get_Service :: "string \<Rightarrow> string \<Rightarrow> 's \<Rightarrow> (go_error + Service) \<times> 's"
  Create_Service :: "Service \<Rightarrow> 's \<Rightarrow> (go_error + unit) \<times> 's"
  Get_ConfigMap :: "string \<Rightarrow> string \<Rightarrow> 's \<Rightarrow> (go_error + ConfigMap) \<times> 's"
  Create_ConfigMap :: "ConfigMap \<Rightarrow> 's \<Rightarrow> (go_error + unit) \<times> 's"
  Update_ConfigMap :: "ConfigMap \<Rightarrow> 's \<Rightarrow> (go_error + unit) \<times> 's"
  Get_PVC :: "string \<Rightarrow> string \<Rightarrow> 's \<Rightarrow> (go_error + PersistentVolumeClaim) \<times> 's"
  Create_PVC :: "PersistentVolumeClaim \<Rightarrow> 's \<Rightarrow> (go_error + unit) \<times> 's"
  Get_Endpoints :: "string \<Rightarrow> string \<Rightarrow> 's \<Rightarrow> (go_error + Endpoints) \<times> 's"
  MustParse :: "string \<Rightarrow> string option"
  InClusterConfig :: "'s \<Rightarrow> (go_error + unit) \<times> 's"
  NewForConfig :: "'s \<Rightarrow> (go_error + unit) \<times> 's"
  NewSPDYExecutor :: "string \<Rightarrow> string \<Rightarrow> string \<Rightarrow> string \<Rightarrow> 's \<Rightarrow> (go_error + unit) \<times> 's"
  Stream :: "string \<Rightarrow> string \<Rightarrow> string \<Rightarrow> string \<Rightarrow> 's \<Rightarrow> (go_error + string) \<times> 's"
  Sleep :: "duration \<Rightarrow> 's \<Rightarrow> 's"
  Now :: "'s \<Rightarrow> gotime"

section \<open>Lemmas on actions\<close>

lemma bindE_returnE [simp]: "bindE (returnE x) f = f x"
  by (rule ext) (simp add: bindE_def returnE_def)

lemma bindE_failE [simp]: "bindE (failE e) f = failE e"
  by (rule ext) (simp add: bindE_def failE_def)

lemma bindE_Ok_iff:
  "bindE m f s = Some (Ok y, t) \<longleftrightarrow> (\<exists>x s'. m s = Some (Ok x, s') \<and> f x s' = Some (Ok y, t))"
  by (auto simp: bindE_def split: option.splits res.splits prod.splits)

lemma wrapE_Ok_iff [simp]: "wrapE h m s = Some (Ok x, t) \<longleftrightarrow> m s = Some (Ok x, t)"
  by (auto simp: wrapE_def split: option.splits res.splits)

lemma liftE_Ok_iff [simp]: "liftE c s = Some (Ok x, t) \<longleftrightarrow> c s = (Inr x, t)"
  by (auto simp: liftE_def split: prod.splits sum.splits)

lemma liftE_not_None [simp]: "liftE c s \<noteq> None"
  by (auto simp: liftE_def split: prod.splits sum.splits)

lemma returnE_Ok_iff [simp]: "returnE x s = Some (Ok y, t) \<longleftrightarrow> y = x \<and> t = s"
  by (auto simp: returnE_def)

lemma failE_not_Ok [simp]: "failE e s \<noteq> Some (Ok y, t)"
  by (simp add: failE_def)

lemma panicE_not_Ok [simp]: "panicE p s \<noteq> Some (Ok y, t)"
  by (simp add: panicE_def)

lemma tryE_Ok_iff:
  "tryE m s = Some (Ok r, t) \<longleftrightarrow>
     (\<exists>x. r = Inr x \<and> m s = Some (Ok x, t)) \<or> (\<exists>e. r = Inl e \<and> m s = Some (Err e, t))"
  by (auto simp: tryE_def split: option.splits res.splits)

lemma liftE_Err_iff [simp]: "liftE c s = Some (Err e, t) \<longleftrightarrow> c s = (Inl e, t)"
  by (auto simp: liftE_def split: prod.splits sum.splits)

text \<open>An action moves the world along a relation \<open>R\<close> when every way it returns does. For a preorder this
  follows from the calls the action is made of.\<close>

definition moves :: "('s \<Rightarrow> 's \<Rightarrow> bool) \<Rightarrow> ('s, 'a) io \<Rightarrow> bool" where
  "moves R m \<longleftrightarrow> (\<forall>s r t. m s = Some (r, t) \<longrightarrow> R s t)"

lemma movesD: "moves R m \<Longrightarrow> m s = Some (r, t) \<Longrightarrow> R s t"
  by (auto simp: moves_def)

lemma movesI: "(\<And>s r t. m s = Some (r, t) \<Longrightarrow> R s t) \<Longrightarrow> moves R m"
  by (auto simp: moves_def)

lemma moves_basic: "reflp R \<Longrightarrow> moves R (returnE x)" "reflp R \<Longrightarrow> moves R (failE e)" "reflp R \<Longrightarrow> moves R (panicE p)"
  by (auto simp: moves_def returnE_def failE_def panicE_def reflp_def)

lemma moves_bindE_from:
  assumes "transp R" "moves R m"
    and "\<And>s x s1 r t. m s = Some (Ok x, s1) \<Longrightarrow> f x s1 = Some (r, t) \<Longrightarrow> R s1 t"
  shows "moves R (bindE m f)"
proof (rule movesI)
  fix s r t assume run: "bindE m f s = Some (r, t)"
  obtain q s1 where m: "m s = Some (q, s1)" using run by (cases "m s") (auto simp: bindE_def)
  note step = movesD [OF assms(2) m]
  show "R s t"
  proof (cases q)
    case (Ok x)
    with run m have "f x s1 = Some (r, t)" by (simp add: bindE_def)
    from transpD [OF assms(1) step assms(3) [OF m [unfolded Ok] this]] show ?thesis .
  qed (use run m step in \<open>simp_all add: bindE_def\<close>)
qed

lemma moves_bindE:
  assumes "transp R" "moves R m" "\<And>x. moves R (f x)"
  shows "moves R (bindE m f)"
  using assms(1,2) by (rule moves_bindE_from) (rule movesD [OF assms(3)])

lemma moves_wrapE [simp]: "moves R (wrapE h m) \<longleftrightarrow> moves R m"
  unfolding moves_def wrapE_def
  by (auto split: option.splits res.splits prod.splits) (metis res.exhaust)+

lemma moves_tryE [simp]: "moves R (tryE m) \<longleftrightarrow> moves R m"
  unfolding moves_def tryE_def
  by (auto split: option.splits res.splits prod.splits) (metis res.exhaust)+

lemma moves_liftE: "(\<And>s r t. c s = (r, t) \<Longrightarrow> R s t) \<Longrightarrow> moves R (liftE c)"
  by (auto simp: moves_def liftE_def split: prod.splits sum.splits)

lemma moves_forE:
  "reflp R \<Longrightarrow> transp R \<Longrightarrow> (\<And>x. x \<in> set xs \<Longrightarrow> moves R (f x)) \<Longrightarrow> moves R (forE xs f)"
  by (induction xs) (simp_all add: moves_basic moves_bindE)

text \<open>A view \<open>v\<close> of the world is kept by an action when every way it returns keeps it.\<close>

definition keeps :: "('s \<Rightarrow> 'v) \<Rightarrow> ('s, 'a) io \<Rightarrow> bool" where
  "keeps v m \<longleftrightarrow> moves (\<lambda>s t. v t = v s) m"

lemma view_preorder [simp]: "reflp (\<lambda>s t. v t = v s)" "transp (\<lambda>s t. v t = v s)"
  by (simp_all add: reflp_def transp_def)

lemma keeps_iff: "keeps v m \<longleftrightarrow> (\<forall>s r t. m s = Some (r, t) \<longrightarrow> v t = v s)"
  by (simp add: keeps_def moves_def)

lemma keepsD: "keeps v m \<Longrightarrow> m s = Some (r, t) \<Longrightarrow> v t = v s"
  by (auto simp: keeps_iff)

lemma keeps_basic [simp]: "keeps v (returnE x)" "keeps v (failE e)" "keeps v (panicE p)"
  by (simp_all add: keeps_def moves_basic)

lemma keeps_bindE [intro]: "keeps v m \<Longrightarrow> (\<And>x. keeps v (f x)) \<Longrightarrow> keeps v (bindE m f)"
  by (simp add: keeps_def moves_bindE)

lemma keeps_wrapE [simp]: "keeps v (wrapE h m) \<longleftrightarrow> keeps v m"
  and keeps_tryE [simp]: "keeps v (tryE m) \<longleftrightarrow> keeps v m"
  by (simp_all add: keeps_def)

lemma keeps_liftE: "(\<And>s r t. c s = (r, t) \<Longrightarrow> v t = v s) \<Longrightarrow> keeps v (liftE c)"
  by (simp add: keeps_def moves_liftE)

lemma keeps_forE [intro]: "(\<And>x. x \<in> set xs \<Longrightarrow> keeps v (f x)) \<Longrightarrow> keeps v (forE xs f)"
  by (simp add: keeps_def moves_forE)

text \<open>The outcome of a finished call: whether it returned without an error, and the world it left.\<close>

definition returns_ok :: "('a res \<times> 's) option \<Rightarrow> bool" where
  "returns_ok r \<longleftrightarrow> (case r of Some (Ok _, _) \<Rightarrow> True | _ \<Rightarrow> False)"

definition world_after :: "('a res \<times> 's) option \<Rightarrow> 's" where
  "world_after r = snd (the r)"

definition value_of :: "('a res \<times> 's) option \<Rightarrow> 'a" where
  "value_of r = (case r of Some (Ok x, _) \<Rightarrow> x)"

lemma returns_okD: "returns_ok r \<Longrightarrow> r = Some (Ok (value_of r), world_after r)"
  by (auto simp: returns_ok_def world_after_def value_of_def split: option.splits res.splits)

lemma returns_ok_value: "returns_ok r \<and> value_of r = x \<Longrightarrow> r = Some (Ok x, world_after r)"
  using returns_okD [of r] by simp

end
