(* ===== verification/Raft.thy ===== *)
theory Raft
  imports K8s_Client
begin

text \<open>
  The Raft manager of \<^verbatim>\<open>src/internal/controller/raft.go\<close>: its state as the record
  \<open>RaftManager\<close> and one definition per method. Every method below runs while \<open>mu\<close> is
  held (the timers and the two handlers take it, \<open>startElection\<close>, \<open>becomeLeader\<close>,
  \<open>sendHeartbeats\<close> and \<open>updateClusterStatus\<close> are called under it), so each is one
  atomic change of the record. What a method starts with \<^verbatim>\<open>go\<close> is returned as a list of
  targets; \<open>Raft_Cluster\<close> interleaves these goroutines. The clock and \<open>rand.Intn(150)\<close>
  are arguments. \<open>rm.ctx\<close>, the client and \<open>heartbeatTimeout\<close> are used by the methods
  though the struct does not declare them; the last is a field here.
\<close>

section \<open>State\<close>

record PeerInfo =
  PeerNodeId :: string
  PeerLastContact :: gotime
  PeerLastLatency :: duration
  PeerIsActive :: bool

text \<open>The log field is called \<open>rlog\<close>. The \<open>peers\<close> map is an association list in the
  order a \<^verbatim>\<open>range\<close> loop visits it, with one entry per key.\<close>

record RaftManager =
  nodeId :: string
  cluster :: MysqlCluster
  state :: RaftState
  currentTerm :: int64
  votedFor :: string
  rlog :: "RaftLogEntry list"
  leaderId :: string
  nextIndex :: "string \<rightharpoonup> int64"
  matchIndex :: "string \<rightharpoonup> int64"
  electionTimeout :: duration
  heartbeatInterval :: duration
  heartbeatTimeout :: duration
  lastHeartbeat :: gotime
  electionCount :: int64
  lastElection :: gotime
  commitIndex :: int64
  lastApplied :: int64
  peers :: "(string \<times> PeerInfo) list"
  heartbeatCount :: int64

definition randomTimeout :: "nat \<Rightarrow> duration" where
  "randomTimeout r = (150 + int r) * Millisecond"

definition NewRaftManager :: "string \<Rightarrow> MysqlCluster \<Rightarrow> nat \<Rightarrow> gotime \<Rightarrow> RaftManager" where
  "NewRaftManager nid c r now =
     \<lparr>nodeId = nid, cluster = c, state = RaftStateFollower, currentTerm = 0, votedFor = [],
      rlog = [], leaderId = [], nextIndex = Map.empty, matchIndex = Map.empty,
      electionTimeout = randomTimeout r, heartbeatInterval = 0,
      heartbeatTimeout = 50 * Millisecond, lastHeartbeat = now, electionCount = 0,
      lastElection = time_zero, commitIndex = 0, lastApplied = 0, peers = [],
      heartbeatCount = 0\<rparr>"

section \<open>Cluster membership and messages\<close>

definition nodeName :: "string \<Rightarrow> int32 \<Rightarrow> string" where
  "nodeName nm i = nm @ ''-'' @ sprintf_d i"

definition getClusterNodes :: "RaftManager \<Rightarrow> string list res" where
  "getClusterNodes rm =
     Ok (map (nodeName (Name (cluster_meta (cluster rm)))) [0 .. Replicas (Spec (cluster rm)) - 1])"

definition min_int64 :: "int64 \<Rightarrow> int64 \<Rightarrow> int64" where
  "min_int64 a b = (if a < b then a else b)"

definition UnixNano :: "gotime \<Rightarrow> int64" where
  "UnixNano t = t - 62135596800000000000"

definition sendMessage ::
    "'s k8s \<Rightarrow> RaftManager \<Rightarrow> string \<Rightarrow> (string \<rightharpoonup> string) \<Rightarrow> 's \<Rightarrow> bool \<times> 's" where
  "sendMessage api rm nid message s =
     (let configMapName = ''raft-message-'' @ nid @ ''-'' @ sprintf_d (UnixNano (Now api s));
          configMap = \<lparr>cm_meta = \<lparr>Name = configMapName,
               Namespace = Namespace (cluster_meta (cluster rm)), UID = [],
               Labels = Some [''raft-message'' \<mapsto> ''true'', ''target-node'' \<mapsto> nid],
               Annotations = None, OwnerReferences = []\<rparr>,
             Data = message\<rparr>
      in case Create_ConfigMap api configMap s of
           (Inl err, s') \<Rightarrow> (False, s')
         | (Inr _, s') \<Rightarrow> (True, s'))"

definition lastLogTerm :: "RaftLogEntry list \<Rightarrow> int64" where
  "lastLogTerm l = (if l = [] then 0 else Term (last l))"

definition voteRequest :: "RaftManager \<Rightarrow> string \<Rightarrow> (string \<rightharpoonup> string)" where
  "voteRequest rm nid =
     (let message = [''type'' \<mapsto> ''vote_request'', ''from'' \<mapsto> nodeId rm, ''to'' \<mapsto> nid,
            ''term'' \<mapsto> sprintf_d (currentTerm rm), ''candidateId'' \<mapsto> nodeId rm,
            ''lastLogIndex'' \<mapsto> sprintf_d (int (length (rlog rm))), ''lastLogTerm'' \<mapsto> ''0'']
      in if length (rlog rm) > 0
         then message(''lastLogTerm'' \<mapsto> sprintf_d (Term (rlog rm ! (length (rlog rm) - 1))))
         else message)"

definition sendVoteRequest :: "'s k8s \<Rightarrow> RaftManager \<Rightarrow> string \<Rightarrow> 's \<Rightarrow> bool \<times> 's" where
  "sendVoteRequest api rm nid = sendMessage api rm nid (voteRequest rm nid)"

definition appendEntriesMessage ::
    "RaftManager \<Rightarrow> string \<Rightarrow> RaftLogEntry list \<Rightarrow> (string \<rightharpoonup> string)" where
  "appendEntriesMessage rm nid entries =
     (let prevLogIndex = wrap64 (map_get 0 (nextIndex rm) nid - 1);
          prevLogTerm = (if prevLogIndex > 0 \<and> prevLogIndex \<le> int (length (rlog rm))
                         then Term (rlog rm ! nat (prevLogIndex - 1)) else 0)
      in [''type'' \<mapsto> ''append_entries'', ''from'' \<mapsto> nodeId rm, ''to'' \<mapsto> nid,
          ''term'' \<mapsto> sprintf_d (currentTerm rm), ''leaderId'' \<mapsto> nodeId rm,
          ''prevLogIndex'' \<mapsto> sprintf_d prevLogIndex, ''prevLogTerm'' \<mapsto> sprintf_d prevLogTerm,
          ''leaderCommit'' \<mapsto> sprintf_d (commitIndex rm),
          ''entriesCount'' \<mapsto> sprintf_d (int (length entries))])"

definition sendAppendEntries ::
    "'s k8s \<Rightarrow> RaftManager \<Rightarrow> string \<Rightarrow> RaftLogEntry list \<Rightarrow> 's \<Rightarrow> bool \<times> 's" where
  "sendAppendEntries api rm nid entries =
     sendMessage api rm nid (appendEntriesMessage rm nid entries)"

section \<open>Elections and leadership\<close>

text \<open>The \<open>votes\<close> and \<open>majority\<close> variables of one election, shared by its goroutines.\<close>

record Ballot =
  votes :: int
  majority :: int

text \<open>\<open>startElection\<close> returns the new state and, unless listing the nodes fails, the ballot
  and the nodes a vote-request goroutine is started for.\<close>

definition startElection ::
    "gotime \<Rightarrow> nat \<Rightarrow> RaftManager \<Rightarrow> RaftManager \<times> (Ballot \<times> string list) option" where
  "startElection now r rm =
     (let rm' = rm\<lparr>state := RaftStateCandidate, currentTerm := wrap64 (currentTerm rm + 1),
                   votedFor := nodeId rm, lastHeartbeat := now,
                   electionTimeout := randomTimeout r\<rparr>
      in case getClusterNodes rm' of
           Ok nodes \<Rightarrow> (rm', Some (\<lparr>votes = 1, majority = int (length nodes) div 2 + 1\<rparr>,
                                  filter (\<lambda>node. node \<noteq> nodeId rm') nodes))
         | _ \<Rightarrow> (rm', None))"

text \<open>The body of the two timer loops, run each time the timer fires.\<close>

definition electionTimerFired ::
    "gotime \<Rightarrow> nat \<Rightarrow> RaftManager \<Rightarrow> RaftManager \<times> (Ballot \<times> string list) option" where
  "electionTimerFired now r rm =
     (if state rm \<noteq> RaftStateLeader \<and> time_Since now (lastHeartbeat rm) > electionTimeout rm
      then startElection now r rm else (rm, None))"

definition sendHeartbeats :: "RaftManager \<Rightarrow> string list" where
  "sendHeartbeats rm = (case getClusterNodes rm of
       Ok nodes \<Rightarrow> filter (\<lambda>node. node \<noteq> nodeId rm) nodes
     | _ \<Rightarrow> [])"

definition heartbeatTimerFired :: "RaftManager \<Rightarrow> string list" where
  "heartbeatTimerFired rm = (if state rm = RaftStateLeader then sendHeartbeats rm else [])"

text \<open>\<open>Status().Update\<close> writes the server's answer into the object when it succeeds; the
  source drops its error.\<close>

definition updateClusterStatus :: "'s k8s \<Rightarrow> RaftManager \<Rightarrow> 's \<Rightarrow> RaftManager \<times> 's" where
  "updateClusterStatus api rm s =
     (let st = Status (cluster rm);
          nodes = (case RaftNodes st of None \<Rightarrow> Map.empty | Some m \<Rightarrow> m);
          info = \<lparr>NodeId = nodeId rm, State = state rm, NodeTerm = currentTerm rm,
                  LastContact = time_zero, IsActive = False\<rparr>;
          st1 = st\<lparr>RaftNodes := Some (nodes(nodeId rm \<mapsto> info))\<rparr>;
          st2 = (if state rm = RaftStateLeader
                 then st1\<lparr>RaftLeader := nodeId rm, RaftTerm := currentTerm rm\<rparr> else st1);
          st3 = st2\<lparr>ClusterSize := Replicas (Spec (cluster rm))\<rparr>;
          rm' = rm\<lparr>cluster := (cluster rm)\<lparr>Status := st3\<rparr>\<rparr>
      in case Status_Update api (cluster rm') s of
           (Inl err, s') \<Rightarrow> (rm', s')
         | (Inr c, s') \<Rightarrow> (rm'\<lparr>cluster := c\<rparr>, s'))"

definition initIndex :: "string \<Rightarrow> RaftManager \<Rightarrow> RaftManager" where
  "initIndex node rm =
     (if node \<noteq> nodeId rm
      then rm\<lparr>nextIndex := (nextIndex rm)(node \<mapsto> wrap64 (int (length (rlog rm)) + 1)),
              matchIndex := (matchIndex rm)(node \<mapsto> 0)\<rparr>
      else rm)"

definition initIndexes :: "string list \<Rightarrow> RaftManager \<Rightarrow> RaftManager" where
  "initIndexes nodes rm = fold initIndex nodes rm"

definition becomeLeader :: "'s k8s \<Rightarrow> RaftManager \<Rightarrow> 's \<Rightarrow> RaftManager \<times> string list \<times> 's" where
  "becomeLeader api rm s =
     (let rm1 = rm\<lparr>state := RaftStateLeader\<rparr>;
          nodes = (case getClusterNodes rm1 of Ok ns \<Rightarrow> ns | _ \<Rightarrow> []);
          rm2 = initIndexes nodes rm1;
          heartbeats = sendHeartbeats rm2;
          (rm3, s') = updateClusterStatus api rm2 s
      in (rm3, heartbeats, s'))"

text \<open>The locked part of a vote goroutine, reached when \<open>sendVoteRequest\<close> returned true.\<close>

definition voteCounted ::
    "'s k8s \<Rightarrow> Ballot \<Rightarrow> RaftManager \<Rightarrow> 's \<Rightarrow> Ballot \<times> RaftManager \<times> string list \<times> 's" where
  "voteCounted api b rm s =
     (let b' = b\<lparr>votes := votes b + 1\<rparr>
      in if votes b' \<ge> majority b' \<and> state rm = RaftStateCandidate
         then (b', becomeLeader api rm s) else (b', rm, [], s))"

section \<open>The two request handlers\<close>

definition HandleVoteRequest ::
    "gotime \<Rightarrow> string \<Rightarrow> int64 \<Rightarrow> int64 \<Rightarrow> int64 \<Rightarrow> RaftManager \<Rightarrow> bool \<times> RaftManager" where
  "HandleVoteRequest now candidateId term lastIndex lastTerm rm =
     (if term < currentTerm rm then (False, rm)
      else
        let rm1 = (if term > currentTerm rm
                   then rm\<lparr>currentTerm := term, votedFor := [], state := RaftStateFollower\<rparr>
                   else rm)
        in if votedFor rm1 \<noteq> [] \<and> votedFor rm1 \<noteq> candidateId then (False, rm1)
           else
             let myLastLogIndex = int (length (rlog rm1));
                 myLastLogTerm = (if length (rlog rm1) > 0
                                  then Term (rlog rm1 ! (length (rlog rm1) - 1)) else 0)
             in if lastTerm < myLastLogTerm \<or>
                   (lastTerm = myLastLogTerm \<and> lastIndex < myLastLogIndex)
                then (False, rm1)
                else (True, rm1\<lparr>votedFor := candidateId, lastHeartbeat := now\<rparr>))"

definition HandleAppendEntries ::
    "gotime \<Rightarrow> string \<Rightarrow> int64 \<Rightarrow> int64 \<Rightarrow> int64 \<Rightarrow> RaftLogEntry list \<Rightarrow> int64 \<Rightarrow> RaftManager \<Rightarrow>
     bool res \<times> RaftManager" where
  "HandleAppendEntries now leader term prevLogIndex prevLogTerm entries leaderCommit rm =
     (let rm0 = rm\<lparr>lastHeartbeat := now\<rparr>
      in if term < currentTerm rm0 then (Ok False, rm0)
         else
           let rm1 = (if term \<ge> currentTerm rm0
                      then rm0\<lparr>currentTerm := term, state := RaftStateFollower, votedFor := []\<rparr>
                      else rm0)
           in if prevLogIndex > 0 \<and>
                 (int (length (rlog rm1)) < prevLogIndex \<or>
                  Term (rlog rm1 ! nat (prevLogIndex - 1)) \<noteq> prevLogTerm)
              then (Ok False, rm1)
              else if length entries > 0 \<and> prevLogIndex < 0 then (Panic SliceBounds, rm1)
              else
                let rm2 = (if length entries > 0
                           then rm1\<lparr>rlog := take (nat prevLogIndex) (rlog rm1) @ entries\<rparr>
                           else rm1);
                    rm3 = (if leaderCommit > commitIndex rm2
                           then rm2\<lparr>commitIndex :=
                                     min_int64 leaderCommit (int (length (rlog rm2)))\<rparr>
                           else rm2)
                in (Ok True, rm3))"

text \<open>The locked part of \<open>HandleRaftBasedFailover\<close> in
  \<^verbatim>\<open>raft_mysql_integration.go\<close>.\<close>

definition forceElection :: "RaftManager \<Rightarrow> RaftManager" where
  "forceElection rm =
     (if state rm \<noteq> RaftStateLeader
      then rm\<lparr>state := RaftStateFollower, lastHeartbeat := time_zero\<rparr> else rm)"

section \<open>Lemmas\<close>

subsection \<open>Membership\<close>

lemma nodeName_inj: "nodeName nm i = nodeName nm j \<longleftrightarrow> i = j"
  by (simp add: nodeName_def sprintf_d_inj)

lemma inj_nodeName [simp]: "inj_on (nodeName nm) A"
  by (simp add: inj_on_def nodeName_inj)

definition clusterNodes :: "RaftManager \<Rightarrow> string list" where
  "clusterNodes rm =
     map (nodeName (Name (cluster_meta (cluster rm)))) [0 .. Replicas (Spec (cluster rm)) - 1]"

lemma getClusterNodes_Ok [simp]: "getClusterNodes rm = Ok (clusterNodes rm)"
  by (simp add: getClusterNodes_def clusterNodes_def)

lemma distinct_clusterNodes [simp]: "distinct (clusterNodes rm)"
  by (simp add: clusterNodes_def distinct_map)

lemma length_clusterNodes [simp]:
  "length (clusterNodes rm) = nat (Replicas (Spec (cluster rm)))"
  by (simp add: clusterNodes_def)

lemma clusterNodes_cong: "cluster rm = cluster rm' \<Longrightarrow> clusterNodes rm = clusterNodes rm'"
  by (simp add: clusterNodes_def)

subsection \<open>What each operation changes\<close>

lemma NewRaftManager_simps [simp]:
  "nodeId (NewRaftManager n c r now) = n"
  "state (NewRaftManager n c r now) = RaftStateFollower"
  "cluster (NewRaftManager n c r now) = c"
  "currentTerm (NewRaftManager n c r now) = 0"
  by (simp_all add: NewRaftManager_def)

lemma initIndex_frame: "\<exists>ni mi. initIndex node rm = rm\<lparr>nextIndex := ni, matchIndex := mi\<rparr>"
proof (cases "node = nodeId rm")
  case True
  then have "initIndex node rm = rm\<lparr>nextIndex := nextIndex rm, matchIndex := matchIndex rm\<rparr>"
    by (simp add: initIndex_def)
  then show ?thesis by blast
next
  case False
  then show ?thesis unfolding initIndex_def by auto
qed

lemma initIndexes_simps [simp]:
  "initIndexes [] rm = rm"
  "initIndexes (n # nodes) rm = initIndexes nodes (initIndex n rm)"
  by (simp_all add: initIndexes_def)

lemma initIndexes_frame: "\<exists>ni mi. initIndexes nodes rm = rm\<lparr>nextIndex := ni, matchIndex := mi\<rparr>"
proof (induction nodes arbitrary: rm)
  case Nil
  have "initIndexes [] rm = rm\<lparr>nextIndex := nextIndex rm, matchIndex := matchIndex rm\<rparr>" by simp
  then show ?case by blast
next
  case (Cons n nodes)
  obtain ni mi where "initIndex n rm = rm\<lparr>nextIndex := ni, matchIndex := mi\<rparr>"
    using initIndex_frame by blast
  with Cons.IH [of "initIndex n rm"] obtain ni' mi' where
    "initIndexes (n # nodes) rm = rm\<lparr>nextIndex := ni', matchIndex := mi'\<rparr>"
    by auto
  then show ?case by blast
qed

lemma initIndex_frame_simps [simp]:
  "nodeId (initIndex n rm) = nodeId rm"
  "rlog (initIndex n rm) = rlog rm"
  by (simp_all add: initIndex_def)

lemma nextIndex_initIndexes:
  "nextIndex (initIndexes nodes rm) =
     (\<lambda>n. if n \<in> set nodes \<and> n \<noteq> nodeId rm then Some (wrap64 (int (length (rlog rm)) + 1))
          else nextIndex rm n)"
  by (induction nodes arbitrary: rm) (auto simp: initIndex_def fun_eq_iff)

lemma matchIndex_initIndexes:
  "matchIndex (initIndexes nodes rm) =
     (\<lambda>n. if n \<in> set nodes \<and> n \<noteq> nodeId rm then Some 0 else matchIndex rm n)"
  by (induction nodes arbitrary: rm) (auto simp: initIndex_def fun_eq_iff)

lemma updateClusterStatus_frame:
  "\<exists>c t. updateClusterStatus api rm s = (rm\<lparr>cluster := c\<rparr>, t)"
  by (auto simp: updateClusterStatus_def Let_def split: prod.splits sum.splits)

lemma becomeLeader_frame:
  "\<exists>ni mi c t. becomeLeader api rm s =
     (rm\<lparr>state := RaftStateLeader, nextIndex := ni, matchIndex := mi, cluster := c\<rparr>,
      filter (\<lambda>n. n \<noteq> nodeId rm) (clusterNodes rm), t)"
proof -
  let ?rm1 = "rm\<lparr>state := RaftStateLeader\<rparr>"
  have nodes: "clusterNodes ?rm1 = clusterNodes rm" by (rule clusterNodes_cong) simp
  obtain ni mi where i: "initIndexes (clusterNodes rm) ?rm1 = ?rm1\<lparr>nextIndex := ni, matchIndex := mi\<rparr>"
    using initIndexes_frame by blast
  have nodes2: "clusterNodes (?rm1\<lparr>nextIndex := ni, matchIndex := mi\<rparr>) = clusterNodes rm"
    by (rule clusterNodes_cong) simp
  obtain c t where "updateClusterStatus api (initIndexes (clusterNodes rm) ?rm1) s =
      ((initIndexes (clusterNodes rm) ?rm1)\<lparr>cluster := c\<rparr>, t)"
    using updateClusterStatus_frame [of api "initIndexes (clusterNodes rm) ?rm1" s] by auto
  then show ?thesis
    by (auto simp: becomeLeader_def Let_def sendHeartbeats_def nodes i nodes2 intro!: exI)
qed

lemma becomeLeader_simps [simp]:
  "state (fst (becomeLeader api rm s)) = RaftStateLeader"
  "nodeId (fst (becomeLeader api rm s)) = nodeId rm"
  "currentTerm (fst (becomeLeader api rm s)) = currentTerm rm"
  "votedFor (fst (becomeLeader api rm s)) = votedFor rm"
  "rlog (fst (becomeLeader api rm s)) = rlog rm"
  "commitIndex (fst (becomeLeader api rm s)) = commitIndex rm"
  "fst (snd (becomeLeader api rm s)) = filter (\<lambda>n. n \<noteq> nodeId rm) (clusterNodes rm)"
  using becomeLeader_frame [of api rm s] by auto

lemma becomeLeader_indexes:
  "nextIndex (fst (becomeLeader api rm s)) =
     (\<lambda>n. if n \<in> set (clusterNodes rm) \<and> n \<noteq> nodeId rm
          then Some (wrap64 (int (length (rlog rm)) + 1)) else nextIndex rm n)"
  "matchIndex (fst (becomeLeader api rm s)) =
     (\<lambda>n. if n \<in> set (clusterNodes rm) \<and> n \<noteq> nodeId rm then Some 0 else matchIndex rm n)"
proof -
  let ?rm1 = "rm\<lparr>state := RaftStateLeader\<rparr>"
  have nodes: "clusterNodes ?rm1 = clusterNodes rm" by (rule clusterNodes_cong) simp
  obtain c t where u: "updateClusterStatus api (initIndexes (clusterNodes rm) ?rm1) s =
      ((initIndexes (clusterNodes rm) ?rm1)\<lparr>cluster := c\<rparr>, t)"
    using updateClusterStatus_frame [of api "initIndexes (clusterNodes rm) ?rm1" s] by auto
  then have eq: "fst (becomeLeader api rm s) = (initIndexes (clusterNodes rm) ?rm1)\<lparr>cluster := c\<rparr>"
    by (simp add: becomeLeader_def Let_def nodes)
  show "nextIndex (fst (becomeLeader api rm s)) =
     (\<lambda>n. if n \<in> set (clusterNodes rm) \<and> n \<noteq> nodeId rm
          then Some (wrap64 (int (length (rlog rm)) + 1)) else nextIndex rm n)"
    unfolding eq by (simp add: nextIndex_initIndexes cong: if_cong)
  show "matchIndex (fst (becomeLeader api rm s)) =
     (\<lambda>n. if n \<in> set (clusterNodes rm) \<and> n \<noteq> nodeId rm then Some 0 else matchIndex rm n)"
    unfolding eq by (simp add: matchIndex_initIndexes cong: if_cong)
qed

lemma startElection_eq:
  "startElection now r rm =
     (rm\<lparr>state := RaftStateCandidate, currentTerm := wrap64 (currentTerm rm + 1),
         votedFor := nodeId rm, lastHeartbeat := now, electionTimeout := randomTimeout r\<rparr>,
      Some (\<lparr>votes = 1, majority = int (length (clusterNodes rm)) div 2 + 1\<rparr>,
            filter (\<lambda>n. n \<noteq> nodeId rm) (clusterNodes rm)))"
proof -
  have "clusterNodes (rm\<lparr>state := RaftStateCandidate, currentTerm := wrap64 (currentTerm rm + 1),
         votedFor := nodeId rm, lastHeartbeat := now, electionTimeout := randomTimeout r\<rparr>) =
      clusterNodes rm"
    by (rule clusterNodes_cong) simp
  then show ?thesis by (simp add: startElection_def Let_def)
qed

lemma voteCounted_cases:
  assumes "voteCounted api b rm s = (b', rm', hb, s')"
  obtains (counted) "b' = b\<lparr>votes := votes b + 1\<rparr>" "rm' = rm" "hb = []" "s' = s"
      "votes b + 1 < majority b \<or> state rm \<noteq> RaftStateCandidate"
    | (leader) ni mi c where "b' = b\<lparr>votes := votes b + 1\<rparr>" "majority b \<le> votes b + 1"
      "state rm = RaftStateCandidate"
      "rm' = rm\<lparr>state := RaftStateLeader, nextIndex := ni, matchIndex := mi, cluster := c\<rparr>"
      "hb = filter (\<lambda>n. n \<noteq> nodeId rm) (clusterNodes rm)"
proof (cases "votes b + 1 \<ge> majority b \<and> state rm = RaftStateCandidate")
  case True
  with assms have "becomeLeader api rm s = (rm', hb, s')" "b' = b\<lparr>votes := votes b + 1\<rparr>"
    by (simp_all add: voteCounted_def)
  with True becomeLeader_frame [of api rm s] leader show ?thesis by auto
next
  case False
  with assms have "b' = b\<lparr>votes := votes b + 1\<rparr>" "rm' = rm" "hb = []" "s' = s"
    by (simp_all add: voteCounted_def Let_def split: if_splits)
  with False counted show ?thesis by linarith
qed

end
