(* ===== verification/Raft_Spec.thy ===== *)
theory Raft_Spec
  imports Go_Base
begin

text \<open>
  What Raft promises, stated without the program: the order on log positions, the abstract
  voter, log matching between two logs, and the contracts as locales.
  \<^item> \<open>ballot_box\<close>: a machine whose steps may grant votes keeps at most one vote per term.
  \<^item> \<open>kept\<close>: a machine whose steps keep an invariant.
  \<^item> \<open>term_clock\<close>: a machine whose steps never lower a term.
  \<^item> \<open>quorum\<close>: two sets that reach a threshold within a membership meet.
  \<open>Raft_Node\<close> interprets the first three on the Raft manager, \<open>Raft_Cluster\<close> the last on
  the node lists and the majority of \<open>startElection\<close>.
\<close>

section \<open>Log positions\<close>

datatype logpos = LogPos (pos_term: int) (pos_index: int)

instantiation logpos :: linorder
begin

definition less_eq_logpos :: "logpos \<Rightarrow> logpos \<Rightarrow> bool" where
  "less_eq_logpos p q \<longleftrightarrow>
     pos_term p < pos_term q \<or> (pos_term p = pos_term q \<and> pos_index p \<le> pos_index q)"

definition less_logpos :: "logpos \<Rightarrow> logpos \<Rightarrow> bool" where
  "less_logpos p q \<longleftrightarrow>
     pos_term p < pos_term q \<or> (pos_term p = pos_term q \<and> pos_index p < pos_index q)"

instance
proof
  fix p q r :: logpos
  show "(p < q) = (p \<le> q \<and> \<not> q \<le> p)" by (auto simp: less_logpos_def less_eq_logpos_def)
  show "p \<le> p" by (simp add: less_eq_logpos_def)
  show "p \<le> q \<Longrightarrow> q \<le> r \<Longrightarrow> p \<le> r" by (auto simp: less_eq_logpos_def)
  show "p \<le> q \<Longrightarrow> q \<le> p \<Longrightarrow> p = q"
    by (auto simp: less_eq_logpos_def intro: logpos.expand)
  show "p \<le> q \<or> q \<le> p" by (auto simp: less_eq_logpos_def)
qed

end

lemma LogPos_le [simp]: "LogPos t i \<le> LogPos t' i' \<longleftrightarrow> t < t' \<or> (t = t' \<and> i \<le> i')"
  by (simp add: less_eq_logpos_def)

section \<open>The abstract voter\<close>

record voter =
  vterm :: int
  vote :: "string option"
  vpos :: logpos

definition spec_vote :: "string \<Rightarrow> int \<Rightarrow> logpos \<Rightarrow> voter \<Rightarrow> bool \<times> voter" where
  "spec_vote c t p v =
     (let v1 = (if t > vterm v then v\<lparr>vterm := t, vote := None\<rparr> else v)
      in if t \<ge> vterm v \<and> vote v1 \<in> {None, Some c} \<and> vpos v \<le> p
         then (True, v1\<lparr>vote := Some c\<rparr>) else (False, v1))"

section \<open>Log matching\<close>

text \<open>Where two logs have entries of the same term at the same index, they agree up to there.\<close>

definition log_matching :: "('e \<Rightarrow> int) \<Rightarrow> 'e list \<Rightarrow> 'e list \<Rightarrow> bool" where
  "log_matching tm l l' \<longleftrightarrow>
     (\<forall>i < min (length l) (length l'). tm (l ! i) = tm (l' ! i) \<longrightarrow> take (Suc i) l = take (Suc i) l')"

lemma log_matchingD:
  assumes "log_matching tm l l'" "0 < i" "i \<le> length l" "i \<le> length l'"
    and "tm (l ! (i - 1)) = tm (l' ! (i - 1))"
  shows "take i l = take i l'"
proof -
  have "i - 1 < min (length l) (length l')" using assms(2-4) by auto
  then have "take (Suc (i - 1)) l = take (Suc (i - 1)) l'"
    using assms(1,5) unfolding log_matching_def by blast
  with assms(2) show ?thesis by simp
qed

lemma log_matching_refl [simp]: "log_matching tm l l"
  by (simp add: log_matching_def)

section \<open>Runs of a machine\<close>

fun run :: "('e \<Rightarrow> 's \<Rightarrow> 's) \<Rightarrow> 'e list \<Rightarrow> 's \<Rightarrow> 's" where
  "run step [] s = s"
| "run step (e # es) s = run step es (step e s)"

fun all_enabled :: "('e \<Rightarrow> 's \<Rightarrow> bool) \<Rightarrow> ('e \<Rightarrow> 's \<Rightarrow> 's) \<Rightarrow> 'e list \<Rightarrow> 's \<Rightarrow> bool" where
  "all_enabled en step [] s = True"
| "all_enabled en step (e # es) s \<longleftrightarrow> en e s \<and> all_enabled en step es (step e s)"

text \<open>The votes granted along a run, as pairs of a term and a candidate.\<close>

fun granted :: "('e \<Rightarrow> 's \<Rightarrow> (int \<times> 'c) option) \<Rightarrow> ('e \<Rightarrow> 's \<Rightarrow> 's) \<Rightarrow> 'e list \<Rightarrow> 's \<Rightarrow>
    (int \<times> 'c) list" where
  "granted gr step [] s = []"
| "granted gr step (e # es) s =
     (case gr e s of None \<Rightarrow> [] | Some g \<Rightarrow> [g]) @ granted gr step es (step e s)"

lemma run_append: "run step (es @ fs) s = run step fs (run step es s)"
  by (induction es arbitrary: s) simp_all

section \<open>Contracts\<close>

text \<open>A machine whose enabled steps keep an invariant.\<close>

locale kept =
  fixes step :: "'e \<Rightarrow> 's \<Rightarrow> 's"
    and en :: "'e \<Rightarrow> 's \<Rightarrow> bool"
    and inv :: "'s \<Rightarrow> bool"
  assumes step_inv: "\<lbrakk>inv s; en e s\<rbrakk> \<Longrightarrow> inv (step e s)"
begin

lemma run_inv: "\<lbrakk>inv s; all_enabled en step es s\<rbrakk> \<Longrightarrow> inv (run step es s)"
  by (induction es arbitrary: s) (simp_all add: step_inv)

end

text \<open>A machine whose enabled steps never lower the term.\<close>

locale term_clock =
  fixes step :: "'e \<Rightarrow> 's \<Rightarrow> 's"
    and en :: "'e \<Rightarrow> 's \<Rightarrow> bool"
    and term_of :: "'s \<Rightarrow> int"
  assumes term_mono: "en e s \<Longrightarrow> term_of s \<le> term_of (step e s)"
begin

lemma run_mono: "all_enabled en step es s \<Longrightarrow> term_of s \<le> term_of (run step es s)"
proof (induction es arbitrary: s)
  case (Cons e es)
  then have "term_of s \<le> term_of (step e s)" by (simp add: term_mono)
  also have "\<dots> \<le> term_of (run step es (step e s))" using Cons by simp
  finally show ?case by simp
qed simp

end

text \<open>A machine that records the vote it grants, and keeps it while the term stays.\<close>

locale ballot_box = term_clock step en term_of
  for step :: "'e \<Rightarrow> 's \<Rightarrow> 's" and en and term_of +
  fixes vote_of :: "'s \<Rightarrow> 'c option"
    and gr :: "'e \<Rightarrow> 's \<Rightarrow> (int \<times> 'c) option"
  assumes vote_kept: "\<lbrakk>en e s; term_of (step e s) = term_of s; vote_of s = Some c\<rbrakk>
      \<Longrightarrow> vote_of (step e s) = Some c"
    and vote_recorded: "\<lbrakk>en e s; gr e s = Some (t, c)\<rbrakk>
      \<Longrightarrow> term_of (step e s) = t \<and> vote_of (step e s) = Some c"
begin

lemma granted_term: "all_enabled en step es s \<Longrightarrow> (t, c) \<in> set (granted gr step es s) \<Longrightarrow> term_of s \<le> t"
proof (induction es arbitrary: s)
  case (Cons e es)
  have le: "term_of s \<le> term_of (step e s)" using Cons.prems(1) by (simp add: term_mono)
  from Cons.prems consider "gr e s = Some (t, c)" | "(t, c) \<in> set (granted gr step es (step e s))"
    by (auto split: option.splits)
  then show ?case
  proof cases
    case 1
    with Cons.prems(1) le show ?thesis by (auto dest: vote_recorded)
  next
    case 2
    with Cons le show ?thesis by fastforce
  qed
qed simp

lemma voted_then_granted:
  "\<lbrakk>all_enabled en step es s; vote_of s = Some c; (term_of s, c') \<in> set (granted gr step es s)\<rbrakk>
   \<Longrightarrow> c' = c"
proof (induction es arbitrary: s)
  case (Cons e es)
  have en: "en e s" and rest: "all_enabled en step es (step e s)" using Cons.prems(1) by auto
  have le: "term_of s \<le> term_of (step e s)" using en by (rule term_mono)
  from Cons.prems(3) consider "gr e s = Some (term_of s, c')"
    | "(term_of s, c') \<in> set (granted gr step es (step e s))"
    by (auto split: option.splits)
  then show ?case
  proof cases
    case 1
    then have "term_of (step e s) = term_of s" "vote_of (step e s) = Some c'"
      using en vote_recorded by blast+
    then show ?thesis using vote_kept [OF en _ Cons.prems(2)] by simp
  next
    case 2
    then have same: "term_of (step e s) = term_of s"
      using granted_term [OF rest 2] le by simp
    then show ?thesis
      using Cons.IH [OF rest vote_kept [OF en same Cons.prems(2)]] 2 by simp
  qed
qed simp

theorem one_vote_per_term:
  "\<lbrakk>all_enabled en step es s; (t, c) \<in> set (granted gr step es s);
    (t, c') \<in> set (granted gr step es s)\<rbrakk> \<Longrightarrow> c = c'"
proof (induction es arbitrary: s)
  case (Cons e es)
  have en: "en e s" and rest: "all_enabled en step es (step e s)" using Cons.prems(1) by auto
  have first: "x = y" if "gr e s = Some (t, x)" "(t, y) \<in> set (granted gr step es (step e s))" for x y
    using vote_recorded [OF en that(1)] voted_then_granted [OF rest, of x y] that(2) by auto
  have "gr e s = Some (t, x) \<or> (t, x) \<in> set (granted gr step es (step e s))"
    if "(t, x) \<in> set (granted gr step (e # es) s)" for x
    using that by (auto split: option.splits)
  with Cons.prems(2,3) show ?case
    using first [of c c'] first [of c' c] Cons.IH [OF rest] by fastforce
qed simp

end

text \<open>Two sets of members that both reach the threshold have a member in common.\<close>

locale quorum =
  fixes members :: "'m set" and threshold :: nat
  assumes finite_members: "finite members"
    and threshold_big: "card members < 2 * threshold"
begin

lemma quorums_meet:
  assumes "A \<subseteq> members" "B \<subseteq> members" "threshold \<le> card A" "threshold \<le> card B"
  shows "A \<inter> B \<noteq> {}"
proof
  assume "A \<inter> B = {}"
  moreover have "finite A" "finite B"
    using assms(1,2) finite_members by (auto intro: finite_subset)
  ultimately have "card A + card B = card (A \<union> B)" by (simp add: card_Un_disjoint)
  also have "\<dots> \<le> card members" using assms(1,2) finite_members by (intro card_mono) auto
  finally show False using assms(3,4) threshold_big by simp
qed

end

end
