(* ===== verification/Raft_Node.thy ===== *)
theory Raft_Node
  imports Raft Raft_Spec
begin

text \<open>
  One Raft manager as a machine: every atomic section that changes it is an event of
  \<open>node_step\<close>. The theory shows that \<open>HandleVoteRequest\<close> implements the abstract voter
  of \<open>Raft_Spec\<close>, interprets the contracts \<open>term_clock\<close> and \<open>ballot_box\<close> on
  \<open>node_step\<close>, states what \<open>HandleAppendEntries\<close> does to the log and the commit
  index on every branch, and proves the invariants every run from \<open>NewRaftManager\<close> keeps.
\<close>

section \<open>Events\<close>

datatype event =
    ElectionTimer gotime nat
  | VoteCounted Ballot
  | VoteRequest gotime string int64 int64 int64
  | AppendEntries gotime string int64 int64 int64 "RaftLogEntry list" int64
  | ForceElection

fun node_step :: "'s k8s \<Rightarrow> event \<Rightarrow> RaftManager \<times> 's \<Rightarrow> RaftManager \<times> 's" where
  "node_step api (ElectionTimer now r) (rm, s) = (fst (electionTimerFired now r rm), s)"
| "node_step api (VoteCounted b) (rm, s) =
     (case voteCounted api b rm s of (b', rm', hb, s') \<Rightarrow> (rm', s'))"
| "node_step api (VoteRequest now c t li lt) (rm, s) = (snd (HandleVoteRequest now c t li lt rm), s)"
| "node_step api (AppendEntries now l t pi pt es lc) (rm, s) =
     (snd (HandleAppendEntries now l t pi pt es lc rm), s)"
| "node_step api ForceElection (rm, s) = (forceElection rm, s)"

text \<open>The vote an event grants: a candidate votes for itself, a voter for the requester.\<close>

fun node_grant :: "event \<Rightarrow> RaftManager \<times> 's \<Rightarrow> (int64 \<times> string) option" where
  "node_grant (ElectionTimer now r) (rm, s) =
     (if snd (electionTimerFired now r rm) \<noteq> None
      then Some (currentTerm (fst (electionTimerFired now r rm)), nodeId rm) else None)"
| "node_grant (VoteRequest now c t li lt) (rm, s) =
     (if fst (HandleVoteRequest now c t li lt rm) then Some (t, c) else None)"
| "node_grant e (rm, s) = None"

definition node_term :: "RaftManager \<times> 's \<Rightarrow> int64" where
  "node_term x = currentTerm (fst x)"

definition node_vote :: "RaftManager \<times> 's \<Rightarrow> string option" where
  "node_vote x = (if votedFor (fst x) = [] then None else Some (votedFor (fst x)))"

text \<open>Events that cannot wrap the term around, and those that in addition keep a vote: node and
  candidate have names, and no AppendEntries of the current term arrives.\<close>

fun no_wrap :: "event \<Rightarrow> RaftManager \<times> 's \<Rightarrow> bool" where
  "no_wrap (ElectionTimer now r) (rm, s) = (in64 (currentTerm rm) \<and> currentTerm rm < 2 ^ 63 - 1)"
| "no_wrap e (rm, s) = True"

fun vote_safe :: "event \<Rightarrow> RaftManager \<times> 's \<Rightarrow> bool" where
  "vote_safe (ElectionTimer now r) (rm, s) =
     (in64 (currentTerm rm) \<and> currentTerm rm < 2 ^ 63 - 1 \<and> nodeId rm \<noteq> [])"
| "vote_safe (VoteRequest now c t li lt) (rm, s) = (c \<noteq> [])"
| "vote_safe (AppendEntries now l t pi pt es lc) (rm, s) = (t \<noteq> currentTerm rm)"
| "vote_safe e (rm, s) = True"

section \<open>The abstract voter\<close>

definition abs_voter :: "RaftManager \<Rightarrow> voter" where
  "abs_voter rm = \<lparr>vterm = currentTerm rm,
     vote = (if votedFor rm = [] then None else Some (votedFor rm)),
     vpos = LogPos (lastLogTerm (rlog rm)) (int (length (rlog rm)))\<rparr>"

lemma last_entry_term:
  "(if length l > 0 then Term (l ! (length l - 1)) else 0) = lastLogTerm l"
  by (simp add: lastLogTerm_def last_conv_nth)

lemma HandleVoteRequest_refines:
  assumes "candidateId \<noteq> []"
  shows "map_prod id abs_voter (HandleVoteRequest now candidateId t li lt rm) =
         spec_vote candidateId t (LogPos lt li) (abs_voter rm)"
  using assms unfolding HandleVoteRequest_def last_entry_term
  by (auto simp: spec_vote_def abs_voter_def Let_def)

text \<open>(C1) \<open>HandleVoteRequest\<close> implements the abstract voter: seen through the term, the vote
  and the position of the last log entry, the handler grants exactly when the request's term is
  not older, no other vote was given in that term and the candidate's log is at least as up to
  date; and it leaves the abstract state the specification leaves, on every branch.\<close>

theorem HandleVoteRequest_implements_voter:
  assumes "candidateId \<noteq> []"
  shows "map_prod id abs_voter (HandleVoteRequest now candidateId t li lt rm) =
         spec_vote candidateId t (LogPos lt li) (abs_voter rm)"
  using assms by (rule HandleVoteRequest_refines)

definition sample_rm :: RaftManager where
  "sample_rm = NewRaftManager ''mysqlcluster-sample-0'' sample_cluster 7 1000"

lemma sample_rm_simps [simp]:
  "nodeId sample_rm = ''mysqlcluster-sample-0''" "state sample_rm = RaftStateFollower"
  "currentTerm sample_rm = 0" "votedFor sample_rm = []" "rlog sample_rm = []"
  "commitIndex sample_rm = 0" "cluster sample_rm = sample_cluster"
  "lastHeartbeat sample_rm = 1000" "electionTimeout sample_rm = 157000000"
  by (simp_all add: sample_rm_def NewRaftManager_def randomTimeout_def Millisecond_def)

theorem HandleVoteRequest_implements_voter_witness:
  "''a'' \<noteq> [] \<and>
   map_prod id abs_voter (HandleVoteRequest 5 ''a'' 1 0 0 sample_rm) =
   (True, \<lparr>vterm = 1, vote = Some ''a'', vpos = LogPos 0 0\<rparr>)"
  using HandleVoteRequest_implements_voter [of "''a''" 5 1 0 0 sample_rm]
  by (simp add: spec_vote_def abs_voter_def lastLogTerm_def)

section \<open>Terms and votes along a run\<close>

lemma node_term_step:
  assumes "no_wrap e x"
  shows "node_term x \<le> node_term (node_step api e x)"
proof (cases x)
  case (Pair rm s)
  show ?thesis
  proof (cases e)
    case (ElectionTimer now r)
    with assms Pair have "wrap64 (currentTerm rm + 1) = currentTerm rm + 1"
      by (simp add: in64_def)
    with ElectionTimer Pair show ?thesis
      by (simp add: node_term_def electionTimerFired_def startElection_eq)
  next
    case (VoteCounted b)
    obtain bb rm' hb s' where v: "voteCounted api b rm s = (bb, rm', hb, s')"
      by (cases "voteCounted api b rm s") auto
    then have "currentTerm rm' = currentTerm rm" by (rule voteCounted_cases) simp_all
    with v VoteCounted Pair show ?thesis by (simp add: node_term_def)
  qed (use Pair in \<open>auto simp: node_term_def HandleVoteRequest_def HandleAppendEntries_def
                         forceElection_def Let_def\<close>)
qed

interpretation terms: term_clock "node_step api" no_wrap node_term for api
  by unfold_locales (rule node_term_step)

lemma vote_safe_no_wrap: "vote_safe e x \<Longrightarrow> no_wrap e x"
  by (cases x; cases e) auto

lemma node_vote_kept:
  assumes "vote_safe e x" "node_term (node_step api e x) = node_term x" "node_vote x = Some c"
  shows "node_vote (node_step api e x) = Some c"
proof (cases x)
  case (Pair rm s)
  show ?thesis
  proof (cases e)
    case (ElectionTimer now r)
    with assms(1) Pair have "wrap64 (currentTerm rm + 1) \<noteq> currentTerm rm"
      by (simp add: in64_def)
    with ElectionTimer Pair assms(2,3) show ?thesis
      by (auto simp: node_term_def electionTimerFired_def startElection_eq split: if_splits)
  next
    case (VoteCounted b)
    obtain bb rm' hb s' where v: "voteCounted api b rm s = (bb, rm', hb, s')"
      by (cases "voteCounted api b rm s") auto
    then have "votedFor rm' = votedFor rm" by (rule voteCounted_cases) simp_all
    with v VoteCounted Pair assms(3) show ?thesis by (simp add: node_vote_def split: if_splits)
  next
    case (VoteRequest now ca t li lt)
    with Pair assms show ?thesis
      by (auto simp: node_vote_def node_term_def HandleVoteRequest_def Let_def split: if_splits)
  next
    case (AppendEntries now l t pi pt es lc)
    with Pair assms show ?thesis
      by (auto simp: node_vote_def node_term_def HandleAppendEntries_def Let_def split: if_splits)
  next
    case ForceElection
    with Pair assms show ?thesis by (simp add: node_vote_def forceElection_def split: if_splits)
  qed
qed

lemma node_grant_recorded:
  assumes "vote_safe e x" "node_grant e x = Some (t, c)"
  shows "node_term (node_step api e x) = t \<and> node_vote (node_step api e x) = Some c"
proof (cases x)
  case (Pair rm s)
  with assms show ?thesis
    by (cases e) (auto simp: node_vote_def node_term_def HandleVoteRequest_def
        electionTimerFired_def startElection_eq Let_def split: if_splits)
qed

interpretation votes: ballot_box "node_step api" vote_safe node_term node_vote node_grant for api
  by unfold_locales
    (auto intro: node_term_step vote_safe_no_wrap node_vote_kept
          dest: node_grant_recorded [of _ _ _ _ api])

text \<open>(C31) A node's term never goes down, whatever mix of timer ticks, counted votes, requests
  and failovers it sees, as long as no election starts at the largest 64-bit term.\<close>

theorem node_term_monotone:
  assumes "all_enabled no_wrap (node_step api) es x"
  shows "node_term x \<le> node_term (run (node_step api) es x)"
  using assms by (rule terms.run_mono)

text \<open>(C16) One vote per term: along every run in which no AppendEntries of the node's current
  term arrives, two votes the node grants in the same term are for the same candidate.\<close>

theorem node_one_vote_per_term:
  assumes "all_enabled vote_safe (node_step api) es x"
    and "(t, c) \<in> set (granted node_grant (node_step api) es x)"
    and "(t, c') \<in> set (granted node_grant (node_step api) es x)"
  shows "c = c'"
  using assms by (rule votes.one_vote_per_term)

section \<open>AppendEntries\<close>

text \<open>The branches of \<open>HandleAppendEntries\<close>, by the test that selects them.\<close>

definition prev_ok :: "int64 \<Rightarrow> int64 \<Rightarrow> RaftLogEntry list \<Rightarrow> bool" where
  "prev_ok pi pt l \<longleftrightarrow> pi \<le> 0 \<or> (pi \<le> int (length l) \<and> Term (l ! nat (pi - 1)) = pt)"

definition follow :: "gotime \<Rightarrow> int64 \<Rightarrow> RaftManager \<Rightarrow> RaftManager" where
  "follow now t rm =
     rm\<lparr>lastHeartbeat := now, currentTerm := t, state := RaftStateFollower, votedFor := []\<rparr>"

definition new_log :: "int64 \<Rightarrow> RaftLogEntry list \<Rightarrow> RaftLogEntry list \<Rightarrow> RaftLogEntry list" where
  "new_log pi es l = (if es = [] then l else take (nat pi) l @ es)"

definition new_commit :: "int64 \<Rightarrow> RaftLogEntry list \<Rightarrow> int64 \<Rightarrow> int64" where
  "new_commit lc l ci = (if lc > ci then min lc (int (length l)) else ci)"

lemma HandleAppendEntries_stale:
  "t < currentTerm rm \<Longrightarrow>
   HandleAppendEntries now ld t pi pt es lc rm = (Ok False, rm\<lparr>lastHeartbeat := now\<rparr>)"
  by (simp add: HandleAppendEntries_def)

lemma HandleAppendEntries_mismatch:
  "\<lbrakk>currentTerm rm \<le> t; \<not> prev_ok pi pt (rlog rm)\<rbrakk> \<Longrightarrow>
   HandleAppendEntries now ld t pi pt es lc rm = (Ok False, follow now t rm)"
  by (auto simp: HandleAppendEntries_def prev_ok_def follow_def)

lemma HandleAppendEntries_panic:
  "\<lbrakk>currentTerm rm \<le> t; pi < 0; es \<noteq> []\<rbrakk> \<Longrightarrow>
   HandleAppendEntries now ld t pi pt es lc rm = (Panic SliceBounds, follow now t rm)"
  by (simp add: HandleAppendEntries_def follow_def)

lemma HandleAppendEntries_accept:
  assumes "currentTerm rm \<le> t" "prev_ok pi pt (rlog rm)" "0 \<le> pi \<or> es = []"
  shows "HandleAppendEntries now ld t pi pt es lc rm =
    (Ok True, (follow now t rm)\<lparr>rlog := new_log pi es (rlog rm),
       commitIndex := new_commit lc (new_log pi es (rlog rm)) (commitIndex rm)\<rparr>)"
  using assms
  by (auto simp: HandleAppendEntries_def prev_ok_def follow_def new_log_def new_commit_def
      min_int64_def Let_def min_def)

lemma HandleAppendEntries_cases:
  obtains (stale) "t < currentTerm rm"
      "HandleAppendEntries now ld t pi pt es lc rm = (Ok False, rm\<lparr>lastHeartbeat := now\<rparr>)"
    | (mismatch) "currentTerm rm \<le> t" "\<not> prev_ok pi pt (rlog rm)"
      "HandleAppendEntries now ld t pi pt es lc rm = (Ok False, follow now t rm)"
    | (panic) "currentTerm rm \<le> t" "pi < 0" "es \<noteq> []"
      "HandleAppendEntries now ld t pi pt es lc rm = (Panic SliceBounds, follow now t rm)"
    | (accept) "currentTerm rm \<le> t" "prev_ok pi pt (rlog rm)" "0 \<le> pi \<or> es = []"
      "HandleAppendEntries now ld t pi pt es lc rm =
       (Ok True, (follow now t rm)\<lparr>rlog := new_log pi es (rlog rm),
          commitIndex := new_commit lc (new_log pi es (rlog rm)) (commitIndex rm)\<rparr>)"
proof -
  consider "t < currentTerm rm" | "currentTerm rm \<le> t" "\<not> prev_ok pi pt (rlog rm)"
    | "currentTerm rm \<le> t" "pi < 0" "es \<noteq> []"
    | "currentTerm rm \<le> t" "prev_ok pi pt (rlog rm)" "0 \<le> pi \<or> es = []"
    by force
  then show ?thesis
    by cases (auto intro: that HandleAppendEntries_stale HandleAppendEntries_mismatch
        HandleAppendEntries_panic HandleAppendEntries_accept)
qed

lemma follow_simps [simp]:
  "rlog (follow now t rm) = rlog rm" "commitIndex (follow now t rm) = commitIndex rm"
  "currentTerm (follow now t rm) = t" "state (follow now t rm) = RaftStateFollower"
  "votedFor (follow now t rm) = []" "nodeId (follow now t rm) = nodeId rm"
  by (simp_all add: follow_def)

lemma length_new_log:
  assumes "prev_ok pi pt l" "0 \<le> pi" "es \<noteq> []"
  shows "int (length (new_log pi es l)) = pi + int (length es)"
  using assms by (auto simp: prev_ok_def new_log_def)

lemma HandleAppendEntries_result:
  "fst (HandleAppendEntries now ld t pi pt es lc rm) =
     (if t < currentTerm rm \<or> \<not> prev_ok pi pt (rlog rm) then Ok False
      else if pi < 0 \<and> es \<noteq> [] then Panic SliceBounds else Ok True)"
  by (rule HandleAppendEntries_cases [of t rm now ld pi pt es lc]) (auto simp: prev_ok_def)

lemma HandleAppendEntries_rejected:
  assumes "HandleAppendEntries now ld t pi pt es lc rm = (res, rm')" "res \<noteq> Ok True"
  shows "rlog rm' = rlog rm \<and> commitIndex rm' = commitIndex rm"
  using assms by (cases rule: HandleAppendEntries_cases [of t rm now ld pi pt es lc]) auto

lemma append_leader_log:
  assumes lm: "log_matching Term L (rlog rm)"
    and pi: "0 \<le> pi" "pi \<le> int (length L)" "pi > 0 \<longrightarrow> pt = Term (L ! nat (pi - 1))"
    and ok: "prev_ok pi pt (rlog rm)"
  shows "take (nat pi) (rlog rm) @ drop (nat pi) L = L"
proof (cases "pi > 0")
  case True
  with pi ok have "take (nat pi) L = take (nat pi) (rlog rm)"
    by (intro log_matchingD [OF lm]) (auto simp: prev_ok_def nat_diff_distrib)
  then show ?thesis by (metis append_take_drop_id)
next
  case False
  with pi(1) show ?thesis by simp
qed

lemma accepted_append:
  assumes "HandleAppendEntries now ld t pi pt es lc rm = (Ok True, rm')"
  shows "prev_ok pi pt (rlog rm) \<and> (0 \<le> pi \<or> es = []) \<and> rlog rm' = new_log pi es (rlog rm) \<and>
    commitIndex rm' = new_commit lc (new_log pi es (rlog rm)) (commitIndex rm)"
  using assms by (cases rule: HandleAppendEntries_cases [of t rm now ld pi pt es lc]) auto

text \<open>(C5) Replication: a follower whose log matches the leader's log \<open>L\<close> (same term at an
  index implies the same prefix) and that accepts the leader's entries after \<open>prevLogIndex\<close>
  has exactly the leader's log afterwards.\<close>

theorem accepted_append_gives_leader_log:
  assumes "log_matching Term L (rlog rm)"
    and "0 \<le> pi" "pi < int (length L)" "pi > 0 \<longrightarrow> pt = Term (L ! nat (pi - 1))"
    and "HandleAppendEntries now ld t pi pt (drop (nat pi) L) lc rm = (Ok True, rm')"
  shows "rlog rm' = L"
proof -
  have ok: "prev_ok pi pt (rlog rm)" and "rlog rm' = new_log pi (drop (nat pi) L) (rlog rm)"
    using accepted_append [OF assms(5)] by auto
  moreover have "drop (nat pi) L \<noteq> []" using assms(2,3) by simp
  ultimately have "rlog rm' = take (nat pi) (rlog rm) @ drop (nat pi) L"
    by (simp add: new_log_def)
  also have "\<dots> = L" using assms(1-4) ok by (intro append_leader_log) auto
  finally show ?thesis .
qed

text \<open>(C19) What \<open>HandleAppendEntries\<close> returns, on every input: it refuses an older term or a
  log that lacks the previous entry, it panics on a negative \<open>prevLogIndex\<close> with entries, and
  it accepts everything else; whenever it does not accept, log and commit index are untouched,
  and the heartbeat time is refreshed in every case, an older term included.\<close>

theorem HandleAppendEntries_branches:
  "fst (HandleAppendEntries now ld t pi pt es lc rm) =
     (if t < currentTerm rm \<or> \<not> prev_ok pi pt (rlog rm) then Ok False
      else if pi < 0 \<and> es \<noteq> [] then Panic SliceBounds else Ok True) \<and>
   (fst (HandleAppendEntries now ld t pi pt es lc rm) \<noteq> Ok True \<longrightarrow>
      rlog (snd (HandleAppendEntries now ld t pi pt es lc rm)) = rlog rm \<and>
      commitIndex (snd (HandleAppendEntries now ld t pi pt es lc rm)) = commitIndex rm) \<and>
   lastHeartbeat (snd (HandleAppendEntries now ld t pi pt es lc rm)) = now"
proof -
  have "lastHeartbeat (snd (HandleAppendEntries now ld t pi pt es lc rm)) = now"
    by (rule HandleAppendEntries_cases [of t rm now ld pi pt es lc]) (simp_all add: follow_def)
  then show ?thesis
    using HandleAppendEntries_result [of now ld t pi pt es lc rm]
      HandleAppendEntries_rejected [OF prod.collapse [symmetric]] by blast
qed

text \<open>(C20) The commit index stays within the log and never goes down when the accepted entries
  reach at least to the old commit index.\<close>

theorem commitIndex_within_log:
  assumes "0 \<le> commitIndex rm" "commitIndex rm \<le> int (length (rlog rm))"
    and "es = [] \<or> commitIndex rm \<le> pi + int (length es)"
    and "HandleAppendEntries now ld t pi pt es lc rm = (res, rm')"
  shows "commitIndex rm \<le> commitIndex rm' \<and> commitIndex rm' \<le> int (length (rlog rm'))"
proof (cases "res = Ok True")
  case True
  with accepted_append assms(4) have acc: "prev_ok pi pt (rlog rm)" "0 \<le> pi \<or> es = []"
    "rlog rm' = new_log pi es (rlog rm)"
    "commitIndex rm' = new_commit lc (new_log pi es (rlog rm)) (commitIndex rm)"
    by blast+
  have "commitIndex rm \<le> int (length (new_log pi es (rlog rm)))"
  proof (cases "es = []")
    case True
    with assms(2) show ?thesis by (simp add: new_log_def)
  next
    case False
    with acc length_new_log [of pi pt "rlog rm" es] assms(3) show ?thesis by auto
  qed
  with acc show ?thesis by (auto simp: new_commit_def)
next
  case False
  with HandleAppendEntries_rejected [OF assms(4)] assms(2) show ?thesis by simp
qed

section \<open>Witnesses and counterexamples\<close>

definition entry1 :: RaftLogEntry where
  "entry1 = \<lparr>Term = 1, Index = 1, Command = ''CHANGE MASTER''\<rparr>"

definition entry2 :: RaftLogEntry where
  "entry2 = \<lparr>Term = 1, Index = 2, Command = ''START SLAVE''\<rparr>"

lemma entry_terms [simp]: "Term entry1 = 1" "Term entry2 = 1"
  by (simp_all add: entry1_def entry2_def)

definition nil_api :: "unit k8s" where
  "nil_api =
     \<lparr>Get_Cluster = (\<lambda>_ _ s. (Inl (ApiErr NotFound), s)),
      Update_Cluster = (\<lambda>_ s. (Inl (ApiErr NotFound), s)),
      Status_Update = (\<lambda>_ s. (Inl (ApiErr NotFound), s)),
      Get_Pod = (\<lambda>_ _ s. (Inl (ApiErr NotFound), s)), Create_Pod = (\<lambda>_ s. (Inr (), s)),
      Update_Pod = (\<lambda>_ s. (Inr (), s)), List_Pods = (\<lambda>_ _ s. (Inr [], s)),
      Get_Service = (\<lambda>_ _ s. (Inl (ApiErr NotFound), s)), Create_Service = (\<lambda>_ s. (Inr (), s)),
      Get_ConfigMap = (\<lambda>_ _ s. (Inl (ApiErr NotFound), s)), Create_ConfigMap = (\<lambda>_ s. (Inr (), s)),
      Update_ConfigMap = (\<lambda>_ s. (Inr (), s)), Get_PVC = (\<lambda>_ _ s. (Inl (ApiErr NotFound), s)),
      Create_PVC = (\<lambda>_ s. (Inr (), s)), Get_Endpoints = (\<lambda>_ _ s. (Inl (ApiErr NotFound), s)),
      MustParse = (\<lambda>q. Some q), InClusterConfig = (\<lambda>s. (Inr (), s)),
      NewForConfig = (\<lambda>s. (Inr (), s)), NewSPDYExecutor = (\<lambda>_ _ _ _ s. (Inr (), s)),
      Stream = (\<lambda>_ _ _ _ s. (Inr [], s)), Sleep = (\<lambda>_ s. s), Now = (\<lambda>_. 0)\<rparr>"

abbreviation sample_run :: "event list" where
  "sample_run \<equiv> [VoteRequest 5 ''a'' 1 0 0, AppendEntries 6 ''a'' 2 0 0 [entry1] 0,
     VoteRequest 7 ''b'' 3 1 1, ElectionTimer 10000000000 3]"

lemma sample_run_granted:
  "granted node_grant (node_step nil_api) sample_run (sample_rm, ()) =
     [(1, ''a''), (3, ''b''), (4, ''mysqlcluster-sample-0'')]"
  by (simp add: HandleVoteRequest_def HandleAppendEntries_def electionTimerFired_def
      startElection_eq Let_def time_Since_def in64_def min_int64_def)

lemma sample_run_safe: "all_enabled vote_safe (node_step nil_api) sample_run (sample_rm, ())"
  by (simp add: HandleVoteRequest_def HandleAppendEntries_def electionTimerFired_def
      startElection_eq Let_def time_Since_def in64_def min_int64_def)

lemma sample_run_no_wrap: "all_enabled no_wrap (node_step nil_api) sample_run (sample_rm, ())"
  by (simp add: HandleVoteRequest_def HandleAppendEntries_def electionTimerFired_def
      startElection_eq Let_def time_Since_def in64_def min_int64_def)

theorem node_term_monotone_witness:
  "node_term (sample_rm, ()) \<le> node_term (run (node_step nil_api) sample_run (sample_rm, ()))"
  by (rule node_term_monotone [OF sample_run_no_wrap])

theorem node_one_vote_per_term_witness:
  "all_enabled vote_safe (node_step nil_api) sample_run (sample_rm, ()) \<and>
   (3, ''b'') \<in> set (granted node_grant (node_step nil_api) sample_run (sample_rm, ())) \<and>
   (3, ''a'') \<notin> set (granted node_grant (node_step nil_api) sample_run (sample_rm, ()))"
proof -
  have b: "(3, ''b'') \<in> set (granted node_grant (node_step nil_api) sample_run (sample_rm, ()))"
    unfolding sample_run_granted by simp
  show ?thesis
    using sample_run_safe b node_one_vote_per_term [OF sample_run_safe b, of "''a''"] by blast
qed

theorem accepted_append_gives_leader_log_witness:
  "rlog (snd (HandleAppendEntries 9 ''a'' 2 1 1 [entry2] 2 (sample_rm\<lparr>rlog := [entry1]\<rparr>))) =
   [entry1, entry2]"
proof (rule accepted_append_gives_leader_log [where rm = "sample_rm\<lparr>rlog := [entry1]\<rparr>" and pi = 1
      and pt = 1 and now = 9 and ld = "''a''" and t = 2 and lc = 2])
  show "HandleAppendEntries 9 ''a'' 2 1 1 (drop (nat 1) [entry1, entry2]) 2
      (sample_rm\<lparr>rlog := [entry1]\<rparr>) =
    (Ok True, snd (HandleAppendEntries 9 ''a'' 2 1 1 [entry2] 2 (sample_rm\<lparr>rlog := [entry1]\<rparr>)))"
    by (simp add: HandleAppendEntries_def Let_def)
qed (simp_all add: log_matching_def)

theorem HandleAppendEntries_branches_witness:
  "fst (HandleAppendEntries 9 ''a'' 2 1 1 [entry2] 2 sample_rm) = Ok False \<and>
   rlog (snd (HandleAppendEntries 9 ''a'' 2 1 1 [entry2] 2 sample_rm)) = []"
  using HandleAppendEntries_branches [of 9 "''a''" 2 1 1 "[entry2]" 2 sample_rm]
  by (simp add: prev_ok_def)

theorem commitIndex_within_log_witness:
  "let rm = sample_rm\<lparr>rlog := [entry1], commitIndex := 1\<rparr>;
       rm' = snd (HandleAppendEntries 9 ''a'' 2 1 1 [entry2] 2 rm)
   in commitIndex rm \<le> commitIndex rm' \<and> commitIndex rm' \<le> int (length (rlog rm'))"
proof -
  let ?rm = "sample_rm\<lparr>rlog := [entry1], commitIndex := 1\<rparr>"
  let ?x = "HandleAppendEntries 9 ''a'' 2 1 1 [entry2] 2 ?rm"
  have "commitIndex ?rm \<le> commitIndex (snd ?x) \<and>
      commitIndex (snd ?x) \<le> int (length (rlog (snd ?x)))"
    by (rule commitIndex_within_log [where res = "fst ?x" and es = "[entry2]" and pi = 1])
      simp_all
  then show ?thesis by (simp only: Let_def)
qed

text \<open>(C17) The hypothesis of the one-vote theorem is needed: \<open>HandleAppendEntries\<close> clears
  \<open>votedFor\<close> also when the term is unchanged. Whatever the manager's state, when it can vote for \<open>a\<close>
  in term \<open>t\<close> and the logs of \<open>a\<close> and of another candidate \<open>b\<close> are at least as up to date as its own, it grants
  only \<open>a\<close>'s vote when the two requests come one after the other, and both votes, in the same term, when a
  heartbeat of term \<open>t\<close> (with any sender, previous entry and commit index, accepted or not)
  comes between them.\<close>

theorem two_votes_in_one_term:
  assumes "currentTerm rm < t \<or> currentTerm rm = t \<and> votedFor rm \<in> {[], a}" "a \<noteq> []" "a \<noteq> b"
    and "LogPos (lastLogTerm (rlog rm)) (int (length (rlog rm))) \<le> LogPos lta lia"
    and "LogPos (lastLogTerm (rlog rm)) (int (length (rlog rm))) \<le> LogPos ltb lib"
  shows "granted node_grant (node_step api)
      [VoteRequest n1 a t lia lta, VoteRequest n2 b t lib ltb] (rm, s) = [(t, a)] \<and>
    granted node_grant (node_step api)
      [VoteRequest n1 a t lia lta, AppendEntries n3 ld t pi pt [] lc, VoteRequest n2 b t lib ltb] (rm, s) =
      [(t, a), (t, b)]"
proof -
  obtain rm1 where v1: "HandleVoteRequest n1 a t lia lta rm = (True, rm1)"
      and rm1: "currentTerm rm1 = t" "votedFor rm1 = a" "rlog rm1 = rlog rm"
    using assms(1,4) unfolding HandleVoteRequest_def last_entry_term by (auto simp: Let_def)
  let ?rm2 = "snd (HandleAppendEntries n3 ld t pi pt [] lc rm1)"
  have rm2: "currentTerm ?rm2 = t" "votedFor ?rm2 = []" "rlog ?rm2 = rlog rm"
    by (rule HandleAppendEntries_cases [of t rm1 n3 ld pi pt "[]" lc]; simp add: rm1 new_log_def)+
  have "\<not> fst (HandleVoteRequest n2 b t lib ltb rm1)"
    using rm1 assms(2,3) by (simp add: HandleVoteRequest_def)
  moreover have "fst (HandleVoteRequest n2 b t lib ltb ?rm2)"
    using rm2 assms(5) unfolding HandleVoteRequest_def last_entry_term by (auto simp: Let_def)
  ultimately show ?thesis by (simp add: v1)
qed

theorem two_votes_in_one_term_witness:
  "granted node_grant (node_step nil_api)
     [VoteRequest 5 ''a'' 1 0 0, VoteRequest 7 ''b'' 1 0 0] (sample_rm, ()) = [(1, ''a'')] \<and>
   granted node_grant (node_step nil_api)
     [VoteRequest 5 ''a'' 1 0 0, AppendEntries 6 ''a'' 1 0 0 [] 0, VoteRequest 7 ''b'' 1 0 0]
     (sample_rm, ()) = [(1, ''a''), (1, ''b'')]"
  by (rule two_votes_in_one_term) (simp_all add: lastLogTerm_def)



section \<open>Invariants of one manager\<close>

text \<open>What the operations of \<^verbatim>\<open>raft.go\<close> never write, and that a candidate or leader has
  its own vote.\<close>

definition node_inv :: "string \<Rightarrow> RaftManager \<Rightarrow> bool" where
  "node_inv nid rm \<longleftrightarrow>
     nodeId rm = nid \<and> (state rm \<noteq> RaftStateFollower \<longrightarrow> votedFor rm = nid) \<and>
     leaderId rm = [] \<and> peers rm = [] \<and> lastApplied rm = 0 \<and> electionCount rm = 0 \<and>
     heartbeatCount rm = 0 \<and> heartbeatInterval rm = 0 \<and> lastElection rm = time_zero"

definition timeout_ok :: "RaftManager \<Rightarrow> bool" where
  "timeout_ok rm \<longleftrightarrow> 150 * Millisecond \<le> electionTimeout rm \<and> electionTimeout rm < 300 * Millisecond"

fun rand_ok :: "event \<Rightarrow> RaftManager \<times> 's \<Rightarrow> bool" where
  "rand_ok (ElectionTimer now r) x \<longleftrightarrow> r < 150"
| "rand_ok e x \<longleftrightarrow> True"

lemma randomTimeout_bounds:
  "r < 150 \<Longrightarrow> 150 * Millisecond \<le> randomTimeout r \<and> randomTimeout r < 300 * Millisecond"
  by (simp add: randomTimeout_def Millisecond_def)

lemma node_inv_new [simp]: "node_inv nid (NewRaftManager nid c r now)"
  by (simp add: node_inv_def NewRaftManager_def)

lemma node_inv_VoteCounted:
  assumes "node_inv nid rm" "voteCounted api b rm s = (b', rm', hb, s')"
  shows "node_inv nid rm'"
  using assms(2) by (cases rule: voteCounted_cases) (use assms(1) in \<open>simp_all add: node_inv_def\<close>)

lemma node_inv_step:
  assumes "nid \<noteq> []" "node_inv nid (fst x)"
  shows "node_inv nid (fst (node_step api e x))"
proof (cases x)
  case (Pair rm s)
  show ?thesis
  proof (cases e)
    case (VoteCounted b)
    obtain b' rm' hb s' where v: "voteCounted api b rm s = (b', rm', hb, s')"
      by (cases "voteCounted api b rm s") auto
    with node_inv_VoteCounted [OF _ v] VoteCounted Pair assms(2) show ?thesis by simp
  next
    case (AppendEntries now l t pi pt es lc)
    show ?thesis
      by (rule HandleAppendEntries_cases [of t rm now l pi pt es lc])
        (use AppendEntries Pair assms in \<open>simp_all add: node_inv_def follow_def\<close>)
  next
    case (VoteRequest now c t li lt)
    with Pair assms show ?thesis
      by (auto simp: node_inv_def HandleVoteRequest_def Let_def)
  qed (use Pair assms in \<open>auto simp: node_inv_def electionTimerFired_def startElection_eq
                               forceElection_def\<close>)
qed

lemma timeout_step:
  assumes "timeout_ok (fst x)" "rand_ok e x"
  shows "timeout_ok (fst (node_step api e x))"
proof (cases x)
  case (Pair rm s)
  show ?thesis
  proof (cases e)
    case (VoteCounted b)
    obtain b' rm' hb s' where v: "voteCounted api b rm s = (b', rm', hb, s')"
      by (cases "voteCounted api b rm s") auto
    then have "electionTimeout rm' = electionTimeout rm" by (rule voteCounted_cases) simp_all
    with v VoteCounted Pair assms(1) show ?thesis by (simp add: timeout_ok_def)
  next
    case (AppendEntries now l t pi pt es lc)
    show ?thesis
      by (rule HandleAppendEntries_cases [of t rm now l pi pt es lc])
        (use AppendEntries Pair assms in \<open>simp_all add: timeout_ok_def follow_def\<close>)
  qed (use Pair assms randomTimeout_bounds in \<open>auto simp: timeout_ok_def electionTimerFired_def
       startElection_eq HandleVoteRequest_def Let_def forceElection_def\<close>)
qed

interpretation node: kept "node_step api" "\<lambda>_ _. nid \<noteq> []" "\<lambda>x. node_inv nid (fst x)" for api nid
  by unfold_locales (simp add: node_inv_step)

interpretation timeouts: kept "node_step api" rand_ok "\<lambda>x. timeout_ok (fst x)" for api
  by unfold_locales (rule timeout_step)

lemma all_enabled_const: "P \<Longrightarrow> all_enabled (\<lambda>_ _. P) step es x"
  by (induction es arbitrary: x) simp_all

text \<open>In every state a manager with a name reaches from \<open>NewRaftManager\<close>, it keeps its
  name, a candidate or leader has voted for itself, and the leader id, the peer table, the applied
  index and the election and heartbeat counters still have the values \<open>NewRaftManager\<close> gave
  them: no operation writes them.\<close>

lemma node_inv_run:
  "nid \<noteq> [] \<Longrightarrow> node_inv nid (fst (run (node_step api) es (NewRaftManager nid c r now, s)))"
  by (rule node.run_inv) (simp_all add: all_enabled_const)

text \<open>The election timeout is always at least 150ms and below 300ms, given that
  \<open>rand.Intn(150)\<close> returns a number below 150.\<close>

lemma electionTimeout_bounds:
  assumes "r < 150" and "all_enabled rand_ok (node_step api) es (NewRaftManager nid c r now, s)"
  shows "timeout_ok (fst (run (node_step api) es (NewRaftManager nid c r now, s)))"
proof -
  have "timeout_ok (fst (NewRaftManager nid c r now, s))"
    using randomTimeout_bounds [OF assms(1)] by (simp add: timeout_ok_def NewRaftManager_def)
  then show ?thesis using assms(2) by (rule timeouts.run_inv)
qed

text \<open>A failover request makes the next tick of the election timer start an election: after
  \<open>HandleRaftBasedFailover\<close> zeroed the heartbeat time of a manager that is not the leader, a
  tick at any clock reading of our era (at least \<open>2 ^ 63\<close> nanoseconds after the zero time)
  makes it a candidate for the next term with its own vote, and starts one vote request for every
  other member.\<close>

lemma failover_starts_election:
  assumes "state rm \<noteq> RaftStateLeader" "timeout_ok rm" "2 ^ 63 \<le> now"
  shows "state (fst (electionTimerFired now r (forceElection rm))) = RaftStateCandidate \<and>
    currentTerm (fst (electionTimerFired now r (forceElection rm))) = wrap64 (currentTerm rm + 1) \<and>
    votedFor (fst (electionTimerFired now r (forceElection rm))) = nodeId rm \<and>
    (\<exists>b. snd (electionTimerFired now r (forceElection rm)) =
       Some (b, filter (\<lambda>n. n \<noteq> nodeId rm) (clusterNodes rm)))"
proof -
  have "electionTimeout rm < 2 ^ 63 - 1" using assms(2) by (simp add: timeout_ok_def Millisecond_def)
  then have "time_Since now time_zero > electionTimeout rm" using time_Since_zero [OF assms(3)] by simp
  moreover have "clusterNodes (rm\<lparr>state := RaftStateFollower, lastHeartbeat := time_zero\<rparr>) =
      clusterNodes rm" by (rule clusterNodes_cong) simp
  ultimately show ?thesis
    using assms(1) by (simp add: forceElection_def electionTimerFired_def startElection_eq)
qed

section \<open>Messages\<close>

text \<open>A vote request carries the candidate's term and log position faithfully: read back
  with \<open>strconv.ParseInt\<close>, its fields give the arguments of \<open>HandleVoteRequest\<close>.\<close>

lemma voteRequest_fields:
  assumes "in64 (currentTerm rm)" "in64 (int (length (rlog rm)))" "in64 (lastLogTerm (rlog rm))"
  shows "voteRequest rm n ''candidateId'' = Some (nodeId rm) \<and>
    Option.bind (voteRequest rm n ''term'') ParseInt = Some (currentTerm rm) \<and>
    Option.bind (voteRequest rm n ''lastLogIndex'') ParseInt = Some (int (length (rlog rm))) \<and>
    Option.bind (voteRequest rm n ''lastLogTerm'') ParseInt = Some (lastLogTerm (rlog rm))"
proof -
  have zero: "ParseInt ''0'' = Some 0"
    by (simp add: ParseInt_def parse_unsigned_def read_nat_def is_digit_def digit_val_def in64_def)
  show ?thesis
    using assms by (auto simp: voteRequest_def Let_def lastLogTerm_def last_conv_nth zero)
qed

text \<open>(C39) The first heartbeat of a new leader describes the end of its log: for every other
  member, \<open>becomeLeader\<close> sets \<open>nextIndex\<close> one past the log and \<open>matchIndex\<close> to 0, and
  the message built for that member carries the length of the log and the term of its last entry
  as the previous entry, as decimal numbers that parse back. The log is shorter than the largest 64-bit number and
  the last term fits 64 bits.\<close>

theorem becomeLeader_first_heartbeat:
  assumes "n \<in> set (clusterNodes rm)" "n \<noteq> nodeId rm" "int (length (rlog rm)) < 2 ^ 63 - 1"
    and "in64 (lastLogTerm (rlog rm))"
  shows "let rm' = fst (becomeLeader api rm s) in
    nextIndex rm' n = Some (int (length (rlog rm)) + 1) \<and> matchIndex rm' n = Some 0 \<and>
    Option.bind (appendEntriesMessage rm' n [] ''prevLogIndex'') ParseInt =
      Some (int (length (rlog rm))) \<and>
    Option.bind (appendEntriesMessage rm' n [] ''prevLogTerm'') ParseInt = Some (lastLogTerm (rlog rm))"
proof -
  have w: "wrap64 (int (length (rlog rm)) + 1) = int (length (rlog rm)) + 1"
    "wrap64 (int (length (rlog rm))) = int (length (rlog rm))" "in64 (int (length (rlog rm)))"
    using assms(3) by (simp_all add: in64_def)
  have nat: "nat (int (length (rlog rm)) - 1) = length (rlog rm) - 1" by simp
  have m: "map_get 0 (nextIndex (fst (becomeLeader api rm s))) n = int (length (rlog rm)) + 1"
    using assms(1,2) w(1) by (simp add: map_get_def becomeLeader_indexes)
  show ?thesis
    using assms(1,2,4) w m nat
    by (auto simp: Let_def becomeLeader_indexes appendEntriesMessage_def lastLogTerm_def last_conv_nth)
qed

theorem becomeLeader_first_heartbeat_witness:
  "let rm' = fst (becomeLeader nil_api (sample_rm\<lparr>rlog := [entry1, entry2]\<rparr>) ()) in
     nextIndex rm' ''mysqlcluster-sample-1'' = Some 3 \<and>
     Option.bind (appendEntriesMessage rm' ''mysqlcluster-sample-1'' [] ''prevLogIndex'') ParseInt = Some 2"
proof -
  let ?rm = "sample_rm\<lparr>rlog := [entry1, entry2]\<rparr>"
  have "''mysqlcluster-sample-1'' \<in> set (clusterNodes ?rm)"
    unfolding sample_rm_def by code_simp
  from becomeLeader_first_heartbeat [OF this, of nil_api "()"] show ?thesis
    by (simp add: Let_def lastLogTerm_def in64_def)
qed

text \<open>An AppendEntries message does not carry its entries: two requests with as many
  entries, whatever the entries are, produce the same message, so no receiver can extend its log
  from it.\<close>

lemma append_message_has_no_entries:
  "length es = length es' \<Longrightarrow> appendEntriesMessage rm n es = appendEntriesMessage rm n es'"
  by (simp add: appendEntriesMessage_def)

end
