(* ===== verification/Raft_Cluster.thy ===== *)
theory Raft_Cluster
  imports Raft_Node
begin

text \<open>
  Several Raft managers and the goroutines they start, interleaved. The state holds the managers
  by node id, the \<open>votes\<close>/\<open>majority\<close> variables of every election started so far, the
  goroutines that have not finished, and the world of the Kubernetes client. A vote goroutine of
  \<open>startElection\<close> has two sections: \<open>sendVoteRequest\<close> without the lock, which reads the
  manager as it is when it runs, and, when that returned true, the counting section under the
  lock. Which goroutine runs next is not determined. Requests reach the handlers in any order
  and with any arguments. \<open>owner\<close>, \<open>electorate\<close> and \<open>sent\<close> are ghosts: whose election
  it is, the members it was held among, and the vote requests whose ConfigMap was created.

  The invariant shows what leadership rests on here: a leader created vote-request messages for
  a majority. It does not rest on votes: the run at the end has two leaders in one term.
\<close>

section \<open>States and steps\<close>

datatype task =
    AskVote string nat string
  | CountVote string nat string
  | Heartbeat string string

record 's net =
  managers :: "string \<rightharpoonup> RaftManager"
  ballots :: "nat \<Rightarrow> Ballot"
  nballots :: nat
  tasks :: "task list"
  world :: 's
  owner :: "nat \<Rightarrow> string"
  electorate :: "nat \<Rightarrow> string list"
  sent :: "(nat \<times> string) list"

datatype 's net_event =
    Tick string gotime nat
  | Beat string
  | RunTask nat
  | RecvVote string gotime string int64 int64 int64
  | RecvAppend string gotime string int64 int64 int64 "RaftLogEntry list" int64
  | Failover string
  | World 's

fun run_task :: "'s k8s \<Rightarrow> task \<Rightarrow> 's net \<Rightarrow> 's net option" where
  "run_task api (AskVote n k m) s = (case managers s n of None \<Rightarrow> None | Some rm \<Rightarrow>
     (case sendVoteRequest api rm m (world s) of (created, w) \<Rightarrow>
        if created then Some (s\<lparr>tasks := tasks s @ [CountVote n k m], sent := sent s @ [(k, m)],
                                world := w\<rparr>)
        else Some (s\<lparr>world := w\<rparr>)))"
| "run_task api (CountVote n k m) s = (case managers s n of None \<Rightarrow> None | Some rm \<Rightarrow>
     (case voteCounted api (ballots s k) rm (world s) of (b, rm', hb, w) \<Rightarrow>
        Some (s\<lparr>managers := (managers s)(n \<mapsto> rm'), ballots := (ballots s)(k := b),
                tasks := tasks s @ map (Heartbeat n) hb, world := w\<rparr>)))"
| "run_task api (Heartbeat n m) s = (case managers s n of None \<Rightarrow> None | Some rm \<Rightarrow>
     (case sendAppendEntries api rm m [] (world s) of (ok, w) \<Rightarrow> Some (s\<lparr>world := w\<rparr>)))"

definition start_ballot ::
    "string \<Rightarrow> RaftManager \<Rightarrow> (Ballot \<times> string list) option \<Rightarrow> 's net \<Rightarrow> 's net" where
  "start_ballot n rm bo s = (case bo of None \<Rightarrow> s | Some (b, targets) \<Rightarrow>
     s\<lparr>ballots := (ballots s)(nballots s := b), nballots := Suc (nballots s),
       tasks := tasks s @ map (AskVote n (nballots s)) targets,
       owner := (owner s)(nballots s := n),
       electorate := (electorate s)(nballots s := clusterNodes rm)\<rparr>)"

fun net_do :: "'s k8s \<Rightarrow> 's net_event \<Rightarrow> 's net \<Rightarrow> 's net option" where
  "net_do api (Tick n now r) s = (case managers s n of None \<Rightarrow> None | Some rm \<Rightarrow>
     (case electionTimerFired now r rm of (rm', bo) \<Rightarrow>
        Some (start_ballot n rm bo (s\<lparr>managers := (managers s)(n \<mapsto> rm')\<rparr>))))"
| "net_do api (Beat n) s = (case managers s n of None \<Rightarrow> None | Some rm \<Rightarrow>
     Some (s\<lparr>tasks := tasks s @ map (Heartbeat n) (heartbeatTimerFired rm)\<rparr>))"
| "net_do api (RunTask i) s =
     (if i < length (tasks s)
      then run_task api (tasks s ! i) (s\<lparr>tasks := take i (tasks s) @ drop (Suc i) (tasks s)\<rparr>)
      else None)"
| "net_do api (RecvVote n now c t li lt) s = (case managers s n of None \<Rightarrow> None | Some rm \<Rightarrow>
     Some (s\<lparr>managers := (managers s)(n \<mapsto> snd (HandleVoteRequest now c t li lt rm))\<rparr>))"
| "net_do api (RecvAppend n now l t pi pt es lc) s = (case managers s n of None \<Rightarrow> None | Some rm \<Rightarrow>
     Some (s\<lparr>managers := (managers s)(n \<mapsto> snd (HandleAppendEntries now l t pi pt es lc rm))\<rparr>))"
| "net_do api (Failover n) s = (case managers s n of None \<Rightarrow> None | Some rm \<Rightarrow>
     Some (s\<lparr>managers := (managers s)(n \<mapsto> forceElection rm)\<rparr>))"
| "net_do api (World w) s = Some (s\<lparr>world := w\<rparr>)"

text \<open>The start: new managers, each with its own node id, and no election yet.\<close>

definition net_start :: "'s net \<Rightarrow> bool" where
  "net_start s \<longleftrightarrow> nballots s = 0 \<and> tasks s = [] \<and> sent s = [] \<and>
     (\<forall>n rm. managers s n = Some rm \<longrightarrow> (\<exists>c r now. rm = NewRaftManager n c r now))"

inductive reachable :: "'s k8s \<Rightarrow> 's net \<Rightarrow> bool" for api where
  start: "net_start s \<Longrightarrow> reachable api s"
| step: "reachable api s \<Longrightarrow> net_do api e s = Some s' \<Longrightarrow> reachable api s'"

inductive_simps reachable_iff: "reachable api s"

text \<open>A scripted run, for concrete executions.\<close>

fun net_run :: "'s k8s \<Rightarrow> 's net_event list \<Rightarrow> 's net \<Rightarrow> 's net option" where
  "net_run api [] s = Some s"
| "net_run api (e # es) s = Option.bind (net_do api e s) (net_run api es)"

lemma reachable_run: "\<lbrakk>reachable api s; net_run api es s = Some s'\<rbrakk> \<Longrightarrow> reachable api s'"
proof (induction es arbitrary: s)
  case (Cons e es)
  then obtain u where "net_do api e s = Some u" "net_run api es u = Some s'"
    by (auto simp: bind_eq_Some_conv)
  with Cons show ?case by (blast intro: reachable.step)
qed simp

section \<open>The invariant\<close>

fun asks1 :: "nat \<Rightarrow> task \<Rightarrow> string list" where
  "asks1 k (AskVote n k' m) = (if k' = k then [m] else [])"
| "asks1 k t = []"

fun counts1 :: "nat \<Rightarrow> task \<Rightarrow> nat" where
  "counts1 k (CountVote n k' m) = (if k' = k then 1 else 0)"
| "counts1 k t = 0"

definition asks :: "nat \<Rightarrow> task list \<Rightarrow> string list" where
  "asks k ts = concat (map (asks1 k) ts)"

definition counts :: "nat \<Rightarrow> task list \<Rightarrow> nat" where
  "counts k ts = sum_list (map (counts1 k) ts)"

definition asked :: "nat \<Rightarrow> (nat \<times> string) list \<Rightarrow> string list" where
  "asked k ps = map snd (filter (\<lambda>p. fst p = k) ps)"

fun task_ok :: "'s net \<Rightarrow> task \<Rightarrow> bool" where
  "task_ok s (AskVote n k m) \<longleftrightarrow> k < nballots s \<and> owner s k = n"
| "task_ok s (CountVote n k m) \<longleftrightarrow> k < nballots s \<and> owner s k = n"
| "task_ok s (Heartbeat n m) \<longleftrightarrow> True"

definition ballot_ok :: "'s net \<Rightarrow> nat \<Rightarrow> bool" where
  "ballot_ok s k \<longleftrightarrow>
     majority (ballots s k) = int (length (electorate s k)) div 2 + 1 \<and>
     votes (ballots s k) + int (counts k (tasks s)) = 1 + int (length (asked k (sent s))) \<and>
     distinct (electorate s k) \<and> distinct (asks k (tasks s) @ asked k (sent s)) \<and>
     set (asks k (tasks s) @ asked k (sent s)) \<subseteq> set (electorate s k) - {owner s k}"

definition leader_ok :: "'s net \<Rightarrow> string \<Rightarrow> bool" where
  "leader_ok s n \<longleftrightarrow>
     (\<exists>k < nballots s. owner s k = n \<and> majority (ballots s k) \<le> votes (ballots s k))"

definition net_inv :: "'s net \<Rightarrow> bool" where
  "net_inv s \<longleftrightarrow>
     (\<forall>n rm. managers s n = Some rm \<longrightarrow>
        nodeId rm = n \<and> (state rm = RaftStateLeader \<longrightarrow> leader_ok s n)) \<and>
     (\<forall>t \<in> set (tasks s). task_ok s t) \<and> (\<forall>p \<in> set (sent s). fst p < nballots s) \<and>
     (\<forall>k < nballots s. ballot_ok s k)"

lemma asks_simps [simp]:
  "asks k [] = []" "asks k (t # ts) = asks1 k t @ asks k ts" "asks k (ts @ us) = asks k ts @ asks k us"
  "asks k (map (Heartbeat n) ms) = []"
  by (simp_all add: asks_def)

lemma counts_simps [simp]:
  "counts k [] = 0" "counts k (t # ts) = counts1 k t + counts k ts"
  "counts k (ts @ us) = counts k ts + counts k us"
  "counts k (map (Heartbeat n) ms) = 0" "counts k (map (AskVote n j) ms) = 0"
  by (simp_all add: counts_def)

lemma asks_AskVote [simp]: "asks k (map (AskVote n j) ms) = (if j = k then ms else [])"
  by (induction ms) (simp_all add: asks_def)

lemma asked_simps [simp]:
  "asked k [] = []" "asked k (ps @ qs) = asked k ps @ asked k qs"
  "asked k [(j, m)] = (if j = k then [m] else [])"
  by (simp_all add: asked_def)

lemma net_invD:
  assumes "net_inv s"
  shows "managers s n = Some rm \<Longrightarrow> nodeId rm = n"
    and "\<lbrakk>managers s n = Some rm; state rm = RaftStateLeader\<rbrakk> \<Longrightarrow> leader_ok s n"
    and "t \<in> set (tasks s) \<Longrightarrow> task_ok s t"
    and "p \<in> set (sent s) \<Longrightarrow> fst p < nballots s"
    and "k < nballots s \<Longrightarrow> ballot_ok s k"
  using assms by (simp_all add: net_inv_def)

lemma net_invI:
  assumes "\<And>n rm. managers s n = Some rm \<Longrightarrow> nodeId rm = n"
    and "\<And>n rm. \<lbrakk>managers s n = Some rm; state rm = RaftStateLeader\<rbrakk> \<Longrightarrow> leader_ok s n"
    and "\<And>t. t \<in> set (tasks s) \<Longrightarrow> task_ok s t"
    and "\<And>p. p \<in> set (sent s) \<Longrightarrow> fst p < nballots s"
    and "\<And>k. k < nballots s \<Longrightarrow> ballot_ok s k"
  shows "net_inv s"
  using assms by (simp add: net_inv_def)

lemma net_inv_start: "net_start s \<Longrightarrow> net_inv s"
  by (fastforce simp: net_start_def net_inv_def)

text \<open>A step that only replaces one manager.\<close>

lemma ballot_ok_cong:
  assumes "ballots s' k = ballots s k" "electorate s' k = electorate s k" "owner s' k = owner s k"
    "tasks s' = tasks s" "sent s' = sent s"
  shows "ballot_ok s' k = ballot_ok s k"
  using assms by (simp add: ballot_ok_def)

lemma net_inv_manager:
  assumes "net_inv s" "managers s n = Some rm" "nodeId rm' = nodeId rm"
    "state rm' = RaftStateLeader \<longrightarrow> state rm = RaftStateLeader"
  shows "net_inv (s\<lparr>managers := (managers s)(n \<mapsto> rm')\<rparr>)"
proof -
  let ?s = "s\<lparr>managers := (managers s)(n \<mapsto> rm')\<rparr>"
  have t: "task_ok ?s t = task_ok s t" for t by (cases t) simp_all
  have b: "ballot_ok ?s k = ballot_ok s k" for k by (rule ballot_ok_cong) simp_all
  have l: "leader_ok ?s m = leader_ok s m" for m by (simp add: leader_ok_def)
  show ?thesis using assms by (auto simp: net_inv_def t b l)
qed

lemma HandleVoteRequest_node:
  "nodeId (snd (HandleVoteRequest now c t li lt rm)) = nodeId rm"
  "state (snd (HandleVoteRequest now c t li lt rm)) = RaftStateLeader \<Longrightarrow> state rm = RaftStateLeader"
  by (auto simp: HandleVoteRequest_def Let_def split: if_splits)

lemma HandleAppendEntries_node:
  "nodeId (snd (HandleAppendEntries now l t pi pt es lc rm)) = nodeId rm"
  "state (snd (HandleAppendEntries now l t pi pt es lc rm)) = RaftStateLeader
     \<Longrightarrow> state rm = RaftStateLeader"
  by (rule HandleAppendEntries_cases [of t rm now l pi pt es lc]; simp)+

lemma forceElection_node:
  "nodeId (forceElection rm) = nodeId rm"
  "state (forceElection rm) = RaftStateLeader \<Longrightarrow> state rm = RaftStateLeader"
  by (auto simp: forceElection_def split: if_splits)

lemma net_inv_world: "net_inv s \<Longrightarrow> net_inv (s\<lparr>world := w\<rparr>)"
proof -
  have t: "task_ok (s\<lparr>world := w\<rparr>) t = task_ok s t" for t by (cases t) simp_all
  have b: "ballot_ok (s\<lparr>world := w\<rparr>) k = ballot_ok s k" for k by (rule ballot_ok_cong) simp_all
  have l: "leader_ok (s\<lparr>world := w\<rparr>) m = leader_ok s m" for m by (simp add: leader_ok_def)
  show "net_inv s \<Longrightarrow> ?thesis" by (simp add: net_inv_def t b l)
qed

lemma net_inv_heartbeats:
  assumes "net_inv s" shows "net_inv (s\<lparr>tasks := tasks s @ map (Heartbeat n) hb\<rparr>)"
proof -
  let ?s = "s\<lparr>tasks := tasks s @ map (Heartbeat n) hb\<rparr>"
  have t: "task_ok ?s t = task_ok s t" for t by (cases t) simp_all
  have b: "ballot_ok ?s k = ballot_ok s k" for k by (simp add: ballot_ok_def)
  have l: "leader_ok ?s m = leader_ok s m" for m by (simp add: leader_ok_def)
  show ?thesis using assms by (auto simp: net_inv_def t b l)
qed

text \<open>An election starts.\<close>

lemma net_inv_start_ballot:
  assumes "net_inv s" and id: "nodeId rm = n"
    and b: "majority b = int (length (clusterNodes rm)) div 2 + 1" "votes b = 1"
  shows "net_inv (start_ballot n rm (Some (b, filter (\<lambda>m. m \<noteq> nodeId rm) (clusterNodes rm))) s)"
    (is "net_inv ?s")
proof -
  let ?k = "nballots s"
  have old: "task_ok ?s t" if "t \<in> set (tasks s)" for t
    using net_invD(3) [OF assms(1) that] by (cases t) (auto simp: start_ballot_def)
  have ballot: "ballot_ok ?s k" if "k < nballots s" for k
    using net_invD(5) [OF assms(1) that] that by (simp add: ballot_ok_def start_ballot_def)
  have none: "asks ?k (tasks s) = []" "counts ?k (tasks s) = 0"
    using net_invD(3) [OF assms(1)] unfolding asks_def counts_def
    by (fastforce simp: concat_eq_Nil_conv elim!: task_ok.elims asks1.elims counts1.elims)+
  have none': "asked ?k (sent s) = []"
    using net_invD(4) [OF assms(1)] by (fastforce simp: asked_def filter_empty_conv)
  have new: "ballot_ok ?s ?k"
    using b none none' id by (auto simp: ballot_ok_def start_ballot_def)
  have leader: "leader_ok ?s m" if "leader_ok s m" for m
    using that unfolding leader_ok_def start_ballot_def
    by (auto simp: less_Suc_eq) (metis nat_neq_iff)
  have sent: "fst p < nballots ?s" if "p \<in> set (sent ?s)" for p
    using net_invD(4) [OF assms(1), of p] that by (simp add: start_ballot_def)
  show ?thesis
    unfolding net_inv_def
    using assms(1) old ballot new leader sent
    by (auto simp: start_ballot_def less_Suc_eq net_invD(1,2))
qed

lemma net_inv_tick:
  assumes "net_inv s" "managers s n = Some rm" "electionTimerFired now r rm = (rm', bo)"
  shows "net_inv (start_ballot n rm bo (s\<lparr>managers := (managers s)(n \<mapsto> rm')\<rparr>))"
proof (cases bo)
  case None
  with assms(3) have "rm' = rm"
    by (auto simp: electionTimerFired_def startElection_eq split: if_splits)
  with None assms net_inv_manager [OF assms(1,2), of rm] show ?thesis
    by (simp add: start_ballot_def)
next
  case (Some p)
  with assms(3) have rm': "state rm' = RaftStateCandidate" "nodeId rm' = nodeId rm"
    and p: "p = (\<lparr>votes = 1, majority = int (length (clusterNodes rm)) div 2 + 1\<rparr>,
                filter (\<lambda>m. m \<noteq> nodeId rm) (clusterNodes rm))"
    by (auto simp: electionTimerFired_def startElection_eq split: if_splits)
  have "net_inv (s\<lparr>managers := (managers s)(n \<mapsto> rm')\<rparr>)"
    using net_inv_manager [OF assms(1,2)] rm' by simp
  then show ?thesis
    unfolding Some p by (rule net_inv_start_ballot) (simp_all add: net_invD(1) [OF assms(1,2)])
qed

text \<open>A goroutine runs one section.\<close>

lemma net_inv_drop_task:
  assumes "net_inv s" "tasks s = pre @ t # post" "\<And>k. counts1 k t = 0"
  shows "net_inv (s\<lparr>tasks := pre @ post, world := w\<rparr>)" (is "net_inv ?s")
proof -
  have t: "task_ok ?s u" if "u \<in> set (tasks s)" for u
    using net_invD(3) [OF assms(1) that] by (cases u) simp_all
  have b: "ballot_ok ?s k" if "k < nballots s" for k
    using net_invD(5) [OF assms(1) that] by (auto simp: ballot_ok_def assms(2,3))
  have l: "leader_ok ?s m = leader_ok s m" for m by (simp add: leader_ok_def)
  show ?thesis
    using assms(1) t b by (auto simp: net_inv_def l assms(2))
qed

lemma net_inv_asked:
  assumes "net_inv s" "tasks s = pre @ AskVote n k m # post"
  shows "net_inv (s\<lparr>tasks := (pre @ post) @ [CountVote n k m], sent := sent s @ [(k, m)],
                   world := w\<rparr>)" (is "net_inv ?s")
proof -
  have k: "k < nballots s" "owner s k = n" using net_invD(3) [OF assms(1), of "AskVote n k m"] assms(2) by auto
  have t: "task_ok ?s u" if "u \<in> set (tasks s)" for u
    using net_invD(3) [OF assms(1) that] by (cases u) simp_all
  have b: "ballot_ok ?s j" if "j < nballots s" for j
  proof (cases "j = k")
    case True
    with net_invD(5) [OF assms(1) that] show ?thesis
      by (simp add: ballot_ok_def assms(2))
  next
    case False
    with net_invD(5) [OF assms(1) that] show ?thesis by (simp add: ballot_ok_def assms(2))
  qed
  have l: "leader_ok ?s j = leader_ok s j" for j by (simp add: leader_ok_def)
  show ?thesis
  proof (rule net_invI)
    show "task_ok ?s u" if "u \<in> set (tasks ?s)" for u
      using that t [of u] k by (auto simp: assms(2))
    show "fst p < nballots ?s" if "p \<in> set (sent ?s)" for p
      using that net_invD(4) [OF assms(1), of p] k by auto
  qed (use b l net_invD(1,2) [OF assms(1)] in simp_all)
qed

lemma net_inv_counted:
  assumes "net_inv s" "tasks s = pre @ CountVote n k m # post" "managers s n = Some rm"
    and v: "voteCounted api (ballots s k) rm w = (b, rm', hb, w')"
  shows "net_inv (s\<lparr>managers := (managers s)(n \<mapsto> rm'), ballots := (ballots s)(k := b),
      tasks := (pre @ post) @ map (Heartbeat n) hb, world := w'\<rparr>)"
    (is "net_inv ?s")
proof -
  have k: "k < nballots s" "owner s k = n"
    using net_invD(3) [OF assms(1), of "CountVote n k m"] assms(2) by auto
  have b: "b = (ballots s k)\<lparr>votes := votes (ballots s k) + 1\<rparr>" "nodeId rm' = nodeId rm"
    and new: "state rm' = RaftStateLeader \<Longrightarrow>
        state rm = RaftStateLeader \<or> majority (ballots s k) \<le> votes (ballots s k) + 1"
    using v by (auto elim!: voteCounted_cases)
  have t: "task_ok ?s u" if "u \<in> set (tasks s)" for u
    using net_invD(3) [OF assms(1) that] by (cases u) simp_all
  have ballot: "ballot_ok ?s j" if "j < nballots s" for j
    using net_invD(5) [OF assms(1) that] by (auto simp: ballot_ok_def assms(2) b(1))
  have l: "leader_ok ?s j" if "leader_ok s j" for j
    using that by (fastforce simp: leader_ok_def b(1))
  have "leader_ok ?s n" if "state rm' = RaftStateLeader"
  proof (cases "state rm = RaftStateLeader")
    case True
    then show ?thesis by (intro l net_invD(2) [OF assms(1,3)])
  next
    case False
    with new [OF that] k show ?thesis unfolding leader_ok_def by (intro exI [of _ k]) (simp add: b(1))
  qed
  moreover have "nodeId rm' = n" using b(2) net_invD(1) [OF assms(1,3)] by simp
  ultimately show ?thesis
  proof (intro net_invI)
    show "task_ok ?s u" if "u \<in> set (tasks ?s)" for u
      using that t [of u] by (auto simp: assms(2))
    show "nodeId rm = j" if "managers ?s j = Some rm" for j rm
      using that \<open>nodeId rm' = n\<close> net_invD(1) [OF assms(1)] by (auto split: if_splits)
  qed (use ballot l net_invD(2,4) [OF assms(1)] in \<open>auto split: if_splits\<close>)
qed

lemma net_inv_run_task:
  assumes "net_inv s" "tasks s = pre @ t # post"
    and "run_task api t (s\<lparr>tasks := pre @ post\<rparr>) = Some s'"
  shows "net_inv s'"
proof (cases t)
  case (AskVote n k m)
  with assms net_inv_asked [OF assms(1)] net_inv_drop_task [OF assms(1,2)] show ?thesis
    by (auto split: option.splits prod.splits if_splits)
next
  case (CountVote n k m)
  with assms obtain rm where rm: "managers s n = Some rm" by (auto split: option.splits)
  obtain b rm' hb w where "voteCounted api (ballots s k) rm (world s) = (b, rm', hb, w)"
    by (cases "voteCounted api (ballots s k) rm (world s)") auto
  with net_inv_counted [OF assms(1) assms(2) [unfolded CountVote] rm this] CountVote assms(3) rm
  show ?thesis by simp
next
  case (Heartbeat n m)
  with assms net_inv_drop_task [OF assms(1,2)] show ?thesis
    by (auto split: option.splits prod.splits)
qed

lemma net_inv_step:
  assumes "net_inv s" "net_do api e s = Some s'"
  shows "net_inv s'"
proof (cases e)
  case (RunTask i)
  with assms(2) have "i < length (tasks s)"
    "run_task api (tasks s ! i) (s\<lparr>tasks := take i (tasks s) @ drop (Suc i) (tasks s)\<rparr>) = Some s'"
    by (auto split: if_splits)
  then show ?thesis using net_inv_run_task [OF assms(1) id_take_nth_drop] by blast
next
  case (Tick n now r)
  with assms net_inv_tick [OF assms(1)] show ?thesis by (auto split: option.splits prod.splits)
next
  case (Beat n)
  with assms net_inv_heartbeats [OF assms(1)] show ?thesis by (auto split: option.splits)
next
  case (RecvVote n now c t li lt)
  with assms(2) obtain rm where "managers s n = Some rm"
    "s' = s\<lparr>managers := (managers s)(n \<mapsto> snd (HandleVoteRequest now c t li lt rm))\<rparr>"
    by (auto split: option.splits)
  with net_inv_manager [OF assms(1)] HandleVoteRequest_node show ?thesis by blast
next
  case (RecvAppend n now l t pi pt es lc)
  with assms(2) obtain rm where "managers s n = Some rm"
    "s' = s\<lparr>managers := (managers s)(n \<mapsto> snd (HandleAppendEntries now l t pi pt es lc rm))\<rparr>"
    by (auto split: option.splits)
  with net_inv_manager [OF assms(1)] HandleAppendEntries_node show ?thesis by blast
next
  case (Failover n)
  with assms(2) obtain rm where "managers s n = Some rm"
    "s' = s\<lparr>managers := (managers s)(n \<mapsto> forceElection rm)\<rparr>"
    by (auto split: option.splits)
  with net_inv_manager [OF assms(1)] forceElection_node show ?thesis by blast
next
  case (World w)
  with assms net_inv_world [OF assms(1)] show ?thesis by auto
qed

lemma reachable_inv: "reachable api s \<Longrightarrow> net_inv s"
  by (induction rule: reachable.induct) (auto intro: net_inv_start net_inv_step)

section \<open>What leadership rests on\<close>

text \<open>The majority of an election, over the members it was held among, is a quorum.\<close>

interpretation majority_quorum: quorum "set nodes" "length nodes div 2 + 1" for nodes :: "string list"
proof
  have "card (set nodes) \<le> length nodes" by (rule card_length)
  also have "\<dots> < 2 * (length nodes div 2 + 1)" by arith
  finally show "card (set nodes) < 2 * (length nodes div 2 + 1)" .
qed simp

definition supporters :: "'s net \<Rightarrow> nat \<Rightarrow> string set" where
  "supporters s k = insert (owner s k) (set (asked k (sent s)))"

lemma leader_support:
  assumes "net_inv s" "managers s n = Some rm" "state rm = RaftStateLeader"
  shows "\<exists>k < nballots s. owner s k = n \<and>
    length (electorate s k) div 2 + 1 \<le> card (supporters s k) \<and>
    supporters s k \<subseteq> insert n (set (electorate s k))"
proof -
  obtain k where k: "k < nballots s" "owner s k = n" "majority (ballots s k) \<le> votes (ballots s k)"
    using net_invD(2) [OF assms] by (auto simp: leader_ok_def)
  have b: "ballot_ok s k" using net_invD(5) [OF assms(1) k(1)] .
  then have d: "distinct (asked k (sent s))" "owner s k \<notin> set (asked k (sent s))"
    "set (asked k (sent s)) \<subseteq> set (electorate s k)"
    by (auto simp: ballot_ok_def)
  have "card (supporters s k) = 1 + length (asked k (sent s))"
    using d by (simp add: supporters_def distinct_card)
  moreover have "int (length (electorate s k) div 2 + 1) \<le> 1 + int (length (asked k (sent s)))"
    using b k(3) by (simp add: ballot_ok_def zdiv_int)
  ultimately show ?thesis
    using k d(3) by (intro exI [of _ k]) (auto simp: supporters_def)
qed

text \<open>(C6) In every reachable state of any number of managers, a leader holds an election of its
  own whose vote requests were created for enough members: with its own vote they make up at
  least the majority \<open>length nodes / 2 + 1\<close> of the members listed when the election started.\<close>

theorem leader_asked_majority:
  assumes "reachable api s" "managers s n = Some rm" "state rm = RaftStateLeader"
  shows "\<exists>k < nballots s. owner s k = n \<and>
    length (electorate s k) div 2 + 1 \<le> card (supporters s k) \<and>
    supporters s k \<subseteq> insert n (set (electorate s k))"
  using reachable_inv [OF assms(1)] assms(2,3) by (rule leader_support)

text \<open>A run of two managers of the sample cluster, with a client that creates every ConfigMap.\<close>

definition two_managers :: "unit net" where
  "two_managers =
     \<lparr>managers = [''mysqlcluster-sample-0'' \<mapsto>
                    NewRaftManager ''mysqlcluster-sample-0'' sample_cluster 0 0,
                  ''mysqlcluster-sample-1'' \<mapsto>
                    NewRaftManager ''mysqlcluster-sample-1'' sample_cluster 0 0],
      ballots = (\<lambda>_. \<lparr>votes = 0, majority = 0\<rparr>), nballots = 0, tasks = [], world = (),
      owner = (\<lambda>_. []), electorate = (\<lambda>_. []), sent = []\<rparr>"

abbreviation both_elected :: "unit net_event list" where
  "both_elected \<equiv> [Tick ''mysqlcluster-sample-0'' 1000000000 1, Tick ''mysqlcluster-sample-1'' 1000000000 2,
     RunTask 0, RunTask 1, RunTask 2, RunTask 2]"

lemma two_managers_start: "net_start two_managers"
  unfolding net_start_def two_managers_def by (auto split: if_splits)

lemma nil_api_send [simp]: "sendMessage nil_api rm n msg () = (True, ())"
  by (simp add: sendMessage_def nil_api_def Let_def)

lemma sample_nodes:
  "cluster rm = sample_cluster \<Longrightarrow> clusterNodes rm =
     [''mysqlcluster-sample-0'', ''mysqlcluster-sample-1'', ''mysqlcluster-sample-2'']"
  by (simp add: clusterNodes_def sample_cluster_def sample_spec_def named_meta_def nodeName_def
      sprintf_d_def upto.simps show_nat.simps)

definition nil_leader :: "RaftManager \<Rightarrow> RaftManager" where
  "nil_leader rm = fst (becomeLeader nil_api rm ())"

lemma nil_leader_simps [simp]:
  "state (nil_leader rm) = RaftStateLeader" "currentTerm (nil_leader rm) = currentTerm rm"
  by (simp_all add: nil_leader_def)

lemma nil_api_voteCounted:
  "voteCounted nil_api b rm () =
     (if votes b + 1 \<ge> majority b \<and> state rm = RaftStateCandidate
      then (b\<lparr>votes := votes b + 1\<rparr>, nil_leader rm,
            filter (\<lambda>n. n \<noteq> nodeId rm) (clusterNodes rm), ())
      else (b\<lparr>votes := votes b + 1\<rparr>, rm, [], ()))"
  using becomeLeader_simps(7) [of nil_api rm "()"]
  by (auto simp: voteCounted_def Let_def nil_leader_def prod_eq_iff simp del: becomeLeader_simps(7))

lemma both_elected_run:
  "\<exists>s r0 r1. net_run nil_api both_elected two_managers = Some s \<and>
     managers s ''mysqlcluster-sample-0'' = Some r0 \<and> managers s ''mysqlcluster-sample-1'' = Some r1 \<and>
     state r0 = RaftStateLeader \<and> state r1 = RaftStateLeader \<and>
     currentTerm r0 = 1 \<and> currentTerm r1 = 1"
  by (simp add: two_managers_def NewRaftManager_def electionTimerFired_def startElection_eq
      sample_nodes time_Since_def randomTimeout_def Millisecond_def start_ballot_def
      sendVoteRequest_def nil_api_voteCounted in64_def)

lemma both_elected_reachable:
  "\<exists>s r0 r1. reachable nil_api s \<and>
     managers s ''mysqlcluster-sample-0'' = Some r0 \<and> managers s ''mysqlcluster-sample-1'' = Some r1 \<and>
     state r0 = RaftStateLeader \<and> state r1 = RaftStateLeader \<and>
     currentTerm r0 = 1 \<and> currentTerm r1 = 1"
  using both_elected_run reachable_run [OF reachable.start [OF two_managers_start]] by blast

theorem leader_asked_majority_witness:
  "\<exists>(s :: unit net) k. owner s k = ''mysqlcluster-sample-0'' \<and>
     length (electorate s k) div 2 + 1 \<le> card (supporters s k)"
proof -
  obtain s :: "unit net" and r0 where "reachable nil_api s"
    "managers s ''mysqlcluster-sample-0'' = Some r0" "state r0 = RaftStateLeader"
    using both_elected_reachable by blast
  from leader_asked_majority [OF this] show ?thesis by blast
qed

text \<open>(C7) Split brain: a state is reachable in which two managers of the sample cluster are both
  leader in term 1. A vote is counted as soon as the request's ConfigMap was created, before any
  other node has answered, so two candidates that both reach the API server both win.\<close>

theorem two_leaders_in_one_term:
  "\<exists>s r0 r1. reachable nil_api s \<and>
     managers s ''mysqlcluster-sample-0'' = Some r0 \<and> managers s ''mysqlcluster-sample-1'' = Some r1 \<and>
     state r0 = RaftStateLeader \<and> state r1 = RaftStateLeader \<and>
     currentTerm r0 = 1 \<and> currentTerm r1 = 1"
  by (rule both_elected_reachable)

section \<open>A single replica\<close>

text \<open>A start in which every manager belongs to a cluster of at most one replica and is that
  replica's node.\<close>

definition lonely :: "RaftManager \<Rightarrow> bool" where
  "lonely rm \<longleftrightarrow> set (clusterNodes rm) \<subseteq> {nodeId rm} \<and> state rm \<noteq> RaftStateLeader"

definition lonely_net :: "'s net \<Rightarrow> bool" where
  "lonely_net s \<longleftrightarrow> tasks s = [] \<and> (\<forall>n rm. managers s n = Some rm \<longrightarrow> lonely rm)"

lemma lonely_cong:
  "\<lbrakk>lonely rm; cluster rm' = cluster rm; nodeId rm' = nodeId rm; state rm' \<noteq> RaftStateLeader\<rbrakk>
   \<Longrightarrow> lonely rm'"
  using clusterNodes_cong [of rm' rm] by (simp add: lonely_def)

lemma lonely_handlers:
  assumes "lonely rm"
  shows "lonely (snd (HandleVoteRequest now c t li lt rm))"
    and "lonely (snd (HandleAppendEntries now l t pi pt es lc rm))"
    and "lonely (forceElection rm)"
    and "lonely (fst (electionTimerFired now r rm))"
proof -
  have nl: "state rm \<noteq> RaftStateLeader" using assms by (simp add: lonely_def)
  show "lonely (snd (HandleVoteRequest now c t li lt rm))"
    using nl by (intro lonely_cong [OF assms]) (auto simp: HandleVoteRequest_def Let_def)
  show "lonely (snd (HandleAppendEntries now l t pi pt es lc rm))"
    by (intro lonely_cong [OF assms]; rule HandleAppendEntries_cases [of t rm now l pi pt es lc])
      (use nl in \<open>simp_all add: follow_def\<close>)
  show "lonely (forceElection rm)"
    using nl by (intro lonely_cong [OF assms]) (auto simp: forceElection_def)
  show "lonely (fst (electionTimerFired now r rm))"
    using nl by (intro lonely_cong [OF assms]) (auto simp: electionTimerFired_def startElection_eq)
qed

lemma lonely_step:
  assumes "lonely_net s" "net_do api e s = Some s'"
  shows "lonely_net s'"
proof (cases e)
  case (Tick n now r)
  with assms(2) obtain rm where rm: "managers s n = Some rm"
    and s': "s' = start_ballot n rm (snd (electionTimerFired now r rm))
      (s\<lparr>managers := (managers s)(n \<mapsto> fst (electionTimerFired now r rm))\<rparr>)"
    by (auto split: option.splits prod.splits)
  have "filter (\<lambda>m. m \<noteq> nodeId rm) (clusterNodes rm) = []"
    using assms(1) rm by (auto simp: lonely_net_def lonely_def filter_empty_conv)
  then have "tasks s' = tasks s"
    unfolding s' by (simp add: electionTimerFired_def startElection_eq start_ballot_def)
  moreover have "managers s' = (managers s)(n \<mapsto> fst (electionTimerFired now r rm))"
    unfolding s' by (simp add: start_ballot_def split: option.splits prod.splits)
  ultimately show ?thesis
    using assms(1) rm lonely_handlers(4) by (auto simp: lonely_net_def split: if_splits)
next
  case (Beat n)
  have "heartbeatTimerFired rm = []" if "lonely rm" for rm
    using that by (simp add: lonely_def heartbeatTimerFired_def)
  with Beat assms show ?thesis by (auto simp: lonely_net_def split: option.splits)
qed (use assms lonely_handlers in
      \<open>auto simp: lonely_net_def split: option.splits if_splits\<close>)

lemma lonely_run: "\<lbrakk>lonely_net s; net_run api es s = Some s'\<rbrakk> \<Longrightarrow> lonely_net s'"
proof (induction es arbitrary: s)
  case (Cons e es)
  then show ?case by (auto simp: bind_eq_Some_conv dest: lonely_step)
qed simp

text \<open>(C18) A cluster of one replica never gets a leader: the check against the majority is made
  only in the goroutines that ask other members, and there are none, so in every run from new
  managers of such a cluster no manager becomes leader, though its own vote is a majority.\<close>

theorem single_replica_never_leads:
  assumes "net_start s" "net_run api es s = Some s'" "managers s' n = Some rm"
    and "\<forall>m rm0. managers s m = Some rm0 \<longrightarrow>
      Replicas (Spec (cluster rm0)) \<le> 1 \<and> m = nodeName (Name (cluster_meta (cluster rm0))) 0"
  shows "state rm \<noteq> RaftStateLeader"
proof -
  have "lonely rm0" if "managers s m = Some rm0" for m rm0
  proof -
    have "nodeId rm0 = m" "state rm0 = RaftStateFollower"
      using assms(1) that by (fastforce simp: net_start_def)+
    moreover have one: "Replicas (Spec (cluster rm0)) \<le> 1"
      and m: "m = nodeName (Name (cluster_meta (cluster rm0))) 0"
      using assms(4) that by blast+
    from one have "clusterNodes rm0 = [] \<or> clusterNodes rm0 = [m]"
      by (cases "Replicas (Spec (cluster rm0)) = 1") (simp_all add: clusterNodes_def m)
    ultimately show ?thesis by (auto simp: lonely_def)
  qed
  with assms(1) have "lonely_net s" by (simp add: lonely_net_def net_start_def)
  with assms(2) have "lonely_net s'" by (rule lonely_run [rotated])
  with assms(3) show ?thesis by (auto simp: lonely_net_def lonely_def)
qed

definition lone_cluster :: MysqlCluster where
  "lone_cluster = sample_cluster\<lparr>Spec := sample_spec\<lparr>Replicas := 1\<rparr>\<rparr>"

definition lone_manager :: "unit net" where
  "lone_manager = two_managers\<lparr>managers :=
     [''mysqlcluster-sample-0'' \<mapsto> NewRaftManager ''mysqlcluster-sample-0'' lone_cluster 0 0]\<rparr>"

lemma lone_manager_members:
  "\<forall>m rm0. managers lone_manager m = Some rm0 \<longrightarrow>
     Replicas (Spec (cluster rm0)) \<le> 1 \<and> m = nodeName (Name (cluster_meta (cluster rm0))) 0"
  by (simp add: lone_manager_def lone_cluster_def sample_cluster_def named_meta_def nodeName_def
      sprintf_d_def show_nat.simps)

theorem single_replica_never_leads_witness:
  "\<exists>s' rm. net_run nil_api [Tick ''mysqlcluster-sample-0'' 1000000000 1] lone_manager = Some s' \<and>
     managers s' ''mysqlcluster-sample-0'' = Some rm \<and> state rm \<noteq> RaftStateLeader"
proof -
  have "net_start lone_manager"
    using two_managers_start by (simp add: net_start_def lone_manager_def) blast
  moreover have "\<exists>s' rm.
    net_run nil_api [Tick ''mysqlcluster-sample-0'' 1000000000 1] lone_manager = Some s' \<and>
    managers s' ''mysqlcluster-sample-0'' = Some rm"
    by (simp add: lone_manager_def two_managers_def NewRaftManager_def electionTimerFired_def
        startElection_eq start_ballot_def time_Since_def randomTimeout_def Millisecond_def)
  ultimately show ?thesis using single_replica_never_leads [OF _ _ _ lone_manager_members] by blast
qed

end
