(* ===== verification/Reconciler.thy ===== *)
theory Reconciler
  imports Raft
begin

text \<open>
  The state of the controller: the struct \<open>MysqlClusterReconciler\<close> of
  \<^verbatim>\<open>src/internal/controller/mysqlcluster_controller.go\<close> and the memory it lives in.
  The reconciler, the GTID snapshot goroutine and the Raft timers share it, so it is part of the
  world \<open>'s\<close>: a \<open>memory\<close> reads and writes it there, and any call that lets time pass may
  change it. The fields \<open>Client\<close>, \<open>Log\<close> and \<open>Scheme\<close> are not state of the program.
  \<open>RaftIntegration\<close> and the monitor hold pointers to the Raft manager and to the cluster
  object the manager holds, so the pointer is modelled by whether it is set.
\<close>

datatype RaftMySQLIntegration = RaftMySQLIntegration

record MysqlClusterReconciler =
  MasterGTIDSnapshot :: string
  SnapGoIsEnabled :: bool
  RaftMgr :: "RaftManager option"
  RaftIntegration :: "RaftMySQLIntegration option"

definition new_reconciler :: MysqlClusterReconciler where
  "new_reconciler = \<lparr>MasterGTIDSnapshot = [], SnapGoIsEnabled = False, RaftMgr = None,
     RaftIntegration = None\<rparr>"

record 's memory =
  load_r :: "'s \<Rightarrow> MysqlClusterReconciler"
  store_r :: "MysqlClusterReconciler \<Rightarrow> 's \<Rightarrow> 's"

text \<open>What a client of the memory relies on: a write is read back.\<close>

locale shared_memory =
  fixes m :: "'s memory"
  assumes load_store: "load_r m (store_r m r s) = r"

end
