(* ===== verification/K8s_Store.thy ===== *)
theory K8s_Store
  imports Reconciler
begin

text \<open>
  What the operator relies on from the API server, as locales over the client record, and an
  in-memory server that provides it.
  \<^item> \<open>reads\<close>, \<open>creates\<close>, \<open>writes\<close>: a preorder along which groups of calls move the world.
  \<^item> \<open>quiet\<close>: a view of the world that reads and calls on other objects do not change.
  \<^item> \<open>pod_store\<close>: the pods are such a view; reads return the stored pod and change nothing; an update that succeeds
    stores the labels it was given under the pod's key and touches no other pod; one that fails
    stores nothing; listing returns exactly the stored pods of the namespace that carry the
    selected labels; a pod is created only under a free
    name and stored with its labels; letting time pass changes no
    pod's labels; calls on other kinds of object and the exec calls leave the pods alone.
  \<^item> \<open>config_store\<close>: the same contract for ConfigMaps.
  \<^item> \<open>exec_store\<close>: in addition to \<open>pod_store\<close>, the commands streamed into pods are recorded in order, and
    nothing else is.
  The laws describe an API server with no other writer between two calls of the operator.
  \<open>mem_api\<close> is the instance: objects in association lists, a schedule of calls that fail, a
  clock, and the log of executed commands.
\<close>

definition pod_key :: "Pod \<Rightarrow> string \<times> string" where
  "pod_key p = (Namespace (pod_meta p), Name (pod_meta p))"

definition pod_label :: "Pod \<Rightarrow> string \<Rightarrow> string option" where
  "pod_label p k = (case Labels (pod_meta p) of None \<Rightarrow> None | Some m \<Rightarrow> m k)"

definition selected :: "(string \<times> string) list \<Rightarrow> Pod \<Rightarrow> bool" where
  "selected sel p \<longleftrightarrow> list_all (\<lambda>(k, v). pod_label p k = Some v) sel"

text \<open>The labels of every stored pod: what the operator's decisions rest on, and what its own
  writes alone change.\<close>

definition labels_at ::
    "('s \<Rightarrow> (string \<times> string) \<rightharpoonup> Pod) \<Rightarrow> 's \<Rightarrow> (string \<times> string) \<rightharpoonup> (string \<rightharpoonup> string) option" where
  "labels_at pods s k = map_option (\<lambda>p. Labels (pod_meta p)) (pods s k)"

section \<open>Contracts\<close>

text \<open>A preorder \<open>R\<close> along which calls move the world: \<open>reads\<close> for the reads, the calls on objects other than
  pods and the exec calls; \<open>creates\<close> in addition for creating a pod labelled \<open>app=mysql\<close> and for letting time pass, in which other
  goroutines may run; \<open>writes\<close> in addition for the calls on the custom resource and for updating a pod that was read before
  (\<open>fresh\<close>) with no label but \<open>role\<close> changed. What the operator does through these
  calls alone moves the world along \<open>R\<close>: this is shown once per operation, and an invariant, a frame or a
  monotone view of the world is an instance.\<close>

locale reads =
  fixes api :: "'s k8s"
    and R :: "'s \<Rightarrow> 's \<Rightarrow> bool"
  assumes R_refl: "reflp R"
    and R_trans: "transp R"
    and get_pod_moves: "Get_Pod api ns n s = (r, s') \<Longrightarrow> R s s'"
    and list_pods_moves: "List_Pods api ns sel s = (rl, s') \<Longrightarrow> R s s'"
    and get_endpoints_moves: "Get_Endpoints api ns n s = (re, s') \<Longrightarrow> R s s'"
    and get_service_moves: "Get_Service api ns n s = (rs, s') \<Longrightarrow> R s s'"
    and create_service_moves: "Create_Service api sv s = (w, s') \<Longrightarrow> R s s'"
    and get_configmap_moves: "Get_ConfigMap api ns n s = (rc, s') \<Longrightarrow> R s s'"
    and create_configmap_moves: "Create_ConfigMap api cm s = (w, s') \<Longrightarrow> R s s'"
    and get_pvc_moves: "Get_PVC api ns n s = (rv, s') \<Longrightarrow> R s s'"
    and create_pvc_moves: "Create_PVC api pvc s = (w, s') \<Longrightarrow> R s s'"
    and config_moves: "InClusterConfig api s = (w, s') \<Longrightarrow> R s s'"
    and client_moves: "NewForConfig api s = (w, s') \<Longrightarrow> R s s'"
    and executor_moves: "NewSPDYExecutor api ns n cn cmd s = (w, s') \<Longrightarrow> R s s'"
    and stream_moves: "Stream api ns n cn cmd s = (out, s') \<Longrightarrow> R s s'"

locale creates = reads api R for api :: "'s k8s" and R :: "'s \<Rightarrow> 's \<Rightarrow> bool" +
  assumes create_pod_moves: "Create_Pod api p s = (w, s') \<Longrightarrow>
      Labels (pod_meta p) = Some [''app'' \<mapsto> ''mysql''] \<Longrightarrow> R s s'"
    and sleep_moves: "R s (Sleep api d s)"

locale writes = creates api R for api :: "'s k8s" and R :: "'s \<Rightarrow> 's \<Rightarrow> bool" +
  fixes fresh :: "'s \<Rightarrow> Pod \<Rightarrow> bool"
  assumes fresh_moves: "R s t \<Longrightarrow> fresh s p \<Longrightarrow> fresh t p"
    and get_pod_fresh: "Get_Pod api ns n s = (Inr p, s') \<Longrightarrow> fresh s' p"
    and list_pods_fresh: "List_Pods api ns sel s = (Inr ps, s') \<Longrightarrow> p \<in> set ps \<Longrightarrow> fresh s' p"
    and update_pod_moves: "Update_Pod api q s = (w, s') \<Longrightarrow> fresh s p \<Longrightarrow> pod_key q = pod_key p \<Longrightarrow>
      (\<And>k. k \<noteq> ''role'' \<Longrightarrow> pod_label q k = pod_label p k) \<Longrightarrow> R s s'"
    and get_cluster_moves: "Get_Cluster api ns n s = (rk, s') \<Longrightarrow> R s s'"
    and update_cluster_moves: "Update_Cluster api k s = (rk, s') \<Longrightarrow> R s s'"

context reads
begin

lemmas moves_done [simp] = moves_basic [OF R_refl]
lemmas moves_seq [intro] = moves_bindE [OF R_trans]
lemmas moves_from = moves_bindE_from [OF R_trans]
lemmas moves_loop [intro] = moves_forE [OF R_refl R_trans]

lemma read_calls:
  "moves R (liftE (Get_Pod api ns n))" "moves R (liftE (List_Pods api ns sel))"
  "moves R (liftE (Get_Endpoints api ns n))" "moves R (liftE (Get_Service api ns n))"
  "moves R (liftE (Create_Service api sv))" "moves R (liftE (Get_ConfigMap api ns n))"
  "moves R (liftE (Create_ConfigMap api cm))" "moves R (liftE (Get_PVC api ns n))"
  "moves R (liftE (Create_PVC api pvc))" "moves R (liftE (InClusterConfig api))"
  "moves R (liftE (NewForConfig api))" "moves R (liftE (NewSPDYExecutor api ns n cn cmd))"
  "moves R (liftE (Stream api ns n cn cmd))"
  by (rule moves_liftE; erule get_pod_moves list_pods_moves get_endpoints_moves get_service_moves
      create_service_moves get_configmap_moves create_configmap_moves get_pvc_moves create_pvc_moves
      config_moves client_moves executor_moves stream_moves)+

end

context writes
begin

lemma cluster_calls:
  "moves R (liftE (Get_Cluster api ns n))" "moves R (liftE (Update_Cluster api k))"
  by (rule moves_liftE; erule get_cluster_moves update_cluster_moves)+

end

text \<open>A view \<open>v\<close> of the world that no read, no call on an object other than a pod and no exec call
  changes. Everything the operator does through these calls alone leaves it as it is.\<close>

locale quiet =
  fixes api :: "'s k8s"
    and v :: "'s \<Rightarrow> 'v"
  assumes get_pod_keeps: "Get_Pod api ns n s = (r, s') \<Longrightarrow> v s' = v s"
    and list_pods_keeps: "List_Pods api ns sel s = (rl, s') \<Longrightarrow> v s' = v s"
    and get_endpoints_keeps: "Get_Endpoints api ns n s = (re, s') \<Longrightarrow> v s' = v s"
    and get_service_keeps: "Get_Service api ns n s = (rs, s') \<Longrightarrow> v s' = v s"
    and create_service_keeps: "Create_Service api sv s = (w, s') \<Longrightarrow> v s' = v s"
    and get_configmap_keeps: "Get_ConfigMap api ns n s = (rc, s') \<Longrightarrow> v s' = v s"
    and create_configmap_keeps: "Create_ConfigMap api cm s = (w, s') \<Longrightarrow> v s' = v s"
    and get_pvc_keeps: "Get_PVC api ns n s = (rv, s') \<Longrightarrow> v s' = v s"
    and create_pvc_keeps: "Create_PVC api pvc s = (w, s') \<Longrightarrow> v s' = v s"
    and config_keeps: "InClusterConfig api s = (w, s') \<Longrightarrow> v s' = v s"
    and client_keeps: "NewForConfig api s = (w, s') \<Longrightarrow> v s' = v s"
    and executor_keeps: "NewSPDYExecutor api ns n cn cmd s = (w, s') \<Longrightarrow> v s' = v s"
    and stream_keeps: "Stream api ns n cn cmd s = (out, s') \<Longrightarrow> v s' = v s"

sublocale quiet \<subseteq> reads api "\<lambda>s t. v t = v s"
  by unfold_locales (simp_all add: get_pod_keeps list_pods_keeps get_endpoints_keeps get_service_keeps
      create_service_keeps get_configmap_keeps create_configmap_keeps get_pvc_keeps create_pvc_keeps
      config_keeps client_keeps executor_keeps stream_keeps)

locale pod_store = quiet api pods
  for api :: "'s k8s" and pods :: "'s \<Rightarrow> (string \<times> string) \<rightharpoonup> Pod" +
  assumes stored_key: "pods s k = Some p \<Longrightarrow> pod_key p = k"
    and get_pod: "Get_Pod api ns n s = (Inr p, s') \<Longrightarrow> pods s (ns, n) = Some p"
    and update_pod: "Update_Pod api p s = (Inr u, s') \<Longrightarrow>
      \<exists>q. pods s' = (pods s)(pod_key p \<mapsto> q) \<and> Labels (pod_meta q) = Labels (pod_meta p)"
    and update_pod_err: "Update_Pod api p s = (Inl e, s') \<Longrightarrow> pods s' = pods s"
    and create_pod: "Create_Pod api p s = (Inr u, s') \<Longrightarrow>
      \<exists>q. pods s' = (pods s)(pod_key p \<mapsto> q) \<and> Labels (pod_meta q) = Labels (pod_meta p)"
    and create_pod_new: "Create_Pod api p s = (Inr u, s') \<Longrightarrow> pods s (pod_key p) = None"
    and create_pod_err: "Create_Pod api p s = (Inl e, s') \<Longrightarrow> pods s' = pods s"
    and list_pods: "List_Pods api ns sel s = (Inr ps, s') \<Longrightarrow>
      set ps = {p. \<exists>n. pods s (ns, n) = Some p \<and> selected sel p}"
    and sleep_keeps_labels: "labels_at pods (Sleep api d s) = labels_at pods s"

locale exec_store = pod_store api pods
  for api :: "'s k8s" and pods :: "'s \<Rightarrow> (string \<times> string) \<rightharpoonup> Pod" +
  fixes execs :: "'s \<Rightarrow> (string \<times> string) list"
  assumes stream_logged: "Stream api ns n cn cmd s = (Inr out, s') \<Longrightarrow> execs s' = execs s @ [(n, cmd)]"
    and get_pod_no_exec: "Get_Pod api ns n s = (r, s') \<Longrightarrow> execs s' = execs s"
    and update_pod_no_exec: "Update_Pod api p s = (u, s') \<Longrightarrow> execs s' = execs s"
    and config_no_exec: "InClusterConfig api s = (v, s') \<Longrightarrow> execs s' = execs s"
    and client_no_exec: "NewForConfig api s = (v, s') \<Longrightarrow> execs s' = execs s"
    and executor_no_exec: "NewSPDYExecutor api ns n cn cmd s = (v, s') \<Longrightarrow> execs s' = execs s"

text \<open>\<open>config_store\<close>: the same for the ConfigMaps, through the calls that read and write them.\<close>

locale config_store =
  fixes api :: "'s k8s"
    and cfgs :: "'s \<Rightarrow> (string \<times> string) \<rightharpoonup> ConfigMap"
  assumes cfg_key: "cfgs s (ns, n) = Some cm \<Longrightarrow> Namespace (cm_meta cm) = ns \<and> Name (cm_meta cm) = n"
    and get_cfg: "Get_ConfigMap api ns n s = (Inr cm, s') \<Longrightarrow> cfgs s (ns, n) = Some cm"
    and get_cfg_keeps: "Get_ConfigMap api ns n s = (r, s') \<Longrightarrow> cfgs s' = cfgs s"
    and create_cfg: "Create_ConfigMap api cm s = (Inr u, s') \<Longrightarrow>
      \<exists>q. cfgs s' = (cfgs s)((Namespace (cm_meta cm), Name (cm_meta cm)) \<mapsto> q) \<and> Data q = Data cm"
    and create_cfg_new: "Create_ConfigMap api cm s = (Inr u, s') \<Longrightarrow>
      cfgs s (Namespace (cm_meta cm), Name (cm_meta cm)) = None"
    and create_cfg_err: "Create_ConfigMap api cm s = (Inl e, s') \<Longrightarrow> cfgs s' = cfgs s"
    and update_cfg: "Update_ConfigMap api cm s = (Inr u, s') \<Longrightarrow>
      \<exists>q. cfgs s' = (cfgs s)((Namespace (cm_meta cm), Name (cm_meta cm)) \<mapsto> q) \<and> Data q = Data cm"
    and update_cfg_err: "Update_ConfigMap api cm s = (Inl e, s') \<Longrightarrow> cfgs s' = cfgs s"

section \<open>An in-memory API server\<close>

record mem =
  m_pods :: "Pod list"
  m_services :: "Service list"
  m_configs :: "ConfigMap list"
  m_claims :: "PersistentVolumeClaim list"
  m_endpoints :: "((string \<times> string) \<times> Endpoints) list"
  m_clusters :: "MysqlCluster list"
  m_execs :: "(string \<times> string) list"
  m_output :: "(string \<times> string) list"
  m_faults :: "bool list"
  m_clock :: gotime
  m_rec :: MysqlClusterReconciler

definition mem_empty :: mem where
  "mem_empty = \<lparr>m_pods = [], m_services = [], m_configs = [], m_claims = [], m_endpoints = [],
     m_clusters = [], m_execs = [], m_output = [], m_faults = [], m_clock = 0,
     m_rec = new_reconciler\<rparr>"

text \<open>A call fails when the schedule says so.\<close>

definition faulty :: "(mem \<Rightarrow> (go_error + 'a) \<times> mem) \<Rightarrow> mem \<Rightarrow> (go_error + 'a) \<times> mem" where
  "faulty f s = (case m_faults s of
       [] \<Rightarrow> f s
     | b # bs \<Rightarrow> (if b then (Inl (ApiErr (OtherReason ''unavailable'')), s\<lparr>m_faults := bs\<rparr>)
                 else f (s\<lparr>m_faults := bs\<rparr>)))"

definition meta_key :: "ObjectMeta \<Rightarrow> string \<times> string" where
  "meta_key m = (Namespace m, Name m)"

definition mem_get :: "('a \<Rightarrow> ObjectMeta) \<Rightarrow> (mem \<Rightarrow> 'a list) \<Rightarrow> string \<Rightarrow> string \<Rightarrow> mem \<Rightarrow>
    (go_error + 'a) \<times> mem" where
  "mem_get meta sel ns n = faulty (\<lambda>s. case find (\<lambda>x. meta_key (meta x) = (ns, n)) (sel s) of
       None \<Rightarrow> (Inl (ApiErr NotFound), s) | Some x \<Rightarrow> (Inr x, s))"

definition mem_create :: "('a \<Rightarrow> ObjectMeta) \<Rightarrow> (mem \<Rightarrow> 'a list) \<Rightarrow> ('a list \<Rightarrow> mem \<Rightarrow> mem) \<Rightarrow> 'a \<Rightarrow>
    mem \<Rightarrow> (go_error + unit) \<times> mem" where
  "mem_create meta sel put x = faulty (\<lambda>s.
     case find (\<lambda>y. meta_key (meta y) = meta_key (meta x)) (sel s) of
       None \<Rightarrow> (Inr (), put (sel s @ [x]) s)
     | Some _ \<Rightarrow> (Inl (ApiErr AlreadyExists), s))"

definition replace_by_key :: "('a \<Rightarrow> ObjectMeta) \<Rightarrow> 'a \<Rightarrow> 'a list \<Rightarrow> 'a list" where
  "replace_by_key meta x ys =
     map (\<lambda>y. if meta_key (meta y) = meta_key (meta x) then x else y) ys"

definition mem_update :: "('a \<Rightarrow> ObjectMeta) \<Rightarrow> (mem \<Rightarrow> 'a list) \<Rightarrow> ('a list \<Rightarrow> mem \<Rightarrow> mem) \<Rightarrow> 'r \<Rightarrow>
    'a \<Rightarrow> mem \<Rightarrow> (go_error + 'r) \<times> mem" where
  "mem_update meta sel put r x = faulty (\<lambda>s.
     case find (\<lambda>y. meta_key (meta y) = meta_key (meta x)) (sel s) of
       None \<Rightarrow> (Inl (ApiErr NotFound), s)
     | Some _ \<Rightarrow> (Inr r, put (replace_by_key meta x (sel s)) s))"

text \<open>The objects a get can return: the first one under each key.\<close>

fun uniq_pods :: "Pod list \<Rightarrow> Pod list" where
  "uniq_pods [] = []"
| "uniq_pods (p # ps) = p # filter (\<lambda>q. pod_key q \<noteq> pod_key p) (uniq_pods ps)"

definition mem_list_pods ::
    "string \<Rightarrow> (string \<times> string) list \<Rightarrow> mem \<Rightarrow> (go_error + Pod list) \<times> mem" where
  "mem_list_pods ns sel = faulty (\<lambda>s.
     (Inr (filter (\<lambda>p. Namespace (pod_meta p) = ns \<and> selected sel p) (uniq_pods (m_pods s))), s))"

definition mem_stream :: "string \<Rightarrow> string \<Rightarrow> string \<Rightarrow> string \<Rightarrow> mem \<Rightarrow> (go_error + string) \<times> mem" where
  "mem_stream ns n cn cmd = faulty (\<lambda>s.
     (Inr (case map_of (m_output s) n of None \<Rightarrow> [] | Some out \<Rightarrow> out),
      s\<lparr>m_execs := m_execs s @ [(n, cmd)]\<rparr>))"

definition mem_get_endpoints :: "string \<Rightarrow> string \<Rightarrow> mem \<Rightarrow> (go_error + Endpoints) \<times> mem" where
  "mem_get_endpoints ns n = faulty (\<lambda>s. case map_of (m_endpoints s) (ns, n) of
     None \<Rightarrow> (Inl (ApiErr NotFound), s) | Some e \<Rightarrow> (Inr e, s))"

definition mem_start :: "Pod \<Rightarrow> Pod" where
  "mem_start p = p\<lparr>Phase := PodRunning, ContainerStatuses := [\<lparr>Ready = True\<rparr>]\<rparr>"

definition mem_api :: "mem k8s" where
  "mem_api =
     \<lparr>Get_Cluster = mem_get cluster_meta m_clusters,
      Update_Cluster = (\<lambda>c. mem_update cluster_meta m_clusters (\<lambda>l s. s\<lparr>m_clusters := l\<rparr>) c c),
      Status_Update = (\<lambda>c. mem_update cluster_meta m_clusters (\<lambda>l s. s\<lparr>m_clusters := l\<rparr>) c c),
      Get_Pod = mem_get pod_meta m_pods,
      Create_Pod = (\<lambda>p. mem_create pod_meta m_pods (\<lambda>l s. s\<lparr>m_pods := l\<rparr>) (mem_start p)),
      Update_Pod = mem_update pod_meta m_pods (\<lambda>l s. s\<lparr>m_pods := l\<rparr>) (),
      List_Pods = mem_list_pods,
      Get_Service = mem_get svc_meta m_services,
      Create_Service = mem_create svc_meta m_services (\<lambda>l s. s\<lparr>m_services := l\<rparr>),
      Get_ConfigMap = mem_get cm_meta m_configs,
      Create_ConfigMap = mem_create cm_meta m_configs (\<lambda>l s. s\<lparr>m_configs := l\<rparr>),
      Update_ConfigMap = mem_update cm_meta m_configs (\<lambda>l s. s\<lparr>m_configs := l\<rparr>) (),
      Get_PVC = mem_get pvc_meta m_claims,
      Create_PVC = mem_create pvc_meta m_claims (\<lambda>l s. s\<lparr>m_claims := l\<rparr>),
      Get_Endpoints = mem_get_endpoints,
      MustParse = (\<lambda>q. if q = [] then None else Some q),
      InClusterConfig = faulty (\<lambda>s. (Inr (), s)),
      NewForConfig = faulty (\<lambda>s. (Inr (), s)),
      NewSPDYExecutor = (\<lambda>ns n cn cmd. faulty (\<lambda>s. (Inr (), s))),
      Stream = mem_stream,
      Sleep = (\<lambda>d s. s\<lparr>m_clock := m_clock s + d\<rparr>),
      Now = m_clock\<rparr>"

definition mem_memory :: "mem memory" where
  "mem_memory = \<lparr>load_r = m_rec, store_r = (\<lambda>r s. s\<lparr>m_rec := r\<rparr>)\<rparr>"

definition mem_pods :: "mem \<Rightarrow> (string \<times> string) \<rightharpoonup> Pod" where
  "mem_pods s k = find (\<lambda>p. pod_key p = k) (m_pods s)"

section \<open>The in-memory server keeps the contracts\<close>

lemma pod_key_meta: "pod_key p = meta_key (pod_meta p)"
  by (simp add: pod_key_def meta_key_def)

lemma find_replace_by_key:
  "find (\<lambda>y. meta_key (meta y) = k) ys \<noteq> None \<or> k \<noteq> meta_key (meta x) \<Longrightarrow>
   find (\<lambda>y. meta_key (meta y) = k) (replace_by_key meta x ys) =
     (if k = meta_key (meta x) then Some x else find (\<lambda>y. meta_key (meta y) = k) ys)"
  by (induction ys) (auto simp: replace_by_key_def split: if_splits)

lemma set_uniq_pods: "p \<in> set (uniq_pods ps) \<longleftrightarrow> find (\<lambda>q. pod_key q = pod_key p) ps = Some p"
  by (induction ps) auto

lemma mem_pods_cong: "m_pods t = m_pods s \<Longrightarrow> mem_pods t = mem_pods s"
  by (simp add: mem_pods_def fun_eq_iff)

lemma mem_pods_key: "mem_pods s k = Some p \<Longrightarrow> pod_key p = k"
  by (auto simp: mem_pods_def find_Some_iff)

lemma faulty_keeps:
  assumes "faulty f s = (r, s')" "\<And>t. v (snd (f t)) = v t" "\<And>t bs. v (t\<lparr>m_faults := bs\<rparr>) = v t"
  shows "v s' = v s"
proof (cases "m_faults s")
  case Nil
  with assms(1) have "f s = (r, s')" by (simp add: faulty_def)
  with assms(2) [of s] show ?thesis by simp
next
  case (Cons b bs)
  with assms(1) have "s' = s\<lparr>m_faults := bs\<rparr> \<or> f (s\<lparr>m_faults := bs\<rparr>) = (r, s')"
    by (auto simp: faulty_def split: if_splits)
  with assms(2) [of "s\<lparr>m_faults := bs\<rparr>"] assms(3) [of bs s] show ?thesis by auto
qed

lemma faulty_Inr:
  assumes "faulty f s = (Inr x, s')"
  obtains bs where "f (s\<lparr>m_faults := bs\<rparr>) = (Inr x, s')"
proof (cases "m_faults s")
  case Nil
  have "s\<lparr>m_faults := []\<rparr> = s" using Nil by (cases s) simp
  with Nil assms that [of "[]"] show ?thesis by (simp add: faulty_def)
next
  case (Cons b bs)
  with assms that [of bs] show ?thesis by (auto simp: faulty_def split: if_splits)
qed

lemma mem_get_keeps:
  "mem_get meta sel ns n s = (r, s') \<Longrightarrow> (\<And>t bs. v (t\<lparr>m_faults := bs\<rparr>) = v t) \<Longrightarrow> v s' = v s"
  by (unfold mem_get_def, erule faulty_keeps) (auto split: option.splits)

lemma mem_create_keeps:
  "mem_create meta sel put x s = (r, s') \<Longrightarrow> (\<And>t bs. v (t\<lparr>m_faults := bs\<rparr>) = v t) \<Longrightarrow>
   (\<And>l t. v (put l t) = v t) \<Longrightarrow> v s' = v s"
  by (unfold mem_create_def, erule faulty_keeps) (auto split: option.splits)

lemma mem_update_keeps:
  "mem_update meta sel put y x s = (r, s') \<Longrightarrow> (\<And>t bs. v (t\<lparr>m_faults := bs\<rparr>) = v t) \<Longrightarrow>
   (\<And>l t. v (put l t) = v t) \<Longrightarrow> v s' = v s"
  by (unfold mem_update_def, erule faulty_keeps) (auto split: option.splits)

lemma faulty_unit_keeps:
  "faulty (\<lambda>s. (Inr (), s)) s = (r, s') \<Longrightarrow> (\<And>t bs. v (t\<lparr>m_faults := bs\<rparr>) = v t) \<Longrightarrow> v s' = v s"
  by (erule faulty_keeps) auto

lemma faulty_Inl_keeps:
  assumes "faulty f s = (Inl e, s')" "\<And>t e t'. f t = (Inl e, t') \<Longrightarrow> t' = t"
    and "\<And>t bs. v (t\<lparr>m_faults := bs\<rparr>) = v t"
  shows "v s' = v s"
  using assms(1) by (auto simp: faulty_def assms(3) dest!: assms(2) split: list.splits if_splits)

lemma mem_pods_ignores [simp]:
  "mem_pods (t\<lparr>m_faults := bs\<rparr>) = mem_pods t" "mem_pods (t\<lparr>m_services := a\<rparr>) = mem_pods t"
  "mem_pods (t\<lparr>m_configs := b\<rparr>) = mem_pods t" "mem_pods (t\<lparr>m_claims := c\<rparr>) = mem_pods t"
  "mem_pods (t\<lparr>m_execs := d\<rparr>) = mem_pods t" "mem_pods (t\<lparr>m_clock := e\<rparr>) = mem_pods t"
  "mem_pods (t\<lparr>m_rec := r\<rparr>) = mem_pods t" "mem_pods (t\<lparr>m_clusters := cs\<rparr>) = mem_pods t"
  by (rule mem_pods_cong, simp)+

text \<open>The stored objects of one kind, by key, and what the three calls do to them.\<close>

definition mem_view :: "('a \<Rightarrow> ObjectMeta) \<Rightarrow> (mem \<Rightarrow> 'a list) \<Rightarrow> mem \<Rightarrow> (string \<times> string) \<rightharpoonup> 'a" where
  "mem_view meta sel s k = find (\<lambda>x. meta_key (meta x) = k) (sel s)"

lemma mem_pods_view: "mem_pods = mem_view pod_meta m_pods"
  by (simp add: mem_pods_def mem_view_def pod_key_meta fun_eq_iff)

lemma mem_get_view:
  assumes "mem_get meta sel ns n s = (Inr x, s')" "\<And>t bs. sel (t\<lparr>m_faults := bs\<rparr>) = sel t"
  shows "mem_view meta sel s (ns, n) = Some x"
  using assms(1) unfolding mem_get_def
  by (elim faulty_Inr) (auto simp: mem_view_def assms(2) split: option.splits)

lemma mem_update_view:
  assumes "mem_update meta sel put r x s = (Inr u, s')"
    and "\<And>t bs. sel (t\<lparr>m_faults := bs\<rparr>) = sel t" "\<And>l t. sel (put l t) = l"
  shows "mem_view meta sel s' = (mem_view meta sel s)(meta_key (meta x) \<mapsto> x)"
proof -
  from assms(1) obtain q where "find (\<lambda>y. meta_key (meta y) = meta_key (meta x)) (sel s) = Some q"
      "sel s' = replace_by_key meta x (sel s)"
    unfolding mem_update_def by (elim faulty_Inr) (auto simp: assms(2,3) split: option.splits)
  then show ?thesis by (intro ext) (simp add: mem_view_def find_replace_by_key)
qed

lemma find_snoc:
  "find P (xs @ [x]) = (case find P xs of None \<Rightarrow> if P x then Some x else None | Some y \<Rightarrow> Some y)"
  by (induction xs) auto

lemma mem_create_view:
  assumes "mem_create meta sel put x s = (Inr u, s')"
    and "\<And>t bs. sel (t\<lparr>m_faults := bs\<rparr>) = sel t" "\<And>l t. sel (put l t) = l"
  shows "mem_view meta sel s' = (mem_view meta sel s)(meta_key (meta x) \<mapsto> x)"
    and "mem_view meta sel s (meta_key (meta x)) = None"
proof -
  from assms(1) have "find (\<lambda>y. meta_key (meta y) = meta_key (meta x)) (sel s) = None"
      "sel s' = sel s @ [x]"
    unfolding mem_create_def by (auto elim!: faulty_Inr simp: assms(2,3) split: option.splits)
  then show "mem_view meta sel s' = (mem_view meta sel s)(meta_key (meta x) \<mapsto> x)"
      "mem_view meta sel s (meta_key (meta x)) = None"
    by (auto simp: mem_view_def find_snoc fun_eq_iff split: option.splits)
qed

lemma mem_get_pod:
  assumes "mem_get pod_meta m_pods ns n s = (Inr p, s')"
  shows "mem_pods s (ns, n) = Some p"
  unfolding mem_pods_view by (rule mem_get_view [OF assms]) simp

lemma mem_update_pod:
  assumes "mem_update pod_meta m_pods (\<lambda>l s. s\<lparr>m_pods := l\<rparr>) () p s = (Inr u, s')"
  shows "mem_pods s' = (mem_pods s)(pod_key p \<mapsto> p)"
  unfolding mem_pods_view pod_key_meta by (rule mem_update_view [OF assms]) simp_all

lemma mem_create_pod:
  assumes "mem_create pod_meta m_pods (\<lambda>l s. s\<lparr>m_pods := l\<rparr>) p s = (Inr u, s')"
  shows "mem_pods s' = (mem_pods s)(pod_key p \<mapsto> p)" and "mem_pods s (pod_key p) = None"
  using mem_create_view [OF assms] by (simp_all add: mem_pods_view pod_key_meta)

lemma mem_list_pods:
  assumes "mem_list_pods ns sel s = (Inr ps, s')"
  shows "set ps = {p. \<exists>n. mem_pods s (ns, n) = Some p \<and> selected sel p}"
proof -
  from assms have ps: "ps = filter (\<lambda>p. Namespace (pod_meta p) = ns \<and> selected sel p) (uniq_pods (m_pods s))"
    unfolding mem_list_pods_def by (elim faulty_Inr) auto
  have "(\<exists>n. mem_pods s (ns, n) = Some p) \<longleftrightarrow>
      Namespace (pod_meta p) = ns \<and> p \<in> set (uniq_pods (m_pods s))" for p
    unfolding set_uniq_pods mem_pods_def [symmetric]
    by (metis mem_pods_key pod_key_def prod.inject)
  then show ?thesis by (auto simp: ps)
qed

lemma mem_start_meta [simp]: "pod_meta (mem_start p) = pod_meta p"
  by (simp add: mem_start_def)

lemma mem_start_key [simp]: "pod_key (mem_start p) = pod_key p"
  by (simp add: pod_key_def)

interpretation mem: exec_store mem_api mem_pods m_execs
proof unfold_locales
  show "Get_Pod mem_api ns n s = (r, s') \<Longrightarrow> mem_pods s' = mem_pods s" for ns n s r s'
    by (simp add: mem_api_def) (erule mem_get_keeps, simp)
  show "Update_Pod mem_api p s = (Inl e, s') \<Longrightarrow> mem_pods s' = mem_pods s" for p s e s'
    by (simp add: mem_api_def mem_update_def) (erule faulty_Inl_keeps, auto split: option.splits)
  show "Create_Pod mem_api p s = (Inl e, s') \<Longrightarrow> mem_pods s' = mem_pods s" for p s e s'
    by (simp add: mem_api_def mem_create_def) (erule faulty_Inl_keeps, auto split: option.splits)
  show "List_Pods mem_api ns sel s = (r, s') \<Longrightarrow> mem_pods s' = mem_pods s" for ns sel s r s'
    by (simp add: mem_api_def mem_list_pods_def) (erule faulty_keeps, auto)
  show "Get_Endpoints mem_api ns n s = (r, s') \<Longrightarrow> mem_pods s' = mem_pods s" for ns n s r s'
    by (simp add: mem_api_def mem_get_endpoints_def) (erule faulty_keeps, auto split: option.splits)
  show "Get_Service mem_api ns n s = (r, s') \<Longrightarrow> mem_pods s' = mem_pods s" for ns n s r s'
    by (simp add: mem_api_def) (erule mem_get_keeps, simp)
  show "Create_Service mem_api x s = (r, s') \<Longrightarrow> mem_pods s' = mem_pods s" for x s r s'
    by (simp add: mem_api_def) (erule mem_create_keeps, simp_all)
  show "Get_ConfigMap mem_api ns n s = (r, s') \<Longrightarrow> mem_pods s' = mem_pods s" for ns n s r s'
    by (simp add: mem_api_def) (erule mem_get_keeps, simp)
  show "Create_ConfigMap mem_api x s = (r, s') \<Longrightarrow> mem_pods s' = mem_pods s" for x s r s'
    by (simp add: mem_api_def) (erule mem_create_keeps, simp_all)
  show "Get_PVC mem_api ns n s = (r, s') \<Longrightarrow> mem_pods s' = mem_pods s" for ns n s r s'
    by (simp add: mem_api_def) (erule mem_get_keeps, simp)
  show "Create_PVC mem_api x s = (r, s') \<Longrightarrow> mem_pods s' = mem_pods s" for x s r s'
    by (simp add: mem_api_def) (erule mem_create_keeps, simp_all)
  show "InClusterConfig mem_api s = (r, s') \<Longrightarrow> mem_pods s' = mem_pods s" for s r s'
    by (simp add: mem_api_def) (erule faulty_unit_keeps, simp)
  show "NewForConfig mem_api s = (r, s') \<Longrightarrow> mem_pods s' = mem_pods s" for s r s'
    by (simp add: mem_api_def) (erule faulty_unit_keeps, simp)
  show "NewSPDYExecutor mem_api ns n cn cmd s = (r, s') \<Longrightarrow> mem_pods s' = mem_pods s"
    for ns n cn cmd s r s'
    by (simp add: mem_api_def) (erule faulty_unit_keeps, simp)
  show "Stream mem_api ns n cn cmd s = (r, s') \<Longrightarrow> mem_pods s' = mem_pods s" for ns n cn cmd s r s'
    by (simp add: mem_api_def mem_stream_def) (erule faulty_keeps, auto)
  show "Stream mem_api ns n cn cmd s = (Inr out, s') \<Longrightarrow> m_execs s' = m_execs s @ [(n, cmd)]"
    for ns n cn cmd s out s'
    by (simp add: mem_api_def mem_stream_def) (erule faulty_Inr, auto)
  show "Get_Pod mem_api ns n s = (r, s') \<Longrightarrow> m_execs s' = m_execs s" for ns n s r s'
    by (simp add: mem_api_def) (erule mem_get_keeps, simp)
  show "Update_Pod mem_api p s = (r, s') \<Longrightarrow> m_execs s' = m_execs s" for p s r s'
    by (simp add: mem_api_def) (erule mem_update_keeps, simp_all)
  show "InClusterConfig mem_api s = (r, s') \<Longrightarrow> m_execs s' = m_execs s" for s r s'
    by (simp add: mem_api_def) (erule faulty_unit_keeps, simp)
  show "NewForConfig mem_api s = (r, s') \<Longrightarrow> m_execs s' = m_execs s" for s r s'
    by (simp add: mem_api_def) (erule faulty_unit_keeps, simp)
  show "NewSPDYExecutor mem_api ns n cn cmd s = (r, s') \<Longrightarrow> m_execs s' = m_execs s"
    for ns n cn cmd s r s'
    by (simp add: mem_api_def) (erule faulty_unit_keeps, simp)
  show "\<exists>q. mem_pods s' = (mem_pods s)(pod_key p \<mapsto> q) \<and> Labels (pod_meta q) = Labels (pod_meta p)"
    if "Update_Pod mem_api p s = (Inr u, s')" for p s u s'
    using that mem_update_pod [of p s u s'] by (auto simp: mem_api_def)
  show "\<exists>q. mem_pods s' = (mem_pods s)(pod_key p \<mapsto> q) \<and> Labels (pod_meta q) = Labels (pod_meta p)"
    if "Create_Pod mem_api p s = (Inr u, s')" for p s u s'
    using that mem_create_pod(1) [of "mem_start p" s u s'] by (auto simp: mem_api_def)
  show "mem_pods s (pod_key p) = None" if "Create_Pod mem_api p s = (Inr u, s')" for p s u s'
    using that mem_create_pod(2) [of "mem_start p" s u s'] by (simp add: mem_api_def)
qed (auto simp: mem_api_def labels_at_def dest: mem_pods_key mem_get_pod mem_list_pods)

definition mem_configs :: "mem \<Rightarrow> (string \<times> string) \<rightharpoonup> ConfigMap" where
  "mem_configs = mem_view cm_meta m_configs"

lemma mem_configs_faults [simp]: "mem_configs (t\<lparr>m_faults := bs\<rparr>) = mem_configs t"
  by (simp add: mem_configs_def mem_view_def fun_eq_iff)

interpretation mem_cfg: config_store mem_api mem_configs
proof unfold_locales
  show "mem_configs s (ns, n) = Some cm \<Longrightarrow> Namespace (cm_meta cm) = ns \<and> Name (cm_meta cm) = n"
    for s ns n cm
    by (auto simp: mem_configs_def mem_view_def meta_key_def find_Some_iff)
  show "Get_ConfigMap mem_api ns n s = (Inr cm, s') \<Longrightarrow> mem_configs s (ns, n) = Some cm" for ns n s cm s'
    by (simp add: mem_api_def mem_configs_def) (erule mem_get_view, simp)
  show "Get_ConfigMap mem_api ns n s = (r, s') \<Longrightarrow> mem_configs s' = mem_configs s" for ns n s r s'
    by (simp add: mem_api_def) (erule mem_get_keeps, simp)
  show "\<exists>q. mem_configs s' = (mem_configs s)((Namespace (cm_meta cm), Name (cm_meta cm)) \<mapsto> q) \<and> Data q = Data cm"
    if "Create_ConfigMap mem_api cm s = (Inr u, s')" for cm s u s'
    using that mem_create_view(1) [of cm_meta m_configs "\<lambda>l s. s\<lparr>m_configs := l\<rparr>" cm s u s']
    by (auto simp: mem_api_def mem_configs_def meta_key_def)
  show "mem_configs s (Namespace (cm_meta cm), Name (cm_meta cm)) = None"
    if "Create_ConfigMap mem_api cm s = (Inr u, s')" for cm s u s'
    using that mem_create_view(2) [of cm_meta m_configs "\<lambda>l s. s\<lparr>m_configs := l\<rparr>" cm s u s']
    by (auto simp: mem_api_def mem_configs_def meta_key_def)
  show "Create_ConfigMap mem_api cm s = (Inl e, s') \<Longrightarrow> mem_configs s' = mem_configs s" for cm s e s'
    by (simp add: mem_api_def mem_create_def) (erule faulty_Inl_keeps, auto split: option.splits)
  show "\<exists>q. mem_configs s' = (mem_configs s)((Namespace (cm_meta cm), Name (cm_meta cm)) \<mapsto> q) \<and> Data q = Data cm"
    if "Update_ConfigMap mem_api cm s = (Inr u, s')" for cm s u s'
    using that mem_update_view [of cm_meta m_configs "\<lambda>l s. s\<lparr>m_configs := l\<rparr>" "()" cm s u s']
    by (auto simp: mem_api_def mem_configs_def meta_key_def)
  show "Update_ConfigMap mem_api cm s = (Inl e, s') \<Longrightarrow> mem_configs s' = mem_configs s" for cm s e s'
    by (simp add: mem_api_def mem_update_def) (erule faulty_Inl_keeps, auto split: option.splits)
qed

interpretation mem_shared: shared_memory mem_memory
  by unfold_locales (simp add: mem_memory_def)

end
