(* ===== verification/Monitor.thy ===== *)
theory Monitor
  imports Raft_Node K8s_Store
begin

text \<open>
  The Raft monitor, \<^verbatim>\<open>src/internal/controller/raft_monitoring.go\<close>: metrics, the status it
  writes into the custom resource, health warnings and the health report. A \<open>RaftMonitor\<close> holds
  pointers to the Raft manager and to the manager's cluster object, so its operations take the
  manager \<open>rm\<close> and read \<open>cluster rm\<close>. \<open>nowAt p\<close> is the clock when a loop looks at
  peer \<open>p\<close>. Log output is left out, except the warnings of \<open>performHealthCheck\<close>, which are its
  whole result. The three ticker loops run \<open>collectTick\<close>, \<open>syncClusterStatus\<close> and
  \<open>performHealthCheck\<close> every 30, 10 and 5 seconds until the context is done; \<open>Operator\<close> interleaves the ticks that
  change something with everything else, at any time.
\<close>

section \<open>RFC 3339 times\<close>

text \<open>\<open>Time.Format(time.RFC3339)\<close> in a zone \<open>off\<close> seconds east of UTC; the calendar date of
  a day number counts in eras of 400 years from the first of March.\<close>

definition civil :: "int \<Rightarrow> int \<times> int \<times> int" where
  "civil days =
     (let z = days + 306; era = z div 146097; doe = z mod 146097;
          yoe = (doe - doe div 1460 + doe div 36524 - doe div 146096) div 365;
          doy = doe - (365 * yoe + yoe div 4 - yoe div 100);
          mp = (5 * doy + 2) div 153;
          month = (if mp < 10 then mp + 3 else mp - 9)
      in (yoe + era * 400 + (if month \<le> 2 then 1 else 0), month, doy - (153 * mp + 2) div 5 + 1))"

definition RFC3339 :: "int \<Rightarrow> gotime \<Rightarrow> string" where
  "RFC3339 off t =
     (let secs = t div Second + off; (y, mo, d) = civil (secs div 86400); tod = secs mod 86400
      in pad0 4 (show_nat (nat y)) @ ''-'' @ sprintf_02d mo @ ''-'' @ sprintf_02d d @ ''T'' @
         sprintf_02d (tod div 3600) @ '':'' @ sprintf_02d (tod mod 3600 div 60) @ '':'' @
         sprintf_02d (tod mod 60) @
         (if off = 0 then ''Z''
          else (if off < 0 then ''-'' else ''+'') @ sprintf_02d (\<bar>off\<bar> div 3600) @ '':'' @
               sprintf_02d (\<bar>off\<bar> mod 3600 div 60)))"

section \<open>Metrics\<close>

record RaftMetrics =
  CurrentTerm :: int64
  CurrentState :: RaftState
  LeaderNodeId :: string
  MetricClusterSize :: int
  ActiveNodes :: int
  ElectionCount :: int64
  LastElection :: gotime
  ElectionTimeout :: duration
  LogIndex :: int64
  CommitIndex :: int64
  AppliedIndex :: int64
  HeartbeatCount :: int64
  LastHeartbeat :: gotime
  NetworkLatency :: "string \<rightharpoonup> duration"
  MasterNode :: string
  SlaveNodes :: "string list"
  SemiSyncEnabled :: bool
  ReplicationLag :: "string \<rightharpoonup> duration"

definition peerActive :: "(string \<Rightarrow> gotime) \<Rightarrow> RaftManager \<Rightarrow> PeerInfo \<Rightarrow> bool" where
  "peerActive nowAt rm peer \<longleftrightarrow>
     time_Since (nowAt (PeerNodeId peer)) (PeerLastContact peer) < wrap64 (2 * heartbeatInterval rm)"

definition countActive :: "(string \<Rightarrow> gotime) \<Rightarrow> RaftManager \<Rightarrow> int" where
  "countActive nowAt rm = int (length (filter (peerActive nowAt rm) (map snd (peers rm))))"

definition gatherMetrics :: "(string \<Rightarrow> gotime) \<Rightarrow> RaftManager \<Rightarrow> RaftMetrics" where
  "gatherMetrics nowAt rm =
     \<lparr>CurrentTerm = currentTerm rm, CurrentState = state rm, LeaderNodeId = leaderId rm,
      MetricClusterSize = int (length (peers rm)) + 1, ActiveNodes = countActive nowAt rm,
      ElectionCount = electionCount rm, LastElection = lastElection rm,
      ElectionTimeout = electionTimeout rm, LogIndex = int (length (rlog rm)),
      CommitIndex = commitIndex rm, AppliedIndex = lastApplied rm,
      HeartbeatCount = heartbeatCount rm, LastHeartbeat = lastHeartbeat rm,
      NetworkLatency =
        fold (\<lambda>peer l. l(PeerNodeId peer \<mapsto> PeerLastLatency peer)) (map snd (peers rm)) Map.empty,
      MasterNode = Master (Status (cluster rm)), SlaveNodes = Slaves (Status (cluster rm)),
      SemiSyncEnabled = False, ReplicationLag = Map.empty\<rparr>"

definition GetMetrics :: "(string \<Rightarrow> gotime) \<Rightarrow> RaftManager \<Rightarrow> RaftMetrics" where
  "GetMetrics nowAt rm = gatherMetrics nowAt rm"

definition createOrUpdateConfigMap ::
    "'s k8s \<Rightarrow> MysqlCluster \<Rightarrow> string \<Rightarrow> (string \<rightharpoonup> string) \<Rightarrow> ('s, unit) io" where
  "createOrUpdateConfigMap api c nm data =
     (let configMap = \<lparr>cm_meta = \<lparr>Name = nm, Namespace = Namespace (cluster_meta c), UID = [],
            Labels = Some [''app'' \<mapsto> ''mysql-cluster'', ''cluster'' \<mapsto> Name (cluster_meta c),
                           ''type'' \<mapsto> ''raft-metrics''],
            Annotations = None, OwnerReferences = []\<rparr>, Data = data\<rparr>
      in bindE (tryE (liftE (Create_ConfigMap api configMap))) (\<lambda>r. case r of
           Inr _ \<Rightarrow> returnE ()
         | Inl _ \<Rightarrow>
             bindE (liftE (Get_ConfigMap api (Namespace (cluster_meta c)) nm)) (\<lambda>existingConfigMap.
             liftE (Update_ConfigMap api (existingConfigMap\<lparr>Data := data\<rparr>)))))"

definition metricsData :: "string \<Rightarrow> RaftMetrics \<Rightarrow> (string \<rightharpoonup> string)" where
  "metricsData updated mt =
     [''current_term'' \<mapsto> sprintf_d (CurrentTerm mt),
      ''current_state'' \<mapsto> RaftState_string (CurrentState mt),
      ''leader_node_id'' \<mapsto> LeaderNodeId mt,
      ''cluster_size'' \<mapsto> sprintf_d (MetricClusterSize mt),
      ''active_nodes'' \<mapsto> sprintf_d (ActiveNodes mt),
      ''election_count'' \<mapsto> sprintf_d (ElectionCount mt),
      ''log_index'' \<mapsto> sprintf_d (LogIndex mt),
      ''commit_index'' \<mapsto> sprintf_d (CommitIndex mt),
      ''heartbeat_count'' \<mapsto> sprintf_d (HeartbeatCount mt),
      ''master_node'' \<mapsto> MasterNode mt,
      ''last_updated'' \<mapsto> updated]"

definition updateMetricsConfigMap ::
    "'s k8s \<Rightarrow> int \<Rightarrow> MysqlCluster \<Rightarrow> RaftMetrics \<Rightarrow> ('s, unit) io" where
  "updateMetricsConfigMap api off c mt s =
     bindE (tryE (createOrUpdateConfigMap api c (Name (cluster_meta c) @ ''-raft-metrics'')
              (metricsData (RFC3339 off (Now api s)) mt))) (\<lambda>_. returnE ()) s"

definition collectTick ::
    "'s k8s \<Rightarrow> int \<Rightarrow> (string \<Rightarrow> gotime) \<Rightarrow> RaftManager \<Rightarrow> ('s, unit) io" where
  "collectTick api off nowAt rm = updateMetricsConfigMap api off (cluster rm) (gatherMetrics nowAt rm)"

section \<open>Status\<close>

definition monitorStatus :: "gotime \<Rightarrow> (string \<Rightarrow> gotime) \<Rightarrow> RaftManager \<Rightarrow> MysqlClusterStatus" where
  "monitorStatus now nowAt rm =
     (let self = \<lparr>NodeId = nodeId rm, State = state rm, NodeTerm = currentTerm rm,
                  LastContact = now, IsActive = True\<rparr>;
          nodes = fold (\<lambda>peer m. m(PeerNodeId peer \<mapsto>
                    \<lparr>NodeId = PeerNodeId peer, State = RaftStateFollower, NodeTerm = currentTerm rm,
                     LastContact = PeerLastContact peer, IsActive = peerActive nowAt rm peer\<rparr>))
                  (map snd (peers rm)) [nodeId rm \<mapsto> self]
      in (Status (cluster rm))\<lparr>RaftNodes := Some nodes, RaftLeader := leaderId rm,
            RaftTerm := currentTerm rm, ClusterSize := wrap32 (int (length (peers rm)) + 1)\<rparr>)"

definition syncClusterStatus ::
    "'s k8s \<Rightarrow> (string \<Rightarrow> gotime) \<Rightarrow> RaftManager \<Rightarrow> 's \<Rightarrow> RaftManager \<times> 's" where
  "syncClusterStatus api nowAt rm s =
     (let rm' = rm\<lparr>cluster := (cluster rm)\<lparr>Status := monitorStatus (Now api s) nowAt rm\<rparr>\<rparr>
      in case Status_Update api (cluster rm') s of
           (Inl err, s') \<Rightarrow> (rm', s')
         | (Inr c, s') \<Rightarrow> (rm'\<lparr>cluster := c\<rparr>, s'))"

section \<open>Health\<close>

datatype health_warning = ElectionTimedOut | PossiblePartition int int int | ApplyLag int64 int64

definition performHealthCheck ::
    "gotime \<Rightarrow> (string \<Rightarrow> gotime) \<Rightarrow> RaftManager \<Rightarrow> health_warning list" where
  "performHealthCheck now nowAt rm =
     (let activeNodes = countActive nowAt rm; totalNodes = int (length (peers rm)) + 1
      in (if state rm = RaftStateFollower \<and> time_Since now (lastHeartbeat rm) > electionTimeout rm
          then [ElectionTimedOut] else []) @
         (if activeNodes < totalNodes div 2
          then [PossiblePartition activeNodes totalNodes (totalNodes div 2 + 1)] else []) @
         (if commitIndex rm > lastApplied rm then [ApplyLag (commitIndex rm) (lastApplied rm)] else []))"

record ClusterHealth =
  total_nodes :: int
  active_nodes :: int
  has_quorum :: bool
  current_leader :: string
  current_term :: int64
  cluster_state :: RaftState
  last_election :: gotime

definition GetClusterHealth :: "(string \<Rightarrow> gotime) \<Rightarrow> RaftManager \<Rightarrow> ClusterHealth" where
  "GetClusterHealth nowAt rm =
     (let activeNodes = countActive nowAt rm; totalNodes = int (length (peers rm)) + 1
      in \<lparr>total_nodes = totalNodes, active_nodes = activeNodes,
          has_quorum = (activeNodes \<ge> totalNodes div 2), current_leader = leaderId rm,
          current_term = currentTerm rm, cluster_state = state rm, last_election = lastElection rm\<rparr>)"

section \<open>Lemmas\<close>

lemma countActive_bounds: "0 \<le> countActive nowAt rm" "countActive nowAt rm \<le> int (length (peers rm))"
proof -
  show "0 \<le> countActive nowAt rm" by (simp add: countActive_def)
  have "length (filter (peerActive nowAt rm) (map snd (peers rm))) \<le> length (map snd (peers rm))"
    by (rule length_filter_le)
  then show "countActive nowAt rm \<le> int (length (peers rm))" by (simp add: countActive_def)
qed

lemma half_majority: "(n::int) \<ge> t div 2 \<longleftrightarrow> 2 * (n + 1) > t"
  by presburger

context config_store
begin

text \<open>Writing the metrics: \<open>createOrUpdateConfigMap\<close> always returns; without an error exactly the
  named ConfigMap has changed and holds the given data, whether it existed before or not, and with an error
  no ConfigMap has changed.\<close>

lemma createOrUpdateConfigMap_cases:
  "\<exists>r t. createOrUpdateConfigMap api c nm data s = Some (r, t) \<and>
     (case r of
        Ok _ \<Rightarrow> \<exists>cm. cfgs t = (cfgs s)((Namespace (cluster_meta c), nm) \<mapsto> cm) \<and> Data cm = data
      | Err _ \<Rightarrow> cfgs t = cfgs s
      | Panic _ \<Rightarrow> False)"
proof -
  let ?ns = "Namespace (cluster_meta c)"
  let ?cm = "\<lparr>cm_meta = \<lparr>Name = nm, Namespace = ?ns, UID = [],
            Labels = Some [''app'' \<mapsto> ''mysql-cluster'', ''cluster'' \<mapsto> Name (cluster_meta c),
                           ''type'' \<mapsto> ''raft-metrics''],
            Annotations = None, OwnerReferences = []\<rparr>, Data = data\<rparr>"
  have unfold: "createOrUpdateConfigMap api c nm data s =
      (case Create_ConfigMap api ?cm s of
         (Inr _, s1) \<Rightarrow> Some (Ok (), s1)
       | (Inl _, s1) \<Rightarrow> (case Get_ConfigMap api ?ns nm s1 of
           (Inl e, s2) \<Rightarrow> Some (Err e, s2)
         | (Inr ex, s2) \<Rightarrow> (case Update_ConfigMap api (ex\<lparr>Data := data\<rparr>) s2 of
             (Inl e, t) \<Rightarrow> Some (Err e, t) | (Inr _, t) \<Rightarrow> Some (Ok (), t))))"
    by (simp add: createOrUpdateConfigMap_def Let_def bindE_def tryE_def liftE_def returnE_def
        split: prod.splits sum.splits)
  obtain r1 s1 where cr: "Create_ConfigMap api ?cm s = (r1, s1)" by (cases "Create_ConfigMap api ?cm s")
  show ?thesis
  proof (cases r1)
    case (Inr u)
    with create_cfg [of ?cm s u s1] cr show ?thesis by (simp add: unfold)
  next
    case (Inl e)
    with cr have s1: "cfgs s1 = cfgs s" using create_cfg_err by blast
    obtain r2 s2 where get: "Get_ConfigMap api ?ns nm s1 = (r2, s2)" by (cases "Get_ConfigMap api ?ns nm s1")
    then have s2: "cfgs s2 = cfgs s" using get_cfg_keeps s1 by metis
    show ?thesis
    proof (cases r2)
      case (Inl e')
      with cr \<open>r1 = Inl e\<close> get s2 show ?thesis by (simp add: unfold)
    next
      case (Inr ex)
      have key: "Namespace (cm_meta ex) = ?ns" "Name (cm_meta ex) = nm"
        using cfg_key [of s1 ?ns nm ex] get_cfg [of ?ns nm s1 ex s2] get Inr by simp_all
      obtain r3 t where upd: "Update_ConfigMap api (ex\<lparr>Data := data\<rparr>) s2 = (r3, t)"
        by (cases "Update_ConfigMap api (ex\<lparr>Data := data\<rparr>) s2")
      with cr \<open>r1 = Inl e\<close> get Inr s2 key show ?thesis
        using update_cfg [of "ex\<lparr>Data := data\<rparr>" s2] update_cfg_err [of "ex\<lparr>Data := data\<rparr>" s2]
        by (cases r3) (simp_all add: unfold)
    qed
  qed
qed

end

text \<open>A tick of the metrics loop returns whatever calls fail: the error of writing the metrics is logged and dropped.\<close>

lemma collectTick_returns:
  assumes "config_store api cfgs"
  shows "\<exists>t. collectTick api off nowAt rm s = Some (Ok (), t)"
proof -
  let ?put = "createOrUpdateConfigMap api (cluster rm) (Name (cluster_meta (cluster rm)) @ ''-raft-metrics'')
      (metricsData (RFC3339 off (Now api s)) (gatherMetrics nowAt rm))"
  from config_store.createOrUpdateConfigMap_cases [OF assms, of "cluster rm"
        "Name (cluster_meta (cluster rm)) @ ''-raft-metrics''" "metricsData (RFC3339 off (Now api s)) (gatherMetrics nowAt rm)" s]
  show ?thesis
  proof (elim exE conjE)
    fix r t assume "?put s = Some (r, t)"
    moreover assume "case r of
        Ok _ \<Rightarrow> \<exists>cm. cfgs t = (cfgs s)((Namespace (cluster_meta (cluster rm)), Name (cluster_meta (cluster rm)) @ ''-raft-metrics'') \<mapsto> cm) \<and>
          Data cm = metricsData (RFC3339 off (Now api s)) (gatherMetrics nowAt rm)
      | Err _ \<Rightarrow> cfgs t = cfgs s
      | Panic _ \<Rightarrow> False"
    ultimately show ?thesis
      by (cases r) (simp_all add: collectTick_def updateMetricsConfigMap_def bindE_def tryE_def returnE_def)
  qed
qed

section \<open>Properties\<close>

text \<open>The health report is right about quorum: \<open>has_quorum\<close> holds exactly when the node and the
  peers it counts as active are a strict majority of the members it knows, and exactly then the health
  check warns of no partition.\<close>

lemma has_quorum_iff_majority:
  "(has_quorum (GetClusterHealth nowAt rm) \<longleftrightarrow>
      2 * (active_nodes (GetClusterHealth nowAt rm) + 1) > total_nodes (GetClusterHealth nowAt rm)) \<and>
   (has_quorum (GetClusterHealth nowAt rm) \<longleftrightarrow>
      list_all (\<lambda>w. \<not> (\<exists>a b c. w = PossiblePartition a b c)) (performHealthCheck now nowAt rm)) \<and>
   active_nodes (GetClusterHealth nowAt rm) < total_nodes (GetClusterHealth nowAt rm)"
  using countActive_bounds [of nowAt rm]
  by (auto simp: GetClusterHealth_def performHealthCheck_def Let_def half_majority not_less)

text \<open>(C30) The monitor has nothing to report on: no operation of the Raft manager ever adds a peer or
  records a leader, so in every reachable state the health report says one node, quorum and no leader,
  and the status it writes over the resource names no leader (even when the node is the leader), has
  size 1 and lists only the node itself.\<close>

theorem monitor_never_sees_cluster:
  assumes "nid \<noteq> []" "rm = fst (run (node_step api) es (NewRaftManager nid c r t0, s))"
  shows "total_nodes (GetClusterHealth nowAt rm) = 1 \<and> active_nodes (GetClusterHealth nowAt rm) = 0 \<and>
     has_quorum (GetClusterHealth nowAt rm) \<and> current_leader (GetClusterHealth nowAt rm) = [] \<and>
     RaftLeader (monitorStatus now nowAt rm) = [] \<and> ClusterSize (monitorStatus now nowAt rm) = 1 \<and>
     RaftNodes (monitorStatus now nowAt rm) =
       Some [nid \<mapsto> \<lparr>NodeId = nid, State = state rm, NodeTerm = currentTerm rm, LastContact = now, IsActive = True\<rparr>]"
proof -
  have "node_inv nid rm" unfolding assms(2) by (rule node_inv_run [OF assms(1)])
  then have "peers rm = []" "leaderId rm = []" "nodeId rm = nid" by (simp_all add: node_inv_def)
  then show ?thesis
    by (simp add: GetClusterHealth_def countActive_def monitorStatus_def Let_def in32_def)
qed

lemma monitor_never_sees_cluster_witness:
  "RaftLeader (monitorStatus 5 (\<lambda>_. 5)
      (fst (run (node_step nil_api) sample_run (NewRaftManager ''n0'' sample_cluster 0 0, ())))) = []"
  using monitor_never_sees_cluster [of "''n0''" _ nil_api sample_run sample_cluster 0 0 "()" "\<lambda>_. 5" 5]
  by simp

end
