(* ===== verification/Raft_Types.thy ===== *)
theory Raft_Types
  imports Monitor
begin

text \<open>
  Well-formedness of the Raft manager: what its fields mean, as an invariant of every run of its atomic sections
  and of the monitor's status updates. It covers the widths (the model keeps Go's fixed-width integers as
  unbounded ones and writes the wrap-around out where the code can overflow), the signs, the link between the state,
  the vote and the term, the two index tables of a leader, and the range of the election timeout.
\<close>

section \<open>Well-formed managers\<close>





definition wf_indexes :: "RaftManager \<Rightarrow> bool" where
  "wf_indexes rm \<longleftrightarrow> dom (nextIndex rm) = dom (matchIndex rm) \<and> nodeId rm \<notin> dom (nextIndex rm) \<and>
     (\<forall>n v. nextIndex rm n = Some v \<longrightarrow> 1 \<le> v \<and> in64 v) \<and> (\<forall>n v. matchIndex rm n = Some v \<longrightarrow> v = 0)"





section \<open>Preservation\<close>

lemma typed_small [simp]: "in64 0" "in32 0" "in32 1"
  by (simp_all add: in64_def in32_def)

lemma wf_indexes_frame [simp]:
  "wf_indexes (rm\<lparr>state := a\<rparr>) = wf_indexes rm" "wf_indexes (rm\<lparr>currentTerm := b\<rparr>) = wf_indexes rm"
  "wf_indexes (rm\<lparr>votedFor := c\<rparr>) = wf_indexes rm" "wf_indexes (rm\<lparr>rlog := d\<rparr>) = wf_indexes rm"
  "wf_indexes (rm\<lparr>lastHeartbeat := e\<rparr>) = wf_indexes rm" "wf_indexes (rm\<lparr>electionTimeout := f\<rparr>) = wf_indexes rm"
  "wf_indexes (rm\<lparr>commitIndex := g\<rparr>) = wf_indexes rm" "wf_indexes (rm\<lparr>cluster := h\<rparr>) = wf_indexes rm"
  by (simp_all add: wf_indexes_def)












section \<open>Property\<close>





end
