(* ===== verification/Utlis.thy ===== *)
theory Utlis
  imports K8s_Store
begin

text \<open>
  The helpers of \<^verbatim>\<open>src/internal/controller/utlis.go\<close>: creating the ConfigMap, the volume
  claim, the pod and the Service of a replica, labelling pods, running commands in them and
  setting up replication. Each is an \<open>io\<close> action over the client. \<open>waitPodHealthy\<close> is
  the readiness loop at the end of \<open>createPod\<close>, which has no bound: it is \<open>None\<close> when the
  pod never becomes healthy. Logging is left out.
\<close>

section \<open>Constants and owner references\<close>

definition MySQLPassword :: string where
  "MySQLPassword = ''password''"

definition MysqlClusterKind :: string where
  "MysqlClusterKind = ''MysqlCluster''"

definition MysqlClusterAPIVersion :: string where
  "MysqlClusterAPIVersion = ''apps.ryansu.com/v1''"

definition ownerRef :: "string \<Rightarrow> string \<Rightarrow> MysqlCluster \<Rightarrow> OwnerReference" where
  "ownerRef apiVersion kind c =
     \<lparr>APIVersion = apiVersion, Kind = kind, OwnerName = Name (cluster_meta c),
      OwnerUID = UID (cluster_meta c), Controller = True\<rparr>"

definition mysql_command :: "string \<Rightarrow> string" where
  \<open>mysql_command sql = ''mysql -uroot -p'' @ MySQLPassword @ '' -e "'' @ sql @ ''"''\<close>

section \<open>Creating the objects of a replica\<close>

definition myCnf :: "int \<Rightarrow> string" where
  "myCnf serverID =
     ''[mysqld]'' @ [CHR 0x0A] @ ''server-id='' @ sprintf_d serverID @ [CHR 0x0A] @
     ''binlog_format=row'' @ [CHR 0x0A] @ ''log-bin=mysql-bin'' @ [CHR 0x0A] @
     ''skip-name-resolve'' @ [CHR 0x0A] @ ''gtid-mode=on'' @ [CHR 0x0A] @
     ''enforce-gtid-consistency=true'' @ [CHR 0x0A] @ ''log-slave-updates=1'' @ [CHR 0x0A] @
     ''relay_log_purge=0'' @ [CHR 0x0A] @ ''# other configurations''"

definition configMapFor :: "string \<Rightarrow> int \<Rightarrow> string \<Rightarrow> MysqlCluster \<Rightarrow> ConfigMap" where
  "configMapFor nm serverID ns c =
     \<lparr>cm_meta = \<lparr>Name = nm, Namespace = ns, UID = [], Labels = None, Annotations = None,
        OwnerReferences = [ownerRef MysqlClusterAPIVersion MysqlClusterKind c]\<rparr>,
      Data = [''my.cnf'' \<mapsto> myCnf serverID]\<rparr>"

definition createConfigMap ::
    "'s k8s \<Rightarrow> string \<Rightarrow> int \<Rightarrow> string \<Rightarrow> MysqlCluster \<Rightarrow> ('s, unit) io" where
  "createConfigMap api nm serverID ns c =
     bindE (tryE (liftE (Get_ConfigMap api ns nm))) (\<lambda>existing. case existing of
         Inr _ \<Rightarrow> returnE ()
       | Inl _ \<Rightarrow> liftE (Create_ConfigMap api (configMapFor nm serverID ns c)))"

definition mustParse :: "'s k8s \<Rightarrow> string \<Rightarrow> ('s, string) io" where
  "mustParse api q = (case MustParse api q of None \<Rightarrow> panicE MustParseFailed | Some v \<Rightarrow> returnE v)"

definition pvcFor :: "string \<Rightarrow> string \<Rightarrow> string \<Rightarrow> string \<Rightarrow> MysqlCluster \<Rightarrow> PersistentVolumeClaim" where
  "pvcFor nm storageClassName ns quantity c =
     \<lparr>pvc_meta = \<lparr>Name = nm, Namespace = ns, UID = [], Labels = Some [''app'' \<mapsto> ''mysql''],
        Annotations = None,
        OwnerReferences = [ownerRef ''database.kubebuilder.io/v1'' ''MysqlCluster'' c]\<rparr>,
      AccessModes = [''ReadWriteOnce''], StorageRequest = quantity,
      PvcStorageClassName = storageClassName\<rparr>"

definition createPVC ::
    "'s k8s \<Rightarrow> string \<Rightarrow> string \<Rightarrow> string \<Rightarrow> string \<Rightarrow> MysqlCluster \<Rightarrow> ('s, unit) io" where
  "createPVC api nm storageClassName ns storageSize c =
     bindE (tryE (liftE (Get_PVC api ns nm))) (\<lambda>existing. case existing of
         Inr _ \<Rightarrow> returnE ()
       | Inl _ \<Rightarrow> bindE (mustParse api storageSize) (\<lambda>quantity.
           liftE (Create_PVC api (pvcFor nm storageClassName ns quantity c))))"

definition isPodHealthy :: "Pod \<Rightarrow> bool" where
  "isPodHealthy pod \<longleftrightarrow> Phase pod = PodRunning \<and> length (ContainerStatuses pod) > 0 \<and>
     Ready (ContainerStatuses pod ! 0)"

text \<open>One round of the readiness loop: sleep, then read the pod; an error counts as not
  healthy.\<close>

definition pollPod :: "'s k8s \<Rightarrow> string \<Rightarrow> string \<Rightarrow> 's \<Rightarrow> bool \<times> 's" where
  "pollPod api ns nm s = (case Get_Pod api ns nm (Sleep api (5 * Second) s) of
       (Inl err, s') \<Rightarrow> (False, s')
     | (Inr pod, s') \<Rightarrow> (isPodHealthy pod, s'))"

partial_function (option) waitPodHealthy :: "'s k8s \<Rightarrow> string \<Rightarrow> string \<Rightarrow> 's \<Rightarrow> 's option" where
  "waitPodHealthy api ns nm s =
     (if fst (pollPod api ns nm s) then Some (snd (pollPod api ns nm s))
      else waitPodHealthy api ns nm (snd (pollPod api ns nm s)))"

definition podFor ::
    "string \<Rightarrow> string \<Rightarrow> string \<Rightarrow> string \<Rightarrow> string \<Rightarrow> MysqlCluster \<Rightarrow>
     string \<Rightarrow> string \<Rightarrow> string \<Rightarrow> string \<Rightarrow> Pod" where
  "podFor nm img configMapName pvcName ns c reqCPU reqMem limCPU limMem =
     \<lparr>pod_meta = \<lparr>Name = nm, Namespace = ns, UID = [], Labels = Some [''app'' \<mapsto> ''mysql''],
        Annotations = None, OwnerReferences = [ownerRef MysqlClusterAPIVersion MysqlClusterKind c]\<rparr>,
      Containers = [\<lparr>ContainerName = ''mysql'', ContainerImage = img, CpuRequest = reqCPU,
        MemoryRequest = reqMem, CpuLimit = limCPU, MemoryLimit = limMem,
        Env = [(''MYSQL_ROOT_PASSWORD'', ''password'')], ContainerPorts = [(''mysql'', 3306)],
        VolumeMounts =
          [\<lparr>MountName = ''mysql-config'', MountPath = ''/etc/my.cnf'', SubPath = ''my.cnf''\<rparr>,
           \<lparr>MountName = ''mysql-data'', MountPath = ''/var/lib/mysql'', SubPath = []\<rparr>]\<rparr>],
      Volumes = [ConfigMapVolume ''mysql-config'' configMapName, PvcVolume ''mysql-data'' pvcName],
      Phase = PodPending, ContainerStatuses = []\<rparr>"

definition createPod ::
    "'s k8s \<Rightarrow> string \<Rightarrow> string \<Rightarrow> string \<Rightarrow> string \<Rightarrow> string \<Rightarrow> MysqlCluster \<Rightarrow> ('s, unit) io" where
  "createPod api nm img configMapName pvcName ns c =
     bindE (tryE (liftE (Get_Pod api ns nm))) (\<lambda>existing. case existing of
         Inr _ \<Rightarrow> returnE ()
       | Inl _ \<Rightarrow>
           bindE (mustParse api (RequestCPU (Requests (Resources (Spec c))))) (\<lambda>reqCPU.
           bindE (mustParse api (RequestMemory (Requests (Resources (Spec c))))) (\<lambda>reqMem.
           bindE (mustParse api (LimitCPU (Limits (Resources (Spec c))))) (\<lambda>limCPU.
           bindE (mustParse api (LimitMemory (Limits (Resources (Spec c))))) (\<lambda>limMem.
           bindE (liftE (Create_Pod api
                   (podFor nm img configMapName pvcName ns c reqCPU reqMem limCPU limMem))) (\<lambda>_.
           \<lambda>s. map_option (Pair (Ok ())) (waitPodHealthy api ns nm s)))))))"

section \<open>Services\<close>

definition createService :: "string \<Rightarrow> string \<Rightarrow> string \<Rightarrow> MysqlCluster \<Rightarrow> Service" where
  "createService nm role ns c =
     \<lparr>svc_meta = \<lparr>Name = nm, Namespace = ns, UID = [],
        Labels = Some [''app'' \<mapsto> ''mysql'', ''role'' \<mapsto> role], Annotations = None,
        OwnerReferences = [ownerRef MysqlClusterAPIVersion MysqlClusterKind c]\<rparr>,
      Selector = [''app'' \<mapsto> ''mysql'', ''role'' \<mapsto> role],
      Ports = [\<lparr>Port = 3306, TargetPort = 3306, Protocol = ''TCP''\<rparr>], ServiceType = ''ClusterIP''\<rparr>"

definition getOrCreateService ::
    "'s k8s \<Rightarrow> string \<Rightarrow> string \<Rightarrow> string \<Rightarrow> MysqlCluster \<Rightarrow> ('s, Service) io" where
  "getOrCreateService api serviceName role ns c =
     bindE (tryE (liftE (Get_Service api ns serviceName))) (\<lambda>r. case r of
         Inr service \<Rightarrow> returnE service
       | Inl err \<Rightarrow>
           if IsNotFound err
           then let service = createService serviceName role ns c
                in bindE (liftE (Create_Service api service)) (\<lambda>_. returnE service)
           else failE err)"

section \<open>Commands, labels and replication\<close>

definition execCommandOnPod :: "'s k8s \<Rightarrow> Pod \<Rightarrow> string \<Rightarrow> ('s, string) io" where
  "execCommandOnPod api pod command =
     bindE (liftE (InClusterConfig api)) (\<lambda>_.
     bindE (liftE (NewForConfig api)) (\<lambda>_.
     case Containers pod of
       [] \<Rightarrow> panicE IndexRange
     | container # _ \<Rightarrow>
         bindE (liftE (NewSPDYExecutor api (Namespace (pod_meta pod)) (Name (pod_meta pod))
                        (ContainerName container) command)) (\<lambda>_.
         liftE (Stream api (Namespace (pod_meta pod)) (Name (pod_meta pod))
                  (ContainerName container) command))))"

definition set_role :: "string \<Rightarrow> Pod \<Rightarrow> Pod" where
  "set_role role pod = pod\<lparr>pod_meta := (pod_meta pod)\<lparr>Labels :=
     Some ((case Labels (pod_meta pod) of None \<Rightarrow> Map.empty | Some m \<Rightarrow> m)(''role'' \<mapsto> role))\<rparr>\<rparr>"

definition labelPod :: "'s k8s \<Rightarrow> string \<Rightarrow> string \<Rightarrow> MysqlCluster \<Rightarrow> ('s, unit) io" where
  "labelPod api podName role c =
     bindE (wrapE (\<lambda>e. Errorf ''failed to get pod %s: %v'' [podName] (Some e))
             (liftE (Get_Pod api (Namespace (cluster_meta c)) podName))) (\<lambda>pod.
     wrapE (\<lambda>e. Errorf ''failed to update pod %s: %v'' [podName] (Some e))
       (liftE (Update_Pod api (set_role role pod))))"

definition masterCommand :: string where
  \<open>masterCommand = mysql_command
     (''CREATE USER IF NOT EXISTS 'replica'@'%' IDENTIFIED BY 'password'; '' @
      ''GRANT REPLICATION SLAVE ON *.* TO 'replica'@'%';STOP slave;'')\<close>

definition slaveCommand :: "string \<Rightarrow> string" where
  \<open>slaveCommand masterServiceName = mysql_command
     (''STOP SLAVE;CHANGE MASTER TO MASTER_HOST='' @ [CHR 0x27] @ masterServiceName @ [CHR 0x27] @
      '', MASTER_USER='replica', MASTER_PASSWORD='password', MASTER_AUTO_POSITION=1; START SLAVE;'')\<close>

definition configureSlave :: "'s k8s \<Rightarrow> MysqlCluster \<Rightarrow> string \<Rightarrow> ('s, unit) io" where
  "configureSlave api c slaveName =
     bindE (wrapE (\<lambda>e. Errorf ''failed to get slave pod %s: %v'' [slaveName] (Some e))
             (liftE (Get_Pod api (Namespace (cluster_meta c)) slaveName))) (\<lambda>slavePod.
     bindE (wrapE (\<lambda>e. Errorf ''failed to execute command on slave pod %s: %v'' [slaveName] (Some e))
             (execCommandOnPod api slavePod (slaveCommand (MasterService (Spec c))))) (\<lambda>_.
     wrapE (\<lambda>e. Errorf ''failed to label slave pod %s: %v'' [slaveName] (Some e))
       (labelPod api slaveName ''slave'' c)))"

definition setupMasterSlaveReplication ::
    "'s k8s \<Rightarrow> string \<Rightarrow> string list \<Rightarrow> MysqlCluster \<Rightarrow> ('s, unit) io" where
  "setupMasterSlaveReplication api masterName slaveNames c =
     bindE (wrapE (\<lambda>e. Errorf ''failed to get master pod %s: %v'' [masterName] (Some e))
             (liftE (Get_Pod api (Namespace (cluster_meta c)) masterName))) (\<lambda>masterPod.
     bindE (wrapE (\<lambda>e. Errorf ''failed to label master pod %s: %v'' [masterName] (Some e))
             (labelPod api masterName ''master'' c)) (\<lambda>_.
     bindE (wrapE (\<lambda>e. Errorf ''failed to execute command on master pod %s: %v'' [masterName] (Some e))
             (execCommandOnPod api masterPod masterCommand)) (\<lambda>_.
     forE slaveNames (configureSlave api c))))"

section \<open>Finding the master\<close>

definition getMasterPodNameFromEndpoints :: "'s k8s \<Rightarrow> MysqlCluster \<Rightarrow> ('s, string) io" where
  "getMasterPodNameFromEndpoints api c =
     bindE (wrapE (\<lambda>e. Errorf ''failed to get endpoints for service %s: %v''
                          [MasterService (Spec c)] (Some e))
             (liftE (Get_Endpoints api (Namespace (cluster_meta c)) (MasterService (Spec c))))) (\<lambda>ep.
     case Subsets ep of
       [] \<Rightarrow> failE (Errorf ''no endpoints found for service %s'' [MasterService (Spec c)] None)
     | sub0 # _ \<Rightarrow> (case Addresses sub0 of
         [] \<Rightarrow> failE (Errorf ''no endpoints found for service %s'' [MasterService (Spec c)] None)
       | address # _ \<Rightarrow> (case TargetRef address of
           None \<Rightarrow> panicE NilDeref
         | Some nm \<Rightarrow> returnE nm)))"

section \<open>Lemmas on the readiness loop\<close>

declare waitPodHealthy.simps [code]

text \<open>The world after \<open>k\<close> rounds.\<close>

definition polls :: "'s k8s \<Rightarrow> string \<Rightarrow> string \<Rightarrow> nat \<Rightarrow> 's \<Rightarrow> 's" where
  "polls api ns nm k s = ((\<lambda>t. snd (pollPod api ns nm t)) ^^ k) s"

lemma polls_simps [simp]:
  "polls api ns nm 0 s = s"
  "polls api ns nm (Suc k) s = polls api ns nm k (snd (pollPod api ns nm s))"
  by (simp_all add: polls_def funpow_Suc_right comp_def del: funpow.simps(2))

lemma polls_Suc: "snd (pollPod api ns nm (polls api ns nm k s)) = polls api ns nm (Suc k) s"
  by (induction k arbitrary: s) simp_all

lemma waitPodHealthy_now:
  "fst (pollPod api ns nm s) \<Longrightarrow> waitPodHealthy api ns nm s = Some (snd (pollPod api ns nm s))"
  by (subst waitPodHealthy.simps) simp

lemma waitPodHealthy_later:
  "\<not> fst (pollPod api ns nm s) \<Longrightarrow>
   waitPodHealthy api ns nm s = waitPodHealthy api ns nm (snd (pollPod api ns nm s))"
  by (subst waitPodHealthy.simps) simp

lemma waitPodHealthy_returns:
  assumes "fst (pollPod api ns nm (polls api ns nm k s))"
    and "\<And>j. j < k \<Longrightarrow> \<not> fst (pollPod api ns nm (polls api ns nm j s))"
  shows "waitPodHealthy api ns nm s = Some (polls api ns nm (Suc k) s)"
  using assms
proof (induction k arbitrary: s)
  case 0
  then show ?case by (simp add: waitPodHealthy_now)
next
  case (Suc k)
  have "\<not> fst (pollPod api ns nm s)" using Suc.prems(2) [of 0] by simp
  moreover have "waitPodHealthy api ns nm (snd (pollPod api ns nm s)) =
      Some (polls api ns nm (Suc k) (snd (pollPod api ns nm s)))"
    using Suc.prems(1) Suc.prems(2) [of "Suc _"] by (intro Suc.IH) auto
  ultimately show ?case by (simp add: waitPodHealthy_later)
qed

lemma waitPodHealthy_rounds:
  assumes "waitPodHealthy api ns nm s = Some t"
  shows "\<exists>k. t = polls api ns nm (Suc k) s \<and> fst (pollPod api ns nm (polls api ns nm k s)) \<and>
     (\<forall>j<k. \<not> fst (pollPod api ns nm (polls api ns nm j s)))"
proof (rule waitPodHealthy.raw_induct [where P = "\<lambda>api ns nm s t.
     \<exists>k. t = polls api ns nm (Suc k) s \<and> fst (pollPod api ns nm (polls api ns nm k s)) \<and>
       (\<forall>j<k. \<not> fst (pollPod api ns nm (polls api ns nm j s)))", OF _ assms], goal_cases)
  case (1 wait api ns nm s t)
  show ?case
  proof (cases "fst (pollPod api ns nm s)")
    case True
    with 1(2) show ?thesis by (intro exI [of _ 0]) simp
  next
    case False
    with 1(2) have "wait api ns nm (snd (pollPod api ns nm s)) = Some t" by simp
    from 1(1) [OF this] obtain k where k: "t = polls api ns nm (Suc k) (snd (pollPod api ns nm s))"
        "fst (pollPod api ns nm (polls api ns nm k (snd (pollPod api ns nm s))))"
        "\<forall>j<k. \<not> fst (pollPod api ns nm (polls api ns nm j (snd (pollPod api ns nm s))))"
      by blast
    have "\<not> fst (pollPod api ns nm (polls api ns nm j s))" if "j < Suc k" for j
      using that False k(3) by (cases j) auto
    with k(1,2) show ?thesis by (intro exI [of _ "Suc k"]) simp
  qed
qed

section \<open>Lemmas on labels and commands\<close>

definition with_role :: "string \<Rightarrow> (string \<rightharpoonup> string) option \<Rightarrow> (string \<rightharpoonup> string) option" where
  "with_role role m = Some ((case m of None \<Rightarrow> Map.empty | Some l \<Rightarrow> l)(''role'' \<mapsto> role))"

definition role_at :: "('s \<Rightarrow> (string \<times> string) \<rightharpoonup> Pod) \<Rightarrow> 's \<Rightarrow> string \<Rightarrow> string \<Rightarrow> string option" where
  "role_at pods s ns n = (case pods s (ns, n) of None \<Rightarrow> None | Some p \<Rightarrow> pod_label p ''role'')"

lemma role_at_labels:
  "role_at pods s ns n = (case labels_at pods s (ns, n) of Some (Some l) \<Rightarrow> l ''role'' | _ \<Rightarrow> None)"
  by (simp add: role_at_def labels_at_def pod_label_def split: option.splits)

lemma set_role_meta [simp]:
  "pod_key (set_role role p) = pod_key p"
  "Labels (pod_meta (set_role role p)) = with_role role (Labels (pod_meta p))"
  by (simp_all add: pod_key_def set_role_def with_role_def)

lemma labels_at_cong: "pods t = pods s \<Longrightarrow> labels_at pods t = labels_at pods s"
  by (simp add: labels_at_def fun_eq_iff)

lemma mustParse_Ok: "mustParse api q s = Some (Ok v, t) \<Longrightarrow> t = s"
  by (auto simp: mustParse_def split: option.splits)

text \<open>What labelling means on the abstract store: one entry of the label map changes.\<close>

type_synonym label_map = "(string \<times> string) \<rightharpoonup> (string \<rightharpoonup> string) option"

definition apply_role :: "string \<Rightarrow> string \<Rightarrow> string \<Rightarrow> label_map \<Rightarrow> label_map" where
  "apply_role ns role n L = L((ns, n) := map_option (with_role role) (L (ns, n)))"

definition spec_setup :: "string \<Rightarrow> string \<Rightarrow> string list \<Rightarrow> label_map \<Rightarrow> label_map" where
  "spec_setup ns m ss L = fold (apply_role ns ''slave'') ss (apply_role ns ''master'' m L)"

lemma dom_apply_role [simp]: "dom (apply_role ns role n L) = dom L"
  by (auto simp: apply_role_def dom_def)

lemma fold_apply_role:
  "fold (apply_role ns role) ss L (ns', n) =
     (if ns' = ns \<and> n \<in> set ss then map_option (with_role role) (L (ns', n)) else L (ns', n))"
proof (induction ss arbitrary: L)
  case Nil
  then show ?case by simp
next
  case (Cons x ss)
  have twice: "map_option (with_role role) (map_option (with_role role) z) = map_option (with_role role) z"
    for z by (cases z) (simp_all add: with_role_def)
  show ?case by (simp only: fold_simps Cons.IH) (auto simp: apply_role_def twice)
qed

lemma spec_setup_role:
  assumes "(ns, n) \<in> dom L"
  shows "(case spec_setup ns m ss L (ns, n) of Some (Some l) \<Rightarrow> l ''role'' | _ \<Rightarrow> None) =
     (if n \<in> set ss then Some ''slave'' else if n = m then Some ''master''
      else case L (ns, n) of Some (Some l) \<Rightarrow> l ''role'' | _ \<Rightarrow> None)"
  using assms by (auto simp: spec_setup_def fold_apply_role apply_role_def with_role_def)

context reads
begin

lemma mustParse_moves [simp]: "moves R (mustParse api q)"
  by (simp add: mustParse_def split: option.splits)

lemma exec_moves: "moves R (execCommandOnPod api pod cmd)"
  by (cases "Containers pod") (auto simp: execCommandOnPod_def read_calls intro!: moves_seq)

lemma createConfigMap_moves: "moves R (createConfigMap api nm i ns c)"
  unfolding createConfigMap_def by (intro moves_seq) (simp_all add: read_calls split: sum.splits)

lemma createPVC_moves: "moves R (createPVC api nm sc ns sz c)"
proof -
  have "moves R (bindE (mustParse api q) (\<lambda>x. liftE (Create_PVC api (f x))))" for q f
    by (intro moves_seq) (simp_all add: read_calls)
  then show ?thesis
    unfolding createPVC_def by (intro moves_seq) (simp_all add: read_calls split: sum.splits)
qed

lemma getOrCreateService_moves: "moves R (getOrCreateService api nm role ns c)"
proof -
  have "moves R (bindE (liftE (Create_Service api sv)) (\<lambda>_. returnE x))" for sv and x :: Service
    by (intro moves_seq) (simp_all add: read_calls)
  then show ?thesis unfolding getOrCreateService_def
    by (intro moves_seq) (simp_all add: read_calls Let_def split: sum.splits)
qed

end

context quiet
begin

lemmas keeps_calls = read_calls [folded keeps_def]
lemmas exec_keeps = exec_moves [folded keeps_def]

end

text \<open>The labels of the pods only grow while no pod is updated.\<close>

sublocale pod_store \<subseteq> labels: creates api "\<lambda>s t. labels_at pods s \<subseteq>\<^sub>m labels_at pods t"
proof
  show "reflp (\<lambda>s t. labels_at pods s \<subseteq>\<^sub>m labels_at pods t)" by (simp add: reflp_def)
  show "transp (\<lambda>s t. labels_at pods s \<subseteq>\<^sub>m labels_at pods t)" by (auto intro: transpI map_le_trans)
  show "labels_at pods s \<subseteq>\<^sub>m labels_at pods s'" if "Create_Pod api p s = (w, s')" for p s w s'
    using that create_pod [of p s] create_pod_new [of p s] create_pod_err [of p s]
    by (cases w) (fastforce simp: map_le_def labels_at_def)+
qed (simp_all add: sleep_keeps_labels labels_at_def get_pod_keeps list_pods_keeps get_endpoints_keeps get_service_keeps
      create_service_keeps get_configmap_keeps create_configmap_keeps get_pvc_keeps create_pvc_keeps
      config_keeps client_keeps executor_keeps stream_keeps cong: labels_at_cong)

context creates
begin

lemma pollPod_moves: "R s (snd (pollPod api ns nm s))"
proof -
  obtain g t where get: "Get_Pod api ns nm (Sleep api (5 * Second) s) = (g, t)"
    by (cases "Get_Pod api ns nm (Sleep api (5 * Second) s)")
  then have "R s t" using transpD [OF R_trans sleep_moves get_pod_moves] by blast
  with get show ?thesis by (simp add: pollPod_def split: sum.splits)
qed

lemma waitPodHealthy_moves: "waitPodHealthy api ns nm s = Some t \<Longrightarrow> R s t"
proof (rule waitPodHealthy.raw_induct [where P = "\<lambda>api' ns' nm' s t. api' = api \<longrightarrow> R s t", THEN mp], goal_cases)
  case (1 wait api' ns' nm' s t)
  then show ?case
    using pollPod_moves [of s ns' nm'] transpD [OF R_trans] by (auto split: if_splits)
qed simp_all

lemma createPod_moves: "moves R (createPod api nm img cm pvc ns c)"
proof -
  have "moves R (\<lambda>s. map_option (Pair (Ok ())) (waitPodHealthy api ns nm s))"
    by (rule movesI) (auto dest: waitPodHealthy_moves)
  moreover have "moves R (liftE (Create_Pod api (podFor n' i' cm' pvc' ns' c' a b d e)))"
    for n' i' cm' pvc' ns' c' a b d e
    by (rule moves_liftE) (erule create_pod_moves, simp add: podFor_def)
  ultimately show ?thesis unfolding createPod_def
    by (auto simp: read_calls split: sum.splits intro!: moves_seq)
qed

end

context writes
begin

text \<open>Writing back a pod that was read, with its role set.\<close>

lemma write_role_moves:
  assumes "Update_Pod api (set_role v p) s = (w, s')" "fresh s p"
  shows "R s s'"
  by (rule update_pod_moves [OF assms]) (simp_all add: pod_label_def with_role_def split: option.splits)

lemma labelPod_moves: "moves R (labelPod api n role c)"
  unfolding labelPod_def
  by (rule moves_from)
     (auto simp: read_calls wrapE_def liftE_def dest!: get_pod_fresh
       split: option.splits res.splits prod.splits sum.splits dest: write_role_moves)

lemma setup_moves: "moves R (setupMasterSlaveReplication api mn ss c)"
  unfolding setupMasterSlaveReplication_def configureSlave_def
  by (intro moves_seq moves_loop) (simp_all add: read_calls exec_moves labelPod_moves)

end

context pod_store
begin

lemma keeps_labels: "keeps pods m \<Longrightarrow> keeps (\<lambda>s. labels_at pods s k) m"
  unfolding keeps_iff by (metis labels_at_cong)

lemma labels_at_update:
  "pods t = (pods s)(k \<mapsto> q) \<Longrightarrow> labels_at pods t = (labels_at pods s)(k \<mapsto> Labels (pod_meta q))"
  by (simp add: labels_at_def fun_eq_iff)

text \<open>Reading a pod, setting its role and writing it back.\<close>

lemma relabel:
  assumes get: "Get_Pod api ns n s = (Inr p, s1)" and upd: "Update_Pod api (set_role role p) s1 = (Inr u, t)"
  shows "labels_at pods t = apply_role ns role n (labels_at pods s)" "(ns, n) \<in> dom (labels_at pods s)"
proof -
  have p: "pods s (ns, n) = Some p" and s1: "pods s1 = pods s" and key: "pod_key p = (ns, n)"
    using get get_pod get_pod_keeps stored_key by blast+
  obtain q where q: "pods t = (pods s)((ns, n) \<mapsto> q)"
      "Labels (pod_meta q) = with_role role (Labels (pod_meta p))"
    using update_pod [OF upd] by (auto simp: s1 key)
  show "labels_at pods t = apply_role ns role n (labels_at pods s)"
    by (simp add: labels_at_update [OF q(1)] q(2) apply_role_def p labels_at_def)
  show "(ns, n) \<in> dom (labels_at pods s)" using p by (auto simp: labels_at_def)
qed

lemma labelPod_Ok:
  assumes "labelPod api n role c s = Some (Ok u, t)"
  shows "labels_at pods t = apply_role (Namespace (cluster_meta c)) role n (labels_at pods s)"
    and "(Namespace (cluster_meta c), n) \<in> dom (labels_at pods s)"
proof -
  from assms obtain p s1 where "Get_Pod api (Namespace (cluster_meta c)) n s = (Inr p, s1)"
      "Update_Pod api (set_role role p) s1 = (Inr u, t)"
    by (auto simp: labelPod_def bindE_Ok_iff)
  from relabel [OF this] show
    "labels_at pods t = apply_role (Namespace (cluster_meta c)) role n (labels_at pods s)"
    "(Namespace (cluster_meta c), n) \<in> dom (labels_at pods s)" .
qed

lemma labelPod_frame:
  assumes "k \<noteq> (Namespace (cluster_meta c), n)"
  shows "keeps (\<lambda>s. labels_at pods s k) (labelPod api n role c)"
proof (unfold keeps_iff, intro allI impI)
  fix s r t assume run: "labelPod api n role c s = Some (r, t)"
  obtain g s1 where get: "Get_Pod api (Namespace (cluster_meta c)) n s = (g, s1)"
    by (cases "Get_Pod api (Namespace (cluster_meta c)) n s")
  have s1: "pods s1 = pods s" by (rule get_pod_keeps [OF get])
  show "labels_at pods t k = labels_at pods s k"
  proof (cases g)
    case (Inl e)
    with run get s1 show ?thesis
      by (auto simp: labelPod_def bindE_def wrapE_def liftE_def labels_at_def)
  next
    case (Inr p)
    obtain w s2 where upd: "Update_Pod api (set_role role p) s1 = (w, s2)"
      by (cases "Update_Pod api (set_role role p) s1")
    have t: "t = s2" using run get Inr upd
      by (auto simp: labelPod_def bindE_def wrapE_def liftE_def split: sum.splits)
    have "pod_key p = (Namespace (cluster_meta c), n)"
      using get Inr get_pod stored_key by blast
    then show ?thesis
      using upd update_pod [of "set_role role p" s1] update_pod_err [of "set_role role p" s1] assms
      by (cases w) (fastforce simp: t s1 labels_at_def)+
  qed
qed

lemma configureSlave_frame:
  assumes "k \<noteq> (Namespace (cluster_meta c), n)"
  shows "keeps (\<lambda>s. labels_at pods s k) (configureSlave api c n)"
  unfolding configureSlave_def
  by (intro keeps_bindE) (simp_all add: keeps_labels keeps_calls exec_keeps labelPod_frame assms)

lemma setup_frame:
  assumes "k \<notin> Pair (Namespace (cluster_meta c)) ` set (m # ss)"
  shows "keeps (\<lambda>s. labels_at pods s k) (setupMasterSlaveReplication api m ss c)"
  unfolding setupMasterSlaveReplication_def
  using assms
  by (intro keeps_bindE keeps_forE)
     (auto simp: keeps_labels keeps_calls exec_keeps intro!: labelPod_frame configureSlave_frame)

lemma configureSlave_Ok:
  assumes "configureSlave api c n s = Some (Ok u, t)"
  shows "labels_at pods t = apply_role (Namespace (cluster_meta c)) ''slave'' n (labels_at pods s)"
    and "(Namespace (cluster_meta c), n) \<in> dom (labels_at pods s)"
proof -
  from assms obtain p s1 out s2 where "Get_Pod api (Namespace (cluster_meta c)) n s = (Inr p, s1)"
      and "execCommandOnPod api p (slaveCommand (MasterService (Spec c))) s1 = Some (Ok out, s2)"
      and lab: "labelPod api n ''slave'' c s2 = Some (Ok u, t)"
    by (auto simp: configureSlave_def bindE_Ok_iff)
  then have "labels_at pods s2 = labels_at pods s"
    by (metis get_pod_keeps keepsD exec_keeps labels_at_cong)
  with labelPod_Ok [OF lab] show
    "labels_at pods t = apply_role (Namespace (cluster_meta c)) ''slave'' n (labels_at pods s)"
    "(Namespace (cluster_meta c), n) \<in> dom (labels_at pods s)"
    by simp_all
qed

lemma configureSlaves_Ok:
  assumes "forE ss (configureSlave api c) s = Some (Ok u, t)"
  shows "labels_at pods t = fold (apply_role (Namespace (cluster_meta c)) ''slave'') ss (labels_at pods s)
     \<and> Pair (Namespace (cluster_meta c)) ` set ss \<subseteq> dom (labels_at pods s)"
  using assms
proof (induction ss arbitrary: s)
  case Nil
  then show ?case by simp
next
  case (Cons n ss)
  then obtain s1 where "configureSlave api c n s = Some (Ok (), s1)"
      and rest: "forE ss (configureSlave api c) s1 = Some (Ok u, t)"
    by (auto simp: bindE_Ok_iff)
  note one = configureSlave_Ok [OF this(1)]
  show ?case using Cons.IH [OF rest] one by simp
qed

text \<open>The whole of \<open>setupMasterSlaveReplication\<close>, on the labels: it implements
  \<open>spec_setup\<close>.\<close>

lemma setup_Ok:
  assumes "setupMasterSlaveReplication api m ss c s = Some (Ok u, t)"
  shows "labels_at pods t = spec_setup (Namespace (cluster_meta c)) m ss (labels_at pods s)"
    and "Pair (Namespace (cluster_meta c)) ` set (m # ss) \<subseteq> dom (labels_at pods s)"
proof -
  from assms obtain p s1 s2 out s3 where
      get: "Get_Pod api (Namespace (cluster_meta c)) m s = (Inr p, s1)"
      and lab: "labelPod api m ''master'' c s1 = Some (Ok (), s2)"
      and ex: "execCommandOnPod api p masterCommand s2 = Some (Ok out, s3)"
      and rest: "forE ss (configureSlave api c) s3 = Some (Ok u, t)"
    by (auto simp: setupMasterSlaveReplication_def bindE_Ok_iff)
  have "labels_at pods s3 = labels_at pods s2" "labels_at pods s1 = labels_at pods s"
    using get ex get_pod_keeps keepsD exec_keeps labels_at_cong by metis+
  then show "labels_at pods t = spec_setup (Namespace (cluster_meta c)) m ss (labels_at pods s)"
      and "Pair (Namespace (cluster_meta c)) ` set (m # ss) \<subseteq> dom (labels_at pods s)"
    using configureSlaves_Ok [OF rest] labelPod_Ok [OF lab] by (simp_all add: spec_setup_def)
qed

lemma setup_role_at:
  assumes "setupMasterSlaveReplication api m ss c s = Some (Ok u, t)"
  shows "role_at pods t (Namespace (cluster_meta c)) n =
       (if n \<in> set ss then Some ''slave'' else if n = m then Some ''master''
        else role_at pods s (Namespace (cluster_meta c)) n)"
proof (cases "(Namespace (cluster_meta c), n) \<in> dom (labels_at pods s)")
  case True
  then show ?thesis unfolding role_at_labels setup_Ok(1) [OF assms] by (rule spec_setup_role)
next
  case False
  then have "n \<notin> set (m # ss)" using setup_Ok(2) [OF assms] by auto
  with False show ?thesis
    by (auto simp: role_at_labels setup_Ok(1) [OF assms] spec_setup_def fold_apply_role apply_role_def)
qed

text \<open>\<open>createPod\<close> returns with the pod in the store, with the labels it had or with
  \<open>app=mysql\<close>.\<close>

lemma pollPod_keeps_labels: "labels_at pods (snd (pollPod api ns nm s)) = labels_at pods s"
proof -
  obtain r t where get: "Get_Pod api ns nm (Sleep api (5 * Second) s) = (r, t)"
    by (cases "Get_Pod api ns nm (Sleep api (5 * Second) s)")
  then have "labels_at pods t = labels_at pods s"
    using get_pod_keeps labels_at_cong sleep_keeps_labels by metis
  with get show ?thesis by (simp add: pollPod_def split: sum.splits)
qed

lemma polls_keep_labels: "labels_at pods (polls api ns nm k s) = labels_at pods s"
  by (induction k arbitrary: s) (simp_all add: pollPod_keeps_labels)

lemma waitPodHealthy_keeps_labels:
  "waitPodHealthy api ns nm s = Some t \<Longrightarrow> labels_at pods t = labels_at pods s"
  using waitPodHealthy_rounds [of api ns nm s t] by (auto simp: polls_keep_labels simp del: polls_simps)

lemma createPod_Ok:
  assumes "createPod api nm img cm pvc ns c s = Some (Ok u, t)"
  shows "labels_at pods t = labels_at pods s \<and> (ns, nm) \<in> dom (labels_at pods s) \<or>
     labels_at pods t = (labels_at pods s)((ns, nm) \<mapsto> Some [''app'' \<mapsto> ''mysql''])"
proof -
  obtain g s1 where get: "Get_Pod api ns nm s = (g, s1)" by (cases "Get_Pod api ns nm s")
  have s1: "labels_at pods s1 = labels_at pods s" by (rule labels_at_cong) (rule get_pod_keeps [OF get])
  show ?thesis
  proof (cases g)
    case (Inr p)
    then have "pods s (ns, nm) = Some p" "t = s1"
      using get get_pod assms by (auto simp: createPod_def bindE_def tryE_def liftE_def returnE_def)
    with s1 show ?thesis by (auto simp: labels_at_def)
  next
    case (Inl e)
    with assms get obtain p s2 where
        cr: "Create_Pod api p s1 = (Inr (), s2)" "pod_key p = (ns, nm)"
          "Labels (pod_meta p) = Some [''app'' \<mapsto> ''mysql'']"
        and wait: "waitPodHealthy api ns nm s2 = Some t"
      by (auto simp: createPod_def bindE_Ok_iff tryE_Ok_iff podFor_def pod_key_def
          dest!: mustParse_Ok split: sum.splits)
    have "labels_at pods s2 = (labels_at pods s)((ns, nm) \<mapsto> Some [''app'' \<mapsto> ''mysql''])"
      using create_pod [OF cr(1)] labels_at_update by (auto simp: cr(2,3) s1)
    with waitPodHealthy_keeps_labels [OF wait] show ?thesis by simp
  qed
qed

end

context exec_store
begin

lemma no_exec_calls:
  "keeps execs (liftE (Get_Pod api ns n))" "keeps execs (liftE (Update_Pod api p))"
  by (rule keeps_liftE; erule get_pod_no_exec update_pod_no_exec)+

lemma labelPod_no_exec: "keeps execs (labelPod api n role c)"
  unfolding labelPod_def by (intro keeps_bindE) (simp_all add: no_exec_calls)

lemma execCommandOnPod_logged:
  assumes "execCommandOnPod api pod cmd s = Some (Ok out, t)"
  shows "execs t = execs s @ [(Name (pod_meta pod), cmd)]"
  using assms stream_logged config_no_exec client_no_exec executor_no_exec
  by (auto simp: execCommandOnPod_def bindE_Ok_iff split: list.splits)

lemma exec_on_stored_pod:
  assumes "Get_Pod api ns n s = (Inr p, s1)" "execCommandOnPod api p cmd s2 = Some (Ok out, t)"
  shows "execs t = execs s2 @ [(n, cmd)]"
  using execCommandOnPod_logged [OF assms(2)] get_pod [OF assms(1)] stored_key
  by (fastforce simp: pod_key_def)

lemma configureSlave_logged:
  assumes "configureSlave api c n s = Some (Ok u, t)"
  shows "execs t = execs s @ [(n, slaveCommand (MasterService (Spec c)))]"
proof -
  from assms obtain p s1 out s2 where get: "Get_Pod api (Namespace (cluster_meta c)) n s = (Inr p, s1)"
      and ex: "execCommandOnPod api p (slaveCommand (MasterService (Spec c))) s1 = Some (Ok out, s2)"
      and lab: "labelPod api n ''slave'' c s2 = Some (Ok u, t)"
    by (auto simp: configureSlave_def bindE_Ok_iff)
  show ?thesis
    using exec_on_stored_pod [OF get ex] get_pod_no_exec [OF get] keepsD [OF labelPod_no_exec lab]
    by simp
qed

lemma configureSlaves_logged:
  assumes "forE ss (configureSlave api c) s = Some (Ok u, t)"
  shows "execs t = execs s @ map (\<lambda>n. (n, slaveCommand (MasterService (Spec c)))) ss"
  using assms
  by (induction ss arbitrary: s) (auto simp: bindE_Ok_iff dest!: configureSlave_logged)

lemma setup_logged:
  assumes "setupMasterSlaveReplication api m ss c s = Some (Ok u, t)"
  shows "execs t = execs s @ (m, masterCommand) #
     map (\<lambda>n. (n, slaveCommand (MasterService (Spec c)))) ss"
proof -
  from assms obtain p s1 s2 out s3 where
      get: "Get_Pod api (Namespace (cluster_meta c)) m s = (Inr p, s1)"
      and lab: "labelPod api m ''master'' c s1 = Some (Ok (), s2)"
      and ex: "execCommandOnPod api p masterCommand s2 = Some (Ok out, s3)"
      and rest: "forE ss (configureSlave api c) s3 = Some (Ok u, t)"
    by (auto simp: setupMasterSlaveReplication_def bindE_Ok_iff)
  show ?thesis
    using configureSlaves_logged [OF rest] exec_on_stored_pod [OF get ex] get_pod_no_exec [OF get]
      keepsD [OF labelPod_no_exec lab]
    by simp
qed

end

section \<open>Properties\<close>

text \<open>Three healthy replicas in the in-memory server.\<close>

definition mem_pod :: "string \<Rightarrow> Pod" where
  "mem_pod n = mem_start (podFor n ''mysql:5.7'' ''mysql-config'' n ''default'' sample_cluster
     ''500m'' ''1Gi'' ''1'' ''2Gi'')"

definition mem_three :: mem where
  "mem_three = mem_empty\<lparr>m_pods := map mem_pod [''mysql-01'', ''mysql-02'', ''mysql-03'']\<rparr>"

definition setup_three :: "mem \<Rightarrow> (unit res \<times> mem) option" where
  "setup_three = setupMasterSlaveReplication mem_api ''mysql-01'' [''mysql-02'', ''mysql-03'']
     sample_cluster"

lemma setup_three_ok: "returns_ok (setup_three mem_three)"
  unfolding setup_three_def by code_simp

lemmas setup_three_run = returns_okD [OF setup_three_ok, unfolded setup_three_def]

text \<open>(C12) When \<open>setupMasterSlaveReplication\<close> returns without an error, the pods it was
  given existed and carry their new roles (a pod named both as master and as slave ends as a slave), and
  the labels of the store are exactly those the abstract operation \<open>spec_setup\<close> gives: no
  other label and no other pod is touched.\<close>

theorem setup_implements_roles:
  assumes "pod_store api pods"
    and "setupMasterSlaveReplication api m ss c s = Some (Ok u, t)"
  shows "labels_at pods t = spec_setup (Namespace (cluster_meta c)) m ss (labels_at pods s) \<and>
     Pair (Namespace (cluster_meta c)) ` set (m # ss) \<subseteq> dom (pods s) \<and>
     role_at pods t (Namespace (cluster_meta c)) n =
       (if n \<in> set ss then Some ''slave'' else if n = m then Some ''master''
        else role_at pods s (Namespace (cluster_meta c)) n)"
proof -
  have "dom (labels_at pods s) = dom (pods s)" by (auto simp: labels_at_def)
  with pod_store.setup_Ok [OF assms] pod_store.setup_role_at [OF assms] show ?thesis by simp
qed

lemma setup_implements_roles_witness:
  "role_at mem_pods (world_after (setup_three mem_three)) ''default'' ''mysql-01'' = Some ''master'' \<and>
   role_at mem_pods (world_after (setup_three mem_three)) ''default'' ''mysql-03'' = Some ''slave''"
  using setup_implements_roles [OF mem.pod_store_axioms setup_three_run, of "''mysql-01''"]
    setup_implements_roles [OF mem.pod_store_axioms setup_three_run, of "''mysql-03''"]
  by (simp add: setup_three_def sample_cluster_def named_meta_def)

text \<open>(C23) A successful \<open>setupMasterSlaveReplication\<close> runs, in this order, the statement that
  creates the replication user on the master and then the \<open>CHANGE MASTER\<close> statement on every
  slave, once each and nothing else; the slaves are pointed at the master Service.\<close>

theorem setup_runs_commands:
  assumes "exec_store api pods execs"
    and "setupMasterSlaveReplication api m ss c s = Some (Ok u, t)"
  shows "execs t = execs s @ (m, masterCommand) #
     map (\<lambda>n. (n, slaveCommand (MasterService (Spec c)))) ss"
  using assms by (rule exec_store.setup_logged)

lemma setup_runs_commands_witness:
  "m_execs (world_after (setup_three mem_three)) =
     [(''mysql-01'', masterCommand), (''mysql-02'', slaveCommand ''master-service''),
      (''mysql-03'', slaveCommand ''master-service'')]"
  using setup_runs_commands [OF mem.exec_store_axioms setup_three_run]
  by (simp add: setup_three_def sample_cluster_def sample_spec_def mem_three_def mem_empty_def)

text \<open>However \<open>setupMasterSlaveReplication\<close> ends, with an error or a panic half-way too, a pod
  that is neither the master nor one of the slaves it was given keeps its labels.\<close>

lemma setup_touches_only_named_pods:
  assumes "pod_store api pods"
    and "setupMasterSlaveReplication api m ss c s = Some (r, t)"
    and "n \<notin> set (m # ss) \<or> ns \<noteq> Namespace (cluster_meta c)"
  shows "labels_at pods t (ns, n) = labels_at pods s (ns, n)"
proof -
  have "(ns, n) \<notin> Pair (Namespace (cluster_meta c)) ` set (m # ss)" using assms(3) by auto
  from keepsD [OF pod_store.setup_frame [OF assms(1) this] assms(2)] show ?thesis .
qed

definition setup_missing :: "mem \<Rightarrow> (unit res \<times> mem) option" where
  "setup_missing = setupMasterSlaveReplication mem_api ''mysql-01'' [''mysql-07''] sample_cluster"

lemma setup_missing_run: "\<exists>r t. setup_missing mem_three = Some (r, t)"
proof -
  have "setup_missing mem_three \<noteq> None"
    unfolding setup_missing_def by code_simp
  then show ?thesis by auto
qed

text \<open>One round, spelled out: the pod read after a sleep of five seconds is running and its first
  container is ready.\<close>

lemma pollPod_iff:
  "fst (pollPod api ns nm s) \<longleftrightarrow>
     (\<exists>p st sts. fst (Get_Pod api ns nm (Sleep api (5 * Second) s)) = Inr p \<and>
       Phase p = PodRunning \<and> ContainerStatuses p = st # sts \<and> Ready st)"
proof -
  have "isPodHealthy p \<longleftrightarrow> Phase p = PodRunning \<and> (\<exists>st sts. ContainerStatuses p = st # sts \<and> Ready st)" for p
    by (cases "ContainerStatuses p") (auto simp: isPodHealthy_def)
  then show ?thesis by (auto simp: pollPod_def split: prod.splits sum.splits)
qed

lemma pollPod_world: "snd (pollPod api ns nm s) = snd (Get_Pod api ns nm (Sleep api (5 * Second) s))"
  by (simp add: pollPod_def split: prod.splits sum.splits)

text \<open>(C24) The readiness loop at the end of \<open>createPod\<close> returns world \<open>t\<close> exactly when there are rounds
  \<open>0\<close> to \<open>k\<close>, each a sleep of five seconds and a read of the pod, from \<open>s\<close> to \<open>t\<close>, of which the last one and no other
  reads the pod without an error, in phase \<open>Running\<close>, with at least one container status, the first of them
  ready. When no round does, the loop never returns.\<close>

theorem waitPodHealthy_returns_iff:
  "waitPodHealthy api ns nm s = Some t \<longleftrightarrow>
     (\<exists>k w. w 0 = s \<and> w (Suc k) = t \<and>
       (\<forall>j\<le>k. \<exists>r. Get_Pod api ns nm (Sleep api (5 * Second) (w j)) = (r, w (Suc j)) \<and>
         ((\<exists>p st sts. r = Inr p \<and> Phase p = PodRunning \<and> ContainerStatuses p = st # sts \<and> Ready st)
           \<longleftrightarrow> j = k)))" (is "_ \<longleftrightarrow> ?rounds")
proof
  assume "waitPodHealthy api ns nm s = Some t"
  from waitPodHealthy_rounds [OF this] obtain k where
      k: "t = polls api ns nm (Suc k) s" "fst (pollPod api ns nm (polls api ns nm k s))"
      "\<forall>j<k. \<not> fst (pollPod api ns nm (polls api ns nm j s))"
    by blast
  have get: "Get_Pod api ns nm (Sleep api (5 * Second) (polls api ns nm j s)) =
      (fst (Get_Pod api ns nm (Sleep api (5 * Second) (polls api ns nm j s))), polls api ns nm (Suc j) s)" for j
    using polls_Suc [of api ns nm j s] by (simp add: pollPod_world prod_eq_iff del: polls_simps(2))
  have last: "fst (pollPod api ns nm (polls api ns nm j s)) \<longleftrightarrow> j = k" if "j \<le> k" for j
    using k(2,3) that by (metis le_neq_implies_less)
  show ?rounds
  proof (intro exI conjI allI impI)
    show "polls api ns nm 0 s = s" "polls api ns nm (Suc k) s = t" by (simp_all add: k(1))
  next
    fix j assume "j \<le> k"
    then show "(\<exists>p st sts. fst (Get_Pod api ns nm (Sleep api (5 * Second) (polls api ns nm j s))) = Inr p \<and>
        Phase p = PodRunning \<and> ContainerStatuses p = st # sts \<and> Ready st) \<longleftrightarrow> j = k"
      by (rule last [unfolded pollPod_iff])
  qed (rule get)
next
  assume ?rounds
  then obtain k w where w: "w 0 = s" "w (Suc k) = t" and
      r: "\<And>j. j \<le> k \<Longrightarrow> snd (pollPod api ns nm (w j)) = w (Suc j)"
        "\<And>j. j \<le> k \<Longrightarrow> fst (pollPod api ns nm (w j)) \<longleftrightarrow> j = k"
    unfolding pollPod_iff pollPod_world by (metis fst_conv snd_conv)
  have worlds: "polls api ns nm j s = w j" if "j \<le> Suc k" for j
    using that
    by (induction j) (auto simp: w(1) simp del: polls_simps(2) simp flip: polls_Suc dest: r(1))
  have "waitPodHealthy api ns nm s = Some (polls api ns nm (Suc k) s)"
    by (rule waitPodHealthy_returns) (simp_all add: worlds r(2) del: polls_simps(2))
  then show "waitPodHealthy api ns nm s = Some t" by (simp add: worlds w(2) del: polls_simps(2))
qed

text \<open>The first read fails, the second finds the pod healthy.\<close>

lemma waitPodHealthy_returns_iff_witness:
  "waitPodHealthy mem_api ''default'' ''mysql-02'' (mem_three\<lparr>m_faults := [True]\<rparr>) =
     Some (mem_three\<lparr>m_faults := [], m_clock := 10 * Second\<rparr>)"
proof -
  let ?w = "\<lambda>j. mem_three\<lparr>m_faults := (if j = 0 then [True] else []), m_clock := int j * (5 * Second)\<rparr>"
  have "\<exists>r. Get_Pod mem_api ''default'' ''mysql-02'' (Sleep mem_api (5 * Second) (?w j)) = (r, ?w (Suc j)) \<and>
      ((\<exists>p st sts. r = Inr p \<and> Phase p = PodRunning \<and> ContainerStatuses p = st # sts \<and> Ready st) \<longleftrightarrow> j = 1)"
    if j: "j \<le> 1" for j
  proof -
    consider "j = 0" | "j = 1" using j by linarith
    then show ?thesis
      by cases (auto simp: mem_api_def mem_get_def faulty_def mem_three_def mem_empty_def meta_key_def mem_pod_def
          mem_start_def podFor_def named_meta_def)
  qed
  moreover have "?w 0 = mem_three\<lparr>m_faults := [True]\<rparr>" by (simp add: mem_three_def mem_empty_def)
  moreover have "?w (Suc 1) = mem_three\<lparr>m_faults := [], m_clock := 10 * Second\<rparr>" by simp
  ultimately show ?thesis by (intro iffD2 [OF waitPodHealthy_returns_iff] exI [of _ 1] exI [of _ ?w]) blast
qed

end
