(* ===== verification/Replicas.thy ===== *)
theory Replicas
  imports Utlis "HOL-Library.Multiset"
begin

text \<open>
  Replica reconciliation, \<^verbatim>\<open>src/internal/controller/reconcile_replicas.go\<close>, and
  \<open>getReplicaPodsNames\<close> of \<^verbatim>\<open>utlis.go\<close>: counting the pods, extracting their numbers with
  the pattern \<^verbatim>\<open>mysql-(\d+)\<close>, and creating the missing ones. The order in which Go ranges
  over a map is the argument \<open>ord\<close>, any function that permutes its argument.
\<close>

section \<open>Pod numbers\<close>

text \<open>\<open>FindStringSubmatch\<close> of \<^verbatim>\<open>mysql-(\d+)\<close>: the leftmost match, with the longest run
  of digits as the group.\<close>

fun podNumberMatch :: "string \<Rightarrow> string option" where
  "podNumberMatch [] = None"
| "podNumberMatch (c # s) =
     (if prefix ''mysql-'' (c # s) \<and> takeWhile is_digit (drop 6 (c # s)) \<noteq> []
      then Some (takeWhile is_digit (drop 6 (c # s))) else podNumberMatch s)"

definition extractPodNumbers :: "string list \<Rightarrow> string list" where
  "extractPodNumbers podNames = List.map_filter podNumberMatch podNames"

definition generateExpectedPodNumbers :: "int \<Rightarrow> string list" where
  "generateExpectedPodNumbers cnt = map sprintf_02d [1 .. cnt]"

definition findMissingPodNumbers ::
    "(string list \<Rightarrow> string list) \<Rightarrow> string list \<Rightarrow> string list \<Rightarrow> string list" where
  "findMissingPodNumbers ord expected actual =
     ord (filter (\<lambda>pod. pod \<notin> set actual) (remdups expected))"

text \<open>\<open>strconv.Atoi\<close> with its error dropped: 0 for malformed text, the nearest bound for a
  number out of range.\<close>

definition Atoi_value :: "string \<Rightarrow> int" where
  "Atoi_value s = (case ParseInt s of
       Some v \<Rightarrow> v
     | None \<Rightarrow> (let ds = (if s \<noteq> [] \<and> hd s \<in> {CHR ''-'', CHR ''+''} then tl s else s)
               in case parse_unsigned ds of
                    None \<Rightarrow> 0
                  | Some n \<Rightarrow> if hd s = CHR ''-'' then - (2 ^ 63) else 2 ^ 63 - 1))"

definition podName :: "int \<Rightarrow> string" where
  "podName i = ''mysql-'' @ sprintf_02d i"

section \<open>Operations\<close>

definition getActualReplicaInfo :: "'s k8s \<Rightarrow> MysqlCluster \<Rightarrow> ('s, int32 \<times> string list) io" where
  "getActualReplicaInfo api c =
     bindE (tryE (liftE (List_Pods api (Namespace (cluster_meta c)) [(''app'', ''mysql'')]))) (\<lambda>r.
     case r of
       Inl err \<Rightarrow> returnE (0, [])
     | Inr items \<Rightarrow> returnE (wrap32 (int (length items)), map (\<lambda>pod. Name (pod_meta pod)) items))"

definition createReplica :: "'s k8s \<Rightarrow> MysqlCluster \<Rightarrow> string \<Rightarrow> ('s, unit) io" where
  "createReplica api c podNumber =
     (let podName = ''mysql-'' @ podNumber; configMapName = ''mysql-config-'' @ podNumber;
          pvcName = ''mysql-'' @ podNumber; ns = Namespace (cluster_meta c)
      in bindE (createPVC api pvcName (StorageClassName (Storage (Spec c))) ns
                  (Size (Storage (Spec c))) c) (\<lambda>_.
         bindE (createConfigMap api configMapName (Atoi_value podNumber) ns c) (\<lambda>_.
         createPod api podName (Image (Spec c)) configMapName pvcName ns c)))"

definition reconcileReplicas ::
    "'s k8s \<Rightarrow> (string list \<Rightarrow> string list) \<Rightarrow> MysqlCluster \<Rightarrow> ('s, unit) io" where
  "reconcileReplicas api ord c =
     bindE (getActualReplicaInfo api c) (\<lambda>(actualReplicaCount, actualReplicaNames).
     if actualReplicaCount \<noteq> Replicas (Spec c)
     then forE (findMissingPodNumbers ord (generateExpectedPodNumbers (Replicas (Spec c)))
                  (extractPodNumbers actualReplicaNames)) (createReplica api c)
     else returnE ())"

definition getReplicaPodsNames ::
    "'s k8s \<Rightarrow> MysqlCluster \<Rightarrow> string \<Rightarrow> ('s, string list) io" where
  "getReplicaPodsNames api c masterPodName =
     bindE (getActualReplicaInfo api c) (\<lambda>(actualReplicaCount, podNames).
     if actualReplicaCount = 0 then returnE []
     else returnE (filter (\<lambda>podName. podName \<noteq> masterPodName) podNames))"

section \<open>The naming of replicas\<close>

text \<open>What reconciliation needs of a naming scheme: a number can be read back from the name it
  was put in. \<open>covered\<close>: once every number is either read from an existing name or among the
  ones just created, every expected name exists.\<close>

locale replica_naming =
  fixes name_of :: "string \<Rightarrow> string"
    and number_in :: "string \<Rightarrow> string option"
    and numbers :: "string set"
  assumes read_back: "d \<in> numbers \<Longrightarrow> number_in (name_of d) = Some d"
begin

lemma name_of_inj: "d \<in> numbers \<Longrightarrow> e \<in> numbers \<Longrightarrow> name_of d = name_of e \<Longrightarrow> d = e"
  by (metis option.inject read_back)

lemma covered:
  assumes "set names \<subseteq> name_of ` numbers"
    and "set expected - set (List.map_filter number_in names) \<subseteq> set created"
    and "d \<in> set expected" "d \<in> numbers"
  shows "name_of d \<in> set names \<or> d \<in> set created"
proof (cases "d \<in> set created")
  case False
  with assms(2,3) have "d \<in> set (List.map_filter number_in names)" by blast
  then obtain n where n: "n \<in> set names" "number_in n = Some d"
    by (auto simp: List.map_filter_def)
  with assms(1) obtain e where "e \<in> numbers" "n = name_of e" by auto
  with n read_back [of e] show ?thesis by auto
qed simp

end

lemma takeWhile_all: "list_all P xs \<Longrightarrow> takeWhile P xs = xs"
  by (induction xs) auto

lemma podNumberMatch_digits:
  assumes "d \<noteq> []" "list_all is_digit d"
  shows "podNumberMatch (''mysql-'' @ d) = Some d"
  using assms by (simp add: takeWhile_all)

interpretation pod_names: replica_naming "\<lambda>d. ''mysql-'' @ d" podNumberMatch
  "{d. d \<noteq> [] \<and> list_all is_digit d}"
  by unfold_locales (use podNumberMatch_digits in auto)

section \<open>Lemmas\<close>

lemma expected_digits:
  "d \<in> set (generateExpectedPodNumbers n) \<Longrightarrow> d \<noteq> [] \<and> list_all is_digit d"
  by (auto simp: generateExpectedPodNumbers_def sprintf_02d_digits sprintf_02d_nonempty)

lemma distinct_expected: "distinct (generateExpectedPodNumbers n)"
proof -
  have "inj_on sprintf_02d (set [1 .. n])" by (auto simp: inj_on_def sprintf_02d_inj)
  then show ?thesis by (simp add: generateExpectedPodNumbers_def distinct_map)
qed

lemma set_findMissing:
  assumes "\<And>xs. mset (ord xs) = mset xs"
  shows "set (findMissingPodNumbers ord expected actual) = set expected - set actual"
    and "distinct (findMissingPodNumbers ord expected actual)"
proof -
  let ?l = "filter (\<lambda>pod. pod \<notin> set actual) (remdups expected)"
  have "set (ord ?l) = set ?l" by (rule mset_eq_setD [OF assms])
  then show "set (findMissingPodNumbers ord expected actual) = set expected - set actual"
    by (auto simp: findMissingPodNumbers_def)
  have "distinct ?l" by simp
  with assms [of ?l] show "distinct (findMissingPodNumbers ord expected actual)"
    unfolding findMissingPodNumbers_def by (metis mset_eq_imp_distinct_iff)
qed

context reads
begin

lemma getActualReplicaInfo_moves: "moves R (getActualReplicaInfo api c)"
  unfolding getActualReplicaInfo_def
  by (intro moves_seq) (simp_all add: read_calls split: sum.splits)

end

context creates
begin

lemma createReplica_moves: "moves R (createReplica api c d)"
  unfolding createReplica_def Let_def
  by (intro moves_seq) (simp_all add: createPod_moves createPVC_moves createConfigMap_moves)

lemma reconcileReplicas_moves: "moves R (reconcileReplicas api ord c)"
  unfolding reconcileReplicas_def
  by (auto simp: getActualReplicaInfo_moves createReplica_moves intro!: moves_seq moves_loop)

end

context pod_store
begin

lemmas reconcileReplicas_labels = labels.reconcileReplicas_moves

lemma createReplica_Ok:
  assumes "createReplica api c d s = Some (Ok u, t)"
  shows "dom (labels_at pods t) = insert (Namespace (cluster_meta c), ''mysql-'' @ d) (dom (labels_at pods s))"
proof -
  let ?ns = "Namespace (cluster_meta c)"
  from assms obtain s1 s2 img cm pvc sc sz where
      "createPVC api pvc sc ?ns sz c s = Some (Ok (), s1)"
      "createConfigMap api cm (Atoi_value d) ?ns c s1 = Some (Ok (), s2)"
      and pod: "createPod api (''mysql-'' @ d) img cm pvc ?ns c s2 = Some (Ok u, t)"
    by (auto simp: createReplica_def Let_def bindE_Ok_iff)
  then have "labels_at pods s2 = labels_at pods s"
    using movesD [OF createPVC_moves] movesD [OF createConfigMap_moves] labels_at_cong by metis
  with createPod_Ok [OF pod] show ?thesis by auto
qed

lemma createReplicas_Ok:
  assumes "forE ds (createReplica api c) s = Some (Ok u, t)"
  shows "dom (labels_at pods t) =
    dom (labels_at pods s) \<union> (\<lambda>d. (Namespace (cluster_meta c), ''mysql-'' @ d)) ` set ds"
  using assms
proof (induction ds arbitrary: s)
  case (Cons d ds)
  then obtain s1 where "createReplica api c d s = Some (Ok (), s1)"
      "forE ds (createReplica api c) s1 = Some (Ok u, t)" by (auto simp: bindE_Ok_iff)
  with createReplica_Ok [of c d s] Cons.IH [of s1] show ?case by simp
qed simp

lemma getActualReplicaInfo_Ok:
  assumes "getActualReplicaInfo api c s = Some (Ok (k, names), t)"
  shows "pods t = pods s"
    and "Pair (Namespace (cluster_meta c)) ` set names \<subseteq> dom (pods s)"
proof -
  show "pods t = pods s" using movesD [OF getActualReplicaInfo_moves assms] .
  from assms consider "names = []" | ps where "names = map (\<lambda>p. Name (pod_meta p)) ps"
      "List_Pods api (Namespace (cluster_meta c)) [(''app'', ''mysql'')] s = (Inr ps, t)"
    by (auto simp: getActualReplicaInfo_def bindE_Ok_iff tryE_Ok_iff)
  then show "Pair (Namespace (cluster_meta c)) ` set names \<subseteq> dom (pods s)"
  proof cases
    case 2
    then show ?thesis using list_pods [OF 2(2)] stored_key by (auto simp: pod_key_def)
  qed simp
qed

end

section \<open>Properties\<close>

text \<open>(C26) The numbers to create are exactly the expected numbers no existing pod name carries, each once,
  in whatever order Go ranges over the map; and a number put into a pod name is read back from it, as the
  text the name was built with and as the number that becomes the MySQL server id.\<close>

theorem missing_numbers_exact:
  assumes "\<And>xs. mset (ord xs) = mset xs"
  shows "set (findMissingPodNumbers ord (generateExpectedPodNumbers n) (extractPodNumbers names)) =
       {sprintf_02d i | i. 1 \<le> i \<and> i \<le> n \<and> Some (sprintf_02d i) \<notin> podNumberMatch ` set names} \<and>
     distinct (findMissingPodNumbers ord (generateExpectedPodNumbers n) (extractPodNumbers names)) \<and>
     (0 \<le> i \<and> in64 i \<longrightarrow> podNumberMatch (podName i) = Some (sprintf_02d i) \<and>
        Atoi_value (sprintf_02d i) = i)"
proof (intro conjI impI)
  have numbers: "set (extractPodNumbers names) = {d. Some d \<in> podNumberMatch ` set names}"
    unfolding extractPodNumbers_def
    by (induction names) (auto simp: map_filter_simps split: option.splits)
  show "set (findMissingPodNumbers ord (generateExpectedPodNumbers n) (extractPodNumbers names)) =
       {sprintf_02d i | i. 1 \<le> i \<and> i \<le> n \<and> Some (sprintf_02d i) \<notin> podNumberMatch ` set names}"
    by (subst set_findMissing(1) [of ord, OF assms]) (auto simp: numbers generateExpectedPodNumbers_def)
  show "distinct (findMissingPodNumbers ord (generateExpectedPodNumbers n) (extractPodNumbers names))"
    by (rule set_findMissing(2) [of ord, OF assms])
  assume i: "0 \<le> i \<and> in64 i"
  then show "podNumberMatch (podName i) = Some (sprintf_02d i)"
    unfolding podName_def by (intro podNumberMatch_digits) (simp_all add: sprintf_02d_digits sprintf_02d_nonempty)
  from i show "Atoi_value (sprintf_02d i) = i" by (simp add: Atoi_value_def ParseInt_sprintf_02d)
qed

lemma missing_numbers_exact_witness:
  "set (findMissingPodNumbers rev (generateExpectedPodNumbers 3)
      (extractPodNumbers [''mysql-01'', ''mysql-03''])) \<subseteq> {sprintf_02d 2} \<and>
   podNumberMatch (podName 2) = Some (sprintf_02d 2) \<and> Atoi_value (sprintf_02d 2) = 2"
proof -
  have three: "i = 1 \<or> i = 2 \<or> i = 3" if "1 \<le> i" "i \<le> 3" for i :: int using that by arith
  have nums: "podNumberMatch ''mysql-01'' = Some (sprintf_02d 1)"
      "podNumberMatch ''mysql-03'' = Some (sprintf_02d 3)"
    by code_simp+
  show ?thesis
    using missing_numbers_exact [of rev 3 "[''mysql-01'', ''mysql-03'']" 2] nums
    by (auto simp: in64_def simp del: podNumberMatch.simps dest!: three)
qed

text \<open>Reconciling replicas only adds pods: whatever happens, with errors and panics half-way, no pod
  disappears and no existing pod's labels change. In particular scaling down deletes nothing.\<close>

lemma reconcileReplicas_only_adds:
  assumes "pod_store api pods" and "reconcileReplicas api ord c s = Some (r, t)"
  shows "labels_at pods s \<subseteq>\<^sub>m labels_at pods t"
  using movesD [OF pod_store.reconcileReplicas_labels [OF assms(1)] assms(2)] .

definition mem_two :: mem where
  "mem_two = mem_empty\<lparr>m_pods := map mem_pod [''mysql-01'', ''mysql-03'']\<rparr>"

definition reconcile_two :: "(unit res \<times> mem) option" where
  "reconcile_two = reconcileReplicas mem_api rev sample_cluster mem_two"

lemma reconcile_two_ok: "returns_ok reconcile_two"
  unfolding reconcile_two_def by code_simp

lemmas reconcile_two_run = returns_okD [OF reconcile_two_ok, unfolded reconcile_two_def]

text \<open>What a listing shows of the expected number \<open>d\<close>: the list call succeeded and either found as many pods
  as the cluster has replicas, or a pod whose name carries \<open>d\<close>.\<close>

definition number_hidden :: "'s k8s \<Rightarrow> MysqlCluster \<Rightarrow> 's \<Rightarrow> string \<Rightarrow> bool" where
  "number_hidden api c s d \<longleftrightarrow>
     (case List_Pods api (Namespace (cluster_meta c)) [(''app'', ''mysql'')] s of
        (Inl e, s1) \<Rightarrow> False
      | (Inr ps, s1) \<Rightarrow> wrap32 (int (length ps)) = Replicas (Spec c) \<or>
          (\<exists>p\<in>set ps. podNumberMatch (Name (pod_meta p)) = Some d))"

lemma dom_labels_at: "dom (labels_at pods s) = dom (pods s)"
  by (auto simp: labels_at_def)

lemma reconcileReplicas_creates:
  assumes "pod_store api pods" "\<And>xs. mset (ord xs) = mset xs"
    and "reconcileReplicas api ord c s = Some (Ok u, t)"
  shows "dom (pods t) = dom (pods s) \<union> {(Namespace (cluster_meta c), podName i) | i.
     1 \<le> i \<and> i \<le> Replicas (Spec c) \<and> \<not> number_hidden api c s (sprintf_02d i)}"
proof -
  let ?ns = "Namespace (cluster_meta c)" and ?n = "Replicas (Spec c)"
  from assms(3) obtain k names s1 where info: "getActualReplicaInfo api c s = Some (Ok (k, names), s1)"
      and rest: "(if k \<noteq> ?n then forE (findMissingPodNumbers ord (generateExpectedPodNumbers ?n)
          (extractPodNumbers names)) (createReplica api c) else returnE ()) s1 = Some (Ok u, t)"
    by (auto simp: reconcileReplicas_def bindE_Ok_iff)
  have s1: "dom (labels_at pods s1) = dom (pods s)"
    using pod_store.getActualReplicaInfo_Ok(1) [OF assms(1) info] by (simp add: dom_labels_at)
  have hidden: "number_hidden api c s d \<longleftrightarrow> k = ?n \<or> d \<in> set (extractPodNumbers names)" if "0 < ?n" for d
    using info that
    by (auto simp: number_hidden_def getActualReplicaInfo_def bindE_def tryE_def liftE_def returnE_def
        extractPodNumbers_def List.map_filter_def image_iff split: prod.splits sum.splits) force+
  have "dom (labels_at pods t) = dom (pods s) \<union> (if k = ?n then {} else (\<lambda>d. (?ns, ''mysql-'' @ d)) `
      (set (generateExpectedPodNumbers ?n) - set (extractPodNumbers names)))"
    using rest pod_store.createReplicas_Ok [OF assms(1), of _ c s1 u t]
    by (cases "k = ?n") (simp_all add: s1 set_findMissing(1) [of ord, OF assms(2)])
  also have "\<dots> = dom (pods s) \<union> {(?ns, podName i) | i. 1 \<le> i \<and> i \<le> ?n \<and> \<not> number_hidden api c s (sprintf_02d i)}"
    using hidden by (auto simp: generateExpectedPodNumbers_def podName_def)
  finally show ?thesis by (simp only: dom_labels_at)
qed

text \<open>(C4) Replica reconciliation, when it returns without an error: the pods afterwards are the pods before
  and, of the expected names mysql-01 to mysql-NN, exactly those whose number the list of \<open>app=mysql\<close> pods does
  not hide. A number is hidden when as many pods were listed as the cluster has replicas, or when some listed pod's
  name contains \<open>mysql-\<close> and that number (the pattern is not anchored, so \<open>x-mysql-02\<close> hides a missing
  \<open>mysql-02\<close>); a list call that fails hides nothing. So when the listed pods all have names the operator gives
  and their number differs from \<open>spec.replicas\<close>, every expected pod exists.\<close>

theorem reconcileReplicas_complete:
  assumes "pod_store api pods" and "\<And>xs. mset (ord xs) = mset xs"
    and "reconcileReplicas api ord c s = Some (Ok u, t)"
  shows "dom (pods t) = dom (pods s) \<union> {(Namespace (cluster_meta c), podName i) | i.
       1 \<le> i \<and> i \<le> Replicas (Spec c) \<and> \<not> number_hidden api c s (sprintf_02d i)} \<and>
     (List_Pods api (Namespace (cluster_meta c)) [(''app'', ''mysql'')] s = (Inr ps, s1) \<and>
      wrap32 (int (length ps)) \<noteq> Replicas (Spec c) \<and> (\<forall>p\<in>set ps. \<exists>j\<ge>0. Name (pod_meta p) = podName j) \<longrightarrow>
      (\<forall>i. 1 \<le> i \<and> i \<le> Replicas (Spec c) \<longrightarrow> (Namespace (cluster_meta c), podName i) \<in> dom (pods t)))"
proof -
  let ?ns = "Namespace (cluster_meta c)"
  note new = reconcileReplicas_creates [OF assms]
  have "(?ns, podName i) \<in> dom (pods t)"
    if l: "List_Pods api ?ns [(''app'', ''mysql'')] s = (Inr ps, s1)"
      "wrap32 (int (length ps)) \<noteq> Replicas (Spec c)" "\<forall>p\<in>set ps. \<exists>j\<ge>0. Name (pod_meta p) = podName j"
      and i: "1 \<le> i" "i \<le> Replicas (Spec c)" for i
  proof (cases "number_hidden api c s (sprintf_02d i)")
    case True
    with l(1,2) obtain p where p: "p \<in> set ps" "podNumberMatch (Name (pod_meta p)) = Some (sprintf_02d i)"
      by (auto simp: number_hidden_def)
    with l(3) obtain j where j: "j \<ge> 0" "Name (pod_meta p) = podName j" by blast
    then have "podNumberMatch (podName j) = Some (sprintf_02d j)"
      unfolding podName_def by (intro pod_names.read_back) (simp add: sprintf_02d_digits sprintf_02d_nonempty)
    with p(2) j(2) have "Name (pod_meta p) = podName i" by (simp add: podName_def del: podNumberMatch.simps)
    then have "(?ns, podName i) \<in> dom (pods s)"
      using pod_store.list_pods [OF assms(1) l(1)] p(1) pod_store.stored_key [OF assms(1)]
      by (fastforce simp: pod_key_def)
    with new show ?thesis by blast
  qed (use new i in blast)
  with new show ?thesis by blast
qed

lemma list_two: "List_Pods mem_api ''default'' [(''app'', ''mysql'')] mem_two =
    (Inr (map mem_pod [''mysql-01'', ''mysql-03'']), mem_two)"
  by (simp add: mem_api_def mem_list_pods_def faulty_def mem_two_def mem_empty_def mem_pod_def
      podFor_def pod_key_def selected_def pod_label_def)

lemma podName_simps: "podName 1 = ''mysql-01''" "podName 2 = ''mysql-02''" "podName 3 = ''mysql-03''"
  by code_simp+

text \<open>With mysql-01 and mysql-03 there, mysql-02 is created.\<close>

lemma reconcileReplicas_complete_witness:
  "(''default'', ''mysql-02'') \<in> dom (mem_pods (world_after reconcile_two))"
proof -
  have names: "\<exists>j\<ge>0. Name (pod_meta p) = podName j" if "p \<in> set (map mem_pod [''mysql-01'', ''mysql-03''])" for p
  proof -
    from that have "Name (pod_meta p) = podName 1 \<or> Name (pod_meta p) = podName 3"
      by (auto simp: mem_pod_def podFor_def podName_simps)
    then show ?thesis by (metis zero_le_one zero_le_numeral)
  qed
  let ?ps = "map mem_pod [''mysql-01'', ''mysql-03'']"
  have ns: "Namespace (cluster_meta sample_cluster) = ''default''"
    by (simp add: sample_cluster_def named_meta_def)
  have "wrap32 (int (length ?ps)) \<noteq> Replicas (Spec sample_cluster)"
    by (simp add: sample_cluster_def sample_spec_def wrap32_def)
  then have listed: "List_Pods mem_api ''default'' [(''app'', ''mysql'')] mem_two = (Inr ?ps, mem_two) \<and>
      wrap32 (int (length ?ps)) \<noteq> Replicas (Spec sample_cluster) \<and>
      (\<forall>p\<in>set ?ps. \<exists>j\<ge>0. Name (pod_meta p) = podName j)"
    using list_two names by blast
  have "(''default'', podName 2) \<in> dom (mem_pods (world_after reconcile_two))"
    using mp [OF conjunct2 [OF reconcileReplicas_complete [OF mem.pod_store_axioms mset_rev reconcile_two_run,
        of ?ps mem_two, unfolded ns, folded reconcile_two_def]] listed]
    by (simp add: sample_cluster_def sample_spec_def)
  then show ?thesis by (simp add: podName_simps)
qed

text \<open>Beside \<open>x-mysql-02\<close>, mysql-02 is not created.\<close>

definition mem_shadow :: mem where
  "mem_shadow = mem_empty\<lparr>m_pods := map mem_pod [''x-mysql-02'']\<rparr>"

lemma unanchored_pattern_hides_pod:
  "returns_ok (reconcileReplicas mem_api id sample_cluster mem_shadow) \<and>
   mem_pods (world_after (reconcileReplicas mem_api id sample_cluster mem_shadow)) (''default'', ''mysql-02'') = None \<and>
   mem_pods (world_after (reconcileReplicas mem_api id sample_cluster mem_shadow)) (''default'', ''mysql-03'') \<noteq> None"
  by code_simp

lemma reconcileReplicas_equal:
  assumes "List_Pods api (Namespace (cluster_meta c)) [(''app'', ''mysql'')] s = (Inr ps, s1)"
    and "wrap32 (int (length ps)) = Replicas (Spec c)"
  shows "reconcileReplicas api ord c s = Some (Ok (), s1)"
  using assms
  by (simp add: reconcileReplicas_def getActualReplicaInfo_def bindE_def tryE_def liftE_def returnE_def)

text \<open>(C27) Only the number of pods is compared: when it equals \<open>spec.replicas\<close> nothing is created. So
  a cluster of three whose pods are mysql-01, mysql-03 and mysql-04 (mysql-02 lost after scaling down from
  four) is taken as complete, and mysql-02 is not created again.\<close>

theorem equal_count_hides_missing_pod:
  "(List_Pods api (Namespace (cluster_meta c)) [(''app'', ''mysql'')] s = (Inr ps, s1) \<and>
    wrap32 (int (length ps)) = Replicas (Spec c) \<longrightarrow> reconcileReplicas api ord c s = Some (Ok (), s1)) \<and>
   (let s = mem_empty\<lparr>m_pods := map mem_pod [''mysql-01'', ''mysql-03'', ''mysql-04'']\<rparr>
    in Replicas (Spec sample_cluster) = 3 \<and> reconcileReplicas mem_api id sample_cluster s = Some (Ok (), s) \<and>
       mem_pods s (''default'', ''mysql-02'') = None)"
proof -
  define w where "w = mem_empty\<lparr>m_pods := map mem_pod [''mysql-01'', ''mysql-03'', ''mysql-04'']\<rparr>"
  have "List_Pods mem_api ''default'' [(''app'', ''mysql'')] w =
      (Inr (map mem_pod [''mysql-01'', ''mysql-03'', ''mysql-04'']), w)"
    by (simp add: w_def mem_api_def mem_list_pods_def faulty_def mem_empty_def mem_pod_def
        podFor_def pod_key_def selected_def pod_label_def)
  then have "reconcileReplicas mem_api id sample_cluster w = Some (Ok (), w)"
    by (intro reconcileReplicas_equal)
       (auto simp: sample_cluster_def named_meta_def sample_spec_def in32_def)
  moreover have "mem_pods w (''default'', ''mysql-02'') = None"
    by (simp add: w_def mem_pods_def mem_pod_def podFor_def pod_key_def mem_empty_def)
  ultimately show ?thesis
    using reconcileReplicas_equal by (auto simp: Let_def w_def sample_cluster_def sample_spec_def)
qed

lemma equal_count_hides_missing_pod_witness:
  "reconcileReplicas mem_api id (sample_cluster\<lparr>Spec := sample_spec\<lparr>Replicas := 2\<rparr>\<rparr>) mem_two =
     Some (Ok (), mem_two)"
  using equal_count_hides_missing_pod [of mem_api "sample_cluster\<lparr>Spec := sample_spec\<lparr>Replicas := 2\<rparr>\<rparr>"
      mem_two "map mem_pod [''mysql-01'', ''mysql-03'']" mem_two id] list_two
  by (simp add: sample_cluster_def named_meta_def wrap32_def)

end
