(* ===== verification/Float64.thy ===== *)
theory Float64
  imports Complex_Main "HOL-Library.Log_Nat"
begin

text \<open>
  Go's \<open>float64\<close> arithmetic as the election scores use it: a finite value is its exact
  rational number, and every operation rounds its exact result to the nearest multiple of the
  unit in the last place of a 53-bit significand, ties to even. The scores are 0 or lie between
  \<^verbatim>\<open>2^-63\<close> and \<^verbatim>\<open>2^64\<close> in magnitude, so neither overflow nor gradual underflow
  occurs and the exponent is left unbounded. The lemmas: rounding is monotone and exact on
  integers up to \<^verbatim>\<open>2^53\<close>.
\<close>

section \<open>Definitions\<close>

definition rne :: "rat \<Rightarrow> int" where
  "rne x = (let f = \<lfloor>x\<rfloor>; r = x - of_int f
            in if r < 1 / 2 then f else if r > 1 / 2 then f + 1 else if even f then f else f + 1)"

text \<open>The exponent of a positive number.\<close>

definition ilog2 :: "rat \<Rightarrow> int" where
  "ilog2 x = (let (a, b) = quotient_of x;
                  k = int (floorlog 2 (nat a)) - int (floorlog 2 (nat b))
              in if 2 powi k \<le> x then k else k - 1)"

definition round_pos :: "rat \<Rightarrow> rat" where
  "round_pos x = (if x = 0 then 0 else let u = 2 powi (ilog2 x - 52) in of_int (rne (x / u)) * u)"

definition round64 :: "rat \<Rightarrow> rat" where
  "round64 x = (if x < 0 then - round_pos (- x) else round_pos x)"

section \<open>Rounding to an integer\<close>

lemma rne_of_int [simp]: "rne (of_int k) = k"
  by (simp add: rne_def)

lemma rne_bounds: "\<lfloor>x\<rfloor> \<le> rne x" "rne x \<le> \<lfloor>x\<rfloor> + 1"
  by (auto simp: rne_def Let_def)

lemma rne_mono: "x \<le> y \<Longrightarrow> rne x \<le> rne y"
proof (cases "\<lfloor>x\<rfloor> = \<lfloor>y\<rfloor>")
  case True
  assume "x \<le> y"
  then show ?thesis unfolding rne_def Let_def True by auto
next
  case False
  assume "x \<le> y"
  then have "\<lfloor>x\<rfloor> + 1 \<le> \<lfloor>y\<rfloor>" using False floor_mono [of x y] by linarith
  then show ?thesis using rne_bounds [of x] rne_bounds [of y] by linarith
qed

section \<open>The exponent\<close>

lemma ilog2_bounds:
  assumes "0 < x"
  shows "2 powi ilog2 x \<le> x" and "x < 2 powi (ilog2 x + 1)"
proof -
  obtain a b where q: "quotient_of x = (a, b)" by (cases "quotient_of x")
  have b: "0 < b" using quotient_of_denom_pos [OF q] .
  have x: "x = of_int a / of_int b" by (rule quotient_of_div [OF q])
  with assms b have a: "0 < a" by (simp add: zero_less_divide_iff)
  define m n where "m = floorlog 2 (nat a)" and "n = floorlog 2 (nat b)"
  define k where "k = int m - int n"
  have pos: "m > 0" "n > 0" using a b by (simp_all add: m_def n_def floorlog_def)
  have ma: "2 ^ (m - 1) \<le> nat a" "nat a < 2 ^ m" using floorlog_bounds [of "nat a" 2] a by (auto simp: m_def)
  have nb: "2 ^ (n - 1) \<le> nat b" "nat b < 2 ^ n" using floorlog_bounds [of "nat b" 2] b by (auto simp: n_def)
  have cast: "(2::rat) ^ j \<le> of_int c" if "2 ^ j \<le> nat c" "0 < c" for c :: int and j
  proof -
    have "(2::int) ^ j \<le> c" using that by (simp add: nat_le_iff flip: le_nat_iff)
    then show ?thesis by (metis of_int_le_iff of_int_numeral of_int_power)
  qed
  have cast': "(of_int c :: rat) < 2 ^ j" if "nat c < 2 ^ j" "0 < c" for c :: int and j
  proof -
    have "c < 2 ^ j" using that by (simp add: nat_less_iff)
    then show ?thesis by (metis of_int_less_iff of_int_numeral of_int_power)
  qed
  have up: "x < 2 ^ m / 2 ^ (n - 1)"
    unfolding x using a b cast [OF nb(1) b] cast' [OF ma(2) a] by (intro frac_less) auto
  have low: "2 ^ (m - 1) / 2 ^ n < x"
    unfolding x using a b cast [OF ma(1) a] cast' [OF nb(2) b] by (intro frac_less2) auto
  have quot: "(2::rat) ^ i / 2 ^ j = 2 powi (int i - int j)" for i j
    by (simp add: power_int_diff)
  have "int m - int (n - 1) = k + 1" "int (m - 1) - int n = k - 1"
    using pos by (auto simp: k_def)
  then have up': "x < 2 powi (k + 1)" and low': "2 powi (k - 1) < x"
    using up low by (simp_all only: quot)
  have il: "ilog2 x = (if 2 powi k \<le> x then k else k - 1)"
    by (simp add: ilog2_def q k_def m_def n_def)
  show "2 powi ilog2 x \<le> x" using low' by (simp add: il)
  show "x < 2 powi (ilog2 x + 1)" using up' by (simp add: il)
qed

lemma ilog2_mono:
  assumes "0 < x" "x \<le> y"
  shows "ilog2 x \<le> ilog2 y"
proof (rule ccontr)
  assume "\<not> ilog2 x \<le> ilog2 y"
  then have "(2::rat) powi (ilog2 y + 1) \<le> 2 powi ilog2 x" by (intro power_int_increasing) auto
  with ilog2_bounds [of x] ilog2_bounds [of y] assms show False by linarith
qed

section \<open>Monotonicity and exactness\<close>

lemma ulp_scale:
  "(2::rat) ^ 52 * 2 powi (e - 52) = 2 powi e" "(2::rat) ^ 53 * 2 powi (e - 52) = 2 powi (e + 1)"
  using power_int_add [of "2::rat" 52 "e - 52"] power_int_add [of "2::rat" 53 "e - 52"]
  by (simp_all add: add.commute)

text \<open>The significand of a positive number lies between \<^verbatim>\<open>2^52\<close> and \<^verbatim>\<open>2^53\<close>.\<close>

lemma significand_bounds:
  assumes "0 < x"
  shows "2 ^ 52 \<le> rne (x / 2 powi (ilog2 x - 52))" "rne (x / 2 powi (ilog2 x - 52)) \<le> 2 ^ 53"
proof -
  let ?u = "2 powi (ilog2 x - 52) :: rat"
  have u: "0 < ?u" by simp
  have "(2 ^ 52) * ?u = 2 powi ilog2 x" "(2 ^ 53) * ?u = 2 powi (ilog2 x + 1)"
    by (rule ulp_scale)+
  with ilog2_bounds [OF assms] u have "of_int (2 ^ 52) \<le> x / ?u" "x / ?u \<le> of_int (2 ^ 53)"
    by (simp_all add: pos_le_divide_eq pos_divide_le_eq)
  from this [THEN rne_mono] show "2 ^ 52 \<le> rne (x / ?u)" "rne (x / ?u) \<le> 2 ^ 53"
    by (simp_all only: rne_of_int)
qed

lemma significand_bounds_rat:
  assumes "0 < x"
  shows "(2::rat) ^ 52 \<le> of_int (rne (x / 2 powi (ilog2 x - 52)))"
    and "of_int (rne (x / 2 powi (ilog2 x - 52))) \<le> (2::rat) ^ 53"
  using significand_bounds [OF assms] by (metis of_int_le_iff of_int_numeral of_int_power)+

lemma round_pos_mono:
  assumes "0 \<le> x" "x \<le> y"
  shows "round_pos x \<le> round_pos y"
proof (cases "x = 0")
  case True
  show ?thesis
  proof (cases "y = 0")
    case False
    with assms have "0 \<le> rne (y / 2 powi (ilog2 y - 52))" using significand_bounds(1) [of y] by simp
    with False True show ?thesis by (simp add: round_pos_def Let_def)
  qed (simp add: True)
next
  case False
  with assms have x: "0 < x" and y: "0 < y" by simp_all
  let ?u = "\<lambda>z. 2 powi (ilog2 z - 52) :: rat"
  have r: "round_pos z = of_int (rne (z / ?u z)) * ?u z" if "0 < z" for z
    using that by (simp add: round_pos_def Let_def)
  show ?thesis
  proof (cases "ilog2 x = ilog2 y")
    case True
    with assms(2) have "rne (x / ?u x) \<le> rne (y / ?u y)"
      by (intro rne_mono) (simp add: divide_right_mono)
    with True show ?thesis by (simp add: r x y)
  next
    case False
    with ilog2_mono [OF x assms(2)] have e: "ilog2 x + 1 \<le> ilog2 y" by linarith
    have "of_int (rne (x / ?u x)) * ?u x \<le> 2 ^ 53 * ?u x"
      by (intro mult_right_mono significand_bounds_rat x) simp
    also have "\<dots> = 2 powi (ilog2 x + 1)" by (rule ulp_scale)
    also have "\<dots> \<le> 2 powi ilog2 y" using e by (intro power_int_increasing) auto
    also have "\<dots> = 2 ^ 52 * ?u y" by (rule ulp_scale(1) [symmetric])
    also have "\<dots> \<le> of_int (rne (y / ?u y)) * ?u y"
      by (intro mult_right_mono significand_bounds_rat y) simp
    finally show ?thesis by (simp add: r x y)
  qed
qed

lemma round_pos_nonneg: "0 \<le> x \<Longrightarrow> 0 \<le> round_pos x"
  using round_pos_mono [of 0 x] by (simp add: round_pos_def)

lemma round64_mono: "x \<le> y \<Longrightarrow> round64 x \<le> round64 y"
proof -
  assume le: "x \<le> y"
  consider "y < 0" | "x < 0" "0 \<le> y" | "0 \<le> x" using le by linarith
  then show ?thesis
  proof cases
    case 1
    with le show ?thesis using round_pos_mono [of "- y" "- x"] by (simp add: round64_def)
  next
    case 2
    then show ?thesis using round_pos_nonneg [of "- x"] round_pos_nonneg [of y] by (simp add: round64_def)
  next
    case 3
    with le show ?thesis using round_pos_mono [of x y] by (simp add: round64_def)
  qed
qed

text \<open>Integers of at most 53 bits are exact.\<close>

lemma round_pos_exact:
  fixes n :: int
  assumes "0 \<le> n" "n \<le> 2 ^ 53"
  shows "round_pos (of_int n) = of_int n"
proof (cases "n = 0")
  case True
  then show ?thesis by (simp add: round_pos_def)
next
  case False
  with assms have pos: "0 < (of_int n :: rat)" by simp
  let ?e = "ilog2 (of_int n)"
  have "(2::rat) powi ?e \<le> 2 powi 53"
    using ilog2_bounds(1) [OF pos] assms(2) by (metis (no_types) of_int_le_iff of_int_numeral of_int_power
        order_trans power_int_numeral)
  then have e53: "?e \<le> 53"
    using power_int_strict_increasing [of 53 ?e "2::rat"] by (cases "?e \<le> 53") auto
  show ?thesis
  proof (cases "?e \<le> 52")
    case True
    have "(of_int n :: rat) / 2 powi (?e - 52) = of_int (n * 2 ^ nat (52 - ?e))"
      using True power_int_minus [of "2::rat" "52 - ?e"] by (simp add: power_int_def divide_inverse)
    then have "rne (of_int n / 2 powi (?e - 52)) = n * 2 ^ nat (52 - ?e)" by (simp only: rne_of_int)
    with False True show ?thesis
      using \<open>(of_int n :: rat) / 2 powi (?e - 52) = of_int (n * 2 ^ nat (52 - ?e))\<close>
      by (simp add: round_pos_def Let_def) (simp add: divide_eq_eq)
  next
    case False
    with e53 have e: "?e = 53" by simp
    have "(2::rat) ^ 53 \<le> of_int n" using ilog2_bounds(1) [OF pos] e by simp
    with assms(2) have "n = 2 ^ 53" by (metis antisym of_int_le_iff of_int_numeral of_int_power)
    then have "(of_int n :: rat) / 2 powi (?e - 52) = of_int (2 ^ 52)" unfolding e by simp
    then have "rne (of_int n / 2 powi (?e - 52)) = 2 ^ 52" by (simp only: rne_of_int)
    then have "round_pos (of_int n) = 2 ^ 52 * 2 powi (?e - 52)"
      using pos by (simp add: round_pos_def Let_def)
    with \<open>n = 2 ^ 53\<close> show ?thesis unfolding e by simp
  qed
qed

lemma round64_exact:
  fixes n :: int
  assumes "\<bar>n\<bar> \<le> 2 ^ 53"
  shows "round64 (of_int n) = of_int n"
  using assms round_pos_exact [of n] round_pos_exact [of "- n"] by (auto simp: round64_def)

lemma round64_0 [simp]: "round64 0 = 0" and round64_1 [simp]: "round64 1 = 1"
  using round64_exact [of 0] round64_exact [of 1] by simp_all

lemma round64_unit: "0 \<le> x \<Longrightarrow> x \<le> 1 \<Longrightarrow> 0 \<le> round64 x \<and> round64 x \<le> 1"
  using round64_mono [of 0 x] round64_mono [of x 1] by simp

end
