(* ===== verification/Master_Election.thy ===== *)
theory Master_Election
  imports Replicas Float64
begin

text \<open>
  The election of a new MySQL master, \<^verbatim>\<open>src/internal/controller/elect_new_master.go\<close>: the
  score of a slave is the share of the master's GTID texts it has plus the size of its data
  directory, both as \<open>float64\<close>. The GTID snapshot of the master is read from the reconciler's
  memory; the goroutine that refreshes it is \<open>snapshotRound\<close>, one round of its loop.
\<close>

section \<open>Scores\<close>

definition gtidMatches :: "string list \<Rightarrow> string list \<Rightarrow> nat" where
  "gtidMatches masterGTIDs slaveGTIDs = length (filter (\<lambda>g. g \<in> set slaveGTIDs) masterGTIDs)"

definition calculateGTIDScore :: "string \<Rightarrow> string \<Rightarrow> rat" where
  "calculateGTIDScore masterGTIDSet slaveGTIDSet =
     (if masterGTIDSet = [] \<or> slaveGTIDSet = [] then 0
      else let masterGTIDs = strings_Split (CHR '','') masterGTIDSet;
               slaveGTIDs = strings_Split (CHR '','') slaveGTIDSet
           in round64 (round64 (of_nat (gtidMatches masterGTIDs slaveGTIDs)) /
                       round64 (of_nat (length masterGTIDs))))"

definition calculateDataScore :: "int64 \<Rightarrow> rat" where
  "calculateDataScore dataSize = round64 (of_int dataSize)"

definition finalScore :: "rat \<Rightarrow> rat \<Rightarrow> rat" where
  "finalScore gtidScore dataScore = round64 (gtidScore + dataScore)"

section \<open>Reading a pod's GTID set and data size\<close>

definition gtidCommand :: "string \<Rightarrow> string \<Rightarrow> string" where
  \<open>gtidCommand statement field = ''mysql -uroot -p'' @ MySQLPassword @ '' -e "SHOW '' @ statement @
     '' STATUS'' @ [CHR 0x5C] @ ''G" | grep '' @ [CHR 0x27] @ field @ '':'' @ [CHR 0x27] @
     '' | awk '' @ [CHR 0x27] @ ''{print $2}'' @ [CHR 0x27]\<close>

definition getMasterGTIDSet :: "'s k8s \<Rightarrow> Pod \<Rightarrow> ('s, string) io" where
  "getMasterGTIDSet api pod = execCommandOnPod api pod (gtidCommand ''MASTER'' ''Executed_Gtid_Set'')"

definition getSlaveGTIDSet :: "'s k8s \<Rightarrow> Pod \<Rightarrow> ('s, string) io" where
  "getSlaveGTIDSet api pod = execCommandOnPod api pod (gtidCommand ''SLAVE'' ''Retrieved_Gtid_Set'')"

definition dataSizeCommand :: string where
  "dataSizeCommand = ''du -sb /var/lib/mysql | awk '' @ [CHR 0x27] @ ''{print $1}'' @ [CHR 0x27]"

definition getDataSize :: "'s k8s \<Rightarrow> Pod \<Rightarrow> ('s, int64) io" where
  "getDataSize api pod =
     bindE (execCommandOnPod api pod dataSizeCommand) (\<lambda>output.
     case ParseInt (strings_TrimSpace output) of
       None \<Rightarrow> failE (ParseErr output)
     | Some dataSize \<Rightarrow> returnE dataSize)"

definition readE :: "('s \<Rightarrow> 'a) \<Rightarrow> ('s, 'a) io" where
  "readE f s = Some (Ok (f s), s)"

definition getDataScore :: "'s k8s \<Rightarrow> 's memory \<Rightarrow> Pod \<Rightarrow> ('s, rat) io" where
  "getDataScore api m pod =
     bindE (readE (\<lambda>s. MasterGTIDSnapshot (load_r m s))) (\<lambda>masterGTIDSet.
     bindE (wrapE (\<lambda>e. Errorf ''failed to get slave GTID set: %v'' [] (Some e))
             (getSlaveGTIDSet api pod)) (\<lambda>slaveGTIDSet.
     bindE (wrapE (\<lambda>e. Errorf ''failed to get data size: %v'' [] (Some e))
             (getDataSize api pod)) (\<lambda>dataSize.
     returnE (finalScore (calculateGTIDScore masterGTIDSet slaveGTIDSet)
                (calculateDataScore dataSize)))))"

section \<open>The election\<close>

text \<open>The loop over the slaves, with \<open>bestSlave\<close> and \<open>highestScore\<close>.\<close>

primrec electLoop ::
    "'s k8s \<Rightarrow> 's memory \<Rightarrow> Pod list \<Rightarrow> Pod option \<Rightarrow> rat \<Rightarrow> ('s, Pod option) io" where
  "electLoop api m [] bestSlave highestScore = returnE bestSlave"
| "electLoop api m (pod # ps) bestSlave highestScore =
     (if \<not> isPodHealthy pod then electLoop api m ps bestSlave highestScore
      else bindE (wrapE (\<lambda>e. Errorf ''failed to get data score for pod %s: %v''
                               [Name (pod_meta pod)] (Some e))
                    (getDataScore api m pod)) (\<lambda>dataScore.
           if dataScore > highestScore then electLoop api m ps (Some pod) dataScore
           else electLoop api m ps bestSlave highestScore))"

definition electNewMaster ::
    "'s k8s \<Rightarrow> 's memory \<Rightarrow> MysqlCluster \<Rightarrow> ('s, string \<times> string list) io" where
  "electNewMaster api m c =
     bindE (wrapE (\<lambda>e. Errorf ''failed to list slave pods: %v'' [] (Some e))
             (liftE (List_Pods api (Namespace (cluster_meta c)) [(''role'', ''slave'')]))) (\<lambda>slavePods.
     bindE (electLoop api m slavePods None (-1)) (\<lambda>best. case best of
       None \<Rightarrow> failE (Errorf ''no suitable slave found to be promoted to master'' [] None)
     | Some bestSlave \<Rightarrow>
         let newMasterName = Name (pod_meta bestSlave)
         in returnE (newMasterName,
              filter (\<lambda>n. n \<noteq> newMasterName) (map (\<lambda>pod. Name (pod_meta pod)) slavePods))))"

section \<open>The GTID snapshot goroutine\<close>

definition Minute :: duration where
  "Minute = 60 * Second"

definition set_snapshot :: "'s memory \<Rightarrow> string \<Rightarrow> ('s, unit) io" where
  "set_snapshot m g s = Some (Ok (), store_r m ((load_r m s)\<lparr>MasterGTIDSnapshot := g\<rparr>) s)"

text \<open>One round of the loop; the value is how long it sleeps before the next one.\<close>

definition snapshotRound :: "'s k8s \<Rightarrow> 's memory \<Rightarrow> string \<Rightarrow> ('s, duration) io" where
  "snapshotRound api m ns =
     bindE (tryE (liftE (List_Pods api ns [(''role'', ''master'')]))) (\<lambda>r. case r of
       Inl err \<Rightarrow> returnE (1 * Second)
     | Inr [] \<Rightarrow> bindE (set_snapshot m []) (\<lambda>_. returnE (1 * Minute))
     | Inr (pod # _) \<Rightarrow>
         bindE (tryE (getMasterGTIDSet api pod)) (\<lambda>g. case g of
           Inl err \<Rightarrow> returnE (1 * Minute)
         | Inr gtidSet \<Rightarrow> bindE (set_snapshot m gtidSet) (\<lambda>_. returnE (1 * Minute))))"

section \<open>Lemmas on the scores\<close>

lemma gtidMatches_le: "gtidMatches ms ss \<le> length ms"
  by (simp add: gtidMatches_def)

lemma gtidScore_bounds: "0 \<le> calculateGTIDScore a b \<and> calculateGTIDScore a b \<le> 1"
proof -
  let ?ms = "strings_Split (CHR '','') a" and ?ss = "strings_Split (CHR '','') b"
  let ?n = "round64 (of_nat (gtidMatches ?ms ?ss))" and ?d = "round64 (of_nat (length ?ms))"
  have "round64 1 \<le> ?d" by (intro round64_mono) (simp add: length_strings_Split)
  moreover have "0 \<le> ?n" "?n \<le> ?d"
    using round64_mono [of 0 "of_nat (gtidMatches ?ms ?ss)"] gtidMatches_le [of ?ms ?ss]
    by (auto intro: round64_mono)
  ultimately have "0 \<le> ?n / ?d" "?n / ?d \<le> 1" by (simp_all add: divide_le_eq)
  then show ?thesis using round64_unit [of "?n / ?d"] by (simp add: calculateGTIDScore_def Let_def)
qed

lemma finalScore_between:
  assumes "0 \<le> g" "g \<le> 1" "\<bar>d\<bar> < 2 ^ 53"
  shows "of_int d \<le> finalScore g (calculateDataScore d)"
    and "finalScore g (calculateDataScore d) \<le> of_int (d + 1)"
proof -
  have d: "calculateDataScore d = of_int d" "round64 (of_int d) = of_int d"
      "round64 (of_int (d + 1)) = of_int (d + 1)"
    using assms(3) by (simp_all add: calculateDataScore_def round64_exact del: of_int_add)
  show "of_int d \<le> finalScore g (calculateDataScore d)"
    using assms round64_mono [of "of_int d" "g + of_int d"] by (simp add: finalScore_def d)
  show "finalScore g (calculateDataScore d) \<le> of_int (d + 1)"
    using round64_mono [of "g + of_int d" "of_int (d + 1)"] assms(2) unfolding d(3)
    by (simp add: finalScore_def d(1))
qed

section \<open>Lemmas on the loop\<close>

text \<open>The choice the loop makes, on the list of healthy slaves with their scores.\<close>

fun pickBest :: "('p \<times> rat) list \<Rightarrow> 'p option \<Rightarrow> rat \<Rightarrow> 'p option" where
  "pickBest [] b h = b"
| "pickBest ((p, x) # xs) b h = (if x > h then pickBest xs (Some p) x else pickBest xs b h)"

definition first_max :: "('p \<times> rat) list \<Rightarrow> nat \<Rightarrow> bool" where
  "first_max xs i \<longleftrightarrow> i < length xs \<and> (\<forall>j<length xs. snd (xs ! j) \<le> snd (xs ! i)) \<and>
     (\<forall>j<i. snd (xs ! j) < snd (xs ! i))"

lemma first_max_Cons:
  "first_max (y # xs) 0 \<longleftrightarrow> (\<forall>x\<in>set xs. snd x \<le> snd y)"
  "first_max (y # xs) (Suc i) \<longleftrightarrow> first_max xs i \<and> snd y < snd (xs ! i)"
  by (auto simp: first_max_def all_set_conv_all_nth less_Suc_eq_0_disj nth_Cons')

lemma pickBest_cases:
  "(\<forall>x\<in>set xs. snd x \<le> h) \<and> pickBest xs b h = b \<or>
   (\<exists>i. first_max xs i \<and> h < snd (xs ! i) \<and> pickBest xs b h = Some (fst (xs ! i)))"
proof (induction xs b h rule: pickBest.induct)
  case (2 p x xs b h)
  show ?case
  proof (cases "x > h")
    case True
    from 2(1) [OF True] show ?thesis
    proof (elim disjE exE conjE)
      assume "\<forall>y\<in>set xs. snd y \<le> x" "pickBest xs (Some p) x = Some p"
      with True show ?thesis by (intro disjI2 exI [of _ 0]) (simp add: first_max_Cons)
    next
      fix i assume "first_max xs i" "x < snd (xs ! i)" "pickBest xs (Some p) x = Some (fst (xs ! i))"
      with True show ?thesis by (intro disjI2 exI [of _ "Suc i"]) (simp add: first_max_Cons)
    qed
  next
    case False
    from 2(2) [OF False] show ?thesis
    proof (elim disjE exE conjE)
      assume "\<forall>y\<in>set xs. snd y \<le> h" "pickBest xs b h = b"
      with False show ?thesis by (intro disjI1) auto
    next
      fix i assume "first_max xs i" "h < snd (xs ! i)" "pickBest xs b h = Some (fst (xs ! i))"
      with False show ?thesis by (intro disjI2 exI [of _ "Suc i"]) (simp add: first_max_Cons)
    qed
  qed
qed simp

definition scored_by :: "'s k8s \<Rightarrow> 's memory \<Rightarrow> (Pod \<times> rat) list \<Rightarrow> bool" where
  "scored_by api m scored \<longleftrightarrow>
     (\<forall>(p, x)\<in>set scored. \<exists>w w'. getDataScore api m p w = Some (Ok x, w'))"

lemma electLoop_Ok:
  assumes "electLoop api m ps b h s = Some (Ok r, t)"
  shows "\<exists>scored. map fst scored = filter isPodHealthy ps \<and> scored_by api m scored \<and>
     r = pickBest scored b h"
  using assms
proof (induction ps arbitrary: b h s)
  case Nil
  then show ?case by (intro exI [of _ "[]"]) (simp add: scored_by_def)
next
  case (Cons p ps)
  show ?case
  proof (cases "isPodHealthy p")
    case False
    with Cons show ?thesis by auto
  next
    case True
    with Cons.prems obtain x s1 where x: "getDataScore api m p s = Some (Ok x, s1)"
        and rest: "(if x > h then electLoop api m ps (Some p) x else electLoop api m ps b h) s1 = Some (Ok r, t)"
      by (auto simp: bindE_Ok_iff)
    define b' h' where "b' = (if x > h then Some p else b)" and "h' = (if x > h then x else h)"
    with rest have "electLoop api m ps b' h' s1 = Some (Ok r, t)" by (simp split: if_splits)
    from Cons.IH [OF this] obtain scored where "map fst scored = filter isPodHealthy ps"
        "scored_by api m scored" "r = pickBest scored b' h'" by blast
    with True x show ?thesis
      by (intro exI [of _ "(p, x) # scored"]) (auto simp: b'_def h'_def scored_by_def)
  qed
qed

lemma electNewMaster_Ok:
  assumes "electNewMaster api m c s = Some (Ok (nm, rest), t)"
  obtains ps s1 p where "List_Pods api (Namespace (cluster_meta c)) [(''role'', ''slave'')] s = (Inr ps, s1)"
    "electLoop api m ps None (-1) s1 = Some (Ok (Some p), t)" "nm = Name (pod_meta p)"
    "rest = filter (\<lambda>n. n \<noteq> nm) (map (\<lambda>q. Name (pod_meta q)) ps)"
  using assms
  by (auto simp: electNewMaster_def bindE_Ok_iff Let_def split: option.splits)

lemma electLoop_unhealthy: "list_all (\<lambda>p. \<not> isPodHealthy p) ps \<Longrightarrow> electLoop api m ps b h = returnE b"
  by (induction ps) auto

context reads
begin

lemma getDataScore_moves: "moves R (getDataScore api m p)"
proof -
  have read: "moves R (readE f)" for f :: "_ \<Rightarrow> string"
    using R_refl by (auto simp: moves_def readE_def reflp_def)
  have size: "moves R (getDataSize api p)"
    unfolding getDataSize_def by (intro moves_seq exec_moves) (simp split: option.splits)
  show ?thesis unfolding getDataScore_def getSlaveGTIDSet_def
    by (intro moves_seq) (simp_all add: read size exec_moves)
qed

lemma electLoop_moves: "moves R (electLoop api m ps b h)"
  by (induction ps arbitrary: b h) (auto simp: getDataScore_moves)

lemma electNewMaster_moves: "moves R (electNewMaster api m c)"
  unfolding electNewMaster_def
  by (intro moves_seq) (simp_all add: read_calls electLoop_moves Let_def split: option.splits)

end

section \<open>Properties\<close>

text \<open>(C11) \<open>electNewMaster\<close> promotes the right pod: when it returns without an error, the new
  master is the first of the healthy pods labelled \<open>role=slave\<close> whose score is the highest, that score is
  above -1, and the remaining slaves are the names of all the other listed pods, in the listed order.\<close>

theorem electNewMaster_first_best:
  assumes "electNewMaster api m c s = Some (Ok (nm, rest), t)"
  shows "\<exists>ps s1 scored i.
     List_Pods api (Namespace (cluster_meta c)) [(''role'', ''slave'')] s = (Inr ps, s1) \<and>
     map fst scored = filter isPodHealthy ps \<and> scored_by api m scored \<and>
     first_max scored i \<and> -1 < snd (scored ! i) \<and> nm = Name (pod_meta (fst (scored ! i))) \<and>
     rest = filter (\<lambda>n. n \<noteq> nm) (map (\<lambda>p. Name (pod_meta p)) ps)"
proof -
  obtain ps s1 p where ps: "List_Pods api (Namespace (cluster_meta c)) [(''role'', ''slave'')] s = (Inr ps, s1)"
      and loop: "electLoop api m ps None (-1) s1 = Some (Ok (Some p), t)" and nm: "nm = Name (pod_meta p)"
      and rest: "rest = filter (\<lambda>n. n \<noteq> nm) (map (\<lambda>q. Name (pod_meta q)) ps)"
    using electNewMaster_Ok [OF assms] by blast
  obtain scored where scored: "map fst scored = filter isPodHealthy ps" "scored_by api m scored"
      and pick: "Some p = pickBest scored None (-1)"
    using electLoop_Ok [OF loop] by blast
  obtain i where "first_max scored i" "-1 < snd (scored ! i)" "p = fst (scored ! i)"
    using pickBest_cases [of scored "-1" None] by (auto simp: pick [symmetric])
  with ps scored nm rest show ?thesis by blast
qed

definition slave_pod :: "string \<Rightarrow> Pod" where
  "slave_pod n = set_role ''slave'' (mem_pod n)"

definition mem_slaves :: mem where
  "mem_slaves = mem_empty\<lparr>m_pods := map slave_pod [''mysql-02'', ''mysql-03''],
     m_output := [(''mysql-02'', ''100''), (''mysql-03'', ''250'')]\<rparr>"

definition elect_slaves :: "((string \<times> string list) res \<times> mem) option" where
  "elect_slaves = electNewMaster mem_api mem_memory sample_cluster mem_slaves"

lemma elect_slaves_ok: "returns_ok elect_slaves \<and> value_of elect_slaves = (''mysql-03'', [''mysql-02''])"
  unfolding elect_slaves_def by code_simp

lemma elect_slaves_run:
  "electNewMaster mem_api mem_memory sample_cluster mem_slaves =
     Some (Ok (''mysql-03'', [''mysql-02'']), world_after elect_slaves)"
  using returns_ok_value [OF elect_slaves_ok] by (simp only: elect_slaves_def)

lemma electNewMaster_first_best_witness:
  "\<exists>ps s1 scored i.
     List_Pods mem_api ''default'' [(''role'', ''slave'')] mem_slaves = (Inr ps, s1) \<and>
     scored_by mem_api mem_memory scored \<and> first_max scored i \<and>
     Name (pod_meta (fst (scored ! i))) = ''mysql-03''"
  using electNewMaster_first_best [OF elect_slaves_run]
  by (force simp: sample_cluster_def named_meta_def)

text \<open>(C22) The size of the data directory decides the election: of two slaves whose sizes differ by at
  least two bytes (and are below 2^53), the one with more data scores strictly higher, however complete
  its GTID set is; the GTID share only orders slaves whose sizes are within a byte of each other.\<close>

theorem data_size_outranks_gtids:
  assumes "\<bar>d1\<bar> < 2 ^ 53" "\<bar>d2\<bar> < 2 ^ 53" "d2 + 2 \<le> d1"
  shows "finalScore (calculateGTIDScore snap g2) (calculateDataScore d2) <
     finalScore (calculateGTIDScore snap g1) (calculateDataScore d1)"
proof -
  have "finalScore (calculateGTIDScore snap g2) (calculateDataScore d2) \<le> of_int (d2 + 1)"
    using gtidScore_bounds assms(2) by (intro finalScore_between) auto
  also have "(of_int (d2 + 1) :: rat) < of_int d1" using assms(3) by linarith
  also have "\<dots> \<le> finalScore (calculateGTIDScore snap g1) (calculateDataScore d1)"
    using gtidScore_bounds assms(1) by (intro finalScore_between) auto
  finally show ?thesis .
qed

lemma data_size_outranks_gtids_witness:
  "finalScore (calculateGTIDScore ''u:1-9'' ''u:1-9'') (calculateDataScore 100) <
     finalScore (calculateGTIDScore ''u:1-9'' []) (calculateDataScore 102)"
  by (rule data_size_outranks_gtids) simp_all

text \<open>The GTID score is always between 0 and 1; it is 1 when the slave has every GTID text of the
  master and 0 when it has none. The texts are compared whole: a slave that has 1-99 of 1-100
  shares no text with the master and scores 0.\<close>

lemma gtid_score_range_and_ends:
  "0 \<le> calculateGTIDScore a b \<and> calculateGTIDScore a b \<le> 1 \<and>
   (a \<noteq> [] \<and> b \<noteq> [] \<and> set (strings_Split (CHR '','') a) \<subseteq> set (strings_Split (CHR '','') b)
      \<longrightarrow> calculateGTIDScore a b = 1) \<and>
   (set (strings_Split (CHR '','') a) \<inter> set (strings_Split (CHR '','') b) = {}
      \<longrightarrow> calculateGTIDScore a b = 0) \<and>
   calculateGTIDScore ''uuid:1-100'' ''uuid:1-99'' = 0"
proof -
  let ?A = "strings_Split (CHR '','') a" and ?B = "strings_Split (CHR '','') b"
  have pos: "round64 (of_nat (length ?A)) > 0"
    using round64_mono [of 1 "of_nat (length ?A)"] by (simp add: length_strings_Split)
  have none: "calculateGTIDScore x y = 0"
    if "set (strings_Split (CHR '','') x) \<inter> set (strings_Split (CHR '','') y) = {}" for x y
  proof -
    have "gtidMatches (strings_Split (CHR '','') x) (strings_Split (CHR '','') y) = 0"
      using that by (auto simp: gtidMatches_def filter_empty_conv)
    then show ?thesis by (simp add: calculateGTIDScore_def)
  qed
  have all: "gtidMatches ?A ?B = length ?A" if "set ?A \<subseteq> set ?B"
  proof -
    from that have "filter (\<lambda>g. g \<in> set ?B) ?A = ?A" by (intro filter_True) auto
    then show ?thesis by (simp add: gtidMatches_def)
  qed
  show ?thesis
    using gtidScore_bounds [of a b] pos all none [of a b] none [of "''uuid:1-100''" "''uuid:1-99''"]
    by (auto simp: calculateGTIDScore_def)
qed

text \<open>With no healthy pod among the listed slaves the election fails with its error, and no command
  is run in any pod: the world is the one after the list call.\<close>

lemma no_healthy_slave_no_master:
  assumes "List_Pods api (Namespace (cluster_meta c)) [(''role'', ''slave'')] s = (Inr ps, s1)"
    and "list_all (\<lambda>p. \<not> isPodHealthy p) ps"
  shows "electNewMaster api m c s =
     Some (Err (Errorf ''no suitable slave found to be promoted to master'' [] None), s1)"
  using assms
  by (simp add: electNewMaster_def electLoop_unhealthy bindE_def wrapE_def liftE_def returnE_def failE_def)

end
