(* ===== verification/Master_Slave.thy ===== *)
theory Master_Slave
  imports Master_Election
begin

text \<open>
  Master/slave reconciliation, \<^verbatim>\<open>src/internal/controller/reconcile_master_slave.go\<close>: is the
  master alive, failover to an elected slave, which replicas have stopped replicating, and the
  relabelling of every pod that is not the master.
\<close>

section \<open>Operations\<close>

definition checkMasterStatus :: "'s k8s \<Rightarrow> MysqlCluster \<Rightarrow> ('s, bool) io" where
  "checkMasterStatus api c =
     bindE (liftE (Get_Endpoints api (Namespace (cluster_meta c)) (MasterService (Spec c)))) (\<lambda>ep.
     if length (Subsets ep) = 0 \<or> length (Addresses (Subsets ep ! 0)) = 0
     then returnE False else returnE True)"

definition handleMasterFailure :: "'s k8s \<Rightarrow> 's memory \<Rightarrow> MysqlCluster \<Rightarrow> ('s, unit) io" where
  "handleMasterFailure api m c =
     bindE (electNewMaster api m c) (\<lambda>(newMasterName, remainingSlaves).
     setupMasterSlaveReplication api newMasterName remainingSlaves c)"

definition slaveStatusQuery :: string where
  "slaveStatusQuery = mysql_command (''SHOW SLAVE STATUS '' @ [CHR 0x5C] @ ''G'')"

definition replicating :: "string \<Rightarrow> bool" where
  "replicating output \<longleftrightarrow> strings_Contains output ''Slave_SQL_Running: Yes'' \<and>
     strings_Contains output ''Slave_IO_Running: Yes''"

primrec checkReplicas ::
    "'s k8s \<Rightarrow> MysqlCluster \<Rightarrow> string list \<Rightarrow> string list \<Rightarrow> ('s, string list) io" where
  "checkReplicas api c [] failedReplicas = returnE failedReplicas"
| "checkReplicas api c (replicaPodName # names) failedReplicas =
     bindE (wrapE (\<lambda>e. Errorf ''failed to get pod %s: %v'' [replicaPodName] (Some e))
             (liftE (Get_Pod api (Namespace (cluster_meta c)) replicaPodName))) (\<lambda>pod.
     bindE (wrapE (\<lambda>e. Errorf ''failed to execute command on pod %s: %v'' [replicaPodName] (Some e))
             (execCommandOnPod api pod slaveStatusQuery)) (\<lambda>output.
     checkReplicas api c names
       (if \<not> replicating output then failedReplicas @ [replicaPodName] else failedReplicas)))"

definition checkReplicaStatus :: "'s k8s \<Rightarrow> MysqlCluster \<Rightarrow> ('s, string \<times> string list) io" where
  "checkReplicaStatus api c =
     bindE (wrapE (\<lambda>e. Errorf ''failed to get master pod name: %v'' [] (Some e))
             (getMasterPodNameFromEndpoints api c)) (\<lambda>masterPodName.
     bindE (wrapE (\<lambda>e. Errorf ''failed to get replica pods: %v'' [] (Some e))
             (getReplicaPodsNames api c masterPodName)) (\<lambda>replicaPodNames.
     bindE (checkReplicas api c replicaPodNames []) (\<lambda>failedReplicas.
     returnE (masterPodName, failedReplicas))))"

text \<open>\<open>pod.Labels["role"] = v\<close>: a panic when the map is nil.\<close>

definition assignRole :: "string \<Rightarrow> Pod \<Rightarrow> ('s, Pod) io" where
  "assignRole v pod = (case Labels (pod_meta pod) of
       None \<Rightarrow> panicE NilMapWrite
     | Some l \<Rightarrow> returnE (pod\<lparr>pod_meta := (pod_meta pod)\<lparr>Labels := Some (l(''role'' \<mapsto> v))\<rparr>\<rparr>))"

definition roleLabel :: "Pod \<Rightarrow> string" where
  "roleLabel pod = (case pod_label pod ''role'' of None \<Rightarrow> [] | Some v \<Rightarrow> v)"

definition ensureSlaveRole :: "'s k8s \<Rightarrow> string \<Rightarrow> Pod \<Rightarrow> ('s, unit) io" where
  "ensureSlaveRole api masterPodName pod =
     (if Name (pod_meta pod) \<noteq> masterPodName \<and> roleLabel pod \<noteq> ''slave''
      then bindE (assignRole ''slave'' pod) (\<lambda>pod'. liftE (Update_Pod api pod'))
      else returnE ())"

definition ensureSlaveRoles :: "'s k8s \<Rightarrow> MysqlCluster \<Rightarrow> ('s, unit) io" where
  "ensureSlaveRoles api c =
     bindE (getMasterPodNameFromEndpoints api c) (\<lambda>masterPodName.
     bindE (liftE (List_Pods api (Namespace (cluster_meta c)) [(''app'', ''mysql'')])) (\<lambda>items.
     forE items (ensureSlaveRole api masterPodName)))"

definition reconcileMasterSlave :: "'s k8s \<Rightarrow> 's memory \<Rightarrow> MysqlCluster \<Rightarrow> ('s, unit) io" where
  "reconcileMasterSlave api m c =
     bindE (checkMasterStatus api c) (\<lambda>masterAlive.
     if \<not> masterAlive then handleMasterFailure api m c
     else bindE (checkReplicaStatus api c) (\<lambda>(masterPodName, failedReplicas).
          bindE (setupMasterSlaveReplication api masterPodName failedReplicas c) (\<lambda>_.
          ensureSlaveRoles api c)))"

section \<open>Lemmas\<close>

lemma assignRole_Ok:
  "assignRole v pod s = Some (Ok q, t) \<longleftrightarrow> t = s \<and> Labels (pod_meta pod) \<noteq> None \<and> q = set_role v pod"
  by (auto simp: assignRole_def set_role_def split: option.splits)

lemma role_at_cong: "pods t = pods s \<Longrightarrow> role_at pods t = role_at pods s"
  by (simp add: role_at_def fun_eq_iff)

text \<open>The outcome of the replica check, against the outputs the pods gave.\<close>

definition output_of :: "'s k8s \<Rightarrow> MysqlCluster \<Rightarrow> string \<Rightarrow> string \<Rightarrow> bool" where
  "output_of api c n out \<longleftrightarrow> (\<exists>w p w' v. Get_Pod api (Namespace (cluster_meta c)) n w = (Inr p, w') \<and>
     execCommandOnPod api p slaveStatusQuery w' = Some (Ok out, v))"

lemma checkReplicas_Ok:
  assumes "checkReplicas api c names acc s = Some (Ok r, t)"
  shows "\<exists>outs. list_all2 (output_of api c) names outs \<and>
     r = acc @ map fst (filter (\<lambda>(n, out). \<not> replicating out) (zip names outs))"
  using assms
proof (induction names arbitrary: acc s)
  case Nil
  then show ?case by simp
next
  case (Cons n names)
  then obtain p s1 out s2 where one: "Get_Pod api (Namespace (cluster_meta c)) n s = (Inr p, s1)"
      "execCommandOnPod api p slaveStatusQuery s1 = Some (Ok out, s2)"
      and rest: "checkReplicas api c names (if \<not> replicating out then acc @ [n] else acc) s2 = Some (Ok r, t)"
    by (auto simp: bindE_Ok_iff)
  from Cons.IH [OF rest] obtain outs where "list_all2 (output_of api c) names outs"
      "r = (if \<not> replicating out then acc @ [n] else acc) @
         map fst (filter (\<lambda>(n, out). \<not> replicating out) (zip names outs))" by blast
  moreover have "output_of api c n out" unfolding output_of_def using one by blast
  ultimately show ?case by (intro exI [of _ "out # outs"]) auto
qed

lemma checkReplicaStatus_Ok:
  assumes "checkReplicaStatus api c s = Some (Ok (mn, failed), t)"
  obtains s1 names s2 where "getMasterPodNameFromEndpoints api c s = Some (Ok mn, s1)"
    "getReplicaPodsNames api c mn s1 = Some (Ok names, s2)"
    "checkReplicas api c names [] s2 = Some (Ok failed, t)"
  using assms by (auto simp: checkReplicaStatus_def bindE_Ok_iff)

lemma getReplicaPodsNames_not_master:
  "getReplicaPodsNames api c mn s = Some (Ok names, t) \<Longrightarrow> mn \<notin> set names"
  by (auto simp: getReplicaPodsNames_def bindE_Ok_iff split: if_splits)

lemma failed_not_master:
  assumes "checkReplicaStatus api c s = Some (Ok (mn, failed), t)"
  shows "mn \<notin> set failed"
proof -
  obtain s1 names s2 where "getReplicaPodsNames api c mn s1 = Some (Ok names, s2)"
      "checkReplicas api c names [] s2 = Some (Ok failed, t)"
    using checkReplicaStatus_Ok [OF assms] by blast
  note names = this
  obtain outs where "failed = map fst (filter (\<lambda>(n, out). \<not> replicating out) (zip names outs))"
    using checkReplicas_Ok [OF names(2)] by auto
  then have "set failed \<subseteq> set names" using set_zip_leftD by fastforce
  with getReplicaPodsNames_not_master [OF names(1)] show ?thesis by blast
qed

context reads
begin

lemma getMasterPodNameFromEndpoints_moves: "moves R (getMasterPodNameFromEndpoints api c)"
  unfolding getMasterPodNameFromEndpoints_def
  by (intro moves_seq) (simp_all add: read_calls split: list.splits option.splits)

lemma checkMasterStatus_moves: "moves R (checkMasterStatus api c)"
  unfolding checkMasterStatus_def by (intro moves_seq) (simp_all add: read_calls)

lemma getReplicaPodsNames_moves: "moves R (getReplicaPodsNames api c mn)"
  unfolding getReplicaPodsNames_def
  by (intro moves_seq) (auto simp: getActualReplicaInfo_moves)

lemma checkReplicas_moves: "moves R (checkReplicas api c ns acc)"
  by (induction ns arbitrary: acc) (auto simp: read_calls exec_moves intro!: moves_seq)

lemma checkReplicaStatus_moves: "moves R (checkReplicaStatus api c)"
  unfolding checkReplicaStatus_def
  by (intro moves_seq)
     (simp_all add: getMasterPodNameFromEndpoints_moves getReplicaPodsNames_moves checkReplicas_moves)

end

context writes
begin

lemma assignRole_write_moves:
  assumes "bindE (assignRole v p) (\<lambda>p'. liftE (Update_Pod api p')) s = Some (r, t)" "fresh s p"
  shows "R s t"
proof (cases "Labels (pod_meta p)")
  case None
  with assms(1) R_refl show ?thesis by (simp add: assignRole_def bindE_def panicE_def reflp_def)
next
  case (Some l)
  then have "assignRole v p s = Some (Ok (set_role v p), s)" by (simp add: assignRole_Ok)
  with assms(1) have "liftE (Update_Pod api (set_role v p)) s = Some (r, t)" by (simp add: bindE_def)
  then show ?thesis using write_role_moves assms(2) by (auto simp: liftE_def split: prod.splits sum.splits)
qed

lemma ensureSlaveRole_moves:
  "ensureSlaveRole api mn p s = Some (r, t) \<Longrightarrow> fresh s p \<Longrightarrow> R s t"
  using R_refl assignRole_write_moves
  by (auto simp: ensureSlaveRole_def returnE_def reflp_def split: if_splits)

lemma ensureSlaveRole_loop_moves:
  assumes "forE ps (ensureSlaveRole api mn) s = Some (r, t)" "\<And>p. p \<in> set ps \<Longrightarrow> fresh s p"
  shows "R s t"
  using assms
proof (induction ps arbitrary: s)
  case Nil
  with R_refl show ?case by (simp add: returnE_def reflp_def)
next
  case (Cons p ps)
  obtain q s1 where one: "ensureSlaveRole api mn p s = Some (q, s1)"
    using Cons.prems(1) by (cases "ensureSlaveRole api mn p s") (auto simp: bindE_def)
  have step: "R s s1" using one by (rule ensureSlaveRole_moves) (simp add: Cons.prems(2))
  show ?case
  proof (cases q)
    case (Ok u)
    with one Cons.prems(1) have "forE ps (ensureSlaveRole api mn) s1 = Some (r, t)" by (simp add: bindE_def)
    from Cons.IH [OF this] have "R s1 t" using fresh_moves [OF step] Cons.prems(2) by simp
    with step show ?thesis by (rule transpD [OF R_trans])
  qed (use one step Cons.prems(1) in \<open>simp_all add: bindE_def\<close>)
qed

lemma ensureSlaveRoles_moves: "moves R (ensureSlaveRoles api c)"
proof -
  have "moves R (bindE (liftE (List_Pods api ns sel)) (\<lambda>items. forE items (ensureSlaveRole api mn)))" for ns sel mn
    by (rule moves_from) (auto simp: read_calls dest: list_pods_fresh intro: ensureSlaveRole_loop_moves)
  then show ?thesis unfolding ensureSlaveRoles_def by (rule moves_seq [OF getMasterPodNameFromEndpoints_moves])
qed

end

context pod_store
begin

lemma update_role:
  assumes "Update_Pod api (set_role v p) s = (Inr u, t)" "pod_key p = (ns, n)"
  shows "role_at pods t ns n = Some v"
    and "n' \<noteq> n \<Longrightarrow> role_at pods t ns n' = role_at pods s ns n'"
  using update_pod [OF assms(1)] assms(2)
  by (auto simp: role_at_def pod_label_def with_role_def)

text \<open>One round of the relabelling loop: the pod ends as a slave unless it is the master, a pod that is
  a slave stays one, and the master's labels are left alone.\<close>

lemma ensureSlaveRole_Ok:
  assumes "ensureSlaveRole api mn p s = Some (Ok u, t)" "pod_key p = (ns, n)"
    and "role_at pods s ns n \<in> {pod_label p ''role'', Some ''slave''}"
  shows "n \<noteq> mn \<Longrightarrow> role_at pods t ns n = Some ''slave''"
    and "role_at pods s ns n' = Some ''slave'' \<Longrightarrow> role_at pods t ns n' = Some ''slave''"
    and "role_at pods t ns n' = role_at pods s ns n' \<or> role_at pods t ns n' = Some ''slave''"
    and "role_at pods t ns mn = role_at pods s ns mn"
proof -
  have nm: "Name (pod_meta p) = n" using assms(2) by (simp add: pod_key_def)
  have "(n \<noteq> mn \<longrightarrow> role_at pods t ns n = Some ''slave'') \<and>
      (role_at pods s ns n' = Some ''slave'' \<longrightarrow> role_at pods t ns n' = Some ''slave'') \<and>
      (role_at pods t ns n' = role_at pods s ns n' \<or> role_at pods t ns n' = Some ''slave'') \<and>
      role_at pods t ns mn = role_at pods s ns mn"
  proof (cases "n \<noteq> mn \<and> roleLabel p \<noteq> ''slave''")
    case True
    with assms(1) nm have "Update_Pod api (set_role ''slave'' p) s = (Inr u, t)"
      by (auto simp: ensureSlaveRole_def bindE_Ok_iff assignRole_Ok)
    from update_role [OF this assms(2)] True show ?thesis by metis
  next
    case False
    with assms(1) nm have "t = s" by (auto simp: ensureSlaveRole_def)
    with False assms(3) show ?thesis by (auto simp: roleLabel_def split: option.splits)
  qed
  then show "n \<noteq> mn \<Longrightarrow> role_at pods t ns n = Some ''slave''"
    and "role_at pods s ns n' = Some ''slave'' \<Longrightarrow> role_at pods t ns n' = Some ''slave''"
    and "role_at pods t ns n' = role_at pods s ns n' \<or> role_at pods t ns n' = Some ''slave''"
    and "role_at pods t ns mn = role_at pods s ns mn" by blast+
qed

lemma ensureSlaveRole_loop:
  assumes "forE ps (ensureSlaveRole api mn) s = Some (Ok u, t)"
    and "\<And>p. p \<in> set ps \<Longrightarrow> fst (pod_key p) = ns"
    and "\<And>p. p \<in> set ps \<Longrightarrow> role_at pods s ns (snd (pod_key p)) \<in> {pod_label p ''role'', Some ''slave''}"
  shows "(\<forall>p\<in>set ps. snd (pod_key p) \<noteq> mn \<longrightarrow> role_at pods t ns (snd (pod_key p)) = Some ''slave'') \<and>
     (\<forall>n. role_at pods s ns n = Some ''slave'' \<longrightarrow> role_at pods t ns n = Some ''slave'') \<and>
     role_at pods t ns mn = role_at pods s ns mn"
  using assms
proof (induction ps arbitrary: s)
  case Nil
  then show ?case by simp
next
  case (Cons p ps)
  obtain s1 where one: "ensureSlaveRole api mn p s = Some (Ok (), s1)"
      and rest: "forE ps (ensureSlaveRole api mn) s1 = Some (Ok u, t)"
    using Cons.prems(1) by (auto simp: bindE_Ok_iff)
  have key: "pod_key p = (ns, snd (pod_key p))" using Cons.prems(2) [of p] by (cases "pod_key p") auto
  have "role_at pods s ns (snd (pod_key p)) \<in> {pod_label p ''role'', Some ''slave''}"
    by (rule Cons.prems(3)) simp
  note step = ensureSlaveRole_Ok [OF one key this]
  have "role_at pods s1 ns (snd (pod_key q)) \<in> {pod_label q ''role'', Some ''slave''}" if "q \<in> set ps" for q
    using step(3) [of "snd (pod_key q)"] Cons.prems(3) [of q] that by auto
  from Cons.IH [OF rest _ this] Cons.prems(2) step show ?case by auto
qed

lemma ensureSlaveRoles_Ok:
  assumes "ensureSlaveRoles api c s = Some (Ok u, t)"
  obtains mn s1 where "getMasterPodNameFromEndpoints api c s = Some (Ok mn, s1)"
    "\<And>n. n \<noteq> mn \<Longrightarrow> (\<exists>p. pods s (Namespace (cluster_meta c), n) = Some p \<and> pod_label p ''app'' = Some ''mysql'') \<Longrightarrow>
       role_at pods t (Namespace (cluster_meta c)) n = Some ''slave''"
    "role_at pods t (Namespace (cluster_meta c)) mn = role_at pods s (Namespace (cluster_meta c)) mn"
proof -
  let ?ns = "Namespace (cluster_meta c)"
  from assms obtain mn s1 ps s2 where
      mn: "getMasterPodNameFromEndpoints api c s = Some (Ok mn, s1)"
      and ps: "List_Pods api ?ns [(''app'', ''mysql'')] s1 = (Inr ps, s2)"
      and loop: "forE ps (ensureSlaveRole api mn) s2 = Some (Ok u, t)"
    by (auto simp: ensureSlaveRoles_def bindE_Ok_iff)
  have same: "pods s1 = pods s" "pods s2 = pods s"
    using movesD [OF getMasterPodNameFromEndpoints_moves mn] list_pods_keeps [OF ps] by simp_all
  have set: "set ps = {p. \<exists>n. pods s (?ns, n) = Some p \<and> selected [(''app'', ''mysql'')] p}"
    using list_pods [OF ps] by (simp add: same)
  have stored: "pods s (?ns, snd (pod_key p)) = Some p \<and> fst (pod_key p) = ?ns" if "p \<in> set ps" for p
    using that stored_key by (fastforce simp: set)
  have "(\<forall>p\<in>set ps. snd (pod_key p) \<noteq> mn \<longrightarrow> role_at pods t ?ns (snd (pod_key p)) = Some ''slave'') \<and>
     (\<forall>n. role_at pods s2 ?ns n = Some ''slave'' \<longrightarrow> role_at pods t ?ns n = Some ''slave'') \<and>
     role_at pods t ?ns mn = role_at pods s2 ?ns mn"
    by (rule ensureSlaveRole_loop [OF loop]) (use stored in \<open>auto simp: role_at_def same\<close>)
  then have roles: "\<And>p. p \<in> set ps \<Longrightarrow> snd (pod_key p) \<noteq> mn \<Longrightarrow> role_at pods t ?ns (snd (pod_key p)) = Some ''slave''"
      and master: "role_at pods t ?ns mn = role_at pods s ?ns mn"
    by (auto simp: role_at_def same)
  have "role_at pods t ?ns n = Some ''slave''"
    if "n \<noteq> mn" "pods s (?ns, n) = Some p" "pod_label p ''app'' = Some ''mysql''" for n p
  proof -
    have "p \<in> set ps" using that by (auto simp: set selected_def)
    moreover have "snd (pod_key p) = n" using stored_key [OF that(2)] by simp
    ultimately show ?thesis using roles [of p] that(1) by auto
  qed
  with mn master that show ?thesis by blast
qed

text \<open>A listed pod is stored under its own name.\<close>

lemma listed_pod:
  assumes "List_Pods api ns sel s = (Inr ps, s1)" "p \<in> set ps"
  shows "pods s (ns, Name (pod_meta p)) = Some p" "selected sel p"
  using list_pods [OF assms(1)] assms(2) stored_key by (fastforce simp: pod_key_def)+

lemma handleMasterFailure_Ok:
  assumes "handleMasterFailure api m c s = Some (Ok u, t)"
  obtains nm where "role_at pods s (Namespace (cluster_meta c)) nm = Some ''slave''"
    "role_at pods t (Namespace (cluster_meta c)) nm = Some ''master''"
    "\<And>n. n \<noteq> nm \<Longrightarrow> role_at pods t (Namespace (cluster_meta c)) n = role_at pods s (Namespace (cluster_meta c)) n"
proof -
  let ?ns = "Namespace (cluster_meta c)"
  from assms obtain nm rest s1 where el: "electNewMaster api m c s = Some (Ok (nm, rest), s1)"
      and su: "setupMasterSlaveReplication api nm rest c s1 = Some (Ok u, t)"
    by (auto simp: handleMasterFailure_def bindE_Ok_iff)
  obtain ps s2 p where ps: "List_Pods api ?ns [(''role'', ''slave'')] s = (Inr ps, s2)"
      and loop: "electLoop api m ps None (-1) s2 = Some (Ok (Some p), s1)" and nm: "nm = Name (pod_meta p)"
      and rest: "rest = filter (\<lambda>n. n \<noteq> nm) (map (\<lambda>q. Name (pod_meta q)) ps)"
    using electNewMaster_Ok [OF el] by blast
  have pods1: "pods s1 = pods s" by (rule movesD [OF electNewMaster_moves el])
  have slave: "role_at pods s ?ns (Name (pod_meta q)) = Some ''slave''" if "q \<in> set ps" for q
    using listed_pod [OF ps that] by (simp add: role_at_def selected_def)
  have "p \<in> set ps"
  proof -
    obtain scored where "map fst scored = filter isPodHealthy ps" "Some p = pickBest scored None (-1)"
      using electLoop_Ok [OF loop] by blast
    moreover from this(2) have "p \<in> set (map fst scored)"
      using pickBest_cases [of scored "-1" None] by (force simp: first_max_def)
    ultimately show ?thesis by simp
  qed
  note role = setup_role_at [OF su]
  have "role_at pods t ?ns n = role_at pods s ?ns n" if "n \<noteq> nm" for n
    using slave that role_at_cong [OF pods1] by (auto simp: role rest)
  moreover have "role_at pods t ?ns nm = Some ''master''" by (simp add: role rest)
  ultimately show ?thesis using that slave [OF \<open>p \<in> set ps\<close>] nm by blast
qed

lemma setup_keeps_app:
  assumes "setupMasterSlaveReplication api m ss c s = Some (Ok u, t)"
    and "pods s (ns, n) = Some p" "pod_label p ''app'' = Some v"
  shows "\<exists>q. pods t (ns, n) = Some q \<and> pod_label q ''app'' = Some v"
proof -
  have "labels_at pods t (ns, n) = labels_at pods s (ns, n) \<or>
      (\<exists>r. labels_at pods t (ns, n) = map_option (with_role r) (labels_at pods s (ns, n))) \<or>
      (\<exists>r r'. labels_at pods t (ns, n) = map_option (with_role r) (map_option (with_role r') (labels_at pods s (ns, n))))"
    unfolding setup_Ok(1) [OF assms(1)] spec_setup_def fold_apply_role by (auto simp: apply_role_def)
  with assms(2,3) show ?thesis
    by (auto simp: labels_at_def pod_label_def with_role_def split: option.splits)
qed

text \<open>With the master alive: the Endpoints are read twice, and the roles follow what they named.\<close>

lemma reconcileMasterSlave_alive:
  assumes "reconcileMasterSlave api m c s = Some (Ok u, t)"
    and "checkMasterStatus api c s = Some (Ok True, s0)"
  shows "\<exists>mn s1 failed s2 s3 mn' s4.
     getMasterPodNameFromEndpoints api c s0 = Some (Ok mn, s1) \<and>
     checkReplicaStatus api c s0 = Some (Ok (mn, failed), s2) \<and>
     setupMasterSlaveReplication api mn failed c s2 = Some (Ok (), s3) \<and>
     getMasterPodNameFromEndpoints api c s3 = Some (Ok mn', s4) \<and>
     (Namespace (cluster_meta c), mn) \<in> dom (pods s) \<and>
     (\<forall>n p. n \<noteq> mn' \<and> pods s (Namespace (cluster_meta c), n) = Some p \<and> pod_label p ''app'' = Some ''mysql'' \<longrightarrow>
        role_at pods t (Namespace (cluster_meta c)) n = Some ''slave'') \<and>
     role_at pods t (Namespace (cluster_meta c)) mn' =
       (if mn' = mn then Some ''master'' else if mn' \<in> set failed then Some ''slave''
        else role_at pods s (Namespace (cluster_meta c)) mn')"
proof -
  let ?ns = "Namespace (cluster_meta c)"
  from assms obtain mn failed s2 s3 where
      chk: "checkReplicaStatus api c s0 = Some (Ok (mn, failed), s2)"
      and su: "setupMasterSlaveReplication api mn failed c s2 = Some (Ok (), s3)"
      and ens: "ensureSlaveRoles api c s3 = Some (Ok u, t)"
    by (auto simp: reconcileMasterSlave_def bindE_Ok_iff)
  obtain s1 where mn: "getMasterPodNameFromEndpoints api c s0 = Some (Ok mn, s1)"
    using checkReplicaStatus_Ok [OF chk] by blast
  have same: "pods s2 = pods s"
    using movesD [OF checkMasterStatus_moves assms(2)] movesD [OF checkReplicaStatus_moves chk] by simp
  obtain mn' s4 where mn': "getMasterPodNameFromEndpoints api c s3 = Some (Ok mn', s4)"
      and slaves: "\<And>n. n \<noteq> mn' \<Longrightarrow>
        (\<exists>p. pods s3 (?ns, n) = Some p \<and> pod_label p ''app'' = Some ''mysql'') \<Longrightarrow>
        role_at pods t ?ns n = Some ''slave''"
      and kept: "role_at pods t ?ns mn' = role_at pods s3 ?ns mn'"
    using ensureSlaveRoles_Ok [OF ens] by blast
  have "role_at pods t ?ns n = Some ''slave''"
    if "n \<noteq> mn'" "pods s (?ns, n) = Some p" "pod_label p ''app'' = Some ''mysql''" for n p
    using slaves [OF that(1)] setup_keeps_app [OF su, of ?ns n p] that(2,3) same by metis
  moreover have "role_at pods t ?ns mn' = (if mn' = mn then Some ''master'' else if mn' \<in> set failed then Some ''slave''
        else role_at pods s ?ns mn')"
    using setup_role_at [OF su, of mn'] role_at_cong [OF same] failed_not_master [OF chk] by (simp add: kept)
  moreover have "(?ns, mn) \<in> dom (pods s)"
    using setup_Ok(2) [OF su] same by (auto simp: labels_at_def)
  ultimately show ?thesis using mn chk su mn' by blast
qed

end

section \<open>Properties\<close>

text \<open>Three replicas, of which mysql-03 does not replicate; the Endpoints of the master Service name mysql-01.\<close>

definition endpoint_to :: "string \<Rightarrow> Endpoints" where
  "endpoint_to n = \<lparr>Subsets = [\<lparr>Addresses = [\<lparr>TargetRef = Some n\<rparr>]\<rparr>]\<rparr>"

definition mem_alive :: mem where
  "mem_alive = mem_three\<lparr>m_output := [(''mysql-02'', ''Slave_IO_Running: Yes, Slave_SQL_Running: Yes'')],
     m_endpoints := [((''default'', ''master-service''), endpoint_to ''mysql-01'')]\<rparr>"

text \<open>(C3) With the master alive, a reconciliation that returns without an error leaves at most one master. The code
  reads the Endpoints of the master Service twice: \<open>checkReplicaStatus\<close> takes the pod \<open>mn\<close> from them, which exists and is set up
  as the master of the replicas that do not replicate, and \<open>ensureSlaveRoles\<close> takes the pod \<open>mn'\<close> from them. Afterwards every pod
  of the namespace that carried \<open>app=mysql\<close>, other than \<open>mn'\<close>, has the role slave. So no two of them have the role
  master. When both reads name the same pod, it has the role master and is the only one; when they differ, \<open>mn'\<close>
  is a slave if it did not replicate and keeps the role it had if it did, and the pod just set up as master is a slave
  again.\<close>

theorem reconcile_leaves_one_master:
  assumes "pod_store api pods"
    and "reconcileMasterSlave api m c s = Some (Ok u, t)"
    and "checkMasterStatus api c s = Some (Ok True, s0)"
  shows "\<exists>mn s1 failed s2 s3 mn' s4.
     getMasterPodNameFromEndpoints api c s0 = Some (Ok mn, s1) \<and>
     checkReplicaStatus api c s0 = Some (Ok (mn, failed), s2) \<and>
     setupMasterSlaveReplication api mn failed c s2 = Some (Ok (), s3) \<and>
     getMasterPodNameFromEndpoints api c s3 = Some (Ok mn', s4) \<and>
     (Namespace (cluster_meta c), mn) \<in> dom (pods s) \<and>
     (\<forall>n p. n \<noteq> mn' \<and> pods s (Namespace (cluster_meta c), n) = Some p \<and> pod_label p ''app'' = Some ''mysql'' \<longrightarrow>
        role_at pods t (Namespace (cluster_meta c)) n = Some ''slave'') \<and>
     role_at pods t (Namespace (cluster_meta c)) mn' =
       (if mn' = mn then Some ''master'' else if mn' \<in> set failed then Some ''slave''
        else role_at pods s (Namespace (cluster_meta c)) mn')"
  by (rule pod_store.reconcileMasterSlave_alive [OF assms])

definition reconcile_alive :: "(unit res \<times> mem) option" where
  "reconcile_alive = reconcileMasterSlave mem_api mem_memory sample_cluster mem_alive"

lemma reconcile_alive_facts:
  "returns_ok reconcile_alive"
  "returns_ok (checkMasterStatus mem_api sample_cluster mem_alive) \<and>
   value_of (checkMasterStatus mem_api sample_cluster mem_alive) = True"
  unfolding reconcile_alive_def by code_simp+

text \<open>No call of the in-memory server changes its Endpoints.\<close>

lemmas mem_endpoint_calls = mem_get_keeps [where v = m_endpoints] mem_create_keeps [where v = m_endpoints]
  mem_update_keeps [where v = m_endpoints] faulty_unit_keeps [where v = m_endpoints] faulty_keeps [where v = m_endpoints]

interpretation mem_endpoints: writes mem_api "\<lambda>s t. m_endpoints t = m_endpoints s" "\<lambda>_ _. True"
  by unfold_locales
     (auto simp: mem_api_def mem_list_pods_def mem_get_endpoints_def mem_stream_def split: option.splits
        elim!: mem_endpoint_calls)

lemma mem_master:
  assumes "m_endpoints w = [((''default'', ''master-service''), endpoint_to n)]"
    and "getMasterPodNameFromEndpoints mem_api sample_cluster w = Some (Ok x, w')"
  shows "x = n"
  using assms(2)
  by (auto simp: getMasterPodNameFromEndpoints_def bindE_Ok_iff mem_api_def mem_get_endpoints_def endpoint_to_def
      assms(1) sample_cluster_def sample_spec_def named_meta_def elim!: faulty_Inr)

lemma mem_alive_pod: "mem_pods mem_alive (''default'', ''mysql-02'') = Some (mem_pod ''mysql-02'')"
  by (simp add: mem_pods_def mem_alive_def mem_three_def mem_pod_def podFor_def pod_key_def mem_empty_def)

lemma reconcile_leaves_one_master_witness:
  "role_at mem_pods (world_after reconcile_alive) ''default'' ''mysql-01'' = Some ''master'' \<and>
   role_at mem_pods (world_after reconcile_alive) ''default'' ''mysql-02'' = Some ''slave''"
proof -
  note run = returns_okD [OF reconcile_alive_facts(1), unfolded reconcile_alive_def]
  note alive = returns_ok_value [OF reconcile_alive_facts(2)]
  let ?s0 = "world_after (checkMasterStatus mem_api sample_cluster mem_alive)"
  from reconcile_leaves_one_master [OF mem.pod_store_axioms run alive, folded reconcile_alive_def,
      unfolded sample_cluster_simps]
  obtain mn s1 failed s2 s3 mn' s4 where r: "getMasterPodNameFromEndpoints mem_api sample_cluster ?s0 = Some (Ok mn, s1)"
      "checkReplicaStatus mem_api sample_cluster ?s0 = Some (Ok (mn, failed), s2)"
      "setupMasterSlaveReplication mem_api mn failed sample_cluster s2 = Some (Ok (), s3)"
      "getMasterPodNameFromEndpoints mem_api sample_cluster s3 = Some (Ok mn', s4)"
      and slaves: "\<forall>n p. n \<noteq> mn' \<and> mem_pods mem_alive (''default'', n) = Some p \<and> pod_label p ''app'' = Some ''mysql'' \<longrightarrow>
        role_at mem_pods (world_after reconcile_alive) ''default'' n = Some ''slave''"
      and master: "role_at mem_pods (world_after reconcile_alive) ''default'' mn' =
       (if mn' = mn then Some ''master'' else if mn' \<in> set failed then Some ''slave''
        else role_at mem_pods mem_alive ''default'' mn')"
    by blast
  have e0: "m_endpoints ?s0 = [((''default'', ''master-service''), endpoint_to ''mysql-01'')]"
    using movesD [OF mem_endpoints.checkMasterStatus_moves alive] by (simp add: mem_alive_def)
  moreover have "m_endpoints s3 = m_endpoints ?s0"
    using movesD [OF mem_endpoints.checkReplicaStatus_moves r(2)] movesD [OF mem_endpoints.setup_moves r(3)] by simp
  ultimately have "mn = ''mysql-01'' \<and> mn' = ''mysql-01''" using mem_master [of _ "''mysql-01''"] r(1,4) by metis
  moreover have "pod_label (mem_pod ''mysql-02'') ''app'' = Some ''mysql''"
    by (simp add: mem_pod_def podFor_def pod_label_def)
  ultimately show ?thesis using master slaves mem_alive_pod by auto
qed

text \<open>(C15) A failover promotes one slave and nothing else: after \<open>handleMasterFailure\<close> returns without an
  error, one pod that had the role slave has the role master, and the role of every other pod is what it
  was. In particular the failed master keeps its label \<open>role=master\<close>: if there was one, the master Service
  now selects two pods.\<close>

theorem failover_promotes_one_keeps_old_master:
  assumes "pod_store api pods" and "handleMasterFailure api m c s = Some (Ok u, t)"
  shows "\<exists>nm. role_at pods s (Namespace (cluster_meta c)) nm = Some ''slave'' \<and>
     role_at pods t (Namespace (cluster_meta c)) nm = Some ''master'' \<and>
     (\<forall>n. n \<noteq> nm \<longrightarrow>
        role_at pods t (Namespace (cluster_meta c)) n = role_at pods s (Namespace (cluster_meta c)) n) \<and>
     (\<forall>old. role_at pods s (Namespace (cluster_meta c)) old = Some ''master'' \<longrightarrow>
        old \<noteq> nm \<and> role_at pods t (Namespace (cluster_meta c)) old = Some ''master'')"
proof -
  obtain nm where "role_at pods s (Namespace (cluster_meta c)) nm = Some ''slave''"
    "role_at pods t (Namespace (cluster_meta c)) nm = Some ''master''"
    "\<And>n. n \<noteq> nm \<Longrightarrow> role_at pods t (Namespace (cluster_meta c)) n = role_at pods s (Namespace (cluster_meta c)) n"
    using pod_store.handleMasterFailure_Ok [OF assms] by blast
  moreover have "old \<noteq> nm" if "role_at pods s (Namespace (cluster_meta c)) old = Some ''master''" for old
    using calculation(1) that by auto
  ultimately show ?thesis by (intro exI [of _ nm]) auto
qed

definition mem_failed :: mem where
  "mem_failed = mem_slaves\<lparr>m_pods := set_role ''master'' (mem_pod ''mysql-01'') # m_pods mem_slaves\<rparr>"

definition failover_failed :: "(unit res \<times> mem) option" where
  "failover_failed = handleMasterFailure mem_api mem_memory sample_cluster mem_failed"

lemma failover_failed_ok: "returns_ok failover_failed"
  unfolding failover_failed_def by code_simp

lemmas failover_failed_run = returns_okD [OF failover_failed_ok, unfolded failover_failed_def]

lemma failover_promotes_one_keeps_old_master_witness:
  "\<exists>nm. nm \<noteq> ''mysql-01'' \<and>
     role_at mem_pods (world_after failover_failed) ''default'' nm = Some ''master'' \<and>
     role_at mem_pods (world_after failover_failed) ''default'' ''mysql-01'' = Some ''master''"
proof -
  have old: "role_at mem_pods mem_failed ''default'' ''mysql-01'' = Some ''master''"
    by code_simp
  have pick: "\<exists>nm. P nm \<and> B nm \<and> C nm \<and> (\<forall>old. D old \<longrightarrow> old \<noteq> nm \<and> B old) \<Longrightarrow> D x \<Longrightarrow>
      \<exists>nm. nm \<noteq> x \<and> B nm \<and> B x" for P B C D and x :: string
    by metis
  show ?thesis
    by (rule pick [OF failover_promotes_one_keeps_old_master [OF mem.pod_store_axioms failover_failed_run,
          folded failover_failed_def, unfolded sample_cluster_simps] old])
qed

text \<open>(C25) The replica check reports exactly the replicas that do not replicate: the master comes from the
  master Service, the replicas are the other pods, in order, and one is reported when the output of its status
  query lacks either of the two running threads.\<close>

theorem checkReplicaStatus_reports_stopped:
  assumes "checkReplicaStatus api c s = Some (Ok (mn, failed), t)"
  shows "\<exists>s1 names s2 outs. getMasterPodNameFromEndpoints api c s = Some (Ok mn, s1) \<and>
     getReplicaPodsNames api c mn s1 = Some (Ok names, s2) \<and> mn \<notin> set names \<and>
     list_all2 (output_of api c) names outs \<and>
     failed = map fst (filter (\<lambda>(n, out). \<not> (strings_Contains out ''Slave_SQL_Running: Yes'' \<and>
       strings_Contains out ''Slave_IO_Running: Yes'')) (zip names outs))"
proof -
  obtain s1 names s2 where names: "getMasterPodNameFromEndpoints api c s = Some (Ok mn, s1)"
      "getReplicaPodsNames api c mn s1 = Some (Ok names, s2)" "checkReplicas api c names [] s2 = Some (Ok failed, t)"
    using checkReplicaStatus_Ok [OF assms] by blast
  with checkReplicas_Ok [OF names(3)] getReplicaPodsNames_not_master [OF names(2)] show ?thesis
    by (auto simp: replicating_def)
qed

definition check_repl :: "((string \<times> string list) res \<times> mem) option" where
  "check_repl = checkReplicaStatus mem_api sample_cluster mem_alive"

lemma check_repl_ok: "returns_ok check_repl \<and> value_of check_repl = (''mysql-01'', [''mysql-03''])"
  unfolding check_repl_def by code_simp

lemma check_repl_run: "checkReplicaStatus mem_api sample_cluster mem_alive =
    Some (Ok (''mysql-01'', [''mysql-03'']), world_after check_repl)"
  using returns_ok_value [OF check_repl_ok] by (simp only: check_repl_def)

lemma checkReplicaStatus_reports_stopped_witness:
  "\<exists>names outs. list_all2 (output_of mem_api sample_cluster) names outs \<and>
     [''mysql-03''] = map fst (filter (\<lambda>(n, out). \<not> (strings_Contains out ''Slave_SQL_Running: Yes'' \<and>
       strings_Contains out ''Slave_IO_Running: Yes'')) (zip names outs))"
  using checkReplicaStatus_reports_stopped [OF check_repl_run]
  by (elim exE conjE) (intro exI conjI; assumption)

end
