(* ===== verification/Integration.thy ===== *)
theory Integration
  imports Master_Slave
begin

text \<open>
  The Raft/MySQL integration, \<^verbatim>\<open>src/internal/controller/raft_mysql_integration.go\<close>. The
  fields of \<open>RaftMySQLIntegration\<close> are pointers: \<open>raftManager\<close> is the manager of the
  reconciler's memory \<open>m\<close>, \<open>cluster\<close> the object \<open>c\<close> passed to every operation.
  While \<open>RaftBasedMasterElection\<close> sleeps, the Raft goroutines may change the manager, so it is
  read again from the memory in every round. \<open>rmi_execCommandOnPod\<close> is the stub of the source: it
  returns the empty output and does nothing. \<open>errText\<close> is the \<open>Error\<close> method of an error.
\<close>

section \<open>Waiting for a leader\<close>

partial_function (option) waitForLeader ::
    "'s k8s \<Rightarrow> 's memory \<Rightarrow> gotime \<Rightarrow> 's \<Rightarrow> ((string \<times> string list) res \<times> 's) option" where
  "waitForLeader api m startTime s =
     (if time_Since (Now api s) startTime < 30 * Second
      then (case RaftMgr (load_r m s) of
              None \<Rightarrow> Some (Panic NilDeref, s)
            | Some rm \<Rightarrow>
                if state rm = RaftStateLeader
                then (case getClusterNodes rm of
                        Ok nodes \<Rightarrow> Some (Ok (nodeId rm, filter (\<lambda>node. node \<noteq> nodeId rm) nodes), s)
                      | Err e \<Rightarrow> Some (Err e, s)
                      | Panic p \<Rightarrow> Some (Panic p, s))
                else waitForLeader api m startTime (Sleep api (100 * Millisecond) s))
      else Some (Err (Errorf ''Raft election timed out'' [] None), s))"

definition RaftBasedMasterElection :: "'s k8s \<Rightarrow> 's memory \<Rightarrow> ('s, string \<times> string list) io" where
  "RaftBasedMasterElection api m s = waitForLeader api m (Now api s) s"

section \<open>Pods and commands\<close>

definition getPodByName :: "'s k8s \<Rightarrow> MysqlCluster \<Rightarrow> string \<Rightarrow> ('s, Pod) io" where
  "getPodByName api c nm = liftE (Get_Pod api (Namespace (cluster_meta c)) nm)"

definition rmi_execCommandOnPod :: "Pod \<Rightarrow> string \<Rightarrow> ('s, string) io" where
  "rmi_execCommandOnPod pod command = returnE []"

section \<open>Semi-synchronous replication\<close>

text \<open>The loop over the configuration commands of a pod: an error is ignored when its text
  contains \<^verbatim>\<open>already exists\<close>.\<close>

definition semiSyncCommand :: "(go_error \<Rightarrow> string) \<Rightarrow> string \<Rightarrow> Pod \<Rightarrow> string \<Rightarrow> ('s, unit) io" where
  "semiSyncCommand errText fmt pod cmd =
     bindE (tryE (rmi_execCommandOnPod pod (mysql_command cmd))) (\<lambda>r. case r of
       Inl err \<Rightarrow> if \<not> strings_Contains (errText err) ''already exists''
                 then failE (Errorf fmt [cmd] (Some err)) else returnE ()
     | Inr _ \<Rightarrow> returnE ())"

definition configureMasterSemiSync ::
    "'s k8s \<Rightarrow> (go_error \<Rightarrow> string) \<Rightarrow> MysqlCluster \<Rightarrow> string \<Rightarrow> ('s, unit) io" where
  \<open>configureMasterSemiSync api errText c masterName =
     bindE (getPodByName api c masterName) (\<lambda>pod.
     forE [''INSTALL PLUGIN rpl_semi_sync_master SONAME 'semisync_master.so';'',
           ''SET GLOBAL rpl_semi_sync_master_enabled = 1;'',
           ''SET GLOBAL rpl_semi_sync_master_timeout = 1000;'',
           ''SET GLOBAL rpl_semi_sync_master_wait_for_slave_count = 1;'']
       (semiSyncCommand errText ''master semi-sync command failed [%s]: %v'' pod))\<close>

definition configureSlaveSemiSync ::
    "'s k8s \<Rightarrow> (go_error \<Rightarrow> string) \<Rightarrow> MysqlCluster \<Rightarrow> string \<Rightarrow> ('s, unit) io" where
  \<open>configureSlaveSemiSync api errText c slaveName =
     bindE (getPodByName api c slaveName) (\<lambda>pod.
     forE [''INSTALL PLUGIN rpl_semi_sync_slave SONAME 'semisync_slave.so';'',
           ''SET GLOBAL rpl_semi_sync_slave_enabled = 1;'',
           ''STOP SLAVE IO_THREAD;'', ''START SLAVE IO_THREAD;'']
       (semiSyncCommand errText ''slave semi-sync command failed [%s]: %v'' pod))\<close>

definition verifySlaveSemiSync :: "'s k8s \<Rightarrow> MysqlCluster \<Rightarrow> string \<Rightarrow> ('s, unit) io" where
  \<open>verifySlaveSemiSync api c slaveName =
     bindE (tryE (getPodByName api c slaveName)) (\<lambda>r. case r of
       Inl err \<Rightarrow> returnE ()
     | Inr slavePod \<Rightarrow>
         bindE (tryE (rmi_execCommandOnPod slavePod
                        (mysql_command (''SHOW STATUS LIKE '' @ [CHR 0x27] @
                           ''Rpl_semi_sync_slave_status'' @ [CHR 0x27] @ '';'')))) (\<lambda>res. case res of
           Inl err \<Rightarrow> returnE ()
         | Inr slaveResult \<Rightarrow>
             if \<not> strings_Contains slaveResult ''ON''
             then failE (Errorf ''semi-sync not enabled on slave %s'' [slaveName] None)
             else returnE ()))\<close>

definition VerifySemiSyncStatus ::
    "'s k8s \<Rightarrow> MysqlCluster \<Rightarrow> string \<Rightarrow> string list \<Rightarrow> ('s, unit) io" where
  \<open>VerifySemiSyncStatus api c masterName slaveNames =
     bindE (getPodByName api c masterName) (\<lambda>masterPod.
     bindE (wrapE (\<lambda>e. Errorf ''checking master semi-sync failed: %v'' [] (Some e))
             (rmi_execCommandOnPod masterPod
                (mysql_command (''SHOW STATUS LIKE '' @ [CHR 0x27] @
                   ''Rpl_semi_sync_master_status'' @ [CHR 0x27] @ '';'')))) (\<lambda>masterResult.
     if \<not> strings_Contains masterResult ''ON''
     then failE (Errorf ''semi-sync not enabled on master'' [] None)
     else forE slaveNames (verifySlaveSemiSync api c)))\<close>

definition ConfigureSemiSyncReplication ::
    "'s k8s \<Rightarrow> (go_error \<Rightarrow> string) \<Rightarrow> MysqlCluster \<Rightarrow> string \<Rightarrow> string list \<Rightarrow> ('s, unit) io" where
  "ConfigureSemiSyncReplication api errText c masterName slaveNames =
     bindE (wrapE (\<lambda>e. Errorf ''configuring master semi-sync failed: %v'' [] (Some e))
             (configureMasterSemiSync api errText c masterName)) (\<lambda>_.
     bindE (forE slaveNames (\<lambda>slaveName.
              bindE (tryE (configureSlaveSemiSync api errText c slaveName)) (\<lambda>_. returnE ()))) (\<lambda>_.
     VerifySemiSyncStatus api c masterName slaveNames))"

section \<open>Roles\<close>

definition ensureMySQLMasterRole :: "'s k8s \<Rightarrow> MysqlCluster \<Rightarrow> string \<Rightarrow> ('s, unit) io" where
  "ensureMySQLMasterRole api c masterName =
     bindE (getPodByName api c masterName) (\<lambda>pod.
     bindE (forE [''RESET MASTER;'', ''SET GLOBAL read_only = 0;'', ''SET GLOBAL super_read_only = 0;'']
              (\<lambda>cmd. bindE (wrapE (\<lambda>e. Errorf ''master command failed [%s]: %v'' [cmd] (Some e))
                               (rmi_execCommandOnPod pod (mysql_command cmd))) (\<lambda>_. returnE ()))) (\<lambda>_.
     bindE (assignRole ''master'' pod) (\<lambda>pod'. liftE (Update_Pod api pod'))))"

definition changeMasterCommand :: "MysqlCluster \<Rightarrow> string" where
  \<open>changeMasterCommand c = mysql_command (''CHANGE MASTER TO MASTER_HOST='' @ [CHR 0x27] @
     MasterService (Spec c) @ ''.'' @ Namespace (cluster_meta c) @ ''.svc.cluster.local'' @ [CHR 0x27] @
     '', MASTER_USER='root', MASTER_PASSWORD='' @ [CHR 0x27] @ MySQLPassword @ [CHR 0x27] @
     '', MASTER_AUTO_POSITION=1;'')\<close>

definition ensureMySQLSlaveRole :: "'s k8s \<Rightarrow> MysqlCluster \<Rightarrow> string \<Rightarrow> string \<Rightarrow> ('s, unit) io" where
  "ensureMySQLSlaveRole api c slaveName masterName =
     bindE (getPodByName api c slaveName) (\<lambda>slavePod.
     bindE (tryE (rmi_execCommandOnPod slavePod (mysql_command ''STOP SLAVE;''))) (\<lambda>_.
     bindE (wrapE (\<lambda>e. Errorf ''configuring slave failed: %v'' [] (Some e))
             (rmi_execCommandOnPod slavePod (changeMasterCommand c))) (\<lambda>_.
     bindE (wrapE (\<lambda>e. Errorf ''starting slave failed: %v'' [] (Some e))
             (rmi_execCommandOnPod slavePod (mysql_command ''START SLAVE;''))) (\<lambda>_.
     bindE (tryE (rmi_execCommandOnPod slavePod
              (mysql_command ''SET GLOBAL read_only = 1; SET GLOBAL super_read_only = 1;''))) (\<lambda>_.
     bindE (assignRole ''slave'' slavePod) (\<lambda>slavePod'. liftE (Update_Pod api slavePod')))))))"

definition setupMySQLMasterSlaveReplication ::
    "'s k8s \<Rightarrow> MysqlCluster \<Rightarrow> string \<Rightarrow> string list \<Rightarrow> ('s, unit) io" where
  "setupMySQLMasterSlaveReplication api c masterName slaveNames =
     bindE (wrapE (\<lambda>e. Errorf ''setting the MySQL master role failed: %v'' [] (Some e))
             (ensureMySQLMasterRole api c masterName)) (\<lambda>_.
     forE slaveNames (\<lambda>slaveName.
       wrapE (\<lambda>e. Errorf ''setting the MySQL slave role failed [%s]: %v'' [slaveName] (Some e))
         (ensureMySQLSlaveRole api c slaveName masterName)))"

section \<open>Failover\<close>

definition HandleRaftBasedFailover ::
    "'s k8s \<Rightarrow> 's memory \<Rightarrow> (go_error \<Rightarrow> string) \<Rightarrow> MysqlCluster \<Rightarrow> ('s, unit) io" where
  "HandleRaftBasedFailover api m errText c s = (case RaftMgr (load_r m s) of
       None \<Rightarrow> Some (Panic NilDeref, s)
     | Some rm \<Rightarrow>
         bindE (wrapE (\<lambda>e. Errorf ''Raft failover failed: %v'' [] (Some e))
                 (RaftBasedMasterElection api m)) (\<lambda>(newMaster, slaves).
         bindE (wrapE (\<lambda>e. Errorf ''configuring MySQL replication failed: %v'' [] (Some e))
                 (setupMySQLMasterSlaveReplication api c newMaster slaves)) (\<lambda>_.
         bindE (tryE (ConfigureSemiSyncReplication api errText c newMaster slaves)) (\<lambda>_.
         returnE ())))
         (store_r m ((load_r m s)\<lparr>RaftMgr := Some (forceElection rm)\<rparr>) s))"

section \<open>The clock\<close>

text \<open>What the wait relies on: sleeping takes at least the time asked for.\<close>

locale clock =
  fixes api :: "'s k8s"
  assumes sleep_advances: "0 \<le> d \<Longrightarrow> Now api s + d \<le> Now api (Sleep api d s)"

interpretation mem_clock: clock mem_api
  by unfold_locales (simp add: mem_api_def)

definition slept :: "'s k8s \<Rightarrow> nat \<Rightarrow> 's \<Rightarrow> 's" where
  "slept api k s = (Sleep api (100 * Millisecond) ^^ k) s"

lemma slept_simps [simp]:
  "slept api 0 s = s" "slept api (Suc k) s = slept api k (Sleep api (100 * Millisecond) s)"
  by (simp_all add: slept_def funpow_Suc_right del: funpow.simps(2))

lemma waited: "time_Since now start < 30 * Second \<longleftrightarrow> now - start < 30 * Second"
  by (auto simp: time_Since_def Second_def)

text \<open>A world in which the loop goes on: the time is not up and the manager is not the leader. And what the
  loop returns in the first world that is not of this kind.\<close>

definition still_waiting :: "'s k8s \<Rightarrow> 's memory \<Rightarrow> gotime \<Rightarrow> 's \<Rightarrow> bool" where
  "still_waiting api m start t \<longleftrightarrow> Now api t < start + 30 * Second \<and>
     (\<exists>rm. RaftMgr (load_r m t) = Some rm \<and> state rm \<noteq> RaftStateLeader)"

definition election_outcome :: "'s k8s \<Rightarrow> 's memory \<Rightarrow> gotime \<Rightarrow> 's \<Rightarrow> (string \<times> string list) res" where
  "election_outcome api m start t =
     (if start + 30 * Second \<le> Now api t then Err (Errorf ''Raft election timed out'' [] None)
      else case RaftMgr (load_r m t) of
        None \<Rightarrow> Panic NilDeref
      | Some rm \<Rightarrow> Ok (nodeId rm, filter (\<lambda>n. n \<noteq> nodeId rm) (clusterNodes rm)))"

lemma waitForLeader_step:
  "still_waiting api m start s \<Longrightarrow>
     waitForLeader api m start s = waitForLeader api m start (Sleep api (100 * Millisecond) s)"
  "\<not> still_waiting api m start s \<Longrightarrow>
     waitForLeader api m start s = Some (election_outcome api m start s, s)"
  by (subst waitForLeader.simps,
      auto simp: still_waiting_def election_outcome_def waited split: option.splits)+

context clock
begin

lemma waitForLeader_returns:
  assumes "start + int i * (100 * Millisecond) \<le> Now api s" "i \<le> 300"
  shows "\<exists>k\<le>300 - i. (\<forall>j<k. still_waiting api m start (slept api j s)) \<and>
     \<not> still_waiting api m start (slept api k s) \<and>
     waitForLeader api m start s = Some (election_outcome api m start (slept api k s), slept api k s)"
  using assms
proof (induction "300 - i" arbitrary: i s)
  case 0
  then have "\<not> still_waiting api m start s" by (simp add: still_waiting_def Second_def Millisecond_def)
  then show ?case by (intro exI [of _ 0]) (simp add: waitForLeader_step)
next
  case (Suc x)
  show ?case
  proof (cases "still_waiting api m start s")
    case False
    then show ?thesis by (intro exI [of _ 0]) (simp add: waitForLeader_step)
  next
    case True
    have now: "start + int (Suc i) * (100 * Millisecond) \<le> Now api (Sleep api (100 * Millisecond) s)"
      using sleep_advances [of "100 * Millisecond" s] Suc.prems(1)
      by (simp add: Millisecond_def algebra_simps)
    have i: "x = 300 - Suc i" "Suc i \<le> 300" using Suc.hyps(2) Suc.prems(2) by auto
    from Suc.hyps(1) [OF i(1) now i(2)] obtain k where k: "k \<le> 300 - Suc i"
        "\<And>j. j < k \<Longrightarrow> still_waiting api m start (slept api (Suc j) s)"
        "\<not> still_waiting api m start (slept api (Suc k) s)"
        "waitForLeader api m start s =
           Some (election_outcome api m start (slept api (Suc k) s), slept api (Suc k) s)"
      unfolding waitForLeader_step(1) [OF True] slept_simps by blast
    have "still_waiting api m start (slept api j s)" if "j < Suc k" for j
      using that True k(2) by (cases j) simp_all
    with k i(2) show ?thesis by (intro exI [of _ "Suc k"]) simp
  qed
qed

end

section \<open>Roles and the stub\<close>

lemma rmi_exec_simps [simp]:
  "bindE (tryE (rmi_execCommandOnPod pod cmd)) f = f (Inr [])"
  "bindE (wrapE h (rmi_execCommandOnPod pod cmd)) g = g []"
  by (rule ext, simp add: rmi_execCommandOnPod_def bindE_def tryE_def wrapE_def returnE_def)+

lemma ensureMySQLMasterRole_eq:
  "ensureMySQLMasterRole api c nm = bindE (getPodByName api c nm) (\<lambda>pod.
     bindE (assignRole ''master'' pod) (\<lambda>pod'. liftE (Update_Pod api pod')))"
  by (simp add: ensureMySQLMasterRole_def)

lemma ensureMySQLSlaveRole_eq:
  "ensureMySQLSlaveRole api c nm mn = bindE (getPodByName api c nm) (\<lambda>pod.
     bindE (assignRole ''slave'' pod) (\<lambda>pod'. liftE (Update_Pod api pod')))"
  by (simp add: ensureMySQLSlaveRole_def)

lemma VerifySemiSyncStatus_eq:
  "VerifySemiSyncStatus api c mn ss = bindE (getPodByName api c mn)
     (\<lambda>_. failE (Errorf ''semi-sync not enabled on master'' [] None))"
  by (simp add: VerifySemiSyncStatus_def)

definition assignStored :: "'s k8s \<Rightarrow> MysqlCluster \<Rightarrow> string \<Rightarrow> string \<Rightarrow> ('s, unit) io" where
  "assignStored api c role nm = bindE (getPodByName api c nm) (\<lambda>pod.
     bindE (assignRole role pod) (\<lambda>pod'. liftE (Update_Pod api pod')))"

lemma setupMySQL_eq:
  "setupMySQLMasterSlaveReplication api c mn ss =
     bindE (wrapE (\<lambda>e. Errorf ''setting the MySQL master role failed: %v'' [] (Some e))
             (assignStored api c ''master'' mn)) (\<lambda>_.
     forE ss (\<lambda>slaveName.
       wrapE (\<lambda>e. Errorf ''setting the MySQL slave role failed [%s]: %v'' [slaveName] (Some e))
         (assignStored api c ''slave'' slaveName)))"
  by (simp add: setupMySQLMasterSlaveReplication_def ensureMySQLMasterRole_eq ensureMySQLSlaveRole_eq
      assignStored_def)

context reads
begin

lemma getPodByName_moves: "moves R (getPodByName api c n)"
  by (simp add: getPodByName_def read_calls)

lemma semiSyncCommand_moves: "moves R (semiSyncCommand errText fmt p cmd)"
  by (simp add: semiSyncCommand_def)

lemma ConfigureSemiSync_moves: "moves R (ConfigureSemiSyncReplication api errText c mn ss)"
proof -
  have "moves R (configureSlaveSemiSync api errText c n)"
      "moves R (configureMasterSemiSync api errText c n)" for n
    unfolding configureSlaveSemiSync_def configureMasterSemiSync_def
    by (intro moves_seq moves_loop getPodByName_moves semiSyncCommand_moves)+
  moreover have "moves R (VerifySemiSyncStatus api c mn ss)"
    unfolding VerifySemiSyncStatus_eq by (intro moves_seq getPodByName_moves) simp_all
  ultimately show ?thesis unfolding ConfigureSemiSyncReplication_def
    by (intro moves_seq moves_loop) simp_all
qed

end

context creates
begin

lemma waitForLeader_moves:
  assumes "waitForLeader api m t0 s = Some y"
  shows "R s (snd y)"
proof (rule waitForLeader.raw_induct [where P = "\<lambda>api' m' t0' s y. api' = api \<longrightarrow> R s (snd y)", THEN mp, OF _ assms],
    goal_cases)
  case (1 wait api' m' t0' s y)
  show ?case
  proof
    assume api: "api' = api"
    from 1(2) consider "snd y = s" | "wait api' m' t0' (Sleep api' (100 * Millisecond) s) = Some y"
      by (auto split: if_splits option.splits res.splits)
    then show "R s (snd y)"
    proof cases
      case 1
      with R_refl show ?thesis by (simp add: reflp_def)
    next
      case 2
      with 1(1) api sleep_moves [of s] transpD [OF R_trans] show ?thesis by blast
    qed
  qed
qed simp

lemma RaftBasedMasterElection_moves: "moves R (RaftBasedMasterElection api m)"
  by (rule movesI) (auto simp: RaftBasedMasterElection_def dest: waitForLeader_moves)

end

context writes
begin

lemma setupMySQL_moves: "moves R (setupMySQLMasterSlaveReplication api c mn ss)"
proof -
  have "moves R (assignStored api c role n)" for role n
    unfolding assignStored_def
    by (rule moves_from [OF getPodByName_moves])
       (auto simp: getPodByName_def intro: assignRole_write_moves get_pod_fresh)
  then show ?thesis unfolding setupMySQL_eq by (intro moves_seq moves_loop) simp_all
qed

end

context pod_store
begin

lemma assignStored_Ok:
  assumes "assignStored api c role n s = Some (Ok u, t)"
  shows "labels_at pods t = apply_role (Namespace (cluster_meta c)) role n (labels_at pods s)"
    and "(Namespace (cluster_meta c), n) \<in> dom (labels_at pods s)"
proof -
  from assms obtain p s1 where "Get_Pod api (Namespace (cluster_meta c)) n s = (Inr p, s1)"
      "Update_Pod api (set_role role p) s1 = (Inr u, t)"
    by (auto simp: assignStored_def getPodByName_def bindE_Ok_iff assignRole_Ok)
  from relabel [OF this] show
    "labels_at pods t = apply_role (Namespace (cluster_meta c)) role n (labels_at pods s)"
    "(Namespace (cluster_meta c), n) \<in> dom (labels_at pods s)" .
qed

lemma setupMySQL_Ok:
  assumes "setupMySQLMasterSlaveReplication api c mn ss s = Some (Ok u, t)"
  shows "labels_at pods t = spec_setup (Namespace (cluster_meta c)) mn ss (labels_at pods s)"
proof -
  let ?slave = "\<lambda>n. wrapE (\<lambda>e. Errorf ''setting the MySQL slave role failed [%s]: %v'' [n] (Some e))
      (assignStored api c ''slave'' n)"
  have loop: "labels_at pods t = fold (apply_role (Namespace (cluster_meta c)) ''slave'') ns (labels_at pods w)"
    if "forE ns ?slave w = Some (Ok u, t)" for ns w
    using that by (induction ns arbitrary: w) (auto simp: bindE_Ok_iff dest: assignStored_Ok(1))
  from assms obtain s1 where "assignStored api c ''master'' mn s = Some (Ok (), s1)"
      "forE ss ?slave s1 = Some (Ok u, t)"
    by (auto simp: setupMySQL_eq bindE_Ok_iff)
  with loop assignStored_Ok(1) show ?thesis by (simp add: spec_setup_def)
qed

end

context exec_store
begin

lemma assignStored_no_exec: "keeps execs (assignStored api c role n)"
  unfolding assignStored_def getPodByName_def
  by (intro keeps_bindE) (auto simp: no_exec_calls assignRole_def split: option.splits)

lemma setupMySQL_no_exec: "keeps execs (setupMySQLMasterSlaveReplication api c mn ss)"
  unfolding setupMySQL_eq by (intro keeps_bindE keeps_forE) (simp_all add: assignStored_no_exec)

end

section \<open>Properties\<close>

text \<open>(C14) Waiting for the Raft election always ends, and with the right result. With a clock that advances
  while the program sleeps, \<open>RaftBasedMasterElection\<close> returns after \<open>k\<close>, at most 300, sleeps of 100ms. Before
  each of them the 30s were not over and the manager was not the leader. In the world after the last one it
  returns the timeout error when the 30s are over, panics when there is no manager, and otherwise the manager is
  the leader and it returns the manager's node and the other members of the cluster.\<close>

theorem RaftBasedMasterElection_returns:
  assumes "clock api"
  shows "\<exists>k\<le>300. \<exists>r.
     RaftBasedMasterElection api m s = Some (r, slept api k s) \<and>
     (\<forall>j<k. Now api (slept api j s) < Now api s + 30 * Second \<and>
        (\<exists>rm. RaftMgr (load_r m (slept api j s)) = Some rm \<and> state rm \<noteq> RaftStateLeader)) \<and>
     (if Now api s + 30 * Second \<le> Now api (slept api k s) then r = Err (Errorf ''Raft election timed out'' [] None)
      else case RaftMgr (load_r m (slept api k s)) of
             None \<Rightarrow> r = Panic NilDeref
           | Some rm \<Rightarrow> state rm = RaftStateLeader \<and>
               r = Ok (nodeId rm, filter (\<lambda>n. n \<noteq> nodeId rm) (clusterNodes rm)))"
proof -
  obtain k where k: "k \<le> 300" "\<forall>j<k. still_waiting api m (Now api s) (slept api j s)"
      "\<not> still_waiting api m (Now api s) (slept api k s)"
      "waitForLeader api m (Now api s) s =
         Some (election_outcome api m (Now api s) (slept api k s), slept api k s)"
    using clock.waitForLeader_returns [OF assms, of "Now api s" 0 s m] by auto
  then show ?thesis
    by (intro exI [of _ k] conjI exI [of _ "election_outcome api m (Now api s) (slept api k s)"])
       (auto simp: RaftBasedMasterElection_def still_waiting_def election_outcome_def split: option.splits)
qed

text \<open>A candidate that wins while the operator sleeps for the first time.\<close>

definition sample_candidate :: RaftManager where
  "sample_candidate = (NewRaftManager ''mysqlcluster-sample-0'' sample_cluster 7 0)\<lparr>state := RaftStateCandidate\<rparr>"

definition mem_waiting :: mem where
  "mem_waiting = mem_empty\<lparr>m_rec := new_reconciler\<lparr>RaftMgr := Some sample_candidate\<rparr>\<rparr>"

definition elect_api :: "mem k8s" where
  "elect_api = mem_api\<lparr>Sleep := (\<lambda>d s. s\<lparr>m_clock := m_clock s + d,
     m_rec := (m_rec s)\<lparr>RaftMgr := map_option (\<lambda>rm. rm\<lparr>state := RaftStateLeader\<rparr>) (RaftMgr (m_rec s))\<rparr>\<rparr>)\<rparr>"

interpretation elect_clock: clock elect_api
  by unfold_locales (simp add: elect_api_def mem_api_def)

lemma RaftBasedMasterElection_returns_witness:
  "RaftBasedMasterElection elect_api mem_memory mem_waiting =
     Some (Ok (''mysqlcluster-sample-0'', [''mysqlcluster-sample-1'', ''mysqlcluster-sample-2'']),
       slept elect_api 1 mem_waiting)"
proof -
  let ?w = "\<lambda>j. slept elect_api j mem_waiting"
  have rm: "RaftMgr (load_r mem_memory (?w 0)) = Some sample_candidate"
      "RaftMgr (load_r mem_memory (?w 1)) = Some (sample_candidate\<lparr>state := RaftStateLeader\<rparr>)"
    by (simp_all add: mem_memory_def mem_waiting_def elect_api_def)
  have time: "Now elect_api (?w 0) = 0" "Now elect_api (?w 1) = 100 * Millisecond"
    by (simp_all add: elect_api_def mem_api_def mem_waiting_def mem_empty_def)
  have nodes: "filter (\<lambda>n. n \<noteq> nodeId rm') (clusterNodes rm') = [''mysqlcluster-sample-1'', ''mysqlcluster-sample-2'']"
    if "rm' = sample_candidate\<lparr>state := RaftStateLeader\<rparr>" for rm'
    unfolding that by code_simp
  from RaftBasedMasterElection_returns [OF elect_clock.clock_axioms, of mem_memory mem_waiting]
  obtain k r where run: "RaftBasedMasterElection elect_api mem_memory mem_waiting = Some (r, ?w k)"
      and before: "\<forall>j<k. \<exists>rm. RaftMgr (load_r mem_memory (?w j)) = Some rm \<and> state rm \<noteq> RaftStateLeader"
      and after: "if Now elect_api mem_waiting + 30 * Second \<le> Now elect_api (?w k)
        then r = Err (Errorf ''Raft election timed out'' [] None)
        else case RaftMgr (load_r mem_memory (?w k)) of None \<Rightarrow> r = Panic NilDeref
           | Some rm \<Rightarrow> state rm = RaftStateLeader \<and>
               r = Ok (nodeId rm, filter (\<lambda>n. n \<noteq> nodeId rm) (clusterNodes rm))"
    by blast
  have "k \<noteq> 0"
  proof
    assume "k = 0"
    with after rm(1) time(1) show False by (simp add: Second_def sample_candidate_def)
  qed
  moreover have "\<not> 1 < k" using before rm(2) by (auto simp del: One_nat_def slept_simps)
  ultimately have k: "k = 1" by linarith
  let ?leader = "sample_candidate\<lparr>state := RaftStateLeader\<rparr>"
  have "\<not> Now elect_api mem_waiting + 30 * Second \<le> Now elect_api (?w 1)"
    using time by (simp add: Second_def Millisecond_def)
  with after rm(2) have "r = Ok (nodeId ?leader, filter (\<lambda>n. n \<noteq> nodeId ?leader) (clusterNodes ?leader))"
    unfolding k by (simp del: One_nat_def slept_simps)
  then have "r = Ok (''mysqlcluster-sample-0'', [''mysqlcluster-sample-1'', ''mysqlcluster-sample-2''])"
    unfolding nodes [OF refl] by (simp add: sample_candidate_def NewRaftManager_def)
  with run show ?thesis by (simp only: k)
qed

text \<open>(C28) The Raft failover relabels pods but runs no SQL: when \<open>setupMySQLMasterSlaveReplication\<close>
  returns without an error, the labels are those of the abstract role assignment, the same as for the other
  setup, while not one command has reached a pod, because \<open>execCommandOnPod\<close> of the integration is a stub.\<close>

theorem raft_setup_relabels_without_sql:
  assumes "exec_store api pods execs"
    and "setupMySQLMasterSlaveReplication api c mn ss s = Some (Ok u, t)"
  shows "labels_at pods t = spec_setup (Namespace (cluster_meta c)) mn ss (labels_at pods s) \<and>
     execs t = execs s"
proof -
  have "pod_store api pods" using assms(1) by (rule exec_store.axioms(1))
  from pod_store.setupMySQL_Ok [OF this assms(2)] keepsD [OF exec_store.setupMySQL_no_exec [OF assms(1)] assms(2)]
  show ?thesis by simp
qed

definition raft_setup_three :: "(unit res \<times> mem) option" where
  "raft_setup_three = setupMySQLMasterSlaveReplication mem_api sample_cluster ''mysql-02'' [''mysql-01''] mem_three"

lemma raft_setup_three_ok: "returns_ok raft_setup_three"
  unfolding raft_setup_three_def by code_simp

lemma raft_setup_relabels_without_sql_witness:
  "labels_at mem_pods (world_after raft_setup_three) =
     spec_setup ''default'' ''mysql-02'' [''mysql-01''] (labels_at mem_pods mem_three) \<and>
   m_execs (world_after raft_setup_three) = m_execs mem_three"
  using raft_setup_relabels_without_sql [OF mem.exec_store_axioms
      returns_okD [OF raft_setup_three_ok, unfolded raft_setup_three_def]]
  unfolding raft_setup_three_def sample_cluster_simps .

text \<open>(C29) Semi-synchronous replication is never confirmed: neither the verification nor the configuration,
  which ends with it, ever returns without an error, whatever the pods would answer. When the master pod can be
  read, the verification reports that it is not enabled.\<close>

theorem semi_sync_never_confirmed:
  "\<not> returns_ok (VerifySemiSyncStatus api c mn ss s) \<and>
   \<not> returns_ok (ConfigureSemiSyncReplication api errText c mn ss s) \<and>
   (Get_Pod api (Namespace (cluster_meta c)) mn s = (Inr p, t) \<longrightarrow>
      VerifySemiSyncStatus api c mn ss s = Some (Err (Errorf ''semi-sync not enabled on master'' [] None), t))"
proof -
  have never: "VerifySemiSyncStatus api c mn ss w \<noteq> Some (Ok u, w')" for w u w'
    by (simp add: VerifySemiSyncStatus_eq bindE_Ok_iff)
  have "ConfigureSemiSyncReplication api errText c mn ss s \<noteq> Some (Ok u, w)" for u w
    using never by (auto simp: ConfigureSemiSyncReplication_def bindE_Ok_iff)
  with never show ?thesis
    by (auto simp: VerifySemiSyncStatus_eq returns_ok_def getPodByName_def bindE_def liftE_def failE_def
        split: option.splits res.splits)
qed

lemma semi_sync_never_confirmed_witness:
  "VerifySemiSyncStatus mem_api sample_cluster ''mysql-01'' [] mem_three =
     Some (Err (Errorf ''semi-sync not enabled on master'' [] None), mem_three)"
proof -
  have "Get_Pod mem_api ''default'' ''mysql-01'' mem_three = (Inr (mem_pod ''mysql-01''), mem_three)"
    by (simp add: mem_api_def mem_get_def faulty_def mem_three_def mem_empty_def mem_pod_def podFor_def meta_key_def)
  then show ?thesis
    using semi_sync_never_confirmed [of mem_api sample_cluster "''mysql-01''" "[]" mem_three]
    unfolding sample_cluster_simps by blast
qed

end
