(* ===== verification/Controller.thy ===== *)
theory Controller
  imports Integration Monitor
begin

text \<open>
  The controller: \<open>init\<close> of \<^verbatim>\<open>src/internal/controller/initialization.go\<close> and
  \<^verbatim>\<open>mysqlcluster_controller.go\<close>. \<open>Reconcile\<close> composes the other components the way the
  source does; \<open>ctrl.Result{}\<close> is always returned, so a result is \<open>Ok ()\<close> or the error.
  The goroutines it starts (the GTID snapshot loop, the Raft timers, the monitor) are the
  \<open>snapshotRound\<close>, the events of \<open>Raft_Cluster\<close> and the ticks of \<open>Monitor\<close>; here only
  the state that records their start changes. \<open>rnd\<close> is the number \<open>NewRaftManager\<close> draws, \<open>ord\<close>
  the order of a map and \<open>errText\<close> the text of an error. The loops of \<open>init\<close> count in 32 bits
  and end for every replica count below the largest 32-bit number.
\<close>

section \<open>Initialization\<close>

definition init :: "'s k8s \<Rightarrow> MysqlCluster \<Rightarrow> ('s, unit) io" where
  "init api c =
     (let ns = Namespace (cluster_meta c); replicas = Replicas (Spec c)
      in bindE (wrapE (\<lambda>e. Errorf ''failed to create master service: %v'' [] (Some e))
                 (getOrCreateService api (MasterService (Spec c)) ''master'' ns c)) (\<lambda>_.
         bindE (wrapE (\<lambda>e. Errorf ''failed to create slave service: %v'' [] (Some e))
                 (getOrCreateService api (SlaveService (Spec c)) ''slave'' ns c)) (\<lambda>_.
         if replicas < 1 then failE (Errorf ''invalid replica count: %d'' [sprintf_d replicas] None)
         else
         bindE (forE [1 .. replicas] (\<lambda>i.
                  let configMapName = ''mysql-config-'' @ sprintf_02d i
                  in wrapE (\<lambda>e. Errorf ''failed to create configmap %s: %v'' [configMapName] (Some e))
                       (createConfigMap api configMapName i ns c))) (\<lambda>_.
         bindE (forE [1 .. replicas] (\<lambda>i.
                  createPVC api (podName i) (StorageClassName (Storage (Spec c))) ns
                    (Size (Storage (Spec c))) c)) (\<lambda>_.
         bindE (forE [1 .. replicas] (\<lambda>i.
                  wrapE (\<lambda>e. Errorf ''failed to create pod %s: %v'' [podName i] (Some e))
                    (createPod api (podName i) (Image (Spec c)) (''mysql-config-'' @ sprintf_02d i)
                       (podName i) ns c))) (\<lambda>_.
         wrapE (\<lambda>e. Errorf ''failed to setup master-slave: %v'' [] (Some e))
           (setupMasterSlaveReplication api ''mysql-01'' (map podName [2 .. replicas]) c)))))))"

section \<open>Raft\<close>

definition getCurrentNodeId :: "MysqlCluster \<Rightarrow> string" where
  "getCurrentNodeId c = Name (cluster_meta c) @ ''-0''"

definition initializeRaft :: "'s k8s \<Rightarrow> 's memory \<Rightarrow> nat \<Rightarrow> MysqlCluster \<Rightarrow> ('s, unit) io" where
  "initializeRaft api m rnd c s = Some (Ok (), store_r m
     ((load_r m s)\<lparr>RaftMgr := Some (NewRaftManager (getCurrentNodeId c) c rnd (Now api s)),
                   RaftIntegration := Some RaftMySQLIntegration\<rparr>) s)"

text \<open>A call through \<open>r.RaftIntegration\<close>: its manager and cluster are those of the memory; the
  nil pointer panics.\<close>

definition withIntegration :: "'s memory \<Rightarrow> (MysqlCluster \<Rightarrow> ('s, 'a) io) \<Rightarrow> ('s, 'a) io" where
  "withIntegration m f s = (case (RaftIntegration (load_r m s), RaftMgr (load_r m s)) of
       (Some _, Some rm) \<Rightarrow> f (cluster rm) s
     | _ \<Rightarrow> Some (Panic NilDeref, s))"

definition reconcileRaftBasedMasterSlave ::
    "'s k8s \<Rightarrow> 's memory \<Rightarrow> (go_error \<Rightarrow> string) \<Rightarrow> MysqlCluster \<Rightarrow> ('s, unit) io" where
  "reconcileRaftBasedMasterSlave api m errText c s = (case RaftMgr (load_r m s) of
       None \<Rightarrow> Some (Panic NilDeref, s)
     | Some rm \<Rightarrow>
         bindE (checkMasterStatus api c) (\<lambda>masterAlive.
         if \<not> masterAlive then withIntegration m (HandleRaftBasedFailover api m errText)
         else if state rm = RaftStateLeader
         then bindE (checkReplicaStatus api c) (\<lambda>(masterPodName, failedReplicas).
              bindE (if length failedReplicas > 0
                     then setupMasterSlaveReplication api masterPodName failedReplicas c
                     else returnE ()) (\<lambda>_.
              ensureSlaveRoles api c))
         else returnE ()) s)"

definition ensureSemiSyncReplication ::
    "'s k8s \<Rightarrow> 's memory \<Rightarrow> (go_error \<Rightarrow> string) \<Rightarrow> MysqlCluster \<Rightarrow> ('s, unit) io" where
  "ensureSemiSyncReplication api m errText c s =
     (if RaftIntegration (load_r m s) = None then Some (Ok (), s)
      else if Master (Status c) = [] then Some (Ok (), s)
      else if length (Slaves (Status c)) = 0 then Some (Ok (), s)
      else withIntegration m (\<lambda>ic. ConfigureSemiSyncReplication api errText ic (Master (Status c))
             (Slaves (Status c))) s)"

section \<open>Reconcile\<close>

definition isInitialized :: "MysqlCluster \<Rightarrow> bool" where
  "isInitialized c \<longleftrightarrow> (case Annotations (cluster_meta c) of
     None \<Rightarrow> False | Some a \<Rightarrow> a ''initialized'' \<noteq> None)"

definition markInitialized :: "MysqlCluster \<Rightarrow> MysqlCluster" where
  "markInitialized c = c\<lparr>cluster_meta := (cluster_meta c)\<lparr>Annotations :=
     Some ((case Annotations (cluster_meta c) of None \<Rightarrow> Map.empty | Some a \<Rightarrow> a)
             (''initialized'' \<mapsto> ''true''))\<rparr>\<rparr>"

definition startSnapshot :: "'s memory \<Rightarrow> ('s, unit) io" where
  "startSnapshot m s = (if \<not> SnapGoIsEnabled (load_r m s)
     then Some (Ok (), store_r m ((load_r m s)\<lparr>SnapGoIsEnabled := True\<rparr>) s) else Some (Ok (), s))"

definition ensureRaft :: "'s k8s \<Rightarrow> 's memory \<Rightarrow> nat \<Rightarrow> MysqlCluster \<Rightarrow> ('s, unit) io" where
  "ensureRaft api m rnd c s =
     (if RaftMgr (load_r m s) = None then initializeRaft api m rnd c s else Some (Ok (), s))"

definition Reconcile ::
    "'s k8s \<Rightarrow> 's memory \<Rightarrow> (string list \<Rightarrow> string list) \<Rightarrow> (go_error \<Rightarrow> string) \<Rightarrow> nat \<Rightarrow>
     string \<Rightarrow> string \<Rightarrow> ('s, unit) io" where
  "Reconcile api m ord errText rnd ns nm =
     bindE (tryE (liftE (Get_Cluster api ns nm))) (\<lambda>r. case r of
       Inl err \<Rightarrow> if IsNotFound err then returnE () else failE err
     | Inr c \<Rightarrow>
         bindE (if \<not> isInitialized c
                then bindE (init api c) (\<lambda>_.
                     bindE (liftE (Update_Cluster api (markInitialized c))) (\<lambda>_. returnE ()))
                else bindE (ensureRaft api m rnd c) (\<lambda>_.
                     bindE (reconcileReplicas api ord c) (\<lambda>_.
                     bindE (reconcileRaftBasedMasterSlave api m errText c) (\<lambda>_.
                     bindE (tryE (ensureSemiSyncReplication api m errText c)) (\<lambda>_. returnE ()))))) (\<lambda>_.
         startSnapshot m))"

section \<open>The Raft manager as the controller hosts it\<close>

text \<open>What other goroutines never change: whether there is a manager, its node, and the namespace and name of its
  cluster.\<close>

definition manager_id :: "RaftManager \<Rightarrow> string \<times> string \<times> string" where
  "manager_id rm = (nodeId rm, Namespace (cluster_meta (cluster rm)), Name (cluster_meta (cluster rm)))"

definition hosted :: "'s memory \<Rightarrow> 's \<Rightarrow> (string \<times> string \<times> string) option \<times> RaftMySQLIntegration option" where
  "hosted m s = (map_option manager_id (RaftMgr (load_r m s)), RaftIntegration (load_r m s))"

locale raft_host = pod_store api pods + shared_memory m + clock api
  for api :: "'s k8s" and pods :: "'s \<Rightarrow> (string \<times> string) \<rightharpoonup> Pod" and m :: "'s memory" +
  assumes store_keeps_pods: "pods (store_r m r s) = pods s"
    and get_cluster_keeps: "Get_Cluster api ns n s = (rc, s') \<Longrightarrow> pods s' = pods s"
    and update_cluster_keeps: "Update_Cluster api c s = (rc, s') \<Longrightarrow> pods s' = pods s"
    and sleep_keeps_hosted: "hosted m (Sleep api d s) = hosted m s"
    and endpoints_keep_hosted: "Get_Endpoints api ns n s = (re, s') \<Longrightarrow> hosted m s' = hosted m s"

interpretation mem_host: raft_host mem_api mem_pods mem_memory
proof unfold_locales
  show "mem_pods (store_r mem_memory r s) = mem_pods s" for r s by (simp add: mem_memory_def)
  show "Get_Cluster mem_api ns n s = (r, s') \<Longrightarrow> mem_pods s' = mem_pods s" for ns n s r s'
    by (simp add: mem_api_def) (erule mem_get_keeps, simp)
  show "Update_Cluster mem_api c s = (r, s') \<Longrightarrow> mem_pods s' = mem_pods s" for c s r s'
    by (simp add: mem_api_def) (erule mem_update_keeps, simp_all)
  show "hosted mem_memory (Sleep mem_api d s) = hosted mem_memory s" for d s
    by (simp add: mem_memory_def mem_api_def hosted_def)
  show "Get_Endpoints mem_api ns n s = (re, s') \<Longrightarrow> hosted mem_memory s' = hosted mem_memory s" for ns n s re s'
    by (simp add: mem_api_def mem_get_endpoints_def)
       (erule faulty_keeps, auto simp: hosted_def mem_memory_def split: option.splits)
qed

lemma hosted_Some:
  "hosted m s = (Some (nid, ns, nm), Some i) \<longleftrightarrow> (\<exists>rm. RaftMgr (load_r m s) = Some rm \<and> nodeId rm = nid \<and>
     Namespace (cluster_meta (cluster rm)) = ns \<and> Name (cluster_meta (cluster rm)) = nm \<and>
     RaftIntegration (load_r m s) = Some i)"
  by (auto simp: hosted_def manager_id_def)

lemma forceElection_simps [simp]:
  "nodeId (forceElection rm) = nodeId rm" "cluster (forceElection rm) = cluster rm"
  by (simp_all add: forceElection_def)

context raft_host
begin

lemma slept_keeps: "hosted m (slept api k s) = hosted m s" "labels_at pods (slept api k s) = labels_at pods s"
  by (induction k arbitrary: s) (simp_all add: sleep_keeps_hosted sleep_keeps_labels)

lemma get_absent:
  assumes "(ns, n) \<notin> dom (labels_at pods s)"
  obtains e t where "Get_Pod api ns n s = (Inl e, t)"
proof (cases "Get_Pod api ns n s")
  case (Pair g t)
  show ?thesis
  proof (cases g)
    case (Inr p)
    with Pair get_pod have "pods s (ns, n) = Some p" by blast
    with assms show ?thesis by (auto simp: labels_at_def)
  next
    case (Inl e)
    with Pair that show ?thesis by simp
  qed
qed

text \<open>A failover fails when the manager's node is not the name of a pod.\<close>

lemma failover_fails:
  assumes "hosted m s = (Some (nid, Namespace (cluster_meta c), nm), Some i)"
    and "(Namespace (cluster_meta c), nid) \<notin> dom (pods s)"
  shows "\<exists>e t. HandleRaftBasedFailover api m errText c s = Some (Err e, t)"
proof -
  from assms(1) obtain rm where rm: "RaftMgr (load_r m s) = Some rm" "nodeId rm = nid"
      "Namespace (cluster_meta (cluster rm)) = Namespace (cluster_meta c)" "RaftIntegration (load_r m s) = Some i"
    by (auto simp: hosted_Some)
  define s1 where "s1 = store_r m ((load_r m s)\<lparr>RaftMgr := Some (forceElection rm)\<rparr>) s"
  have "pods s1 = pods s" by (simp add: s1_def store_keeps_pods)
  then have labels: "labels_at pods s1 = labels_at pods s" by (rule labels_at_cong)
  have s1: "hosted m s1 = (Some (nid, Namespace (cluster_meta c), nm), Some i)"
    using rm assms(1) by (simp add: s1_def hosted_def manager_id_def load_store)
  obtain k r where run: "RaftBasedMasterElection api m s1 = Some (r, slept api k s1)"
      and out: "r = election_outcome api m (Now api s1) (slept api k s1)"
    using waitForLeader_returns [of "Now api s1" 0 s1 m] by (auto simp: RaftBasedMasterElection_def)
  have unfold: "HandleRaftBasedFailover api m errText c s =
      bindE (wrapE (\<lambda>e. Errorf ''Raft failover failed: %v'' [] (Some e))
                 (RaftBasedMasterElection api m)) (\<lambda>(newMaster, slaves).
         bindE (wrapE (\<lambda>e. Errorf ''configuring MySQL replication failed: %v'' [] (Some e))
                 (setupMySQLMasterSlaveReplication api c newMaster slaves)) (\<lambda>_.
         bindE (tryE (ConfigureSemiSyncReplication api errText c newMaster slaves)) (\<lambda>_.
         returnE ()))) s1"
    by (simp add: HandleRaftBasedFailover_def rm(1) s1_def)
  have host: "hosted m (slept api k s1) = (Some (nid, Namespace (cluster_meta c), nm), Some i)"
    by (simp add: slept_keeps s1)
  show ?thesis
  proof (cases r)
    case (Err e)
    then show ?thesis by (simp add: unfold bindE_def wrapE_def run)
  next
    case (Panic p)
    with out host show ?thesis by (auto simp: election_outcome_def hosted_Some split: if_splits)
  next
    case (Ok v)
    with out host obtain slaves where v: "v = (nid, slaves)"
      by (cases v) (auto simp: election_outcome_def hosted_Some split: if_splits)
    have "(Namespace (cluster_meta c), nid) \<notin> dom (labels_at pods (slept api k s1))"
      using assms(2) by (auto simp: slept_keeps labels labels_at_def)
    then obtain e t where "Get_Pod api (Namespace (cluster_meta c)) nid (slept api k s1) = (Inl e, t)"
      by (rule get_absent)
    then show ?thesis
      by (simp add: unfold bindE_def wrapE_def run Ok v setupMySQL_eq assignStored_def getPodByName_def liftE_def)
  qed
qed

end

section \<open>Names\<close>

lemma node0_not_pod:
  assumes "0 \<le> i"
  shows "nm @ ''-0'' \<noteq> podName i"
proof
  assume eq: "nm @ ''-0'' = podName i"
  obtain d1 d2 ds where d: "rev (sprintf_02d i) = d1 # d2 # ds"
    using length_sprintf_02d [OF assms] by (cases "rev (sprintf_02d i)"; cases "tl (rev (sprintf_02d i))") auto
  then have "is_digit d2" using sprintf_02d_digits [OF assms]
    by (metis list.set_intros(1,2) list_all_iff set_rev)
  moreover have "rev (nm @ ''-0'') = d1 # d2 # ds @ rev ''mysql-''"
    unfolding eq podName_def rev_append d by simp
  then have "d2 = CHR ''-''" by simp
  ultimately show False by (simp add: is_digit_def)
qed

lemma podName_inj: "0 \<le> i \<Longrightarrow> 0 \<le> j \<Longrightarrow> podName i = podName j \<longleftrightarrow> i = j"
  by (simp add: podName_def sprintf_02d_inj)

section \<open>Lemmas on initialization\<close>

lemma init_Ok:
  assumes "init api c s = Some (Ok u, t)"
  obtains s1 where "1 \<le> Replicas (Spec c)"
    "setupMasterSlaveReplication api (podName 1) (map podName [2 .. Replicas (Spec c)]) c s1 = Some (Ok u, t)"
proof -
  have "\<not> Replicas (Spec c) < 1"
  proof
    assume "Replicas (Spec c) < 1"
    with assms show False by (auto simp: init_def Let_def bindE_Ok_iff)
  qed
  moreover from this assms obtain s1 where
      "setupMasterSlaveReplication api ''mysql-01'' (map podName [2 .. Replicas (Spec c)]) c s1 = Some (Ok u, t)"
    by (auto simp: init_def Let_def bindE_Ok_iff)
  ultimately show ?thesis using that by (simp add: podName_simps)
qed

lemma startSnapshot_Ok:
  assumes "startSnapshot m s = Some (Ok u, t)"
  shows "t = s \<and> SnapGoIsEnabled (load_r m s) \<or> t = store_r m ((load_r m s)\<lparr>SnapGoIsEnabled := True\<rparr>) s"
  using assms by (auto simp: startSnapshot_def split: if_splits)

context pod_store
begin

lemma init_roles:
  assumes "init api c s = Some (Ok u, t)" "1 \<le> i" "i \<le> Replicas (Spec c)"
  shows "role_at pods t (Namespace (cluster_meta c)) (podName i) =
     Some (if i = 1 then ''master'' else ''slave'')"
proof -
  obtain s1 where run:
      "setupMasterSlaveReplication api (podName 1) (map podName [2 .. Replicas (Spec c)]) c s1 = Some (Ok u, t)"
    using init_Ok [OF assms(1)] by blast
  have "podName i \<in> set (map podName [2 .. Replicas (Spec c)]) \<longleftrightarrow> i \<noteq> 1"
    using assms(2,3) by (auto simp: podName_inj)
  moreover have "podName i = podName 1 \<longleftrightarrow> i = 1" using assms(2) by (simp add: podName_inj)
  ultimately show ?thesis by (simp add: setup_role_at [OF run])
qed

end

section \<open>Properties\<close>

text \<open>(C2) The first reconciliation builds the cluster: when \<open>Reconcile\<close> returns without an error for a resource
  not marked as initialized, there is at least one replica, pod mysql-01 has the role master, mysql-02 up to
  the replica count have the role slave, and the goroutine that records the GTID snapshot has been started.\<close>

theorem first_reconcile_builds_cluster:
  assumes "raft_host api pods m"
    and "Get_Cluster api ns nm s = (Inr c, s1)" "\<not> isInitialized c"
    and "Reconcile api m ord errText rnd ns nm s = Some (Ok u, t)"
  shows "1 \<le> Replicas (Spec c) \<and> SnapGoIsEnabled (load_r m t) \<and>
     (\<forall>i. 1 \<le> i \<and> i \<le> Replicas (Spec c) \<longrightarrow>
        role_at pods t (Namespace (cluster_meta c)) (podName i) =
          Some (if i = 1 then ''master'' else ''slave''))"
proof -
  have store: "pod_store api pods" and mem: "shared_memory m"
    using assms(1) by (simp_all add: raft_host_def)
  from assms(2-4) obtain s2 c' s3 where init: "init api c s1 = Some (Ok (), s2)"
      and upd: "Update_Cluster api (markInitialized c) s2 = (Inr c', s3)"
      and snap: "startSnapshot m s3 = Some (Ok u, t)"
    by (auto simp: Reconcile_def bindE_Ok_iff tryE_Ok_iff)
  have "pods t = pods s3"
    using startSnapshot_Ok [OF snap] raft_host.store_keeps_pods [OF assms(1)] by auto
  with raft_host.update_cluster_keeps [OF assms(1) upd] have "pods t = pods s2" by simp
  then have "role_at pods t = role_at pods s2" by (rule role_at_cong)
  moreover have "SnapGoIsEnabled (load_r m t)"
    using startSnapshot_Ok [OF snap] shared_memory.load_store [OF mem] by auto
  moreover have "1 \<le> Replicas (Spec c)" using init_Ok [OF init] by blast
  ultimately show ?thesis using pod_store.init_roles [OF store init] by simp
qed

definition mem_new :: mem where
  "mem_new = mem_empty\<lparr>m_clusters := [sample_cluster]\<rparr>"

definition first_reconcile :: "(unit res \<times> mem) option" where
  "first_reconcile = Reconcile mem_api mem_memory id (\<lambda>_. []) 0 ''default'' ''mysqlcluster-sample'' mem_new"

lemma first_reconcile_ok: "returns_ok first_reconcile"
  unfolding first_reconcile_def by code_simp

lemma get_new: "Get_Cluster mem_api ''default'' ''mysqlcluster-sample'' mem_new = (Inr sample_cluster, mem_new)"
  by (simp add: mem_api_def mem_get_def faulty_def mem_new_def mem_empty_def meta_key_def sample_cluster_def
      named_meta_def)

lemma first_reconcile_builds_cluster_witness:
  "SnapGoIsEnabled (m_rec (world_after first_reconcile)) \<and>
   role_at mem_pods (world_after first_reconcile) ''default'' ''mysql-01'' = Some ''master'' \<and>
   role_at mem_pods (world_after first_reconcile) ''default'' ''mysql-03'' = Some ''slave''"
proof -
  have "\<not> isInitialized sample_cluster" by (simp add: isInitialized_def sample_cluster_def named_meta_def)
  note run = first_reconcile_builds_cluster [OF mem_host.raft_host_axioms get_new this
      returns_okD [OF first_reconcile_ok, unfolded first_reconcile_def], folded first_reconcile_def,
      unfolded sample_cluster_simps]
  from run have "SnapGoIsEnabled (load_r mem_memory (world_after first_reconcile))" by (elim conjE)
  moreover from run have "role_at mem_pods (world_after first_reconcile) ''default'' (podName 1) = Some ''master''"
      "role_at mem_pods (world_after first_reconcile) ''default'' (podName 3) = Some ''slave''"
    by (simp_all add: sample_spec_def)
  ultimately show ?thesis by (simp only: podName_simps mem_memory_def memory.simps)
qed

text \<open>With the master gone and a manager whose node is no pod, the reconciliation of master and slaves ends with an error.\<close>

lemma raft_failover_fails:
  assumes "raft_host api pods m"
    and "RaftMgr (load_r m s) = Some rm" "RaftIntegration (load_r m s) = Some i"
    and "(Namespace (cluster_meta (cluster rm)), nodeId rm) \<notin> dom (pods s)"
    and "checkMasterStatus api c s = Some (Ok False, s1)"
  shows "\<exists>e t. reconcileRaftBasedMasterSlave api m errText c s = Some (Err e, t)"
proof -
  let ?ns = "Namespace (cluster_meta (cluster rm))"
  have store: "pod_store api pods" using assms(1) by (simp add: raft_host_def)
  obtain ep where ep: "Get_Endpoints api (Namespace (cluster_meta c)) (MasterService (Spec c)) s = (Inr ep, s1)"
    using assms(5) by (auto simp: checkMasterStatus_def bindE_Ok_iff split: if_splits)
  have "hosted m s1 = (Some (nodeId rm, ?ns, Name (cluster_meta (cluster rm))), Some i)"
    using raft_host.endpoints_keep_hosted [OF assms(1) ep] assms(2,3) by (simp add: hosted_def manager_id_def)
  moreover from this obtain rm1 where rm1: "RaftMgr (load_r m s1) = Some rm1" "RaftIntegration (load_r m s1) = Some i"
      "Namespace (cluster_meta (cluster rm1)) = ?ns" "nodeId rm1 = nodeId rm"
    by (auto simp: hosted_Some)
  moreover have "(?ns, nodeId rm) \<notin> dom (pods s1)"
    using assms(4) quiet.get_endpoints_keeps [OF pod_store.axioms(1) [OF store] ep] by simp
  ultimately have "\<exists>e t. HandleRaftBasedFailover api m errText (cluster rm1) s1 = Some (Err e, t)"
    by (intro raft_host.failover_fails [OF assms(1)]) simp_all
  then show ?thesis
    using assms(2,5) rm1 by (auto simp: reconcileRaftBasedMasterSlave_def bindE_def withIntegration_def)
qed

end
