(* ===== verification/Operator.thy ===== *)
theory Operator
  imports Controller
begin

text \<open>
  The whole operator: the reconciler, the goroutines it starts and the API server, sharing one world.
  \<^item> \<open>reconciling\<close> lifts a preorder along which the calls move the world to \<open>Reconcile\<close>: one proof for every
    monotone view of the world and every invariant, given what the three writes of the shared memory do.
  \<^item> \<open>op_step\<close> is one step of the program: a call of \<open>Reconcile\<close> (for any resource), an atomic section of the hosted Raft
    manager, a message it sends, a tick of the monitor, a round of the GTID snapshot loop, or a change by anybody
    else that leaves the operator's memory alone.
  \<^item> \<open>operator\<close> is the contract under which this is analysed: a call or a sleep gives the other goroutines time
    to run, and they change the memory by atomic sections of the manager only (\<open>mem_evolves\<close>).
  The theory shows which cluster the manager serves along every run, that the pointers of the reconciler stay
  consistent, and that the failover through Raft fails in every reachable state without a pod called like its node; and
  that a reconciliation leaves every label but \<open>role\<close> alone.
\<close>

section \<open>Reconcile along a preorder\<close>

locale reconciling = writes api R fresh + shared_memory m
  for api :: "'s k8s" and R :: "'s \<Rightarrow> 's \<Rightarrow> bool" and fresh :: "'s \<Rightarrow> Pod \<Rightarrow> bool" and m :: "'s memory" +
  assumes raft_started: "RaftMgr (load_r m s) = None \<Longrightarrow> R s (store_r m
      ((load_r m s)\<lparr>RaftMgr := Some (NewRaftManager (getCurrentNodeId c) c rnd (Now api s)),
                    RaftIntegration := Some RaftMySQLIntegration\<rparr>) s)"
    and election_forced: "RaftMgr (load_r m s) = Some rm \<Longrightarrow>
      R s (store_r m ((load_r m s)\<lparr>RaftMgr := Some (forceElection rm)\<rparr>) s)"
    and snapshot_started: "R s (store_r m ((load_r m s)\<lparr>SnapGoIsEnabled := True\<rparr>) s)"

context reconciling
begin

lemma R_same [simp]: "R s s"
  using R_refl by (simp add: reflp_def)

lemma init_moves: "moves R (init api c)"
  unfolding init_def Let_def
  by (auto simp: getOrCreateService_moves createConfigMap_moves createPVC_moves createPod_moves setup_moves
      intro!: moves_seq moves_loop)

lemma memory_moves: "moves R (startSnapshot m)" "moves R (ensureRaft api m rnd c)"
  by (auto simp: moves_def startSnapshot_def ensureRaft_def initializeRaft_def
      intro!: snapshot_started raft_started)

lemma failover_moves: "moves R (HandleRaftBasedFailover api m errText c)"
proof -
  let ?rest = "bindE (wrapE (\<lambda>e. Errorf ''Raft failover failed: %v'' [] (Some e))
                 (RaftBasedMasterElection api m)) (\<lambda>(newMaster, slaves).
         bindE (wrapE (\<lambda>e. Errorf ''configuring MySQL replication failed: %v'' [] (Some e))
                 (setupMySQLMasterSlaveReplication api c newMaster slaves)) (\<lambda>_.
         bindE (tryE (ConfigureSemiSyncReplication api errText c newMaster slaves)) (\<lambda>_. returnE ())))"
  have rest: "moves R ?rest"
    by (auto simp: RaftBasedMasterElection_moves setupMySQL_moves ConfigureSemiSync_moves intro!: moves_seq)
  show ?thesis
  proof (rule movesI)
    fix s r t assume run: "HandleRaftBasedFailover api m errText c s = Some (r, t)"
    show "R s t"
    proof (cases "RaftMgr (load_r m s)")
      case None
      with run show ?thesis by (simp add: HandleRaftBasedFailover_def)
    next
      case (Some rm)
      define s1 where "s1 = store_r m ((load_r m s)\<lparr>RaftMgr := Some (forceElection rm)\<rparr>) s"
      with Some run have "?rest s1 = Some (r, t)" by (simp add: HandleRaftBasedFailover_def)
      with movesD [OF rest] have "R s1 t" by blast
      with election_forced [OF Some] show ?thesis unfolding s1_def by (rule transpD [OF R_trans])
    qed
  qed
qed

lemma withIntegration_moves: "(\<And>c. moves R (f c)) \<Longrightarrow> moves R (withIntegration m f)"
  unfolding moves_def by (auto simp: withIntegration_def split: option.splits)

lemma reconcileRaft_moves: "moves R (reconcileRaftBasedMasterSlave api m errText c)"
proof -
  let ?body = "\<lambda>rm. bindE (checkMasterStatus api c) (\<lambda>masterAlive.
         if \<not> masterAlive then withIntegration m (HandleRaftBasedFailover api m errText)
         else if state rm = RaftStateLeader
         then bindE (checkReplicaStatus api c) (\<lambda>(masterPodName, failedReplicas).
              bindE (if length failedReplicas > 0
                     then setupMasterSlaveReplication api masterPodName failedReplicas c
                     else returnE ()) (\<lambda>_. ensureSlaveRoles api c))
         else returnE ())"
  have body: "moves R (?body rm)" for rm
    by (auto simp: checkMasterStatus_moves checkReplicaStatus_moves setup_moves ensureSlaveRoles_moves
        intro!: moves_seq withIntegration_moves failover_moves)
  show ?thesis
  proof (rule movesI)
    fix s r t assume run: "reconcileRaftBasedMasterSlave api m errText c s = Some (r, t)"
    show "R s t"
    proof (cases "RaftMgr (load_r m s)")
      case None
      with run show ?thesis by (simp add: reconcileRaftBasedMasterSlave_def)
    next
      case (Some rm)
      with run have "?body rm s = Some (r, t)" by (simp add: reconcileRaftBasedMasterSlave_def)
      with movesD [OF body] show ?thesis by blast
    qed
  qed
qed

lemma ensureSemiSync_moves: "moves R (ensureSemiSyncReplication api m errText c)"
proof -
  have "moves R (withIntegration m (\<lambda>ic. ConfigureSemiSyncReplication api errText ic mn ss))" for mn ss
    by (intro withIntegration_moves ConfigureSemiSync_moves)
  then show ?thesis unfolding moves_def by (simp add: ensureSemiSyncReplication_def)
qed

theorem Reconcile_moves: "moves R (Reconcile api m ord errText rnd ns nm)"
  unfolding Reconcile_def
  by (auto simp: cluster_calls memory_moves init_moves ensureSemiSync_moves reconcileRaft_moves reconcileReplicas_moves
      split: sum.splits intro!: moves_seq)

end

text \<open>The labels of the stored pods other than \<open>role\<close>. Along a reconciliation every pod keeps them, and a pod
  that is new has the label \<open>app=mysql\<close> alone; a pod read from the store is written back with those it has there.\<close>

definition other_labels :: "Pod \<Rightarrow> string \<rightharpoonup> string" where
  "other_labels p = (pod_label p)(''role'' := None)"

definition core_labels :: "('s \<Rightarrow> (string \<times> string) \<rightharpoonup> Pod) \<Rightarrow> 's \<Rightarrow> (string \<times> string) \<rightharpoonup> (string \<rightharpoonup> string)" where
  "core_labels pods s k = map_option other_labels (pods s k)"

definition label_order :: "('s \<Rightarrow> (string \<times> string) \<rightharpoonup> Pod) \<Rightarrow> 's \<Rightarrow> 's \<Rightarrow> bool" where
  "label_order pods s t \<longleftrightarrow> core_labels pods s \<subseteq>\<^sub>m core_labels pods t \<and>
     (\<forall>k l. core_labels pods s k = None \<and> core_labels pods t k = Some l \<longrightarrow> l = [''app'' \<mapsto> ''mysql''])"

lemma label_orderI:
  assumes "\<And>k l. core_labels pods s k = Some l \<Longrightarrow> core_labels pods t k = Some l"
    and "\<And>k l. core_labels pods s k = None \<Longrightarrow> core_labels pods t k = Some l \<Longrightarrow> l = [''app'' \<mapsto> ''mysql'']"
  shows "label_order pods s t"
  unfolding label_order_def map_le_def using assms by (metis domD)

lemma label_orderD:
  assumes "label_order pods s t"
  shows "core_labels pods s k = Some l \<Longrightarrow> core_labels pods t k = Some l"
    and "core_labels pods s k = None \<Longrightarrow> core_labels pods t k = Some l \<Longrightarrow> l = [''app'' \<mapsto> ''mysql'']"
  using assms unfolding label_order_def map_le_def by (metis domI)+

lemma label_order_same: "core_labels pods t = core_labels pods s \<Longrightarrow> label_order pods s t"
  by (rule label_orderI) simp_all

lemma label_order_preorder: "reflp (label_order pods)" "transp (label_order pods)"
proof -
  show "reflp (label_order pods)" by (simp add: reflp_def label_order_same)
  show "transp (label_order pods)"
  proof (rule transpI)
    fix s t u assume order: "label_order pods s t" "label_order pods t u"
    show "label_order pods s u"
    proof (rule label_orderI)
      show "l = [''app'' \<mapsto> ''mysql'']" if "core_labels pods s k = None" "core_labels pods u k = Some l" for k l
        using label_orderD [OF order(1)] label_orderD [OF order(2)] that
        by (cases "core_labels pods t k") (metis option.inject)+
    qed (metis label_orderD(1) order)
  qed
qed

lemma other_labels_at: "x \<noteq> ''role'' \<Longrightarrow> pod_label p x = other_labels p x"
  by (simp add: other_labels_def)

lemma label_order_kept:
  assumes "label_order pods s t" "pods s k = Some p"
  shows "\<exists>q. pods t k = Some q \<and> (\<forall>x. x \<noteq> ''role'' \<longrightarrow> pod_label q x = pod_label p x)"
proof -
  have "core_labels pods t k = Some (other_labels p)"
    by (rule label_orderD(1) [OF assms(1)]) (simp add: core_labels_def assms(2))
  then show ?thesis by (auto simp: core_labels_def other_labels_at)
qed

lemma label_order_new:
  assumes "label_order pods s t" "pods s k = None" "pods t k = Some q"
  shows "pod_label q ''app'' = Some ''mysql'' \<and> (\<forall>x. x \<noteq> ''role'' \<and> x \<noteq> ''app'' \<longrightarrow> pod_label q x = None)"
proof -
  have "other_labels q = [''app'' \<mapsto> ''mysql'']"
    by (rule label_orderD(2) [OF assms(1), of k]) (simp_all add: core_labels_def assms(2,3))
  then show ?thesis by (simp add: other_labels_at)
qed

lemma core_labels_cong: "pods t = pods s \<Longrightarrow> core_labels pods t = core_labels pods s"
  by (simp add: core_labels_def fun_eq_iff)

lemma core_labels_of_labels:
  assumes "labels_at pods t = labels_at pods s"
  shows "core_labels pods t = core_labels pods s"
proof
  fix k
  from fun_cong [OF assms, of k] show "core_labels pods t k = core_labels pods s k"
    by (cases "pods t k"; cases "pods s k") (simp_all add: labels_at_def core_labels_def other_labels_def pod_label_def fun_eq_iff)
qed

lemma core_labels_upd:
  "pods t = (pods s)(k \<mapsto> q) \<Longrightarrow> core_labels pods t = (core_labels pods s)(k \<mapsto> other_labels q)"
  by (simp add: core_labels_def fun_eq_iff)

sublocale raft_host \<subseteq> labelled: reconciling api "label_order pods"
  "\<lambda>s p. core_labels pods s (pod_key p) = Some (other_labels p)" m
proof
  show "reflp (label_order pods)" "transp (label_order pods)" by (rule label_order_preorder)+
  show "core_labels pods t (pod_key p) = Some (other_labels p)"
    if "label_order pods s t" "core_labels pods s (pod_key p) = Some (other_labels p)" for s t p
    using that by (rule label_orderD(1))
  show "core_labels pods s' (pod_key p) = Some (other_labels p)" if "Get_Pod api ns n s = (Inr p, s')" for ns n s p s'
    using get_pod [OF that] get_pod_keeps [OF that] stored_key by (fastforce simp: core_labels_def)
  show "core_labels pods s' (pod_key p) = Some (other_labels p)"
    if "List_Pods api ns sel s = (Inr ps, s')" "p \<in> set ps" for ns sel s ps s' p
    using list_pods [OF that(1)] list_pods_keeps [OF that(1)] that(2) stored_key by (fastforce simp: core_labels_def)
  show "label_order pods s s'" if c: "Create_Pod api p s = (w, s')" "Labels (pod_meta p) = Some [''app'' \<mapsto> ''mysql'']" for p s w s'
  proof (cases w)
    case (Inl e)
    with c(1) create_pod_err show ?thesis by (blast intro: label_order_same core_labels_cong)
  next
    case (Inr u)
    obtain q where q: "pods s' = (pods s)(pod_key p \<mapsto> q)" "Labels (pod_meta q) = Some [''app'' \<mapsto> ''mysql'']"
      using create_pod c Inr by metis
    then have "other_labels q = [''app'' \<mapsto> ''mysql'']" by (auto simp: other_labels_def pod_label_def)
    moreover have "core_labels pods s (pod_key p) = None"
      using create_pod_new c(1) Inr by (simp add: core_labels_def)
    ultimately show ?thesis using core_labels_upd [OF q(1)] by (intro label_orderI) (auto split: if_splits)
  qed
  show "label_order pods s s'"
    if u: "Update_Pod api q s = (w, s')" "core_labels pods s (pod_key p) = Some (other_labels p)"
      "pod_key q = pod_key p" "\<And>k. k \<noteq> ''role'' \<Longrightarrow> pod_label q k = pod_label p k" for q s w s' p
  proof (cases w)
    case (Inl e)
    with u(1) update_pod_err show ?thesis by (blast intro: label_order_same core_labels_cong)
  next
    case (Inr v)
    obtain q' where q': "pods s' = (pods s)(pod_key p \<mapsto> q')" "Labels (pod_meta q') = Labels (pod_meta q)"
      using update_pod u(1,3) Inr by metis
    have "other_labels q' = other_labels p"
      using q'(2) u(4) by (auto simp: other_labels_def pod_label_def fun_eq_iff)
    with core_labels_upd [OF q'(1)] u(2) show ?thesis by (intro label_order_same) (simp add: fun_upd_idem)
  qed
  show "label_order pods s (Sleep api d s)" for s d
    by (rule label_order_same, rule core_labels_of_labels, rule sleep_keeps_labels)
qed (rule label_order_same, rule core_labels_cong,
     simp add: store_keeps_pods get_cluster_keeps update_cluster_keeps get_pod_keeps list_pods_keeps get_endpoints_keeps
      get_service_keeps create_service_keeps get_configmap_keeps create_configmap_keeps get_pvc_keeps create_pvc_keeps
      config_keeps client_keeps executor_keeps stream_keeps)+

context raft_host
begin

lemmas Reconcile_labels = labelled.Reconcile_moves

end

section \<open>The goroutines of the operator\<close>

text \<open>One atomic section of the Raft manager, or one status update of the monitor, on the manager alone.\<close>

definition evolves :: "'s k8s \<Rightarrow> RaftManager \<Rightarrow> RaftManager \<Rightarrow> bool" where
  "evolves api rm rm' \<longleftrightarrow> (\<exists>e s. rm' = fst (node_step api e (rm, s))) \<or>
     (\<exists>nowAt s. rm' = fst (syncClusterStatus api nowAt rm s))"

text \<open>What the goroutines do to the reconciler while a call is under way.\<close>

definition mem_evolves :: "'s k8s \<Rightarrow> 's memory \<Rightarrow> 's \<Rightarrow> 's \<Rightarrow> bool" where
  "mem_evolves api m s t \<longleftrightarrow>
     rel_option (evolves api)\<^sup>*\<^sup>* (RaftMgr (load_r m s)) (RaftMgr (load_r m t)) \<and>
     RaftIntegration (load_r m t) = RaftIntegration (load_r m s) \<and>
     SnapGoIsEnabled (load_r m t) = SnapGoIsEnabled (load_r m s)"

inductive op_step :: "'s k8s \<Rightarrow> 's memory \<Rightarrow> 's \<Rightarrow> 's \<Rightarrow> bool" for api m where
  reconcile: "Reconcile api m ord errText rnd ns nm s = Some (r, t) \<Longrightarrow> op_step api m s t"
| raft_event: "RaftMgr (load_r m s) = Some rm \<Longrightarrow> node_step api e (rm, s) = (rm', s') \<Longrightarrow>
    op_step api m s (store_r m ((load_r m s')\<lparr>RaftMgr := Some rm'\<rparr>) s')"
| raft_message: "RaftMgr (load_r m s) = Some rm \<Longrightarrow> sendMessage api rm nid message s = (sent, t) \<Longrightarrow> op_step api m s t"
| status_tick: "RaftMgr (load_r m s) = Some rm \<Longrightarrow> syncClusterStatus api nowAt rm s = (rm', s') \<Longrightarrow>
    op_step api m s (store_r m ((load_r m s')\<lparr>RaftMgr := Some rm'\<rparr>) s')"
| metrics_tick: "RaftMgr (load_r m s) = Some rm \<Longrightarrow> collectTick api off nowAt rm s = Some (r, t) \<Longrightarrow> op_step api m s t"
| snapshot_round: "SnapGoIsEnabled (load_r m s) \<Longrightarrow> snapshotRound api m ns s = Some (d, t) \<Longrightarrow> op_step api m s t"
| environment: "load_r m t = load_r m s \<Longrightarrow> op_step api m s t"

locale operator = raft_host api pods m + calls: writes api "mem_evolves api m" "\<lambda>_ _. True"
  for api :: "'s k8s" and pods :: "'s \<Rightarrow> (string \<times> string) \<rightharpoonup> Pod" and m :: "'s memory" +
  assumes status_update_evolves: "Status_Update api c s = (rk, s') \<Longrightarrow> mem_evolves api m s s'"
    and status_update_id: "Status_Update api c s = (Inr c', s') \<Longrightarrow>
      Name (cluster_meta c') = Name (cluster_meta c) \<and> Namespace (cluster_meta c') = Namespace (cluster_meta c)"
    and update_configmap_evolves: "Update_ConfigMap api cm s = (w, s') \<Longrightarrow> mem_evolves api m s s'"

section \<open>What stays along a run\<close>

text \<open>The reconciler is in order: both pointers are set or none, the node is named after the manager's cluster,
  and the manager satisfies its own invariant.\<close>

definition manager_ok :: "RaftManager \<Rightarrow> bool" where
  "manager_ok rm \<longleftrightarrow> nodeId rm = getCurrentNodeId (cluster rm) \<and> node_inv (nodeId rm) rm"

definition host_ok :: "MysqlClusterReconciler \<Rightarrow> bool" where
  "host_ok r \<longleftrightarrow> (case RaftMgr r of
       None \<Rightarrow> RaftIntegration r = None
     | Some rm \<Rightarrow> RaftIntegration r = Some RaftMySQLIntegration \<and> manager_ok rm)"

text \<open>The preorder of the memory: a hosted manager stays, and the reconciler stays in order.\<close>

definition host_order :: "'s memory \<Rightarrow> 's \<Rightarrow> 's \<Rightarrow> bool" where
  "host_order m s t \<longleftrightarrow> (RaftMgr (load_r m s) \<noteq> None \<longrightarrow> hosted m t = hosted m s) \<and>
     (host_ok (load_r m s) \<longrightarrow> host_ok (load_r m t))"

lemma host_order_preorder: "reflp (host_order m)" "transp (host_order m)"
  by (auto simp: reflp_def transp_def host_order_def hosted_def)

lemma host_order_trans [trans]: "host_order m s t \<Longrightarrow> host_order m t u \<Longrightarrow> host_order m s u"
  using host_order_preorder(2) by (rule transpD)

lemma manager_id_eq:
  "nodeId rm' = nodeId rm \<Longrightarrow> cluster rm' = cluster rm \<Longrightarrow> manager_id rm' = manager_id rm"
  by (simp add: manager_id_def)

lemma initIndexes_id: "cluster (initIndexes nodes rm) = cluster rm" "nodeId (initIndexes nodes rm) = nodeId rm"
  using initIndexes_frame [of nodes rm] by auto

context operator
begin

text \<open>Writing the status and taking over the server's answer.\<close>

lemma status_write_id:
  assumes "nodeId rm' = nodeId rm" "cluster rm' = (cluster rm)\<lparr>Status := st\<rparr>"
  shows "manager_id (fst (case Status_Update api (cluster rm') s of
      (Inl err, s') \<Rightarrow> (rm', s') | (Inr c, s') \<Rightarrow> (rm'\<lparr>cluster := c\<rparr>, s'))) = manager_id rm"
proof (cases "Status_Update api (cluster rm') s")
  case (Pair w s')
  then show ?thesis
    using status_update_id [of "cluster rm'" s] assms by (cases w) (simp_all add: manager_id_def)
qed

lemma updateClusterStatus_id: "manager_id (fst (updateClusterStatus api rm s)) = manager_id rm"
  unfolding updateClusterStatus_def Let_def by (rule status_write_id) simp_all

lemma syncClusterStatus_id: "manager_id (fst (syncClusterStatus api nowAt rm s)) = manager_id rm"
  unfolding syncClusterStatus_def Let_def by (rule status_write_id) simp_all

lemma becomeLeader_id: "manager_id (fst (becomeLeader api rm s)) = manager_id rm"
proof -
  let ?rm2 = "initIndexes (clusterNodes (rm\<lparr>state := RaftStateLeader\<rparr>)) (rm\<lparr>state := RaftStateLeader\<rparr>)"
  have "fst (becomeLeader api rm s) = fst (updateClusterStatus api ?rm2 s)"
    by (simp add: becomeLeader_def Let_def split: prod.splits)
  then show ?thesis using updateClusterStatus_id [of ?rm2 s] by (simp add: manager_id_def initIndexes_id)
qed

lemma node_step_id: "manager_id (fst (node_step api e (rm, s))) = manager_id rm"
proof (cases e)
  case (VoteCounted b)
  then show ?thesis using becomeLeader_id [of rm s] by (auto simp: voteCounted_def Let_def split: prod.splits)
next
  case (AppendEntries now l t pi pt es lc)
  then show ?thesis by (auto simp: HandleAppendEntries_def manager_id_def Let_def)
next
  case (VoteRequest now c t li lt)
  then show ?thesis by (auto simp: HandleVoteRequest_def manager_id_def Let_def)
qed (auto simp: manager_id_def electionTimerFired_def startElection_eq forceElection_def)

text \<open>The invariant of the manager survives its atomic sections and the monitor.\<close>

lemma syncClusterStatus_cluster: "\<exists>c. fst (syncClusterStatus api nowAt rm s) = rm\<lparr>cluster := c\<rparr>"
  by (auto simp: syncClusterStatus_def Let_def split: prod.splits sum.splits)

lemma evolves_id: "evolves api rm rm' \<Longrightarrow> manager_id rm' = manager_id rm"
  unfolding evolves_def using node_step_id syncClusterStatus_id by metis

lemma evolves_inv:
  assumes "evolves api rm rm'" "manager_ok rm"
  shows "manager_ok rm'"
proof -
  have id: "nodeId rm' = nodeId rm" "Name (cluster_meta (cluster rm')) = Name (cluster_meta (cluster rm))"
    using evolves_id [OF assms(1)] by (simp_all add: manager_id_def)
  have ne: "nodeId rm \<noteq> []" using assms(2) by (simp add: manager_ok_def getCurrentNodeId_def)
  have "node_inv (nodeId rm) rm'" using assms(1) unfolding evolves_def
  proof (elim disjE exE)
    fix e and s :: 's assume "rm' = fst (node_step api e (rm, s))"
    with node_inv_step [OF ne, of "(rm, s)" api e] assms(2) show ?thesis by (auto simp: manager_ok_def)
  next
    fix nowAt and s :: 's assume "rm' = fst (syncClusterStatus api nowAt rm s)"
    with syncClusterStatus_cluster [of nowAt rm s] assms(2) show ?thesis by (auto simp: manager_ok_def node_inv_def)
  qed
  with assms(2) id show ?thesis by (simp add: manager_ok_def getCurrentNodeId_def)
qed

lemma evolves_rtrancl:
  assumes "(evolves api)\<^sup>*\<^sup>* rm rm'"
  shows "manager_id rm' = manager_id rm" "manager_ok rm \<Longrightarrow> manager_ok rm'"
  using assms by (induction rule: rtranclp_induct) (auto dest: evolves_id evolves_inv)

end

text \<open>What goroutines do during a call keeps the order of the memory.\<close>

context operator
begin

lemma host_order_evolves: "mem_evolves api m s t \<Longrightarrow> host_order m s t"
  unfolding mem_evolves_def host_order_def hosted_def host_ok_def
  by (auto simp: rel_option_iff evolves_rtrancl split: option.splits)

lemma host_order_store:
  assumes "RaftMgr (load_r m s) = Some rm" "mem_evolves api m s s'" "evolves api rm rm'"
  shows "host_order m s (store_r m ((load_r m s')\<lparr>RaftMgr := Some rm'\<rparr>) s')"
  using assms evolves_id [OF assms(3)] evolves_inv [OF assms(3)]
  by (auto simp: host_order_def hosted_def host_ok_def load_store mem_evolves_def)

end

sublocale operator \<subseteq> host: reconciling api "host_order m" "\<lambda>_ _. True" m
proof
  show "reflp (host_order m)" "transp (host_order m)" by (rule host_order_preorder)+
  show "host_order m s (Sleep api d s)" for s d by (rule host_order_evolves [OF calls.sleep_moves])
  show "host_order m s s'" if "Create_Pod api p s = (w, s')" "Labels (pod_meta p) = Some [''app'' \<mapsto> ''mysql'']" for p s w s'
    using that by (rule host_order_evolves [OF calls.create_pod_moves])
  show "host_order m s s'" if "Update_Pod api q s = (w, s')" for q s w s'
    by (rule host_order_evolves, rule calls.update_pod_moves [OF that, of q]) simp_all
  show "host_order m s (store_r m ((load_r m s)\<lparr>RaftMgr := Some (NewRaftManager (getCurrentNodeId c) c rnd (Now api s)),
      RaftIntegration := Some RaftMySQLIntegration\<rparr>) s)" if "RaftMgr (load_r m s) = None" for s c rnd
    using that by (simp add: host_order_def host_ok_def manager_ok_def load_store)
  show "host_order m s (store_r m ((load_r m s)\<lparr>RaftMgr := Some (forceElection rm)\<rparr>) s)"
    if "RaftMgr (load_r m s) = Some rm" for s rm
  proof -
    have "fst (node_step api ForceElection (rm, s)) = forceElection rm" by simp
    then have "evolves api rm (forceElection rm)" unfolding evolves_def by metis
    moreover have "mem_evolves api m s s" using calls.R_refl by (simp add: reflp_def)
    ultimately show ?thesis using host_order_store [OF that] by blast
  qed
  show "host_order m s (store_r m ((load_r m s)\<lparr>SnapGoIsEnabled := True\<rparr>) s)" for s
    by (simp add: host_order_def hosted_def host_ok_def load_store split: option.splits)
qed (erule host_order_evolves [OF calls.get_pod_moves] host_order_evolves [OF calls.list_pods_moves]
      host_order_evolves [OF calls.get_endpoints_moves] host_order_evolves [OF calls.get_service_moves]
      host_order_evolves [OF calls.create_service_moves] host_order_evolves [OF calls.get_configmap_moves]
      host_order_evolves [OF calls.create_configmap_moves] host_order_evolves [OF calls.get_pvc_moves]
      host_order_evolves [OF calls.create_pvc_moves] host_order_evolves [OF calls.config_moves]
      host_order_evolves [OF calls.client_moves] host_order_evolves [OF calls.executor_moves]
      host_order_evolves [OF calls.stream_moves] host_order_evolves [OF calls.get_cluster_moves]
      host_order_evolves [OF calls.update_cluster_moves] | simp)+

context operator
begin

lemma status_call_evolves:
  "mem_evolves api m s (snd (updateClusterStatus api rm s))"
  "mem_evolves api m s (snd (syncClusterStatus api nowAt rm s))"
  using status_update_evolves
  by (simp_all add: updateClusterStatus_def syncClusterStatus_def Let_def split: prod.splits sum.splits)

lemma node_step_evolves: "mem_evolves api m s (snd (node_step api e (rm, s)))"
proof -
  have same: "mem_evolves api m s s" using calls.R_refl by (simp add: reflp_def)
  have "mem_evolves api m s (snd (snd (becomeLeader api rm s)))"
    using status_call_evolves(1) by (simp add: becomeLeader_def Let_def split: prod.splits) (metis snd_conv)
  with same show ?thesis by (cases e) (auto simp: voteCounted_def Let_def split: prod.splits)
qed

lemma sendMessage_evolves: "mem_evolves api m s (snd (sendMessage api rm nid message s))"
  using calls.create_configmap_moves by (simp add: sendMessage_def Let_def split: prod.splits sum.splits)

lemma collectTick_evolves: "moves (mem_evolves api m) (collectTick api off nowAt rm)"
proof -
  have upd: "moves (mem_evolves api m) (liftE (Update_ConfigMap api cm))" for cm
    by (rule moves_liftE) (erule update_configmap_evolves)
  have stored: "moves (mem_evolves api m) (createOrUpdateConfigMap api c nm data)" for c nm data
    unfolding createOrUpdateConfigMap_def Let_def
    by (auto simp: calls.read_calls upd split: sum.splits intro!: calls.moves_seq)
  have "moves (mem_evolves api m) (bindE (tryE (createOrUpdateConfigMap api c nm data)) (\<lambda>_. returnE ()))" for c nm data
    by (rule calls.moves_seq) (simp_all add: stored)
  then show ?thesis unfolding moves_def by (simp add: collectTick_def updateMetricsConfigMap_def)
qed

lemma snapshotRound_order: "moves (host_order m) (snapshotRound api m ns)"
proof -
  have snap: "moves (host_order m) (set_snapshot m g)" for g
    by (rule movesI) (auto simp: set_snapshot_def host_order_def hosted_def host_ok_def load_store split: option.splits)
  have gtid: "moves (host_order m) (getMasterGTIDSet api p)" for p
    unfolding getMasterGTIDSet_def by (auto simp: host.exec_moves intro!: host.moves_seq)
  show ?thesis unfolding snapshotRound_def
    by (auto simp: host.read_calls snap gtid split: sum.splits list.splits intro!: host.moves_seq)
qed

end

context operator
begin

lemma step_order:
  assumes "op_step api m s t"
  shows "host_order m s t"
  using assms
proof cases
  case (reconcile ord errText rnd ns nm r)
  then show ?thesis by (rule movesD [OF host.Reconcile_moves])
next
  case (raft_event rm e rm' s')
  from raft_event(3) have "evolves api rm rm'" unfolding evolves_def by (metis fst_conv)
  moreover have "mem_evolves api m s s'" using node_step_evolves [of s e rm] raft_event(3) by simp
  ultimately show ?thesis unfolding raft_event(1) using host_order_store [OF raft_event(2)] by blast
next
  case (raft_message rm nid message sent)
  then show ?thesis using host_order_evolves [OF sendMessage_evolves [of s rm nid message]] by simp
next
  case (status_tick rm nowAt rm' s')
  from status_tick(3) have "evolves api rm rm'" unfolding evolves_def by (metis fst_conv)
  moreover have "mem_evolves api m s s'" using status_call_evolves(2) [of s nowAt rm] status_tick(3) by simp
  ultimately show ?thesis unfolding status_tick(1) using host_order_store [OF status_tick(2)] by blast
next
  case (metrics_tick rm off nowAt r)
  then show ?thesis using host_order_evolves movesD [OF collectTick_evolves] by blast
next
  case (snapshot_round ns d)
  then show ?thesis by (blast intro: movesD [OF snapshotRound_order])
next
  case environment
  then show ?thesis by (simp add: host_order_def hosted_def)
qed

lemma run_order: "(op_step api m)\<^sup>*\<^sup>* s t \<Longrightarrow> host_order m s t"
proof (induction rule: rtranclp_induct)
  case base
  show ?case using host_order_preorder(1) by (simp add: reflp_def)
next
  case (step t u)
  show ?case using step(3) step_order [OF step(2)] by (rule host_order_trans)
qed

lemma reachable_ok:
  assumes "load_r m s0 = new_reconciler" "(op_step api m)\<^sup>*\<^sup>* s0 s"
  shows "host_ok (load_r m s)"
  using run_order [OF assms(2)] assms(1) by (simp add: host_order_def host_ok_def new_reconciler_def)

end

section \<open>The in-memory server\<close>

lemma mem_same_evolves: "m_rec t = m_rec s \<Longrightarrow> mem_evolves api mem_memory s t"
  by (auto simp: mem_evolves_def mem_memory_def rel_option_iff split: option.splits)

lemma mem_evolves_preorder: "reflp (mem_evolves api m)" "transp (mem_evolves api m)"
proof -
  show "reflp (mem_evolves api m)" by (auto simp: reflp_def mem_evolves_def rel_option_iff split: option.splits)
  show "transp (mem_evolves api m)"
    by (auto simp: transp_def mem_evolves_def rel_option_iff split: option.splits)
qed

lemmas mem_rec_calls = mem_get_keeps [where v = m_rec, THEN mem_same_evolves]
  mem_create_keeps [where v = m_rec, THEN mem_same_evolves] mem_update_keeps [where v = m_rec, THEN mem_same_evolves]
  faulty_unit_keeps [where v = m_rec, THEN mem_same_evolves] faulty_keeps [where v = m_rec, THEN mem_same_evolves]

interpretation mem_operator: operator mem_api mem_pods mem_memory
proof
  show "reflp (mem_evolves mem_api mem_memory)" "transp (mem_evolves mem_api mem_memory)"
    by (rule mem_evolves_preorder)+
  show "Name (cluster_meta c') = Name (cluster_meta c) \<and> Namespace (cluster_meta c') = Namespace (cluster_meta c)"
    if "Status_Update mem_api c s = (Inr c', s')" for c c' s s'
    using that by (auto simp: mem_api_def mem_update_def elim!: faulty_Inr split: option.splits)
qed (auto simp: mem_api_def mem_list_pods_def mem_get_endpoints_def mem_stream_def split: option.splits
      elim!: mem_rec_calls intro: mem_same_evolves)

section \<open>Properties\<close>

text \<open>(C8) The Raft-based failover fails for want of a pod. In every state the operator reaches from its start, with reconciliations of
  any resources, Raft events, messages, monitor ticks, snapshot rounds and changes by others in any order: when a
  manager is hosted, the master Service of a cluster has no endpoints, and nobody has put a pod called like the
  manager's node into the namespace of its cluster, the reconciliation of master and slaves ends with an error, whoever
  wins the Raft election. The node is called like the cluster with the suffix -0, and that is not the name of
  any pod the operator creates, for any number.\<close>

theorem raft_failover_always_fails:
  assumes "operator api pods m"
    and "load_r m s0 = new_reconciler" "(op_step api m)\<^sup>*\<^sup>* s0 s"
    and "RaftMgr (load_r m s) = Some rm"
    and "(Namespace (cluster_meta (cluster rm)), Name (cluster_meta (cluster rm)) @ ''-0'') \<notin> dom (pods s)"
    and "checkMasterStatus api c s = Some (Ok False, s1)"
  shows "nodeId rm = Name (cluster_meta (cluster rm)) @ ''-0'' \<and> (\<forall>i\<ge>0. podName i \<noteq> nodeId rm) \<and>
    (\<exists>e t. reconcileRaftBasedMasterSlave api m errText c s = Some (Err e, t))"
proof -
  have host: "raft_host api pods m" using assms(1) by (simp add: operator_def)
  have ok: "RaftIntegration (load_r m s) = Some RaftMySQLIntegration" "nodeId rm = Name (cluster_meta (cluster rm)) @ ''-0''"
    using operator.reachable_ok [OF assms(1-3)] assms(4) by (simp_all add: host_ok_def manager_ok_def getCurrentNodeId_def)
  have "\<exists>e t. reconcileRaftBasedMasterSlave api m errText c s = Some (Err e, t)"
    using raft_failover_fails [OF host assms(4) ok(1) _ assms(6)] assms(5) ok(2) by simp
  with ok(2) node0_not_pod show ?thesis by metis
qed

definition mem_live :: mem where
  "mem_live = mem_three\<lparr>m_clusters := [markInitialized sample_cluster],
     m_endpoints := [((''default'', ''master-service''),
       \<lparr>Subsets = [\<lparr>Addresses = [\<lparr>TargetRef = Some ''mysql-01''\<rparr>]\<rparr>]\<rparr>)]\<rparr>"

definition live_run :: "(unit res \<times> mem) option" where
  "live_run = Reconcile mem_api mem_memory id (\<lambda>_. []) 0 ''default'' ''mysqlcluster-sample'' mem_live"

definition mem_dead :: mem where
  "mem_dead = (world_after live_run)\<lparr>m_endpoints := [((''default'', ''master-service''), \<lparr>Subsets = []\<rparr>)]\<rparr>"

lemma live_run_facts:
  "returns_ok live_run" "m_faults (world_after live_run) = []"
  "map (\<lambda>p. Name (pod_meta p)) (m_pods (world_after live_run)) = [''mysql-01'', ''mysql-02'', ''mysql-03'']"
  "map_option manager_id (RaftMgr (m_rec (world_after live_run))) =
     Some (''mysqlcluster-sample-0'', ''default'', ''mysqlcluster-sample'')"
  unfolding live_run_def by code_simp+

lemma mem_dead_reachable: "(op_step mem_api mem_memory)\<^sup>*\<^sup>* mem_live mem_dead"
proof -
  have "op_step mem_api mem_memory mem_live (world_after live_run)"
    using op_step.reconcile returns_okD [OF live_run_facts(1)] unfolding live_run_def by metis
  moreover have "op_step mem_api mem_memory (world_after live_run) mem_dead"
    by (rule op_step.environment) (simp add: mem_memory_def mem_dead_def)
  ultimately show ?thesis by (meson rtranclp.rtrancl_refl rtranclp.rtrancl_into_rtrancl)
qed

lemma mem_dead_names: "(''default'', ''mysqlcluster-sample-0'') \<notin> dom (mem_pods mem_dead)"
proof
  assume "(''default'', ''mysqlcluster-sample-0'') \<in> dom (mem_pods mem_dead)"
  then obtain p where "p \<in> set (m_pods (world_after live_run))" "Name (pod_meta p) = ''mysqlcluster-sample-0''"
    by (auto simp: mem_pods_def mem_dead_def pod_key_def find_Some_iff) (metis nth_mem)
  then have "''mysqlcluster-sample-0'' \<in> set (map (\<lambda>p. Name (pod_meta p)) (m_pods (world_after live_run)))" by force
  then show False unfolding live_run_facts(3) by simp
qed

lemma raft_failover_always_fails_witness:
  "\<exists>e t. reconcileRaftBasedMasterSlave mem_api mem_memory (\<lambda>_. []) sample_cluster mem_dead = Some (Err e, t)"
proof -
  obtain rm where rm: "RaftMgr (load_r mem_memory mem_dead) = Some rm"
      and id: "manager_id rm = (''mysqlcluster-sample-0'', ''default'', ''mysqlcluster-sample'')"
    using live_run_facts(4) by (auto simp: mem_memory_def mem_dead_def)
  have new: "load_r mem_memory mem_live = new_reconciler"
    by (simp add: mem_memory_def mem_live_def mem_three_def mem_empty_def)
  have dead: "checkMasterStatus mem_api sample_cluster mem_dead = Some (Ok False, mem_dead)"
    using live_run_facts(2)
    by (simp add: checkMasterStatus_def mem_api_def mem_get_endpoints_def faulty_def mem_dead_def
        sample_cluster_def sample_spec_def named_meta_def bindE_def liftE_def returnE_def)
  have "(Namespace (cluster_meta (cluster rm)), Name (cluster_meta (cluster rm)) @ ''-0'') \<notin> dom (mem_pods mem_dead)"
    using mem_dead_names id by (simp add: manager_id_def)
  from raft_failover_always_fails [OF mem_operator.operator_axioms new mem_dead_reachable rm this dead]
  show ?thesis by blast
qed

text \<open>(C9) One manager for all clusters: from the moment the operator hosts a Raft manager, it hosts a manager of the same node
  and of the same cluster for ever, whatever other clusters are reconciled. A second cluster is checked and failed over with
  the manager of the first.\<close>

theorem hosted_cluster_never_changes:
  assumes "operator api pods m" "(op_step api m)\<^sup>*\<^sup>* s t" "RaftMgr (load_r m s) = Some rm"
  shows "\<exists>rm'. RaftMgr (load_r m t) = Some rm' \<and> nodeId rm' = nodeId rm \<and>
    Namespace (cluster_meta (cluster rm')) = Namespace (cluster_meta (cluster rm)) \<and>
    Name (cluster_meta (cluster rm')) = Name (cluster_meta (cluster rm)) \<and>
    RaftIntegration (load_r m t) = RaftIntegration (load_r m s)"
  using operator.run_order [OF assms(1,2)] assms(3) by (auto simp: host_order_def hosted_def manager_id_def)

lemma hosted_cluster_never_changes_witness:
  "\<exists>rm. RaftMgr (m_rec mem_dead) = Some rm \<and> nodeId rm = ''mysqlcluster-sample-0''"
proof -
  obtain rm where rm: "RaftMgr (load_r mem_memory (world_after live_run)) = Some rm" "nodeId rm = ''mysqlcluster-sample-0''"
    using live_run_facts(4) by (auto simp: mem_memory_def manager_id_def)
  have "op_step mem_api mem_memory (world_after live_run) mem_dead"
    by (rule op_step.environment) (simp add: mem_memory_def mem_dead_def)
  then have "(op_step mem_api mem_memory)\<^sup>*\<^sup>* (world_after live_run) mem_dead" by (rule r_into_rtranclp)
  from hosted_cluster_never_changes [OF mem_operator.operator_axioms this rm(1)] rm(2) show ?thesis
    by (auto simp: mem_memory_def)
qed

text \<open>(C10) The reconciler's pointers are consistent in every reachable state: the Raft manager and the integration are both set or both
  nil, so a call through the integration finds its manager. A hosted manager runs the node of its cluster, a candidate or leader has voted for
  itself, and its leader, peer table and counters are what they were at the start.\<close>

theorem reachable_reconciler_consistent:
  assumes "operator api pods m" "load_r m s0 = new_reconciler" "(op_step api m)\<^sup>*\<^sup>* s0 s"
  shows "case RaftMgr (load_r m s) of
      None \<Rightarrow> RaftIntegration (load_r m s) = None
    | Some rm \<Rightarrow> RaftIntegration (load_r m s) \<noteq> None \<and> withIntegration m f s = f (cluster rm) s \<and>
        nodeId rm = getCurrentNodeId (cluster rm) \<and> node_inv (nodeId rm) rm"
  using operator.reachable_ok [OF assms]
  by (auto simp: host_ok_def manager_ok_def withIntegration_def split: option.splits)

lemma reachable_reconciler_consistent_witness: "RaftIntegration (m_rec mem_dead) \<noteq> None"
proof -
  have new: "load_r mem_memory mem_live = new_reconciler"
    by (simp add: mem_memory_def mem_live_def mem_three_def mem_empty_def)
  obtain rm where rm: "RaftMgr (load_r mem_memory mem_dead) = Some rm"
    using live_run_facts(4) by (auto simp: mem_memory_def mem_dead_def)
  from reachable_reconciler_consistent [OF mem_operator.operator_axioms new mem_dead_reachable, where f = "\<lambda>_. returnE ()"] rm
  show ?thesis by (simp add: mem_memory_def)
qed

end
