(* ===== verification/Startup.thy ===== *)
theory Startup
  imports Utlis
begin

text \<open>
  The start of the program: \<^verbatim>\<open>src/cmd/main.go\<close>, the registration of the API group in
  \<^verbatim>\<open>src/api/v1/groupversion_info.go\<close> and \<^verbatim>\<open>mysqlcluster_types.go\<close>, and
  \<open>SetupWithManager\<close> of the controller.
  \<^item> \<open>flag_Parse\<close> is what \<open>main\<close> uses of the package \<open>flag\<close>: five flags of its own,
    and \<open>others\<close>, the flags that imported packages register (by name: whether it is boolean, and which values it
    takes). A parse error exits with 2, a request for help with 0.
  \<^item> \<open>managerOptions\<close> is the block of \<open>main\<close> that builds the options of the manager from the flags; a TLS option is a
    function on the TLS configuration.
  \<^item> \<open>main\<close> calls controller-runtime through the record \<open>ctrl\<close>; each call may fail, and
    \<open>Start\<close> may never return (\<open>None\<close>). The result is the exit status. The locale
    \<open>startup_trace\<close> records the calls in order, with their arguments and results.
  \<^item> \<open>schemes\<close> is the scheme builder of controller-runtime, with its contract \<open>scheme_library\<close>.
  Logging and the set-up of the logger are left out.
\<close>

section \<open>Flags\<close>

record Flags =
  metricsAddr :: string
  probeAddr :: string
  enableLeaderElection :: bool
  secureMetrics :: bool
  enableHTTP2 :: bool

definition default_flags :: Flags where
  "default_flags = \<lparr>metricsAddr = ''0'', probeAddr = '':8081'', enableLeaderElection = False,
     secureMetrics = True, enableHTTP2 = False\<rparr>"

type_synonym other_flags = "string \<rightharpoonup> bool \<times> (string \<Rightarrow> bool)"

definition ParseBool :: "string \<Rightarrow> bool option" where
  "ParseBool s =
     (if s \<in> {''1'', ''t'', ''T'', ''true'', ''TRUE'', ''True''} then Some True
      else if s \<in> {''0'', ''f'', ''F'', ''false'', ''FALSE'', ''False''} then Some False else None)"

text \<open>The flags \<open>main\<close> declares: whether a name is a flag and boolean, and setting it.\<close>

definition flag_kind :: "other_flags \<Rightarrow> string \<Rightarrow> bool option" where
  "flag_kind others nm =
     (if nm = ''metrics-bind-address'' \<or> nm = ''health-probe-bind-address'' then Some False
      else if nm = ''leader-elect'' \<or> nm = ''metrics-secure'' \<or> nm = ''enable-http2'' then Some True
      else map_option fst (others nm))"

definition set_flag :: "other_flags \<Rightarrow> string \<Rightarrow> string \<Rightarrow> Flags \<Rightarrow> Flags option" where
  "set_flag others nm v f =
     (if nm = ''metrics-bind-address'' then Some (f\<lparr>metricsAddr := v\<rparr>)
      else if nm = ''health-probe-bind-address'' then Some (f\<lparr>probeAddr := v\<rparr>)
      else if nm = ''leader-elect'' then map_option (\<lambda>b. f\<lparr>enableLeaderElection := b\<rparr>) (ParseBool v)
      else if nm = ''metrics-secure'' then map_option (\<lambda>b. f\<lparr>secureMetrics := b\<rparr>) (ParseBool v)
      else if nm = ''enable-http2'' then map_option (\<lambda>b. f\<lparr>enableHTTP2 := b\<rparr>) (ParseBool v)
      else case others nm of Some (_, accepts) \<Rightarrow> if accepts v then Some f else None | None \<Rightarrow> None)"

datatype flag_token = NotFlag | Terminator | BadSyntax | FlagToken string "string option"

definition flag_token :: "string \<Rightarrow> flag_token" where
  "flag_token s =
     (if length s < 2 \<or> s ! 0 \<noteq> CHR ''-'' then NotFlag
      else let numMinuses = (if s ! 1 = CHR ''-'' then 2 else 1 :: nat)
           in if numMinuses = 2 \<and> length s = 2 then Terminator
              else let name = drop numMinuses s
                   in if name = [] \<or> name ! 0 = CHR ''-'' \<or> name ! 0 = CHR ''='' then BadSyntax
                      else FlagToken (takeWhile (\<lambda>c. c \<noteq> CHR ''='') name)
                             (case dropWhile (\<lambda>c. c \<noteq> CHR ''='') name of [] \<Rightarrow> None | _ # v \<Rightarrow> Some v))"

datatype parsed = Parsed Flags "string list" | Help | BadFlags

fun flag_Parse :: "other_flags \<Rightarrow> string list \<Rightarrow> Flags \<Rightarrow> parsed" where
  "flag_Parse others [] f = Parsed f []"
| "flag_Parse others (s # args) f =
     (case flag_token s of
        NotFlag \<Rightarrow> Parsed f (s # args)
      | Terminator \<Rightarrow> Parsed f args
      | BadSyntax \<Rightarrow> BadFlags
      | FlagToken name value \<Rightarrow>
          (case flag_kind others name of
             None \<Rightarrow> if name = ''help'' \<or> name = ''h'' then Help else BadFlags
           | Some True \<Rightarrow>
               (case set_flag others name (case value of None \<Rightarrow> ''true'' | Some v \<Rightarrow> v) f of
                  None \<Rightarrow> BadFlags | Some f' \<Rightarrow> flag_Parse others args f')
           | Some False \<Rightarrow>
               (case value of
                  Some v \<Rightarrow> (case set_flag others name v f of
                      None \<Rightarrow> BadFlags | Some f' \<Rightarrow> flag_Parse others args f')
                | None \<Rightarrow> (case args of
                      [] \<Rightarrow> BadFlags
                    | v # rest \<Rightarrow> (case set_flag others name v f of
                          None \<Rightarrow> BadFlags | Some f' \<Rightarrow> flag_Parse others rest f')))))"

section \<open>The options of the manager\<close>

record TLSConfig =
  NextProtos :: "string list"

datatype FilterProvider = WithAuthenticationAndAuthorization

record MetricsOptions =
  BindAddress :: string
  SecureServing :: bool
  MetricsTLSOpts :: "(TLSConfig \<Rightarrow> TLSConfig) list"
  MetricsFilter :: "FilterProvider option"

record Options =
  Metrics :: MetricsOptions
  WebhookTLSOpts :: "(TLSConfig \<Rightarrow> TLSConfig) list"
  HealthProbeBindAddress :: string
  LeaderElection :: bool
  LeaderElectionID :: string

definition disableHTTP2 :: "TLSConfig \<Rightarrow> TLSConfig" where
  "disableHTTP2 c = c\<lparr>NextProtos := [''http/1.1'']\<rparr>"

definition managerOptions :: "Flags \<Rightarrow> Options" where
  "managerOptions f =
     (let tlsOpts = (if \<not> enableHTTP2 f then [disableHTTP2] else []);
          metrics = \<lparr>BindAddress = metricsAddr f, SecureServing = secureMetrics f, MetricsTLSOpts = tlsOpts,
                     MetricsFilter = None\<rparr>;
          metrics' = (if secureMetrics f
                      then metrics\<lparr>MetricsFilter := Some WithAuthenticationAndAuthorization\<rparr> else metrics)
      in \<lparr>Metrics = metrics', WebhookTLSOpts = tlsOpts, HealthProbeBindAddress = probeAddr f,
          LeaderElection = enableLeaderElection f, LeaderElectionID = ''bf19fbca.ryansu.com''\<rparr>)"

section \<open>The program\<close>

record 's ctrl =
  GetConfigOrDie :: "'s \<Rightarrow> bool \<times> 's"
  NewManager :: "Options \<Rightarrow> 's \<Rightarrow> (go_error + unit) \<times> 's"
  Complete :: "string \<Rightarrow> string list \<Rightarrow> 's \<Rightarrow> (go_error + unit) \<times> 's"
  AddHealthzCheck :: "string \<Rightarrow> 's \<Rightarrow> (go_error + unit) \<times> 's"
  AddReadyzCheck :: "string \<Rightarrow> 's \<Rightarrow> (go_error + unit) \<times> 's"
  StartManager :: "'s \<Rightarrow> ((go_error + unit) \<times> 's) option"

text \<open>The controller is built for the clusters and the pods they own.\<close>

definition SetupWithManager :: "'s ctrl \<Rightarrow> 's \<Rightarrow> (go_error + unit) \<times> 's" where
  "SetupWithManager ct = Complete ct ''MysqlCluster'' [''Pod'']"

text \<open>\<open>if err != nil { os.Exit(1) }\<close>.\<close>

definition orExit :: "('s \<Rightarrow> (go_error + unit) \<times> 's) \<Rightarrow> ('s \<Rightarrow> (nat \<times> 's) option) \<Rightarrow> 's \<Rightarrow> (nat \<times> 's) option" where
  "orExit call rest s = (case call s of (Inl err, s') \<Rightarrow> Some (1, s') | (Inr _, s') \<Rightarrow> rest s')"

definition main :: "'s ctrl \<Rightarrow> other_flags \<Rightarrow> string list \<Rightarrow> 's \<Rightarrow> (nat \<times> 's) option" where
  "main ct others args s =
     (case flag_Parse others args default_flags of
        Help \<Rightarrow> Some (0, s)
      | BadFlags \<Rightarrow> Some (2, s)
      | Parsed f _ \<Rightarrow>
          (case GetConfigOrDie ct s of
             (False, s1) \<Rightarrow> Some (1, s1)
           | (True, s1) \<Rightarrow>
               orExit (NewManager ct (managerOptions f))
               (orExit (SetupWithManager ct)
               (orExit (AddHealthzCheck ct ''healthz'')
               (orExit (AddReadyzCheck ct ''readyz'')
               (\<lambda>s5. case StartManager ct s5 of
                   None \<Rightarrow> None
                 | Some (Inl err, t) \<Rightarrow> Some (1, t)
                 | Some (Inr _, t) \<Rightarrow> Some (0, t))))) s1))"

section \<open>The scheme\<close>

record GroupVersion =
  Group :: string
  Version :: string

definition GroupVersion_v1 :: GroupVersion where
  "GroupVersion_v1 = \<lparr>Group = ''apps.ryansu.com'', Version = ''v1''\<rparr>"

record ('b, 'c) schemes =
  NewBuilder :: "GroupVersion \<Rightarrow> 'b"
  Register :: "string list \<Rightarrow> 'b \<Rightarrow> 'b"
  AddToScheme :: "'b \<Rightarrow> 'c \<Rightarrow> go_error + 'c"
  clientgo_AddToScheme :: "'c \<Rightarrow> go_error + 'c"
  NewScheme :: 'c

definition SchemeBuilder :: "('b, 'c) schemes \<Rightarrow> 'b" where
  "SchemeBuilder lib = NewBuilder lib GroupVersion_v1"

definition types_init :: "('b, 'c) schemes \<Rightarrow> 'b" where
  "types_init lib = Register lib [''MysqlCluster'', ''MysqlClusterList''] (SchemeBuilder lib)"

text \<open>\<open>init\<close> of \<^verbatim>\<open>main.go\<close>; \<open>Must\<close> panics, which is \<open>None\<close>.\<close>

definition main_init :: "('b, 'c) schemes \<Rightarrow> 'c option" where
  "main_init lib = (case clientgo_AddToScheme lib (NewScheme lib) of
       Inl err \<Rightarrow> None
     | Inr sch \<Rightarrow> (case AddToScheme lib (types_init lib) sch of Inl err \<Rightarrow> None | Inr sch' \<Rightarrow> Some sch'))"

section \<open>Contracts of the libraries\<close>

text \<open>\<open>calls\<close> reads off the world which calls were made, in order, with their arguments and whether they
  succeeded.\<close>

datatype startup_call = CallConfig | CallNewManager Options | CallComplete string "string list" |
  CallHealthz string | CallReadyz string | CallStart

definition succeeded :: "go_error + unit \<Rightarrow> bool" where
  "succeeded r \<longleftrightarrow> r = Inr ()"

locale startup_trace =
  fixes ct :: "'s ctrl"
    and calls :: "'s \<Rightarrow> (startup_call \<times> bool) list"
  assumes config_call: "GetConfigOrDie ct s = (ok, t) \<Longrightarrow> calls t = calls s @ [(CallConfig, ok)]"
    and manager_call: "NewManager ct opts s = (r, t) \<Longrightarrow> calls t = calls s @ [(CallNewManager opts, succeeded r)]"
    and complete_call: "Complete ct kind owned s = (r, t) \<Longrightarrow> calls t = calls s @ [(CallComplete kind owned, succeeded r)]"
    and healthz_call: "AddHealthzCheck ct nm s = (r, t) \<Longrightarrow> calls t = calls s @ [(CallHealthz nm, succeeded r)]"
    and readyz_call: "AddReadyzCheck ct nm s = (r, t) \<Longrightarrow> calls t = calls s @ [(CallReadyz nm, succeeded r)]"
    and start_call: "StartManager ct s = Some (r, t) \<Longrightarrow> calls t = calls s @ [(CallStart, succeeded r)]"

text \<open>\<open>knows\<close> reads off a scheme the kinds it maps, as group, version and kind; \<open>contents\<close> the kinds a
  builder was told to register. Adding a builder to a scheme makes its kinds known, keeps what was known, and adds
  nothing in a group other than the builder's and the group without a name, which holds the kinds of the API
  machinery.\<close>

locale scheme_library =
  fixes lib :: "('b, 'c) schemes"
    and knows :: "'c \<Rightarrow> (string \<times> string \<times> string) set"
    and contents :: "'b \<Rightarrow> (string \<times> string \<times> string) set"
    and builder_group :: "'b \<Rightarrow> GroupVersion"
  assumes builder_new: "builder_group (NewBuilder lib gv) = gv" "contents (NewBuilder lib gv) = {}"
    and builder_register: "builder_group (Register lib ks b) = builder_group b"
      "contents (Register lib ks b) =
         contents b \<union> (\<lambda>k. (Group (builder_group b), Version (builder_group b), k)) ` set ks"
    and scheme_add: "AddToScheme lib b c = Inr c' \<Longrightarrow> knows c \<union> contents b \<subseteq> knows c'"
    and scheme_add_groups: "AddToScheme lib b c = Inr c' \<Longrightarrow> (g, v, k) \<in> knows c' \<Longrightarrow>
      (g, v, k) \<in> knows c \<or> g = Group (builder_group b) \<or> g = []"

text \<open>How the API version of a reference names a group and a version.\<close>

definition gv_of :: "string \<Rightarrow> (string \<times> string) option" where
  "gv_of s = (case strings_Split (CHR ''/'') s of [v] \<Rightarrow> Some ([], v) | [g, v] \<Rightarrow> Some (g, v) | _ \<Rightarrow> None)"

text \<open>An owner reference is resolved when its kind is known to the scheme.\<close>

definition resolves :: "(string \<times> string \<times> string) set \<Rightarrow> OwnerReference \<Rightarrow> bool" where
  "resolves known r \<longleftrightarrow> (case gv_of (APIVersion r) of Some (g, v) \<Rightarrow> (g, v, Kind r) \<in> known | None \<Rightarrow> False)"

section \<open>Instances\<close>

text \<open>A controller-runtime that logs its calls and fails the one with the number of a schedule.\<close>

record trace =
  t_calls :: "(startup_call \<times> bool) list"
  t_fail :: nat

definition logged :: "startup_call \<Rightarrow> trace \<Rightarrow> (go_error + unit) \<times> trace" where
  "logged c s = (if length (t_calls s) = t_fail s then Inl (ExecErr ''failed'') else Inr (),
     s\<lparr>t_calls := t_calls s @ [(c, length (t_calls s) \<noteq> t_fail s)]\<rparr>)"

definition log_ctrl :: "trace ctrl" where
  "log_ctrl = \<lparr>GetConfigOrDie = (\<lambda>s. case logged CallConfig s of (r, t) \<Rightarrow> (succeeded r, t)),
     NewManager = (\<lambda>opts. logged (CallNewManager opts)), Complete = (\<lambda>kind owned. logged (CallComplete kind owned)),
     AddHealthzCheck = (\<lambda>nm. logged (CallHealthz nm)), AddReadyzCheck = (\<lambda>nm. logged (CallReadyz nm)),
     StartManager = (\<lambda>s. Some (logged CallStart s))\<rparr>"

interpretation log_start: startup_trace log_ctrl t_calls
  by unfold_locales (auto simp: log_ctrl_def logged_def succeeded_def)

text \<open>A scheme that is the set of its kinds.\<close>

definition set_schemes :: "(GroupVersion \<times> string list, (string \<times> string \<times> string) set) schemes" where
  "set_schemes = \<lparr>NewBuilder = (\<lambda>gv. (gv, [])), Register = (\<lambda>ks (gv, old). (gv, old @ ks)),
     AddToScheme = (\<lambda>(gv, ks) c. Inr (c \<union> (\<lambda>k. (Group gv, Version gv, k)) ` set ks)),
     clientgo_AddToScheme = (\<lambda>c. Inr (insert ([], ''v1'', ''Pod'') c)), NewScheme = {}\<rparr>"

interpretation set_scheme: scheme_library set_schemes "\<lambda>c. c" "\<lambda>(gv, ks). (\<lambda>k. (Group gv, Version gv, k)) ` set ks" fst
  by unfold_locales (auto simp: set_schemes_def)

section \<open>Lemmas\<close>

definition names_flag :: "string \<Rightarrow> string \<Rightarrow> bool" where
  "names_flag nm s \<longleftrightarrow> (case flag_token s of FlagToken n _ \<Rightarrow> n = nm | _ \<Rightarrow> False)"

text \<open>A flag that no argument names keeps its value.\<close>

lemma set_flag_other:
  assumes "set_flag others nm v f = Some f'"
  shows "nm \<noteq> ''enable-http2'' \<Longrightarrow> enableHTTP2 f' = enableHTTP2 f"
    and "nm \<noteq> ''metrics-secure'' \<Longrightarrow> secureMetrics f' = secureMetrics f"
    and "nm \<noteq> ''leader-elect'' \<Longrightarrow> enableLeaderElection f' = enableLeaderElection f"
  using assms by (auto simp: set_flag_def split: if_splits option.splits)

lemma flag_Parse_step:
  assumes "flag_Parse others (s # args) f = Parsed f' rest"
  obtains "f' = f"
    | nm w v g args' where "flag_token s = FlagToken nm w" "set_flag others nm v f = Some g"
      "flag_Parse others args' g = Parsed f' rest" "args' = args \<or> args' = tl args"
proof (cases "flag_token s")
  case (FlagToken nm w)
  show ?thesis
  proof (cases "flag_kind others nm")
    case (Some b)
    with assms FlagToken obtain v g args' where "set_flag others nm v f = Some g"
        "flag_Parse others args' g = Parsed f' rest" "args' = args \<or> args' = tl args"
      by (cases b) (auto split: option.splits list.splits)
    with FlagToken that(2) show ?thesis by blast
  qed (use assms FlagToken in \<open>simp split: if_splits\<close>)
qed (use assms that(1) in simp_all)

lemma flag_Parse_unnamed:
  assumes "flag_Parse others args f = Parsed f' rest"
    and "\<And>nm v g g'. nm \<noteq> flag \<Longrightarrow> set_flag others nm v g = Some g' \<Longrightarrow> get g' = get g"
    and "list_all (\<lambda>s. \<not> names_flag flag s) args"
  shows "get f' = get f"
  using assms(1,3)
proof (induction "length args" arbitrary: args f rule: less_induct)
  case less
  show ?case
  proof (cases args)
    case Nil
    with less.prems show ?thesis by simp
  next
    case (Cons s as)
    from less.prems(1) [unfolded Cons] show ?thesis
    proof (cases rule: flag_Parse_step)
      case (2 nm w v g args')
      then have "get f' = get g"
        using less.prems(2) Cons by (intro less.hyps [of args']) (cases as; auto)+
      moreover have "nm \<noteq> flag" using 2(1) less.prems(2) Cons by (simp add: names_flag_def)
      ultimately show ?thesis using assms(2) 2(2) by metis
    qed simp
  qed
qed

definition show_bool :: "bool \<Rightarrow> string" where
  "show_bool b = (if b then ''true'' else ''false'')"

definition flag_args :: "Flags \<Rightarrow> string list" where
  "flag_args f = [''--metrics-bind-address='' @ metricsAddr f, ''--health-probe-bind-address='' @ probeAddr f,
     ''--leader-elect='' @ show_bool (enableLeaderElection f), ''--metrics-secure='' @ show_bool (secureMetrics f),
     ''--enable-http2='' @ show_bool (enableHTTP2 f)]"

lemma flag_token_value:
  assumes "nm \<noteq> []" "hd nm \<noteq> CHR ''-''" "CHR ''='' \<notin> set nm"
  shows "flag_token (''--'' @ nm @ ''='' @ v) = FlagToken nm (Some v)"
proof -
  have "nm ! 0 \<noteq> CHR ''-''" "nm ! 0 \<noteq> CHR ''=''" using assms by (metis hd_conv_nth, metis hd_conv_nth hd_in_set)
  moreover have "takeWhile (\<lambda>c. c \<noteq> CHR ''='') (nm @ CHR ''='' # v) = nm"
      "dropWhile (\<lambda>c. c \<noteq> CHR ''='') (nm @ CHR ''='' # v) = CHR ''='' # v"
    using assms(3) by (simp_all add: takeWhile_append dropWhile_append)
  ultimately show ?thesis using assms(1) by (simp add: flag_token_def nth_append)
qed

lemma flag_args_tokens:
  "flag_token (''--metrics-bind-address='' @ v) = FlagToken ''metrics-bind-address'' (Some v)"
  "flag_token (''--health-probe-bind-address='' @ v) = FlagToken ''health-probe-bind-address'' (Some v)"
  "flag_token (''--leader-elect='' @ v) = FlagToken ''leader-elect'' (Some v)"
  "flag_token (''--metrics-secure='' @ v) = FlagToken ''metrics-secure'' (Some v)"
  "flag_token (''--enable-http2='' @ v) = FlagToken ''enable-http2'' (Some v)"
  using flag_token_value [of "''metrics-bind-address''" v] flag_token_value [of "''health-probe-bind-address''" v]
    flag_token_value [of "''leader-elect''" v] flag_token_value [of "''metrics-secure''" v]
    flag_token_value [of "''enable-http2''" v]
  by simp_all

lemma ParseBool_show: "ParseBool (show_bool b) = Some b"
  by (simp add: ParseBool_def show_bool_def)

text \<open>The sequence of calls of a start that succeeds.\<close>

definition startup_calls :: "Flags \<Rightarrow> startup_call list" where
  "startup_calls f = [CallConfig, CallNewManager (managerOptions f), CallComplete ''MysqlCluster'' [''Pod''],
     CallHealthz ''healthz'', CallReadyz ''readyz'', CallStart]"

lemma orExit_cases:
  assumes "orExit call rest s = Some (code, t)"
  obtains (failed) "code = 1" "\<exists>e. call s = (Inl e, t)"
    | (passed) s' where "call s = (Inr (), s')" "rest s' = Some (code, t)"
  using assms by (auto simp: orExit_def split: prod.splits sum.splits)

text \<open>The rest of the program after \<open>k\<close> successful calls: however it ends, the calls made are the first ones of the
  sequence, all but the last succeeded, and the exit status tells whether the last one did.\<close>

definition in_order :: "startup_call list \<Rightarrow> (startup_call \<times> bool) list \<Rightarrow> nat \<Rightarrow> (startup_call \<times> bool) list \<Rightarrow> bool" where
  "in_order cs base code log \<longleftrightarrow> (\<exists>n<length cs. \<exists>ok. log = base @ map (\<lambda>c. (c, True)) (take n cs) @ [(cs ! n, ok)] \<and>
     code = (if ok then 0 else 1) \<and> (ok \<longrightarrow> Suc n = length cs))"

definition startup_tail :: "('s \<Rightarrow> (startup_call \<times> bool) list) \<Rightarrow> startup_call list \<Rightarrow> (startup_call \<times> bool) list \<Rightarrow>
    nat \<Rightarrow> ('s \<Rightarrow> (nat \<times> 's) option) \<Rightarrow> bool" where
  "startup_tail calls cs base k rest \<longleftrightarrow> (\<forall>s code t. calls s = base @ map (\<lambda>c. (c, True)) (take k cs) \<longrightarrow>
     rest s = Some (code, t) \<longrightarrow> in_order cs base code (calls t))"

lemma startup_tail_orExit:
  assumes "\<And>s r t. call s = (r, t) \<Longrightarrow> calls t = calls s @ [(cs ! k, succeeded r)]" "k < length cs"
    and "startup_tail calls cs base (Suc k) rest"
  shows "startup_tail calls cs base k (orExit call rest)"
  unfolding startup_tail_def
proof (intro allI impI)
  fix s code t assume k: "calls s = base @ map (\<lambda>c. (c, True)) (take k cs)" and run: "orExit call rest s = Some (code, t)"
  from run show "in_order cs base code (calls t)"
  proof (cases rule: orExit_cases)
    case failed
    with assms(1) [of s _ t] assms(2) k show ?thesis
      unfolding in_order_def by (intro exI [of _ k] conjI exI [of _ False]) (auto simp: succeeded_def)
  next
    case (passed s')
    then have "calls s' = base @ map (\<lambda>c. (c, True)) (take (Suc k) cs)"
      using assms(1) [of s "Inr ()" s'] k by (simp add: take_Suc_conv_app_nth [OF assms(2)] succeeded_def)
    with passed assms(3) show ?thesis by (auto simp: startup_tail_def)
  qed
qed

context startup_trace
begin

lemma startup_tail_start:
  "startup_tail calls (startup_calls f) base 5 (\<lambda>s5. case StartManager ct s5 of
      None \<Rightarrow> None | Some (Inl err, t) \<Rightarrow> Some (1, t) | Some (Inr _, t) \<Rightarrow> Some (0, t))"
  unfolding startup_tail_def
proof (intro allI impI)
  fix s5 :: 's and code :: nat and t assume five: "calls s5 = base @ map (\<lambda>c. (c, True)) (take 5 (startup_calls f))"
  assume "(case StartManager ct s5 of None \<Rightarrow> None | Some (Inl err, t) \<Rightarrow> Some (1, t) | Some (Inr _, t) \<Rightarrow> Some (0, t))
    = Some (code :: nat, t)"
  then obtain r where "StartManager ct s5 = Some (r, t)" "code = (if succeeded r then 0 else 1)"
    by (auto simp: succeeded_def split: option.splits sum.splits)
  with start_call [of s5 r t] five show "in_order (startup_calls f) base code (calls t)"
    unfolding in_order_def by (intro exI [of _ 5] conjI exI [of _ "succeeded r"]) (simp_all add: startup_calls_def)
qed

lemma main_trace:
  assumes "main ct others args s = Some (code, t)" "flag_Parse others args default_flags = Parsed f rest"
  shows "in_order (startup_calls f) (calls s) code (calls t)"
proof -
  obtain ok s1 where config: "GetConfigOrDie ct s = (ok, s1)" by (cases "GetConfigOrDie ct s")
  have tail: "startup_tail calls (startup_calls f) (calls s) 1 (orExit (NewManager ct (managerOptions f))
      (orExit (SetupWithManager ct) (orExit (AddHealthzCheck ct ''healthz'') (orExit (AddReadyzCheck ct ''readyz'')
        (\<lambda>s5. case StartManager ct s5 of
            None \<Rightarrow> None | Some (Inl err, t) \<Rightarrow> Some (1, t) | Some (Inr _, t) \<Rightarrow> Some (0, t))))))"
  proof (intro startup_tail_orExit)
    show "startup_tail calls (startup_calls f) (calls s) (Suc (Suc (Suc (Suc 1)))) (\<lambda>s5. case StartManager ct s5 of
        None \<Rightarrow> None | Some (Inl err, t) \<Rightarrow> Some (1, t) | Some (Inr _, t) \<Rightarrow> Some (0, t))"
      using startup_tail_start [of f "calls s"] by (simp add: numeral_eq_Suc)
  qed (auto simp: startup_calls_def SetupWithManager_def manager_call complete_call healthz_call readyz_call)
  show ?thesis
  proof (cases ok)
    case False
    with assms config have "t = s1" "code = 1" by (simp_all add: main_def)
    with config_call [OF config] False show ?thesis
      unfolding in_order_def by (intro exI [of _ 0] conjI exI [of _ False]) (simp_all add: startup_calls_def)
  next
    case True
    then have "calls s1 = calls s @ map (\<lambda>c. (c, True)) (take 1 (startup_calls f))"
      using config_call [OF config] by (simp add: startup_calls_def)
    with True assms config tail show ?thesis by (simp add: main_def startup_tail_def)
  qed
qed

end

section \<open>Properties\<close>

text \<open>(C35) The order of the start. With arguments that parse, whatever fails and however \<open>main\<close> ends, the calls it made, with their
  arguments, are the first \<open>n + 1\<close> of: configuration, a manager with the options the flags give, the controller for clusters and the pods
  they own, health check, readiness check, start. All but the last of the calls made succeeded; the exit status is 0 when the
  last one succeeded, which is then the start, and 1 when it failed, so nothing is called after a failure. With bad flags \<open>main\<close>
  exits with 2, and with a request for help with 0, before any call.\<close>

theorem main_calls_in_order:
  assumes "startup_trace ct calls" "main ct others args s = Some (code, t)"
  shows "case flag_Parse others args default_flags of
      Parsed f rest \<Rightarrow>
        let cs = [CallConfig, CallNewManager (managerOptions f), CallComplete ''MysqlCluster'' [''Pod''],
          CallHealthz ''healthz'', CallReadyz ''readyz'', CallStart]
        in \<exists>n<6. \<exists>ok. calls t = calls s @ map (\<lambda>c. (c, True)) (take n cs) @ [(cs ! n, ok)] \<and>
             code = (if ok then 0 else 1) \<and> (ok \<longrightarrow> cs ! n = CallStart)
    | Help \<Rightarrow> code = 0 \<and> t = s
    | BadFlags \<Rightarrow> code = 2 \<and> t = s"
proof (cases "flag_Parse others args default_flags")
  case (Parsed f rest)
  have len: "length (startup_calls f) = 6" by (simp add: startup_calls_def)
  from startup_trace.main_trace [OF assms Parsed] obtain n ok where n: "n < 6"
      "calls t = calls s @ map (\<lambda>c. (c, True)) (take n (startup_calls f)) @ [(startup_calls f ! n, ok)]"
      "code = (if ok then 0 else 1)" "ok \<longrightarrow> Suc n = 6"
    unfolding in_order_def len by blast
  moreover have "startup_calls f ! n = CallStart" if ok
    using n(4) that by (simp add: startup_calls_def numeral_eq_Suc)
  ultimately show ?thesis unfolding Parsed parsed.case Let_def startup_calls_def [symmetric] by blast
qed (use assms(2) in \<open>simp_all add: main_def\<close>)

definition no_flags :: other_flags where
  "no_flags = (\<lambda>_. None)"

text \<open>The arguments of \<^verbatim>\<open>config/manager/manager.yaml\<close>.\<close>

definition deployed_args :: "string list" where
  "deployed_args = [''--leader-elect'', ''--health-probe-bind-address=:8081'']"

lemma deployed_parse:
  "flag_Parse no_flags deployed_args default_flags = Parsed (default_flags\<lparr>enableLeaderElection := True\<rparr>) []"
  by (simp add: deployed_args_def flag_token_def flag_kind_def set_flag_def ParseBool_def default_flags_def)

text \<open>The deployed operator, with a controller that cannot be set up.\<close>

definition failing_start :: "(nat \<times> trace) option" where
  "failing_start = main log_ctrl no_flags deployed_args \<lparr>t_calls = [], t_fail = 2\<rparr>"

lemma failing_start_run:
  "failing_start = Some (1, \<lparr>t_calls = [(CallConfig, True),
     (CallNewManager (managerOptions (default_flags\<lparr>enableLeaderElection := True\<rparr>)), True),
     (CallComplete ''MysqlCluster'' [''Pod''], False)], t_fail = 2\<rparr>)"
  by (simp add: failing_start_def main_def deployed_parse log_ctrl_def logged_def succeeded_def orExit_def SetupWithManager_def)

lemma main_calls_in_order_witness:
  "\<exists>t n ok. failing_start = Some (1, t) \<and> length (t_calls t) = 3 \<and> n < 6 \<and>
     t_calls t = map (\<lambda>c. (c, True)) (take n (startup_calls (default_flags\<lparr>enableLeaderElection := True\<rparr>))) @
       [(startup_calls (default_flags\<lparr>enableLeaderElection := True\<rparr>) ! n, ok)] \<and> \<not> ok"
proof -
  let ?f = "default_flags\<lparr>enableLeaderElection := True\<rparr>"
  obtain t where t: "failing_start = Some (1, t)" "length (t_calls t) = 3" using failing_start_run by simp
  from main_calls_in_order [OF log_start.startup_trace_axioms t(1) [unfolded failing_start_def],
      unfolded deployed_parse parsed.case Let_def startup_calls_def [symmetric]]
  obtain n ok where "n < 6" "t_calls t = map (\<lambda>c. (c, True)) (take n (startup_calls ?f)) @ [(startup_calls ?f ! n, ok)]"
      "1 = (if ok then 0 else 1 :: nat)"
    by auto
  with t show ?thesis by (intro exI [of _ t] exI [of _ n] exI [of _ ok]) (simp split: if_splits)
qed

text \<open>(C36) Secure by default: unless an argument names the flag \<^verbatim>\<open>enable-http2\<close>, the TLS options of the webhook server and of
  the metrics server restrict every TLS configuration to HTTP/1.1; unless an argument names \<^verbatim>\<open>metrics-secure\<close>, the metrics are
  served over HTTPS with authentication and authorization. No other flag, and no value of another flag, changes that.\<close>

theorem secure_unless_named:
  assumes "flag_Parse others args default_flags = Parsed f rest"
  shows "(list_all (\<lambda>a. \<not> names_flag ''enable-http2'' a) args \<longrightarrow>
      NextProtos (fold (\<lambda>opt. opt) (WebhookTLSOpts (managerOptions f)) tls) = [''http/1.1''] \<and>
      NextProtos (fold (\<lambda>opt. opt) (MetricsTLSOpts (Metrics (managerOptions f))) tls) = [''http/1.1'']) \<and>
    (list_all (\<lambda>a. \<not> names_flag ''metrics-secure'' a) args \<longrightarrow>
      SecureServing (Metrics (managerOptions f)) \<and>
      MetricsFilter (Metrics (managerOptions f)) = Some WithAuthenticationAndAuthorization)"
  using flag_Parse_unnamed [where get = enableHTTP2, OF assms set_flag_other(1)]
    flag_Parse_unnamed [where get = secureMetrics, OF assms set_flag_other(2)]
  by (simp add: managerOptions_def default_flags_def disableHTTP2_def Let_def)

lemma secure_unless_named_witness:
  "NextProtos (fold (\<lambda>opt. opt)
     (WebhookTLSOpts (managerOptions (default_flags\<lparr>enableLeaderElection := True\<rparr>))) \<lparr>NextProtos = [''h2'']\<rparr>) =
       [''http/1.1'']"
  using secure_unless_named [OF deployed_parse]
  by (simp add: deployed_args_def names_flag_def flag_token_def)

text \<open>(C38) Every setting can be reached by flags, and the last occurrence of a flag wins: parsing the arguments that spell out
  \<open>f\<close> goes on with exactly \<open>f\<close>, whatever was set before, for all addresses.\<close>

theorem flag_args_roundtrip:
  "flag_Parse others (flag_args f @ args) g = flag_Parse others args f"
  by (cases f; cases g) (simp add: flag_args_def flag_args_tokens [unfolded append.simps] flag_kind_def set_flag_def ParseBool_show)

text \<open>(C37) The kinds are registered: after the program's \<open>init\<close>, the scheme knows both kinds of the API group, so it resolves the owner
  reference of every ConfigMap, pod and Service the operator creates. It does not resolve that of a volume claim, whose
  group \<^verbatim>\<open>database.kubebuilder.io\<close> nobody registers.\<close>

theorem owner_references_registered:
  assumes "scheme_library lib knows contents builder_group" "main_init lib = Some sch"
    and "\<And>sch0 v k. clientgo_AddToScheme lib (NewScheme lib) = Inr sch0 \<Longrightarrow>
      (''database.kubebuilder.io'', v, k) \<notin> knows sch0"
  shows "(''apps.ryansu.com'', ''v1'', ''MysqlCluster'') \<in> knows sch \<and>
    (''apps.ryansu.com'', ''v1'', ''MysqlClusterList'') \<in> knows sch \<and>
    list_all (resolves (knows sch))
      (OwnerReferences (cm_meta (configMapFor nm i ns c)) @ OwnerReferences (svc_meta (createService nm role ns c)) @
       OwnerReferences (pod_meta (podFor nm img cm pvc ns c rc rm lc lm))) \<and>
    \<not> list_ex (resolves (knows sch)) (OwnerReferences (pvc_meta (pvcFor nm sc ns q c)))"
proof -
  note L = scheme_library.builder_new [OF assms(1)] scheme_library.builder_register [OF assms(1)]
  obtain sch0 where sch0: "clientgo_AddToScheme lib (NewScheme lib) = Inr sch0"
      "AddToScheme lib (types_init lib) sch0 = Inr sch"
    using assms(2) by (auto simp: main_init_def split: sum.splits)
  have gv: "builder_group (types_init lib) = GroupVersion_v1"
    by (simp add: types_init_def SchemeBuilder_def L)
  have known: "(''apps.ryansu.com'', ''v1'', ''MysqlCluster'') \<in> knows sch"
      "(''apps.ryansu.com'', ''v1'', ''MysqlClusterList'') \<in> knows sch"
    using scheme_library.scheme_add [OF assms(1) sch0(2)]
    by (simp_all add: types_init_def SchemeBuilder_def L GroupVersion_v1_def)
  moreover have "(''database.kubebuilder.io'', v, k) \<notin> knows sch" for v k
    using scheme_library.scheme_add_groups [OF assms(1) sch0(2), of "''database.kubebuilder.io''" v k]
      assms(3) [OF sch0(1), of v k]
    by (auto simp: gv GroupVersion_v1_def)
  ultimately show ?thesis
    by (simp add: configMapFor_def createService_def podFor_def pvcFor_def ownerRef_def resolves_def gv_of_def
        MysqlClusterAPIVersion_def MysqlClusterKind_def)
qed

lemma owner_references_registered_witness:
  "resolves (the (main_init set_schemes)) (ownerRef MysqlClusterAPIVersion MysqlClusterKind sample_cluster) \<and>
   \<not> resolves (the (main_init set_schemes)) (ownerRef ''database.kubebuilder.io/v1'' ''MysqlCluster'' sample_cluster)"
proof -
  define sch where "sch = the (main_init set_schemes)"
  have init: "main_init set_schemes = Some sch"
    by (simp add: sch_def main_init_def set_schemes_def split: prod.splits)
  have "(''database.kubebuilder.io'', v, k) \<notin> sch0"
    if "clientgo_AddToScheme set_schemes (NewScheme set_schemes) = Inr sch0" for sch0 v k
    using that by (auto simp: set_schemes_def)
  from owner_references_registered [OF set_scheme.scheme_library_axioms init this, of "[]" 1 "[]" sample_cluster]
  show ?thesis unfolding sch_def [symmetric] by (simp add: configMapFor_def pvcFor_def)
qed

end
