(* ===== verification/Deep_Copy.thy ===== *)
theory Deep_Copy
  imports Api_Types
begin

text \<open>
  The copy functions of \<^verbatim>\<open>src/api/v1/zz_generated.deepcopy.go\<close>. What they are about is aliasing,
  so the resource is laid out here the way Go lays it out: a slice is a window of an array of the
  heap, a map is a reference to a table of the heap, and a nil slice, map or pointer is \<open>None\<close>.
  \<open>cluster_val\<close> reads such a resource as the value of \<open>Api_Types\<close> the other theories work with.
  A pointer to a struct is the struct it points to: \<open>DeepCopyInto\<close> returns what it leaves in
  \<open>*out\<close>, and \<open>new\<close> gives a struct nothing else points to.

  \<open>ObjectMeta.DeepCopyInto\<close> and \<open>ListMeta.DeepCopyInto\<close> belong to the Kubernetes library: they are
  parameters that work on a part of the heap of their own (\<open>foreign\<close>), and the locale
  \<open>meta_copier\<close> states what they promise. \<open>metav1_copy\<close> is an instance, which copies the two maps of
  the metadata.
\<close>

section \<open>The resource in memory\<close>

record slice =
  s_arr :: nat
  s_off :: nat
  s_len :: nat

record TypeMeta =
  TypeKind :: string
  TypeAPIVersion :: string

record status_h =
  Master_h :: string
  Slaves_h :: "slice option"
  RaftNodes_h :: "nat option"
  RaftLeader_h :: string
  RaftTerm_h :: int64
  ClusterSize_h :: int32

record 'm cluster_h =
  TypeMeta_h :: TypeMeta
  ObjectMeta_h :: 'm
  Spec_h :: MysqlClusterSpec
  Status_h :: status_h

record 'l clusterlist_h =
  ListTypeMeta_h :: TypeMeta
  ListMeta_h :: 'l
  Items_h :: "slice option"

record ('m, 'f) heap =
  str_arrays :: "string list list"
  node_maps :: "(string \<rightharpoonup> RaftNodeInfo) list"
  cluster_arrays :: "'m cluster_h list list"
  foreign :: 'f

subsection \<open>Slices\<close>

definition window :: "'a list list \<Rightarrow> slice \<Rightarrow> 'a list" where
  "window arrays sl = take (s_len sl) (drop (s_off sl) (arrays ! s_arr sl))"

definition wf_slice :: "'a list list \<Rightarrow> slice \<Rightarrow> bool" where
  "wf_slice arrays sl \<longleftrightarrow> s_arr sl < length arrays \<and> s_off sl + s_len sl \<le> length (arrays ! s_arr sl)"

text \<open>\<open>make([]T, n)\<close>, an assignment to an element, and \<open>copy(dst, src)\<close>.\<close>

definition make_slice :: "'a \<Rightarrow> nat \<Rightarrow> 'a list list \<Rightarrow> slice \<times> 'a list list" where
  "make_slice zero n arrays =
     (\<lparr>s_arr = length arrays, s_off = 0, s_len = n\<rparr>, arrays @ [replicate n zero])"

definition set_elem :: "slice \<Rightarrow> nat \<Rightarrow> 'a \<Rightarrow> 'a list list \<Rightarrow> 'a list list" where
  "set_elem sl i x arrays = arrays[s_arr sl := (arrays ! s_arr sl)[s_off sl + i := x]]"

definition copy_slice :: "slice \<Rightarrow> slice \<Rightarrow> 'a list list \<Rightarrow> 'a list list" where
  "copy_slice dst src arrays =
     (let xs = take (s_len dst) (window arrays src); a = arrays ! s_arr dst
      in arrays[s_arr dst := take (s_off dst) a @ xs @ drop (s_off dst + length xs) a])"

section \<open>The copy functions\<close>

text \<open>The structs without references: every field is assigned.\<close>

definition StorageConfig_DeepCopyInto :: "StorageConfig \<Rightarrow> StorageConfig" where
  "StorageConfig_DeepCopyInto inp = inp"

definition StorageConfig_DeepCopy :: "StorageConfig option \<Rightarrow> StorageConfig option" where
  "StorageConfig_DeepCopy inp = (case inp of None \<Rightarrow> None | Some x \<Rightarrow> Some (StorageConfig_DeepCopyInto x))"

definition ResourceRequests_DeepCopyInto :: "ResourceRequests \<Rightarrow> ResourceRequests" where
  "ResourceRequests_DeepCopyInto inp = inp"

definition ResourceRequests_DeepCopy :: "ResourceRequests option \<Rightarrow> ResourceRequests option" where
  "ResourceRequests_DeepCopy inp = (case inp of None \<Rightarrow> None | Some x \<Rightarrow> Some (ResourceRequests_DeepCopyInto x))"

definition ResourceLimits_DeepCopyInto :: "ResourceLimits \<Rightarrow> ResourceLimits" where
  "ResourceLimits_DeepCopyInto inp = inp"

definition ResourceLimits_DeepCopy :: "ResourceLimits option \<Rightarrow> ResourceLimits option" where
  "ResourceLimits_DeepCopy inp = (case inp of None \<Rightarrow> None | Some x \<Rightarrow> Some (ResourceLimits_DeepCopyInto x))"

definition ResourceRequirements_DeepCopyInto :: "ResourceRequirements \<Rightarrow> ResourceRequirements" where
  "ResourceRequirements_DeepCopyInto inp =
     (let out = inp in out\<lparr>Requests := Requests inp, Limits := Limits inp\<rparr>)"

definition ResourceRequirements_DeepCopy ::
    "ResourceRequirements option \<Rightarrow> ResourceRequirements option" where
  "ResourceRequirements_DeepCopy inp =
     (case inp of None \<Rightarrow> None | Some x \<Rightarrow> Some (ResourceRequirements_DeepCopyInto x))"

definition Spec_DeepCopyInto :: "MysqlClusterSpec \<Rightarrow> MysqlClusterSpec" where
  "Spec_DeepCopyInto inp = (let out = inp in out\<lparr>Storage := Storage inp, Resources := Resources inp\<rparr>)"

definition Spec_DeepCopy :: "MysqlClusterSpec option \<Rightarrow> MysqlClusterSpec option" where
  "Spec_DeepCopy inp = (case inp of None \<Rightarrow> None | Some x \<Rightarrow> Some (Spec_DeepCopyInto x))"

text \<open>The status: \<open>Slaves\<close> gets an array of its own, \<open>RaftNodes\<close> stays the reference that was assigned.\<close>

definition Status_DeepCopyInto :: "status_h \<Rightarrow> ('m, 'f) heap \<Rightarrow> status_h \<times> ('m, 'f) heap" where
  "Status_DeepCopyInto inp h =
     (let out = inp
      in case Slaves_h inp of
           None \<Rightarrow> (out, h)
         | Some sl \<Rightarrow>
             let (dst, arrays) = make_slice [] (s_len sl) (str_arrays h)
             in (out\<lparr>Slaves_h := Some dst\<rparr>, h\<lparr>str_arrays := copy_slice dst sl arrays\<rparr>))"

definition Status_DeepCopy :: "status_h option \<Rightarrow> ('m, 'f) heap \<Rightarrow> status_h option \<times> ('m, 'f) heap" where
  "Status_DeepCopy inp h =
     (case inp of None \<Rightarrow> (None, h)
      | Some x \<Rightarrow> (let (out, h1) = Status_DeepCopyInto x h in (Some out, h1)))"

definition Cluster_DeepCopyInto ::
    "('m \<Rightarrow> 'f \<Rightarrow> 'm \<times> 'f) \<Rightarrow> 'm cluster_h \<Rightarrow> ('m, 'f) heap \<Rightarrow> 'm cluster_h \<times> ('m, 'f) heap" where
  "Cluster_DeepCopyInto meta_into inp h =
     (let out = inp;
          out1 = out\<lparr>TypeMeta_h := TypeMeta_h inp\<rparr>;
          (mt, f) = meta_into (ObjectMeta_h inp) (foreign h);
          out2 = out1\<lparr>ObjectMeta_h := mt, Spec_h := Spec_h inp\<rparr>;
          (st, h2) = Status_DeepCopyInto (Status_h inp) (h\<lparr>foreign := f\<rparr>)
      in (out2\<lparr>Status_h := st\<rparr>, h2))"

definition Cluster_DeepCopy ::
    "('m \<Rightarrow> 'f \<Rightarrow> 'm \<times> 'f) \<Rightarrow> 'm cluster_h option \<Rightarrow> ('m, 'f) heap \<Rightarrow> 'm cluster_h option \<times> ('m, 'f) heap" where
  "Cluster_DeepCopy meta_into inp h =
     (case inp of None \<Rightarrow> (None, h)
      | Some x \<Rightarrow> (let (out, h1) = Cluster_DeepCopyInto meta_into x h in (Some out, h1)))"

text \<open>The list: the loop runs over the indices of \<open>Items\<close>, and the \<open>i\<close>th element of the new
  array is written by the copy of the \<open>i\<close>th element.\<close>

primrec copyItems ::
    "('m \<Rightarrow> 'f \<Rightarrow> 'm \<times> 'f) \<Rightarrow> slice \<Rightarrow> slice \<Rightarrow> nat list \<Rightarrow> ('m, 'f) heap \<Rightarrow> ('m, 'f) heap" where
  "copyItems meta_into src dst [] h = h"
| "copyItems meta_into src dst (i # is) h =
     (let (c, h1) = Cluster_DeepCopyInto meta_into (window (cluster_arrays h) src ! i) h
      in copyItems meta_into src dst is (h1\<lparr>cluster_arrays := set_elem dst i c (cluster_arrays h1)\<rparr>))"

definition List_DeepCopyInto ::
    "('m \<Rightarrow> 'f \<Rightarrow> 'm \<times> 'f) \<Rightarrow> ('l \<Rightarrow> 'f \<Rightarrow> 'l \<times> 'f) \<Rightarrow> 'm cluster_h \<Rightarrow>
     'l clusterlist_h \<Rightarrow> ('m, 'f) heap \<Rightarrow> 'l clusterlist_h \<times> ('m, 'f) heap" where
  "List_DeepCopyInto meta_into list_into zero inp h =
     (let out = inp;
          out1 = out\<lparr>ListTypeMeta_h := ListTypeMeta_h inp\<rparr>;
          (mt, f) = list_into (ListMeta_h inp) (foreign h);
          out2 = out1\<lparr>ListMeta_h := mt\<rparr>;
          h1 = h\<lparr>foreign := f\<rparr>
      in case Items_h inp of
           None \<Rightarrow> (out2, h1)
         | Some sl \<Rightarrow>
             let (dst, arrays) = make_slice zero (s_len sl) (cluster_arrays h1)
             in (out2\<lparr>Items_h := Some dst\<rparr>,
                 copyItems meta_into sl dst [0 ..< s_len sl] (h1\<lparr>cluster_arrays := arrays\<rparr>)))"

definition List_DeepCopy ::
    "('m \<Rightarrow> 'f \<Rightarrow> 'm \<times> 'f) \<Rightarrow> ('l \<Rightarrow> 'f \<Rightarrow> 'l \<times> 'f) \<Rightarrow> 'm cluster_h \<Rightarrow>
     'l clusterlist_h option \<Rightarrow> ('m, 'f) heap \<Rightarrow> 'l clusterlist_h option \<times> ('m, 'f) heap" where
  "List_DeepCopy meta_into list_into zero inp h =
     (case inp of None \<Rightarrow> (None, h)
      | Some x \<Rightarrow> (let (out, h1) = List_DeepCopyInto meta_into list_into zero x h in (Some out, h1)))"

text \<open>\<open>runtime.Object\<close> is an interface; \<open>DeepCopyObject\<close> returns the nil interface for a nil
  pointer.\<close>

datatype ('m, 'l) Object = ClusterObject "'m cluster_h" | ListObject "'l clusterlist_h"

definition Cluster_DeepCopyObject ::
    "('m \<Rightarrow> 'f \<Rightarrow> 'm \<times> 'f) \<Rightarrow> 'm cluster_h option \<Rightarrow> ('m, 'f) heap \<Rightarrow> ('m, 'l) Object option \<times> ('m, 'f) heap" where
  "Cluster_DeepCopyObject meta_into inp h =
     (let (c, h1) = Cluster_DeepCopy meta_into inp h
      in case c of Some x \<Rightarrow> (Some (ClusterObject x), h1) | None \<Rightarrow> (None, h1))"

definition List_DeepCopyObject ::
    "('m \<Rightarrow> 'f \<Rightarrow> 'm \<times> 'f) \<Rightarrow> ('l \<Rightarrow> 'f \<Rightarrow> 'l \<times> 'f) \<Rightarrow> 'm cluster_h \<Rightarrow>
     'l clusterlist_h option \<Rightarrow> ('m, 'f) heap \<Rightarrow> ('m, 'l) Object option \<times> ('m, 'f) heap" where
  "List_DeepCopyObject meta_into list_into zero inp h =
     (let (c, h1) = List_DeepCopy meta_into list_into zero inp h
      in case c of Some x \<Rightarrow> (Some (ListObject x), h1) | None \<Rightarrow> (None, h1))"

section \<open>What a resource in memory denotes\<close>

definition status_val :: "('m, 'f) heap \<Rightarrow> status_h \<Rightarrow> MysqlClusterStatus" where
  "status_val h st =
     \<lparr>Master = Master_h st,
      Slaves = (case Slaves_h st of None \<Rightarrow> [] | Some sl \<Rightarrow> window (str_arrays h) sl),
      RaftNodes = map_option (\<lambda>a. node_maps h ! a) (RaftNodes_h st),
      RaftLeader = RaftLeader_h st, RaftTerm = RaftTerm_h st, ClusterSize = ClusterSize_h st\<rparr>"

definition cluster_val :: "('f \<Rightarrow> 'm \<Rightarrow> ObjectMeta) \<Rightarrow> ('m, 'f) heap \<Rightarrow> 'm cluster_h \<Rightarrow> MysqlCluster" where
  "cluster_val meta_val h c =
     \<lparr>cluster_meta = meta_val (foreign h) (ObjectMeta_h c), Spec = Spec_h c, Status = status_val h (Status_h c)\<rparr>"

definition wf_status :: "('m, 'f) heap \<Rightarrow> status_h \<Rightarrow> bool" where
  "wf_status h st \<longleftrightarrow> (case Slaves_h st of None \<Rightarrow> True | Some sl \<Rightarrow> wf_slice (str_arrays h) sl) \<and>
     (case RaftNodes_h st of None \<Rightarrow> True | Some a \<Rightarrow> a < length (node_maps h))"

definition wf_cluster :: "('f \<Rightarrow> 'm \<Rightarrow> bool) \<Rightarrow> ('m, 'f) heap \<Rightarrow> 'm cluster_h \<Rightarrow> bool" where
  "wf_cluster meta_ok h c \<longleftrightarrow> meta_ok (foreign h) (ObjectMeta_h c) \<and> wf_status h (Status_h c)"

text \<open>Writing through a resource: \<open>c.Status.Slaves[i] = v\<close>, and \<open>c.Status.RaftNodes[k] = v\<close> as
  \<open>updateClusterStatus\<close> does it (a nil map has been made before).\<close>

definition write_slave :: "'m cluster_h \<Rightarrow> nat \<Rightarrow> string \<Rightarrow> ('m, 'f) heap \<Rightarrow> ('m, 'f) heap" where
  "write_slave c i v h = (case Slaves_h (Status_h c) of
       None \<Rightarrow> h | Some sl \<Rightarrow> h\<lparr>str_arrays := set_elem sl i v (str_arrays h)\<rparr>)"

definition write_node :: "'m cluster_h \<Rightarrow> string \<Rightarrow> RaftNodeInfo \<Rightarrow> ('m, 'f) heap \<Rightarrow> ('m, 'f) heap" where
  "write_node c k v h = (case RaftNodes_h (Status_h c) of
       None \<Rightarrow> h | Some a \<Rightarrow> h\<lparr>node_maps := (node_maps h)[a := (node_maps h ! a)(k \<mapsto> v)]\<rparr>)"

text \<open>What the copy of the metadata promises: the copy denotes what the original does, and what was
  there before is left alone.\<close>

locale meta_copier =
  fixes meta_into :: "'m \<Rightarrow> 'f \<Rightarrow> 'm \<times> 'f"
    and meta_val :: "'f \<Rightarrow> 'm \<Rightarrow> ObjectMeta"
    and meta_ok :: "'f \<Rightarrow> 'm \<Rightarrow> bool"
  assumes meta_copy: "meta_into x f = (y, g) \<Longrightarrow> meta_ok f x \<Longrightarrow> meta_ok g y \<and> meta_val g y = meta_val f x"
    and meta_frame: "meta_into x f = (y, g) \<Longrightarrow> meta_ok f z \<Longrightarrow> meta_ok g z \<and> meta_val g z = meta_val f z"

section \<open>Lemmas\<close>

lemma struct_copies [simp]:
  "StorageConfig_DeepCopyInto a = a" "ResourceRequests_DeepCopyInto b = b" "ResourceLimits_DeepCopyInto c = c"
  "ResourceRequirements_DeepCopyInto d = d" "Spec_DeepCopyInto e = e"
  by (simp_all add: StorageConfig_DeepCopyInto_def ResourceRequests_DeepCopyInto_def
      ResourceLimits_DeepCopyInto_def ResourceRequirements_DeepCopyInto_def Spec_DeepCopyInto_def)

text \<open>A nil pointer has a nil copy; the copy of a struct without references is the struct.\<close>

lemma struct_pointer_copies:
  "StorageConfig_DeepCopy p1 = p1" "ResourceRequests_DeepCopy p2 = p2" "ResourceLimits_DeepCopy p3 = p3"
  "ResourceRequirements_DeepCopy p4 = p4" "Spec_DeepCopy p5 = p5"
  by (simp_all add: StorageConfig_DeepCopy_def ResourceRequests_DeepCopy_def ResourceLimits_DeepCopy_def
      ResourceRequirements_DeepCopy_def Spec_DeepCopy_def split: option.splits)

lemma nil_copies:
  "Status_DeepCopy None h = (None, h)" "Cluster_DeepCopyObject meta_into None h = (None, h)"
  "List_DeepCopyObject meta_into list_into zero None h = (None, h)"
  by (simp_all add: Status_DeepCopy_def Cluster_DeepCopyObject_def Cluster_DeepCopy_def List_DeepCopyObject_def
      List_DeepCopy_def)

lemma wf_slice_append: "wf_slice a sl \<Longrightarrow> wf_slice (a @ b) sl"
  and window_append: "wf_slice a sl \<Longrightarrow> window (a @ b) sl = window a sl"
  by (simp_all add: wf_slice_def window_def nth_append)

lemma window_set_other: "s_arr sl \<noteq> s_arr sl' \<Longrightarrow> window (set_elem sl i v a) sl' = window a sl'"
  by (simp add: window_def set_elem_def)

lemma length_window: "wf_slice a sl \<Longrightarrow> length (window a sl) = s_len sl"
  by (auto simp: window_def wf_slice_def)

text \<open>\<open>make\<close> and \<open>copy\<close> give an array of its own with the same elements.\<close>

lemma clone_slice:
  assumes "make_slice z (s_len sl) a = (dst, b)" "wf_slice a sl"
  shows "\<exists>ys. copy_slice dst sl b = a @ [ys]" "s_arr dst = length a"
    "wf_slice (copy_slice dst sl b) dst" "window (copy_slice dst sl b) dst = window a sl"
proof -
  have d: "dst = \<lparr>s_arr = length a, s_off = 0, s_len = s_len sl\<rparr>" "b = a @ [replicate (s_len sl) z]"
    using assms(1) by (simp_all add: make_slice_def)
  have eq: "copy_slice dst sl b = a @ [window a sl]"
    using length_window [OF assms(2)] window_append [OF assms(2)]
    by (simp add: copy_slice_def d Let_def)
  then show "\<exists>ys. copy_slice dst sl b = a @ [ys]" by blast
  show "s_arr dst = length a" by (simp add: d)
  show "wf_slice (copy_slice dst sl b) dst" "window (copy_slice dst sl b) dst = window a sl"
    unfolding eq using length_window [OF assms(2)] by (simp_all add: d wf_slice_def window_def)
qed

text \<open>What a copy does to the heap: arrays are added, nothing that was there changes.\<close>

definition heap_grows ::
    "('f \<Rightarrow> 'm \<Rightarrow> ObjectMeta) \<Rightarrow> ('f \<Rightarrow> 'm \<Rightarrow> bool) \<Rightarrow> ('m, 'f) heap \<Rightarrow> ('m, 'f) heap \<Rightarrow> bool" where
  "heap_grows meta_val meta_ok h h' \<longleftrightarrow>
     (\<exists>xs. str_arrays h' = str_arrays h @ xs) \<and> node_maps h' = node_maps h \<and>
     (\<forall>z. meta_ok (foreign h) z \<longrightarrow>
        meta_ok (foreign h') z \<and> meta_val (foreign h') z = meta_val (foreign h) z)"

lemma heap_grows_refl [simp]: "heap_grows mv ok h h"
  by (simp add: heap_grows_def)

lemma heap_grows_trans [trans]:
  "heap_grows mv ok h1 h2 \<Longrightarrow> heap_grows mv ok h2 h3 \<Longrightarrow> heap_grows mv ok h1 h3"
  unfolding heap_grows_def by (metis append_assoc)

lemma heap_grows_arrays [simp]:
  "heap_grows mv ok h (h'\<lparr>cluster_arrays := a\<rparr>) = heap_grows mv ok h h'"
  "heap_grows mv ok (h\<lparr>cluster_arrays := a\<rparr>) h' = heap_grows mv ok h h'"
  by (simp_all add: heap_grows_def)

lemma cluster_val_arrays [simp]:
  "cluster_val mv (h\<lparr>cluster_arrays := a\<rparr>) c = cluster_val mv h c"
  "wf_cluster ok (h\<lparr>cluster_arrays := a\<rparr>) c = wf_cluster ok h c"
  by (simp_all add: cluster_val_def status_val_def wf_cluster_def wf_status_def cong: option.case_cong)

lemma heap_grows_val:
  assumes "heap_grows mv ok h h'" "wf_cluster ok h c"
  shows "wf_cluster ok h' c" "cluster_val mv h' c = cluster_val mv h c"
proof -
  obtain xs where xs: "str_arrays h' = str_arrays h @ xs" using assms(1) by (auto simp: heap_grows_def)
  have nodes: "node_maps h' = node_maps h" using assms(1) by (simp add: heap_grows_def)
  have "wf_status h' (Status_h c)" "status_val h' (Status_h c) = status_val h (Status_h c)"
    using assms(2) xs nodes
    by (auto simp: wf_cluster_def wf_status_def status_val_def wf_slice_append window_append split: option.splits)
  then show "wf_cluster ok h' c" "cluster_val mv h' c = cluster_val mv h c"
    using assms by (simp_all add: wf_cluster_def cluster_val_def heap_grows_def)
qed

lemma Status_copy:
  assumes "Status_DeepCopyInto st h = (st', h')" "wf_status h st"
  shows "(\<exists>xs. h' = h\<lparr>str_arrays := str_arrays h @ xs\<rparr>) \<and> wf_status h' st' \<and> status_val h' st' = status_val h st \<and>
    RaftNodes_h st' = RaftNodes_h st \<and> (Slaves_h st' = None \<longleftrightarrow> Slaves_h st = None) \<and>
    (\<forall>dst. Slaves_h st' = Some dst \<longrightarrow> s_arr dst = length (str_arrays h))"
proof (cases "Slaves_h st")
  case None
  with assms have "st' = st" "h' = h\<lparr>str_arrays := str_arrays h @ []\<rparr>" by (simp_all add: Status_DeepCopyInto_def)
  with assms(2) None show ?thesis by (metis append_Nil2 heap.surjective heap.update_convs(1) option.distinct(1))
next
  case (Some sl)
  obtain dst b where mk: "make_slice ([] :: string) (s_len sl) (str_arrays h) = (dst, b)"
    by (cases "make_slice ([] :: string) (s_len sl) (str_arrays h)")
  have wf: "wf_slice (str_arrays h) sl" using assms(2) Some by (simp add: wf_status_def)
  from assms(1) Some mk have eq: "st' = st\<lparr>Slaves_h := Some dst\<rparr>"
      "h' = h\<lparr>str_arrays := copy_slice dst sl b\<rparr>"
    by (simp_all add: Status_DeepCopyInto_def)
  show ?thesis using clone_slice [OF mk wf] assms(2) Some
    by (auto simp: eq wf_status_def status_val_def split: option.splits)
qed

definition items_copied ::
    "('f \<Rightarrow> 'm \<Rightarrow> ObjectMeta) \<Rightarrow> ('f \<Rightarrow> 'm \<Rightarrow> bool) \<Rightarrow> slice \<Rightarrow> slice \<Rightarrow> nat list \<Rightarrow>
     ('m, 'f) heap \<Rightarrow> ('m, 'f) heap \<Rightarrow> bool" where
  "items_copied meta_val meta_ok src dst is h h' \<longleftrightarrow>
    heap_grows meta_val meta_ok h h' \<and> length (cluster_arrays h') = length (cluster_arrays h) \<and>
    (\<forall>a. a \<noteq> s_arr dst \<longrightarrow> cluster_arrays h' ! a = cluster_arrays h ! a) \<and>
    wf_slice (cluster_arrays h') dst \<and>
    (\<forall>i<s_len dst. if i \<in> set is
       then wf_cluster meta_ok h' (window (cluster_arrays h') dst ! i) \<and>
         cluster_val meta_val h' (window (cluster_arrays h') dst ! i) =
           cluster_val meta_val h (window (cluster_arrays h) src ! i)
       else window (cluster_arrays h') dst ! i = window (cluster_arrays h) dst ! i)"

context meta_copier
begin

lemma Cluster_copy:
  assumes "Cluster_DeepCopyInto meta_into c h = (c', h')" "wf_cluster meta_ok h c"
  shows "heap_grows meta_val meta_ok h h'" "wf_cluster meta_ok h' c'"
    "cluster_val meta_val h' c' = cluster_val meta_val h c" "TypeMeta_h c' = TypeMeta_h c"
    "cluster_arrays h' = cluster_arrays h" "RaftNodes_h (Status_h c') = RaftNodes_h (Status_h c)"
    "Slaves_h (Status_h c') = None \<longleftrightarrow> Slaves_h (Status_h c) = None"
    "Slaves_h (Status_h c') = Some dst \<Longrightarrow> s_arr dst = length (str_arrays h)"
proof -
  obtain mt f where mt: "meta_into (ObjectMeta_h c) (foreign h) = (mt, f)"
    by (cases "meta_into (ObjectMeta_h c) (foreign h)")
  obtain st where st: "Status_DeepCopyInto (Status_h c) (h\<lparr>foreign := f\<rparr>) = (st, h')"
      and c': "c' = c\<lparr>ObjectMeta_h := mt, Status_h := st\<rparr>"
    using assms(1) mt by (auto simp: Cluster_DeepCopyInto_def split: prod.splits)
  have "wf_status (h\<lparr>foreign := f\<rparr>) (Status_h c)"
    using assms(2) by (simp add: wf_cluster_def wf_status_def cong: option.case_cong)
  note S = Status_copy [OF st this]
  obtain xs where h': "h' = h\<lparr>foreign := f, str_arrays := str_arrays h @ xs\<rparr>" using S by auto
  have val: "status_val (h\<lparr>foreign := f\<rparr>) (Status_h c) = status_val h (Status_h c)"
    by (simp add: status_val_def cong: option.case_cong)
  have ok: "meta_ok (foreign h) (ObjectMeta_h c)" using assms(2) by (simp add: wf_cluster_def)
  show "heap_grows meta_val meta_ok h h'" using meta_frame [OF mt] by (simp add: h' heap_grows_def)
  show "wf_cluster meta_ok h' c'" "cluster_val meta_val h' c' = cluster_val meta_val h c"
    using S meta_copy [OF mt ok] val by (simp_all add: c' wf_cluster_def cluster_val_def) (simp_all add: h')
  show "TypeMeta_h c' = TypeMeta_h c" by (simp add: c')
  show "cluster_arrays h' = cluster_arrays h" by (simp add: h')
  show "RaftNodes_h (Status_h c') = RaftNodes_h (Status_h c)"
    "Slaves_h (Status_h c') = None \<longleftrightarrow> Slaves_h (Status_h c) = None"
    "Slaves_h (Status_h c') = Some dst \<Longrightarrow> s_arr dst = length (str_arrays h)"
    using S by (simp_all add: c')
qed

text \<open>The loop over the items, on any list of distinct indices: each written element denotes what the
  element of the source at that index does, and the other elements stay.\<close>

lemma copyItems_copy:
  assumes "distinct is" "\<And>i. i \<in> set is \<Longrightarrow> i < s_len src \<and> i < s_len dst"
    and "s_arr src \<noteq> s_arr dst" "wf_slice (cluster_arrays h) src" "wf_slice (cluster_arrays h) dst"
    and "\<And>c. c \<in> set (window (cluster_arrays h) src) \<Longrightarrow> wf_cluster meta_ok h c"
    and "copyItems meta_into src dst is h = h'"
  shows "items_copied meta_val meta_ok src dst is h h'"
  using assms
proof (induction "is" arbitrary: h)
  case Nil
  then show ?case by (simp add: items_copied_def)
next
  case (Cons i "is")
  obtain c h1 where copy: "Cluster_DeepCopyInto meta_into (window (cluster_arrays h) src ! i) h = (c, h1)"
    by (cases "Cluster_DeepCopyInto meta_into (window (cluster_arrays h) src ! i) h")
  define h2 where "h2 = h1\<lparr>cluster_arrays := set_elem dst i c (cluster_arrays h1)\<rparr>"
  have i: "i < s_len src" "i < s_len dst" using Cons.prems(2) by simp_all
  have "wf_cluster meta_ok h (window (cluster_arrays h) src ! i)"
    using Cons.prems(4,6) i(1) length_window nth_mem by metis
  note C = Cluster_copy [OF copy this]
  have arr: "cluster_arrays h2 = set_elem dst i c (cluster_arrays h)" by (simp add: h2_def C(5))
  have src: "window (cluster_arrays h2) src = window (cluster_arrays h) src"
    unfolding arr using Cons.prems(3) by (intro window_set_other) simp
  have dst: "window (cluster_arrays h2) dst = (window (cluster_arrays h) dst)[i := c]"
    using Cons.prems(5) i(2)
    by (intro nth_equalityI) (auto simp: arr window_def set_elem_def wf_slice_def nth_list_update)
  have wf: "wf_slice (cluster_arrays h2) src" "wf_slice (cluster_arrays h2) dst"
    using Cons.prems(4,5) by (auto simp: arr wf_slice_def set_elem_def nth_list_update)
  have grows: "heap_grows meta_val meta_ok h h2" using C(1) by (simp add: h2_def)
  have run: "copyItems meta_into src dst is h2 = h'"
    using Cons.prems(7) copy by (simp add: h2_def)
  have items: "wf_cluster meta_ok h2 x \<and> cluster_val meta_val h2 x = cluster_val meta_val h x"
    if "x \<in> set (window (cluster_arrays h) src)" for x
    using heap_grows_val [OF grows Cons.prems(6) [OF that]] by simp
  have IH: "items_copied meta_val meta_ok src dst is h2 h'"
    using Cons.prems(1,2,3) wf items by (intro Cons.IH run) (auto simp: src)
  have new: "wf_cluster meta_ok h' c" "cluster_val meta_val h' c =
      cluster_val meta_val h (window (cluster_arrays h) src ! i)"
    using heap_grows_val [of meta_val meta_ok h2 h' c] IH C(2,3) by (simp_all add: h2_def items_copied_def)
  have "length (window (cluster_arrays h) dst) = s_len dst" using Cons.prems(5) by (rule length_window)
  moreover have "\<And>j. j \<in> set is \<Longrightarrow> window (cluster_arrays h) src ! j \<in> set (window (cluster_arrays h) src)"
    using Cons.prems(2,4) length_window nth_mem by (metis list.set_intros(2))
  moreover have "length (cluster_arrays h2) = length (cluster_arrays h)"
      "\<And>a. a \<noteq> s_arr dst \<Longrightarrow> cluster_arrays h2 ! a = cluster_arrays h ! a"
    by (simp_all add: arr set_elem_def)
  ultimately show ?case
    using IH new items i Cons.prems(1) heap_grows_trans [OF grows, of h']
    by (auto simp: src dst nth_list_update items_copied_def)
qed

end

section \<open>An instance for the metadata\<close>

text \<open>The metadata with references to its two maps. The copy of the Kubernetes library makes new maps
  with the same entries; the owner references are values here.\<close>

record meta_h =
  Name_h :: string
  Namespace_h :: string
  UID_h :: string
  Labels_h :: "nat option"
  Annotations_h :: "nat option"
  OwnerReferences_h :: "OwnerReference list"

definition clone_map :: "nat option \<Rightarrow> (string \<rightharpoonup> string) list \<Rightarrow> nat option \<times> (string \<rightharpoonup> string) list" where
  "clone_map r f = (case r of None \<Rightarrow> (None, f) | Some a \<Rightarrow> (Some (length f), f @ [f ! a]))"

definition metav1_copy :: "meta_h \<Rightarrow> (string \<rightharpoonup> string) list \<Rightarrow> meta_h \<times> (string \<rightharpoonup> string) list" where
  "metav1_copy x f = (let (l, f1) = clone_map (Labels_h x) f; (a, f2) = clone_map (Annotations_h x) f1
     in (x\<lparr>Labels_h := l, Annotations_h := a\<rparr>, f2))"

definition metav1_val :: "(string \<rightharpoonup> string) list \<Rightarrow> meta_h \<Rightarrow> ObjectMeta" where
  "metav1_val f x = \<lparr>Name = Name_h x, Namespace = Namespace_h x, UID = UID_h x,
     Labels = map_option (\<lambda>a. f ! a) (Labels_h x), Annotations = map_option (\<lambda>a. f ! a) (Annotations_h x),
     OwnerReferences = OwnerReferences_h x\<rparr>"

definition metav1_ok :: "(string \<rightharpoonup> string) list \<Rightarrow> meta_h \<Rightarrow> bool" where
  "metav1_ok f x \<longleftrightarrow> pred_option (\<lambda>a. a < length f) (Labels_h x) \<and> pred_option (\<lambda>a. a < length f) (Annotations_h x)"

lemma clone_map_copy:
  assumes "clone_map r f = (r', g)"
  shows "\<exists>xs. g = f @ xs"
    and "pred_option (\<lambda>a. a < length f) r \<Longrightarrow>
      pred_option (\<lambda>a. a < length g) r' \<and> map_option ((!) g) r' = map_option ((!) f) r"
  using assms by (auto simp: clone_map_def split: option.splits)

lemma metav1_append:
  "pred_option (\<lambda>a. a < length f) r \<Longrightarrow>
     pred_option (\<lambda>a. a < length (f @ xs)) r \<and> map_option ((!) (f @ xs)) r = map_option ((!) f) r"
  by (cases r) (simp_all add: nth_append)

interpretation metav1: meta_copier metav1_copy metav1_val metav1_ok
proof
  fix x y f g
  assume "metav1_copy x f = (y, g)"
  then obtain l f1 a where clone: "clone_map (Labels_h x) f = (l, f1)" "clone_map (Annotations_h x) f1 = (a, g)"
      and y: "y = x\<lparr>Labels_h := l, Annotations_h := a\<rparr>"
    by (auto simp: metav1_copy_def split: prod.splits)
  obtain xs ys where f1: "f1 = f @ xs" and g: "g = f1 @ ys" using clone clone_map_copy(1) by metis
  show "metav1_ok f z \<Longrightarrow> metav1_ok g z \<and> metav1_val g z = metav1_val f z" for z
    using metav1_append [of f _ "xs @ ys"] by (simp add: metav1_ok_def metav1_val_def f1 g)
  assume ok: "metav1_ok f x"
  show "metav1_ok g y \<and> metav1_val g y = metav1_val f x"
    using ok clone_map_copy(2) [OF clone(1)] clone_map_copy(2) [OF clone(2)]
      metav1_append [of f "Annotations_h x" xs] metav1_append [of f1 l ys]
    by (simp add: y metav1_ok_def metav1_val_def f1 g)
qed

definition items :: "('m, 'f) heap \<Rightarrow> 'l clusterlist_h \<Rightarrow> 'm cluster_h list" where
  "items h l = (case Items_h l of None \<Rightarrow> [] | Some sl \<Rightarrow> window (cluster_arrays h) sl)"

definition wf_list :: "('f \<Rightarrow> 'm \<Rightarrow> bool) \<Rightarrow> ('m, 'f) heap \<Rightarrow> 'l clusterlist_h \<Rightarrow> bool" where
  "wf_list ok h l \<longleftrightarrow> pred_option (wf_slice (cluster_arrays h)) (Items_h l) \<and> list_all (wf_cluster ok h) (items h l)"

definition copy_heap :: "(meta_h, (string \<rightharpoonup> string) list) heap" where
  "copy_heap = \<lparr>str_arrays = [[''mysql-02'', ''mysql-03'']], node_maps = [Map.empty], cluster_arrays = [],
     foreign = [[''app'' \<mapsto> ''mysql'']]\<rparr>"

definition copy_cluster :: "meta_h cluster_h" where
  "copy_cluster = \<lparr>TypeMeta_h = \<lparr>TypeKind = ''MysqlCluster'', TypeAPIVersion = ''apps.ryansu.com/v1''\<rparr>,
     ObjectMeta_h = \<lparr>Name_h = ''mysqlcluster-sample'', Namespace_h = ''default'', UID_h = [], Labels_h = Some 0,
       Annotations_h = None, OwnerReferences_h = []\<rparr>,
     Spec_h = sample_spec,
     Status_h = \<lparr>Master_h = ''mysql-01'', Slaves_h = Some \<lparr>s_arr = 0, s_off = 0, s_len = 2\<rparr>, RaftNodes_h = Some 0,
       RaftLeader_h = [], RaftTerm_h = 0, ClusterSize_h = 3\<rparr>\<rparr>"

lemma copy_cluster_wf: "wf_cluster metav1_ok copy_heap copy_cluster"
  by (simp add: wf_cluster_def wf_status_def wf_slice_def metav1_ok_def copy_heap_def copy_cluster_def)

section \<open>Copies are independent, but for one map\<close>

context meta_copier
begin

lemma cluster_val_write_slave:
  "(\<And>a b. Slaves_h (Status_h c) = Some a \<Longrightarrow> Slaves_h (Status_h c') = Some b \<Longrightarrow> s_arr a \<noteq> s_arr b) \<Longrightarrow>
     cluster_val meta_val (write_slave c i v h) c' = cluster_val meta_val h c'"
  by (auto simp: cluster_val_def status_val_def write_slave_def window_set_other split: option.splits)

lemma copy_slaves_apart:
  assumes "Cluster_DeepCopyInto meta_into c h = (c', h')" "wf_cluster meta_ok h c"
    and "Slaves_h (Status_h c) = Some a" "Slaves_h (Status_h c') = Some b"
  shows "s_arr a \<noteq> s_arr b"
  using Cluster_copy(8) [OF assms(1,2,4)] assms(2,3) by (auto simp: wf_cluster_def wf_status_def wf_slice_def)

lemma items_copied_all:
  assumes "items_copied meta_val meta_ok src dst [0 ..< s_len src] h h'" "s_len dst = s_len src"
    and "wf_slice (cluster_arrays h) src" "s_arr src \<noteq> s_arr dst"
    and "\<And>c. c \<in> set (window (cluster_arrays h) src) \<Longrightarrow> wf_cluster meta_ok h c"
  shows "map (cluster_val meta_val h') (window (cluster_arrays h') dst) =
      map (cluster_val meta_val h) (window (cluster_arrays h) src)"
    and "list_all (wf_cluster meta_ok h') (window (cluster_arrays h') dst)"
    and "window (cluster_arrays h') src = window (cluster_arrays h) src"
    and "map (cluster_val meta_val h') (window (cluster_arrays h) src) =
      map (cluster_val meta_val h) (window (cluster_arrays h) src)"
proof -
  have len: "length (window (cluster_arrays h') dst) = s_len src" "length (window (cluster_arrays h) src) = s_len src"
    using assms(1-3) by (auto simp: items_copied_def length_window)
  have item: "wf_cluster meta_ok h' (window (cluster_arrays h') dst ! i) \<and>
      cluster_val meta_val h' (window (cluster_arrays h') dst ! i) =
        cluster_val meta_val h (window (cluster_arrays h) src ! i)" if "i < s_len src" for i
    using assms(1,2) that by (simp add: items_copied_def)
  with len show "map (cluster_val meta_val h') (window (cluster_arrays h') dst) =
      map (cluster_val meta_val h) (window (cluster_arrays h) src)"
    and "list_all (wf_cluster meta_ok h') (window (cluster_arrays h') dst)"
    by (auto simp: list_all_length intro!: nth_equalityI)
  show "window (cluster_arrays h') src = window (cluster_arrays h) src"
    using assms(1,4) by (simp add: items_copied_def window_def)
  show "map (cluster_val meta_val h') (window (cluster_arrays h) src) =
      map (cluster_val meta_val h) (window (cluster_arrays h) src)"
    using assms(1,5) heap_grows_val(2) [of meta_val meta_ok h h'] by (simp add: items_copied_def)
qed

lemma List_copy:
  assumes "\<And>x f y g z. list_into x f = (y, g) \<Longrightarrow> meta_ok f z \<Longrightarrow> meta_ok g z \<and> meta_val g z = meta_val f z"
    and "List_DeepCopyInto meta_into list_into zero l h = (l', h')" "wf_list meta_ok h l"
  shows "map (cluster_val meta_val h') (items h' l') = map (cluster_val meta_val h) (items h l) \<and>
    map (cluster_val meta_val h') (items h' l) = map (cluster_val meta_val h) (items h l) \<and>
    (Items_h l' = None \<longleftrightarrow> Items_h l = None) \<and> wf_list meta_ok h' l'"
proof -
  obtain mt f where f: "list_into (ListMeta_h l) (foreign h) = (mt, f)"
    by (cases "list_into (ListMeta_h l) (foreign h)")
  define h1 where "h1 = h\<lparr>foreign := f\<rparr>"
  have g1: "heap_grows meta_val meta_ok h h1" using assms(1) [OF f] by (simp add: h1_def heap_grows_def)
  have ok1: "wf_cluster meta_ok h1 c" "cluster_val meta_val h1 c = cluster_val meta_val h c"
    if "c \<in> set (items h l)" for c
    using heap_grows_val [OF g1] assms(3) that by (auto simp: wf_list_def list_all_iff)
  show ?thesis
  proof (cases "Items_h l")
    case None
    with assms(2) f show ?thesis by (auto simp: List_DeepCopyInto_def items_def wf_list_def)
  next
    case (Some sl)
    define dst where "dst = \<lparr>s_arr = length (cluster_arrays h), s_off = 0, s_len = s_len sl\<rparr>"
    define h2 where "h2 = h1\<lparr>cluster_arrays := cluster_arrays h @ [replicate (s_len sl) zero]\<rparr>"
    from assms(2) f Some have l': "l' = l\<lparr>ListMeta_h := mt, Items_h := Some dst\<rparr>"
        and run: "copyItems meta_into sl dst [0 ..< s_len sl] h2 = h'"
      by (auto simp: List_DeepCopyInto_def make_slice_def dst_def h2_def h1_def)
    have sl: "wf_slice (cluster_arrays h) sl" using assms(3) Some by (simp add: wf_list_def)
    have src: "window (cluster_arrays h2) sl = items h l" "wf_slice (cluster_arrays h2) sl"
      using Some window_append [OF sl] wf_slice_append [OF sl] by (simp_all add: h2_def items_def)
    have apart: "s_arr sl \<noteq> s_arr dst" "wf_slice (cluster_arrays h2) dst"
      using sl by (simp_all add: dst_def h2_def wf_slice_def)
    have ok2: "wf_cluster meta_ok h2 c" if "c \<in> set (window (cluster_arrays h2) sl)" for c
      using ok1(1) [OF that [unfolded src]] by (simp add: h2_def)
    have copied: "items_copied meta_val meta_ok sl dst [0 ..< s_len sl] h2 h'"
      using apart src(2) ok2 by (intro copyItems_copy run) (simp_all add: dst_def)
    note all = items_copied_all [OF copied _ src(2) apart(1) ok2, unfolded src(1)]
    have "map (cluster_val meta_val h2) (items h l) = map (cluster_val meta_val h) (items h l)"
      using ok1(2) by (simp add: h2_def)
    moreover have "items h' l' = window (cluster_arrays h') dst" "items h' l = window (cluster_arrays h') sl"
      by (simp_all add: l' items_def Some)
    ultimately show ?thesis using Some all copied by (simp add: l' wf_list_def items_copied_def dst_def)
  qed
qed

end

section \<open>Properties\<close>

text \<open>(C32) \<open>DeepCopy\<close> of a cluster gives a resource with the same value, leaves the original as it was, and
  what is written into the \<open>Slaves\<close> of one of the two afterwards is not seen in the other. \<open>DeepCopyObject\<close> returns
  the same copy.\<close>

theorem DeepCopy_independent:
  assumes "meta_copier meta_into meta_val meta_ok" "wf_cluster meta_ok h c"
    and "Cluster_DeepCopy meta_into (Some c) h = (r, h')"
  shows "\<exists>c'. r = Some c' \<and> Cluster_DeepCopyObject meta_into (Some c) h = (Some (ClusterObject c'), h') \<and>
    TypeMeta_h c' = TypeMeta_h c \<and>
    cluster_val meta_val h' c' = cluster_val meta_val h c \<and>
    cluster_val meta_val h' c = cluster_val meta_val h c \<and>
    (\<forall>i v. cluster_val meta_val (write_slave c' i v h') c = cluster_val meta_val h c) \<and>
    (\<forall>i v. cluster_val meta_val (write_slave c i v h') c' = cluster_val meta_val h c)"
proof -
  obtain c' where run: "Cluster_DeepCopyInto meta_into c h = (c', h')" and r: "r = Some c'"
    using assms(3) by (auto simp: Cluster_DeepCopy_def split: prod.splits)
  note C = meta_copier.Cluster_copy [OF assms(1) run assms(2)]
  note apart = meta_copier.copy_slaves_apart [OF assms(1) run assms(2)]
  have old: "cluster_val meta_val h' c = cluster_val meta_val h c"
    using heap_grows_val(2) [OF C(1) assms(2)] .
  have "cluster_val meta_val (write_slave c' i v h') c = cluster_val meta_val h c"
      "cluster_val meta_val (write_slave c i v h') c' = cluster_val meta_val h c" for i v
    using apart C(3) old by (auto simp: meta_copier.cluster_val_write_slave [OF assms(1)] not_sym)
  moreover have "Cluster_DeepCopyObject meta_into (Some c) h = (Some (ClusterObject c'), h')"
    by (simp add: Cluster_DeepCopyObject_def assms(3) r)
  ultimately show ?thesis using r C(3,4) old by blast
qed

definition copy_run :: "meta_h cluster_h option \<times> (meta_h, (string \<rightharpoonup> string) list) heap" where
  "copy_run = Cluster_DeepCopy metav1_copy (Some copy_cluster) copy_heap"

lemma DeepCopy_independent_witness:
  "\<exists>c'. fst copy_run = Some c' \<and>
     Slaves (Status (cluster_val metav1_val (write_slave c' 0 ''mysql-09'' (snd copy_run)) copy_cluster)) =
       [''mysql-02'', ''mysql-03'']"
proof -
  have "Slaves (Status (cluster_val metav1_val copy_heap copy_cluster)) = [''mysql-02'', ''mysql-03'']"
    by (simp add: cluster_val_def status_val_def window_def copy_cluster_def copy_heap_def)
  with DeepCopy_independent [OF metav1.meta_copier_axioms copy_cluster_wf, of "fst copy_run" "snd copy_run"]
  show ?thesis by (auto simp: copy_run_def)
qed

text \<open>(C33) The copy is not deep: \<open>RaftNodes\<close> is shared. An entry written through the copy, as
  \<open>updateClusterStatus\<close> does, appears in the original.\<close>

theorem DeepCopy_shares_raft_nodes:
  assumes "meta_copier meta_into meta_val meta_ok" "wf_cluster meta_ok h c"
    and "Cluster_DeepCopy meta_into (Some c) h = (r, h')"
    and "RaftNodes (Status (cluster_val meta_val h c)) = Some nodes"
  shows "\<exists>c'. r = Some c' \<and>
    RaftNodes (Status (cluster_val meta_val (write_node c' k info h') c)) = Some (nodes(k \<mapsto> info))"
proof -
  obtain c' where run: "Cluster_DeepCopyInto meta_into c h = (c', h')" and r: "r = Some c'"
    using assms(3) by (auto simp: Cluster_DeepCopy_def split: prod.splits)
  note C = meta_copier.Cluster_copy [OF assms(1) run assms(2)]
  obtain a where a: "RaftNodes_h (Status_h c) = Some a" "nodes = node_maps h ! a"
    using assms(4) by (auto simp: cluster_val_def status_val_def)
  moreover have "a < length (node_maps h)" using assms(2) a(1) by (simp add: wf_cluster_def wf_status_def)
  moreover have "node_maps h' = node_maps h" using C(1) by (simp add: heap_grows_def)
  ultimately show ?thesis using r C(6) by (simp add: cluster_val_def status_val_def write_node_def)
qed

definition copy_info :: RaftNodeInfo where
  "copy_info = \<lparr>NodeId = ''mysqlcluster-sample-0'', State = RaftStateLeader, NodeTerm = 1,
     LastContact = time_zero, IsActive = False\<rparr>"

lemma DeepCopy_shares_raft_nodes_witness:
  "\<exists>c'. fst copy_run = Some c' \<and> RaftNodes (Status (cluster_val metav1_val
     (write_node c' ''mysqlcluster-sample-0'' copy_info (snd copy_run)) copy_cluster)) =
     Some [''mysqlcluster-sample-0'' \<mapsto> copy_info]"
  by (rule DeepCopy_shares_raft_nodes [OF metav1.meta_copier_axioms copy_cluster_wf])
     (simp_all add: copy_run_def cluster_val_def status_val_def copy_cluster_def copy_heap_def)

text \<open>(C40) \<open>DeepCopy\<close> of a list gives a list whose items have the same values in the same order, and leaves
  the items of the original as they were; a nil list of items stays nil. The metadata of the list is copied by
  the library, which is relied on to leave other metadata alone.\<close>

theorem List_DeepCopy_items:
  assumes "meta_copier meta_into meta_val meta_ok"
    and "\<And>x f y g z. list_into x f = (y, g) \<Longrightarrow> meta_ok f z \<Longrightarrow> meta_ok g z \<and> meta_val g z = meta_val f z"
    and "wf_list meta_ok h l" "List_DeepCopy meta_into list_into zero (Some l) h = (r, h')"
  shows "\<exists>l'. r = Some l' \<and>
    List_DeepCopyObject meta_into list_into zero (Some l) h = (Some (ListObject l'), h') \<and> (Items_h l' = None \<longleftrightarrow> Items_h l = None) \<and>
    map (cluster_val meta_val h') (items h' l') = map (cluster_val meta_val h) (items h l) \<and>
    map (cluster_val meta_val h') (items h' l) = map (cluster_val meta_val h) (items h l)"
proof -
  obtain l' where run: "List_DeepCopyInto meta_into list_into zero l h = (l', h')" and r: "r = Some l'"
    using assms(4) by (auto simp: List_DeepCopy_def split: prod.splits)
  with meta_copier.List_copy [OF assms(1,2) run assms(3)] assms(4) show ?thesis
    by (simp add: List_DeepCopyObject_def)
qed

definition list_heap :: "(meta_h, (string \<rightharpoonup> string) list) heap" where
  "list_heap = copy_heap\<lparr>cluster_arrays := [[copy_cluster, copy_cluster]]\<rparr>"

definition copy_list :: "unit clusterlist_h" where
  "copy_list = \<lparr>ListTypeMeta_h = \<lparr>TypeKind = ''MysqlClusterList'', TypeAPIVersion = ''apps.ryansu.com/v1''\<rparr>,
     ListMeta_h = (), Items_h = Some \<lparr>s_arr = 0, s_off = 1, s_len = 1\<rparr>\<rparr>"

definition list_run :: "unit clusterlist_h option \<times> (meta_h, (string \<rightharpoonup> string) list) heap" where
  "list_run = List_DeepCopy metav1_copy Pair copy_cluster (Some copy_list) list_heap"

lemma List_DeepCopy_items_witness:
  "\<exists>l'. fst list_run = Some l' \<and> map (cluster_val metav1_val (snd list_run)) (items (snd list_run) l') =
     [cluster_val metav1_val copy_heap copy_cluster]"
proof -
  have items: "items list_heap copy_list = [copy_cluster]"
    by (simp add: items_def copy_list_def list_heap_def window_def)
  have "wf_list metav1_ok list_heap copy_list"
    using copy_cluster_wf unfolding wf_list_def items
    by (simp add: copy_list_def list_heap_def wf_slice_def)
  from List_DeepCopy_items [where list_into = Pair and zero = copy_cluster, OF metav1.meta_copier_axioms _ this
      prod.collapse [symmetric], folded list_run_def, unfolded items]
  show ?thesis by (auto simp: list_heap_def)
qed

end
