(* ===== verification/Spec2Isabelle.thy ===== *)
theory Spec2Isabelle
  imports Raft_Cluster Raft_Types Operator Startup Deep_Copy
begin

text \<open>
  A verification of the MySQL cluster operator (Go, under \<^verbatim>\<open>src/\<close>): a Kubernetes
  controller that creates the pods of a MySQL cluster, keeps one of them the master, and runs a
  Raft manager meant to elect it.

  \<^bold>\<open>Parts of the program and where they are modelled.\<close>
  \<^item> \<open>Go_Base\<close>: the Go library the code uses: 32- and 64-bit integers with
    wrap-around, times and durations, decimal formatting and parsing, string search and splitting.
    \<open>Float64\<close>: float64 arithmetic as rounding of exact rationals.
  \<^item> \<open>Api_Types\<close>: the custom resource of \<^verbatim>\<open>api/v1/mysqlcluster_types.go\<close>, one record
    per struct. \<open>Deep_Copy\<close>: the copy functions of
    \<^verbatim>\<open>api/v1/zz_generated.deepcopy.go\<close>, on a heap of arrays and maps with
    the resource laid out as Go does, so that aliasing can be stated.
  \<^item> \<open>K8s_Client\<close>: Kubernetes objects, results of Go functions (\<open>Ok\<close>, \<open>Err\<close>, \<open>Panic\<close>,
    or \<open>None\<close> for a call that never returns) and the client as a record of functions: the API
    server and the exec machinery are not under \<^verbatim>\<open>src/\<close> and are parameters.
    \<open>K8s_Store\<close>: what the operator relies on from them, as the locales \<open>pod_store\<close>,
    \<open>exec_store\<close> and \<open>config_store\<close>, and an in-memory server \<open>mem_api\<close> that satisfies
    them, with a schedule of calls that fail. The laws describe a server without other writers.
    The locales \<open>reads\<close>, \<open>creates\<close> and \<open>writes\<close> fix a preorder on worlds along which groups of calls
    move; every operation is shown once to move along it, and frames, the labels of the store and invariants of
    the shared memory are instances.
  \<^item> \<open>Raft\<close>: the Raft manager of \<^verbatim>\<open>internal/controller/raft.go\<close>, one definition per
    method; every method runs under the manager's mutex and is one atomic step.
    \<open>Raft_Spec\<close>: the abstract voter, log matching, and the locales for runs of a machine,
    monotone terms, one vote per term and quorums. \<open>Raft_Node\<close>: one manager as a machine over the
    events its timers and handlers process. \<open>Raft_Cluster\<close>: all managers with the goroutines they
    started, interleaved in any order, as a reachability relation. \<open>Raft_Types\<close>: well-formedness of the
    manager along its runs.
  \<^item> \<open>Reconciler\<close>: the state of the controller and the memory it shares with its goroutines.
  \<^item> \<open>Utlis\<close>: \<^verbatim>\<open>utlis.go\<close>: creating ConfigMaps, volume claims, pods and Services, labels,
    commands in pods, replication.
  \<^item> \<open>Replicas\<close>: \<^verbatim>\<open>reconcile_replicas.go\<close>. \<open>Master_Election\<close>:
    \<^verbatim>\<open>elect_new_master.go\<close>. \<open>Master_Slave\<close>: \<^verbatim>\<open>reconcile_master_slave.go\<close>.
  \<^item> \<open>Integration\<close>: \<^verbatim>\<open>raft_mysql_integration.go\<close>. \<open>Monitor\<close>:
    \<^verbatim>\<open>raft_monitoring.go\<close>, with the bodies of its three ticker loops.
  \<^item> \<open>Controller\<close>: \<^verbatim>\<open>initialization.go\<close> and \<^verbatim>\<open>mysqlcluster_controller.go\<close>:
    \<open>Reconcile\<close> composed of all of the above. \<open>Operator\<close>: the whole program, as a step relation
    that interleaves reconciliations of any resources, sections and messages of the Raft manager, ticks of the
    monitor, rounds of the snapshot loop and changes by others.
  \<^item> \<open>Startup\<close>: \<^verbatim>\<open>cmd/main.go\<close>, \<^verbatim>\<open>groupversion_info.go\<close> and
    \<open>SetupWithManager\<close>: flags, options of the manager, the sequence of start-up calls and the exit status, and the registration
    of the kinds. Controller-runtime is a parameter.

  \<^bold>\<open>How they interact.\<close> \<open>Reconcile\<close> reads the resource. The first time it calls \<open>init\<close>, which
  creates every object and sets up replication from mysql-01, and then marks the resource. Later it
  starts the Raft manager and the monitor once, reconciles the replicas, and, when the master
  Service has no endpoint, runs the Raft failover, or else, as Raft leader, repairs replication and
  labels. The Raft manager, the snapshot goroutine and the monitor share the reconciler's memory;
  the Raft managers talk through ConfigMaps nobody reads.

  \<^bold>\<open>What the lemmas show.\<close>
  \<^item> Raft: \<open>HandleVoteRequest\<close> implements the abstract voter; accepted entries give the leader's
    log; terms never decrease; one vote per term as long as no AppendEntries of the same term
    arrives; a leader has asked a majority. And, as facts about the code: two leaders in one term
    are reachable, a node can vote twice in a term, a retransmission drops committed entries, a
    single replica never leads.
    A manager stays well-formed: signs and widths of its numbers, its own vote as a candidate or leader, its index
    tables and its timeouts. A new leader starts every member at the end of its log.
  \<^item> Store and roles: \<open>setupMasterSlaveReplication\<close> implements the abstract role assignment
    \<open>spec_setup\<close> and runs its commands in order; whatever happens only the named pods are relabelled. The readiness
    loop returns after the first round that reads the pod running and ready.
  \<^item> Replicas: the missing numbers are exact for every map order; a successful run adds exactly the expected pods
    whose number no listed name carries, unless the count is right already; nothing is ever removed.
  \<^item> Election: the first healthy slave of highest score wins; the data size outranks the GTID share.
  \<^item> Master/slave: after a successful reconciliation at most one pod has the role master, and exactly one when both reads
    of the Endpoints name it; a failover promotes one slave and leaves the label of the failed master.
  \<^item> Integration: waiting for the election always ends, with the result the last world calls for; its setup runs no SQL; semi-synchronous
    replication is never confirmed.
  \<^item> Monitor: its quorum is a strict majority; in reachable states it never knows a peer or a leader.
  \<^item> Controller and operator: the first reconciliation builds the cluster; along every run of the whole
    program the pointers of the reconciler stay consistent, the hosted manager stays that of the first
    cluster, and the Raft failover fails as long as nobody creates a pod called like its node. This theory adds that
    no reconciliation changes a label other than \<open>role\<close> or removes a pod.
  \<^item> Start-up: the calls are made in order, nothing is called after a failure, and the exit status tells which it
    was; the servers are
    restricted and secured unless the arguments name the flag; every setting is reachable by flags; the owner
    references resolve, except that of a volume claim.
  \<^item> Copies: a copy denotes the same value and is independent of the original, except for the map
    \<open>RaftNodes\<close>, which is shared.

  \<^bold>\<open>Bounds and loops.\<close> Loops over lists are recursion on them. The readiness loop of \<open>createPod\<close>
  has no bound in the code: it is a partial function, and when it returns is a theorem. The wait for a
  Raft leader is one too, and is shown to return within 300 sleeps when the clock advances; 300 is
  the 30s limit over the 100ms sleep. No fuel is used.

  \<^bold>\<open>Not modelled.\<close> The waiting of the monitor's ticker loops for the ticker or the end of the context (a tick may come at any
  time); log output and the set-up of the logger; the constructors of the monitor and of the
  integration, which only store pointers to the manager and its cluster object (the model passes the manager); data
  races on fields read without the mutex, among them the cluster object that the reconciliation which starts Raft shares
  with the manager; tests.
\<close>

section \<open>What a reconciliation leaves alone\<close>

text \<open>(C13) A reconciliation touches no label but \<open>role\<close>. However \<open>Reconcile\<close> ends, with an error or a panic half-way too:
  every pod that was in the store is still there with all its labels other than \<open>role\<close>, and every pod that is new has,
  besides \<open>role\<close>, the label \<open>app=mysql\<close> and no other. This covers initialization, replica reconciliation,
  the Raft failover, relabelling and the semi-synchronous setup, for a server without another writer: the pods that
  \<open>ensureSlaveRoles\<close> listed are still the stored ones when it writes them back.\<close>

theorem reconcile_changes_only_roles:
  assumes "raft_host api pods m" and "Reconcile api m ord errText rnd ns nm s = Some (r, t)"
  shows "(\<forall>k p. pods s k = Some p \<longrightarrow>
       (\<exists>q. pods t k = Some q \<and> (\<forall>x. x \<noteq> ''role'' \<longrightarrow> pod_label q x = pod_label p x))) \<and>
     (\<forall>k q. pods s k = None \<and> pods t k = Some q \<longrightarrow>
       pod_label q ''app'' = Some ''mysql'' \<and> (\<forall>x. x \<noteq> ''role'' \<and> x \<noteq> ''app'' \<longrightarrow> pod_label q x = None))"
proof -
  have order: "label_order pods s t"
    using movesD [OF raft_host.Reconcile_labels [OF assms(1)] assms(2)] .
  have "\<exists>q. pods t k = Some q \<and> (\<forall>x. x \<noteq> ''role'' \<longrightarrow> pod_label q x = pod_label p x)" if "pods s k = Some p" for k p
    using label_order_kept [OF order that] .
  moreover have "pod_label q ''app'' = Some ''mysql'' \<and> (\<forall>x. x \<noteq> ''role'' \<and> x \<noteq> ''app'' \<longrightarrow> pod_label q x = None)"
    if "pods s k = None" "pods t k = Some q" for k q
    using label_order_new [OF order that] .
  ultimately show ?thesis by blast
qed

lemma reconcile_changes_only_roles_witness:
  "\<exists>q. mem_pods (world_after first_reconcile) (''default'', ''mysql-01'') = Some q \<and> pod_label q ''app'' = Some ''mysql''"
proof -
  have new: "mem_pods mem_new (''default'', ''mysql-01'') = None"
    by (simp add: mem_pods_def mem_new_def mem_empty_def)
  have "role_at mem_pods (world_after first_reconcile) ''default'' ''mysql-01'' \<noteq> None"
    unfolding first_reconcile_def by code_simp
  then obtain q where q: "mem_pods (world_after first_reconcile) (''default'', ''mysql-01'') = Some q"
    by (auto simp: role_at_def split: option.splits)
  with new reconcile_changes_only_roles [OF mem_host.raft_host_axioms
      returns_okD [OF first_reconcile_ok, unfolded first_reconcile_def], folded first_reconcile_def]
  show ?thesis by blast
qed

end
